theory Spec2Isabelle
  imports Main
begin

section \<open>Byte-level helpers of the js package (util.go)\<close>

text \<open>
  A Go byte slice is a list of characters; \<open>len(b)\<close> is \<open>length b\<close> and \<open>b[i]\<close> is
  \<open>b ! i\<close>, read only under the guard \<open>i < len(b)\<close> exactly as the source does.  Bytes are
  compared through their code \<open>of_char\<close>: \<open>'0'\<close> is 48, \<open>'9'\<close> is 57 and \<open>'.'\<close> is 46.
  A nil slice and an empty slice are both the empty list.
\<close>

type_synonym bytes = "char list"

definition byte :: "char \<Rightarrow> nat" where
  "byte c = of_char c"

definition isDigitAt :: "bytes \<Rightarrow> nat \<Rightarrow> bool" where
  "isDigitAt b i \<longleftrightarrow> i < length b \<and> byte CHR ''0'' \<le> byte (b ! i) \<and> byte (b ! i) \<le> byte CHR ''9''"

text \<open>The loop \<open>for i < len(b) && '0' <= b[i] && b[i] <= '9' { i++ }\<close>, returning the final \<open>i\<close>.\<close>

function skipDigits :: "bytes \<Rightarrow> nat \<Rightarrow> nat" where
  "skipDigits b i = (if isDigitAt b i then skipDigits b (i + 1) else i)"
  by pat_completeness auto
termination
  by (relation "measure (\<lambda>(b, i). length b - i)") (auto simp: isDigitAt_def)

definition AsDecimalLiteral :: "bytes \<Rightarrow> bool" where
  "AsDecimalLiteral b =
    (if length b = 0 \<or> (byte (b ! 0) < byte CHR ''0'' \<or> byte CHR ''9'' < byte (b ! 0)) \<and> b ! 0 \<noteq> CHR ''.''
     then False
     else
       let i = 1;
           i = (if b ! 0 \<noteq> CHR ''.'' then skipDigits b i else i);
           i = (if i < length b \<and> b ! i = CHR ''.'' then skipDigits b (i + 1) else i)
       in i = length b)"

section \<open>Tokens, precedences and the syntax tree of the JS parser\<close>

text \<open>
  The parser of this section is the file of the js package that defines \<open>Parser\<close>,
  \<open>Parse\<close> and the \<open>parse...\<close> methods.  The package's lexer, its token table and its
  syntax-tree file (the node structs, \<open>Scope\<close>, \<open>Var\<close> and their methods) are not among
  the sources; their types are declared here as the parser uses them, and their functions
  are parameters of the model (the record \<open>env\<close> below).

  \<open>TokenType\<close> is an integer enumeration in Go.  Its constants are numbered here in an
  arbitrary injective way; only equality of token types is ever used by the parser.
\<close>

type_synonym TokenType = nat

abbreviation ErrorToken :: TokenType where "ErrorToken \<equiv> 0"
abbreviation WhitespaceToken :: TokenType where "WhitespaceToken \<equiv> 1"
abbreviation LineTerminatorToken :: TokenType where "LineTerminatorToken \<equiv> 2"
abbreviation CommentToken :: TokenType where "CommentToken \<equiv> 3"
abbreviation CommentLineTerminatorToken :: TokenType where "CommentLineTerminatorToken \<equiv> 4"
abbreviation StringToken :: TokenType where "StringToken \<equiv> 5"
abbreviation TemplateToken :: TokenType where "TemplateToken \<equiv> 6"
abbreviation TemplateStartToken :: TokenType where "TemplateStartToken \<equiv> 7"
abbreviation TemplateMiddleToken :: TokenType where "TemplateMiddleToken \<equiv> 8"
abbreviation TemplateEndToken :: TokenType where "TemplateEndToken \<equiv> 9"
abbreviation RegExpToken :: TokenType where "RegExpToken \<equiv> 10"
abbreviation NumericToken :: TokenType where "NumericToken \<equiv> 11"
abbreviation DecimalToken :: TokenType where "DecimalToken \<equiv> 12"
abbreviation OpenBraceToken :: TokenType where "OpenBraceToken \<equiv> 13"
abbreviation CloseBraceToken :: TokenType where "CloseBraceToken \<equiv> 14"
abbreviation OpenParenToken :: TokenType where "OpenParenToken \<equiv> 15"
abbreviation CloseParenToken :: TokenType where "CloseParenToken \<equiv> 16"
abbreviation OpenBracketToken :: TokenType where "OpenBracketToken \<equiv> 17"
abbreviation CloseBracketToken :: TokenType where "CloseBracketToken \<equiv> 18"
abbreviation DotToken :: TokenType where "DotToken \<equiv> 19"
abbreviation SemicolonToken :: TokenType where "SemicolonToken \<equiv> 20"
abbreviation CommaToken :: TokenType where "CommaToken \<equiv> 21"
abbreviation QuestionToken :: TokenType where "QuestionToken \<equiv> 22"
abbreviation ColonToken :: TokenType where "ColonToken \<equiv> 23"
abbreviation ArrowToken :: TokenType where "ArrowToken \<equiv> 24"
abbreviation EllipsisToken :: TokenType where "EllipsisToken \<equiv> 25"
abbreviation EqToken :: TokenType where "EqToken \<equiv> 26"
abbreviation EqEqToken :: TokenType where "EqEqToken \<equiv> 27"
abbreviation EqEqEqToken :: TokenType where "EqEqEqToken \<equiv> 28"
abbreviation NotToken :: TokenType where "NotToken \<equiv> 29"
abbreviation NotEqToken :: TokenType where "NotEqToken \<equiv> 30"
abbreviation NotEqEqToken :: TokenType where "NotEqEqToken \<equiv> 31"
abbreviation LtToken :: TokenType where "LtToken \<equiv> 32"
abbreviation LtEqToken :: TokenType where "LtEqToken \<equiv> 33"
abbreviation LtLtToken :: TokenType where "LtLtToken \<equiv> 34"
abbreviation LtLtEqToken :: TokenType where "LtLtEqToken \<equiv> 35"
abbreviation GtToken :: TokenType where "GtToken \<equiv> 36"
abbreviation GtEqToken :: TokenType where "GtEqToken \<equiv> 37"
abbreviation GtGtToken :: TokenType where "GtGtToken \<equiv> 38"
abbreviation GtGtEqToken :: TokenType where "GtGtEqToken \<equiv> 39"
abbreviation GtGtGtToken :: TokenType where "GtGtGtToken \<equiv> 40"
abbreviation GtGtGtEqToken :: TokenType where "GtGtGtEqToken \<equiv> 41"
abbreviation AddToken :: TokenType where "AddToken \<equiv> 42"
abbreviation AddEqToken :: TokenType where "AddEqToken \<equiv> 43"
abbreviation IncrToken :: TokenType where "IncrToken \<equiv> 44"
abbreviation SubToken :: TokenType where "SubToken \<equiv> 45"
abbreviation SubEqToken :: TokenType where "SubEqToken \<equiv> 46"
abbreviation DecrToken :: TokenType where "DecrToken \<equiv> 47"
abbreviation MulToken :: TokenType where "MulToken \<equiv> 48"
abbreviation MulEqToken :: TokenType where "MulEqToken \<equiv> 49"
abbreviation ExpToken :: TokenType where "ExpToken \<equiv> 50"
abbreviation ExpEqToken :: TokenType where "ExpEqToken \<equiv> 51"
abbreviation DivToken :: TokenType where "DivToken \<equiv> 52"
abbreviation DivEqToken :: TokenType where "DivEqToken \<equiv> 53"
abbreviation ModToken :: TokenType where "ModToken \<equiv> 54"
abbreviation ModEqToken :: TokenType where "ModEqToken \<equiv> 55"
abbreviation BitAndToken :: TokenType where "BitAndToken \<equiv> 56"
abbreviation BitOrToken :: TokenType where "BitOrToken \<equiv> 57"
abbreviation BitXorToken :: TokenType where "BitXorToken \<equiv> 58"
abbreviation BitNotToken :: TokenType where "BitNotToken \<equiv> 59"
abbreviation BitAndEqToken :: TokenType where "BitAndEqToken \<equiv> 60"
abbreviation BitOrEqToken :: TokenType where "BitOrEqToken \<equiv> 61"
abbreviation BitXorEqToken :: TokenType where "BitXorEqToken \<equiv> 62"
abbreviation AndToken :: TokenType where "AndToken \<equiv> 63"
abbreviation OrToken :: TokenType where "OrToken \<equiv> 64"
abbreviation NullishToken :: TokenType where "NullishToken \<equiv> 65"
abbreviation OptChainToken :: TokenType where "OptChainToken \<equiv> 66"
abbreviation PosToken :: TokenType where "PosToken \<equiv> 67"
abbreviation NegToken :: TokenType where "NegToken \<equiv> 68"
abbreviation PreIncrToken :: TokenType where "PreIncrToken \<equiv> 69"
abbreviation PreDecrToken :: TokenType where "PreDecrToken \<equiv> 70"
abbreviation PostIncrToken :: TokenType where "PostIncrToken \<equiv> 71"
abbreviation PostDecrToken :: TokenType where "PostDecrToken \<equiv> 72"
abbreviation AwaitToken :: TokenType where "AwaitToken \<equiv> 73"
abbreviation BreakToken :: TokenType where "BreakToken \<equiv> 74"
abbreviation CaseToken :: TokenType where "CaseToken \<equiv> 75"
abbreviation CatchToken :: TokenType where "CatchToken \<equiv> 76"
abbreviation ClassToken :: TokenType where "ClassToken \<equiv> 77"
abbreviation ConstToken :: TokenType where "ConstToken \<equiv> 78"
abbreviation ContinueToken :: TokenType where "ContinueToken \<equiv> 79"
abbreviation DebuggerToken :: TokenType where "DebuggerToken \<equiv> 80"
abbreviation DefaultToken :: TokenType where "DefaultToken \<equiv> 81"
abbreviation DeleteToken :: TokenType where "DeleteToken \<equiv> 82"
abbreviation DoToken :: TokenType where "DoToken \<equiv> 83"
abbreviation ElseToken :: TokenType where "ElseToken \<equiv> 84"
abbreviation ExportToken :: TokenType where "ExportToken \<equiv> 85"
abbreviation ExtendsToken :: TokenType where "ExtendsToken \<equiv> 86"
abbreviation FalseToken :: TokenType where "FalseToken \<equiv> 87"
abbreviation FinallyToken :: TokenType where "FinallyToken \<equiv> 88"
abbreviation ForToken :: TokenType where "ForToken \<equiv> 89"
abbreviation FunctionToken :: TokenType where "FunctionToken \<equiv> 90"
abbreviation IfToken :: TokenType where "IfToken \<equiv> 91"
abbreviation ImportToken :: TokenType where "ImportToken \<equiv> 92"
abbreviation InToken :: TokenType where "InToken \<equiv> 93"
abbreviation InstanceofToken :: TokenType where "InstanceofToken \<equiv> 94"
abbreviation NewToken :: TokenType where "NewToken \<equiv> 95"
abbreviation NullToken :: TokenType where "NullToken \<equiv> 96"
abbreviation ReturnToken :: TokenType where "ReturnToken \<equiv> 97"
abbreviation SuperToken :: TokenType where "SuperToken \<equiv> 98"
abbreviation SwitchToken :: TokenType where "SwitchToken \<equiv> 99"
abbreviation ThisToken :: TokenType where "ThisToken \<equiv> 100"
abbreviation ThrowToken :: TokenType where "ThrowToken \<equiv> 101"
abbreviation TrueToken :: TokenType where "TrueToken \<equiv> 102"
abbreviation TryToken :: TokenType where "TryToken \<equiv> 103"
abbreviation TypeofToken :: TokenType where "TypeofToken \<equiv> 104"
abbreviation YieldToken :: TokenType where "YieldToken \<equiv> 105"
abbreviation VarToken :: TokenType where "VarToken \<equiv> 106"
abbreviation VoidToken :: TokenType where "VoidToken \<equiv> 107"
abbreviation WhileToken :: TokenType where "WhileToken \<equiv> 108"
abbreviation WithToken :: TokenType where "WithToken \<equiv> 109"
abbreviation IdentifierToken :: TokenType where "IdentifierToken \<equiv> 110"
abbreviation AsToken :: TokenType where "AsToken \<equiv> 111"
abbreviation AsyncToken :: TokenType where "AsyncToken \<equiv> 112"
abbreviation FromToken :: TokenType where "FromToken \<equiv> 113"
abbreviation GetToken :: TokenType where "GetToken \<equiv> 114"
abbreviation LetToken :: TokenType where "LetToken \<equiv> 115"
abbreviation MetaToken :: TokenType where "MetaToken \<equiv> 116"
abbreviation OfToken :: TokenType where "OfToken \<equiv> 117"
abbreviation SetToken :: TokenType where "SetToken \<equiv> 118"
abbreviation StaticToken :: TokenType where "StaticToken \<equiv> 119"
abbreviation TargetToken :: TokenType where "TargetToken \<equiv> 120"

text \<open>
  \<open>OpPrec\<close> is the integer precedence of an operator, compared with \<open><\<close>; the ladder runs
  from the comma expression (loosest) to primary expressions (tightest).
\<close>

type_synonym OpPrec = nat

abbreviation OpExpr :: OpPrec where "OpExpr \<equiv> 0"
abbreviation OpAssign :: OpPrec where "OpAssign \<equiv> 1"
abbreviation OpCoalesce :: OpPrec where "OpCoalesce \<equiv> 2"
abbreviation OpOr :: OpPrec where "OpOr \<equiv> 3"
abbreviation OpAnd :: OpPrec where "OpAnd \<equiv> 4"
abbreviation OpBitOr :: OpPrec where "OpBitOr \<equiv> 5"
abbreviation OpBitXor :: OpPrec where "OpBitXor \<equiv> 6"
abbreviation OpBitAnd :: OpPrec where "OpBitAnd \<equiv> 7"
abbreviation OpEquals :: OpPrec where "OpEquals \<equiv> 8"
abbreviation OpCompare :: OpPrec where "OpCompare \<equiv> 9"
abbreviation OpShift :: OpPrec where "OpShift \<equiv> 10"
abbreviation OpAdd :: OpPrec where "OpAdd \<equiv> 11"
abbreviation OpMul :: OpPrec where "OpMul \<equiv> 12"
abbreviation OpExp :: OpPrec where "OpExp \<equiv> 13"
abbreviation OpUnary :: OpPrec where "OpUnary \<equiv> 14"
abbreviation OpUpdate :: OpPrec where "OpUpdate \<equiv> 15"
abbreviation OpLHS :: OpPrec where "OpLHS \<equiv> 16"
abbreviation OpMember :: OpPrec where "OpMember \<equiv> 17"
abbreviation OpPrimary :: OpPrec where "OpPrimary \<equiv> 18"

subsection \<open>Variables and scopes\<close>

text \<open>
  A \<open>VarRef\<close> is an index into \<open>AST.Vars\<close>.  The Go code also passes pointers to the
  entries of that array around (the lists \<open>Declared\<close> and \<open>Undeclared\<close> of a scope hold
  them); the model writes such a pointer as the index of the entry it points to.

  A \<open>Scope\<close> lives inside the node that introduces it and is reached through pointers
  (\<open>Parser.scope\<close>, \<open>Scope.Parent\<close>, \<open>Scope.Func\<close>).  All scopes are kept in one store,
  \<open>AST.Scopes\<close>, a map from addresses to scopes; a pointer is an address, \<open>nil\<close> is \<open>None\<close>,
  and a node holds the address of its scope (\<open>None\<close> while the scope was never entered).
\<close>

type_synonym VarRef = nat
type_synonym addr = nat

datatype DeclType = NoDecl | VariableDecl | FunctionDecl | ArgumentDecl | LexicalDecl | CatchDecl | ExprDecl

record Var =
  Uses :: nat
  Decl :: DeclType
  Name :: bytes

record Scope =
  Parent :: "addr option"
  Func :: "addr option"
  Declared :: "VarRef list"
  Undeclared :: "VarRef list"
  NumArguments :: nat

subsection \<open>Nodes\<close>

text \<open>
  The structs that hold expressions, bindings or statements take those as type
  parameters, so that the three interfaces \<open>IExpr\<close>, \<open>IBinding\<close> and \<open>IStmt\<close> can be one
  recursive datatype over them.  Fields come in the order of the Go struct literals of
  the parser; an interface value that is \<open>nil\<close> is the constructor \<open>NilExpr\<close>,
  \<open>NilBinding\<close> or \<open>NilStmt\<close>.
\<close>

datatype 'e PropertyNameNode =
  PropertyName (LiteralTokenType: TokenType) (LiteralData: bytes) (Computed: 'e)
    \<comment> \<open>\<open>Literal LiteralExpr{TokenType, Data}\<close>, \<open>Computed IExpr\<close>\<close>

datatype 'e PropertyNode =
  Property "'e PropertyNameNode" bool 'e 'e
    \<comment> \<open>\<open>Name\<close>, \<open>Spread\<close>, \<open>Value\<close>, \<open>Init\<close>\<close>

datatype 'e ElementNode =
  Element 'e bool
    \<comment> \<open>\<open>Value\<close>, \<open>Spread\<close>\<close>

datatype 'e ArgumentsNode =
  Arguments (ArgsList: "'e list") (ArgsRest: 'e)

datatype 'e TemplatePartNode =
  TemplatePart bytes 'e
    \<comment> \<open>\<open>Value\<close>, \<open>Expr\<close>\<close>

datatype ('b, 'e) BindingElementNode =
  BindingElement 'b 'e
    \<comment> \<open>\<open>Binding\<close>, \<open>Default\<close>\<close>

datatype ('b, 'e) BindingObjectItemNode =
  BindingObjectItem "'e PropertyNameNode" "('b, 'e) BindingElementNode"
    \<comment> \<open>\<open>Key\<close>, \<open>Value\<close>\<close>

datatype ('b, 'e) ParamsNode =
  Params "('b, 'e) BindingElementNode list" 'b
    \<comment> \<open>\<open>List\<close>, \<open>Rest\<close>\<close>

datatype 's BlockStmtNode =
  BlockStmt (BlockList: "'s list") (BlockScope: "addr option")
    \<comment> \<open>\<open>List\<close>, \<open>Scope\<close>\<close>

datatype ('b, 'e, 's) ArrowFuncNode =
  ArrowFunc bool "('b, 'e) ParamsNode" "'s BlockStmtNode" "addr option"
    \<comment> \<open>\<open>Async\<close>, \<open>Params\<close>, \<open>Body\<close>, \<open>Scope\<close>\<close>

datatype ('b, 'e, 's) FuncDeclNode =
  FuncDecl bool bool "VarRef option" "('b, 'e) ParamsNode" "'s BlockStmtNode" "addr option"
    \<comment> \<open>\<open>Async\<close>, \<open>Generator\<close>, \<open>Name\<close> (\<open>None\<close> while unassigned), \<open>Params\<close>, \<open>Body\<close>, \<open>Scope\<close>\<close>

datatype ('b, 'e, 's) MethodDeclNode =
  MethodDecl bool bool bool bool bool "'e PropertyNameNode" "('b, 'e) ParamsNode" "'s BlockStmtNode" "addr option"
    \<comment> \<open>\<open>Static\<close>, \<open>Async\<close>, \<open>Generator\<close>, \<open>Get\<close>, \<open>Set\<close>, \<open>Name\<close>, \<open>Params\<close>, \<open>Body\<close>, \<open>Scope\<close>\<close>

datatype ('b, 'e, 's) ClassDeclNode =
  ClassDecl "VarRef option" 'e "('b, 'e, 's) MethodDeclNode list"
    \<comment> \<open>\<open>Name\<close> (\<open>None\<close> while unassigned), \<open>Extends\<close>, \<open>Methods\<close>\<close>

datatype ('b, 'e) VarDeclNode =
  VarDecl TokenType "('b, 'e) BindingElementNode list"
    \<comment> \<open>\<open>TokenType\<close>, \<open>List\<close>\<close>

datatype ('e, 's) CaseClauseNode =
  CaseClause TokenType 'e "'s list"
    \<comment> \<open>\<open>TokenType\<close>, \<open>Cond\<close>, \<open>List\<close>\<close>

datatype Alias =
  Alias bytes bytes
    \<comment> \<open>\<open>Name\<close>, \<open>Binding\<close>\<close>

datatype IExpr =
    NilExpr
  | VarRefE VarRef
  | LiteralExpr TokenType bytes
  | ArrayExpr "IExpr ElementNode list"
  | ObjectExpr "IExpr PropertyNode list"
  | GroupExpr IExpr
  | UnaryExpr TokenType IExpr
  | BinaryExpr TokenType IExpr IExpr
  | CondExpr IExpr IExpr IExpr
  | DotExpr IExpr TokenType bytes
  | IndexExpr IExpr IExpr
  | CallExpr IExpr "IExpr ArgumentsNode"
  | NewExpr IExpr "IExpr ArgumentsNode option"
  | NewTargetExpr
  | ImportMetaExpr
  | OptChainExpr IExpr IExpr
  | YieldExpr bool IExpr
  | TemplateExpr IExpr "IExpr TemplatePartNode list" bytes
  | ArrowFuncE "(IBinding, IExpr, IStmt) ArrowFuncNode"
  | FuncDeclE "(IBinding, IExpr, IStmt) FuncDeclNode"
  | ClassDeclE "(IBinding, IExpr, IStmt) ClassDeclNode"
  | MethodDeclE "(IBinding, IExpr, IStmt) MethodDeclNode"
  | VarDeclE "(IBinding, IExpr) VarDeclNode"
and IBinding =
    NilBinding
  | VarRefB VarRef
  | BindingArray "(IBinding, IExpr) BindingElementNode list" IBinding
  | BindingObject "(IBinding, IExpr) BindingObjectItemNode list" IBinding
and IStmt =
    NilStmt
  | BlockStmtS "IStmt BlockStmtNode"
  | VarDeclS "(IBinding, IExpr) VarDeclNode"
  | ExprStmt IExpr
  | IfStmt IExpr IStmt IStmt
  | BranchStmt TokenType bytes
  | ReturnStmt IExpr
  | WithStmt IExpr IStmt
  | DoWhileStmt IExpr IStmt
  | WhileStmt IExpr IStmt
  | ForStmt IExpr IExpr IExpr IStmt
  | ForInStmt IExpr IExpr IStmt
  | ForOfStmt bool IExpr IExpr IStmt
  | SwitchStmt IExpr "(IExpr, IStmt) CaseClauseNode list"
  | FuncDeclS "(IBinding, IExpr, IStmt) FuncDeclNode"
  | ClassDeclS "(IBinding, IExpr, IStmt) ClassDeclNode"
  | ThrowStmt IExpr
  | TryStmt "IStmt BlockStmtNode" IBinding "IStmt BlockStmtNode" "IStmt BlockStmtNode"
  | DebuggerStmt
  | EmptyStmt
  | LabelledStmt bytes IStmt
  | ImportStmt "Alias list" bytes bytes
  | ExportStmt "Alias list" bytes bool IExpr

text \<open>
  \<open>TemplateExpr\<close> has the fields \<open>Tag\<close>, \<open>List\<close>, \<open>Tail\<close>; \<open>TryStmt\<close> has \<open>Body\<close>, \<open>Binding\<close>,
  \<open>Catch\<close>, \<open>Finally\<close>; \<open>ImportStmt\<close> has \<open>List\<close>, \<open>Default\<close>, \<open>Module\<close>; \<open>ExportStmt\<close> has
  \<open>List\<close>, \<open>Module\<close>, \<open>Default\<close>, \<open>Decl\<close>; \<open>DotExpr\<close> has \<open>X\<close> and the literal \<open>Y\<close>.
\<close>

type_synonym PropertyName = "IExpr PropertyNameNode"
type_synonym Property = "IExpr PropertyNode"
type_synonym Element = "IExpr ElementNode"
type_synonym Arguments = "IExpr ArgumentsNode"
type_synonym TemplatePart = "IExpr TemplatePartNode"
type_synonym BindingElement = "(IBinding, IExpr) BindingElementNode"
type_synonym BindingObjectItem = "(IBinding, IExpr) BindingObjectItemNode"
type_synonym Params = "(IBinding, IExpr) ParamsNode"
type_synonym BlockStmt = "IStmt BlockStmtNode"
type_synonym ArrowFunc = "(IBinding, IExpr, IStmt) ArrowFuncNode"
type_synonym FuncDecl = "(IBinding, IExpr, IStmt) FuncDeclNode"
type_synonym MethodDecl = "(IBinding, IExpr, IStmt) MethodDeclNode"
type_synonym ClassDecl = "(IBinding, IExpr, IStmt) ClassDeclNode"
type_synonym VarDecl = "(IBinding, IExpr) VarDeclNode"
type_synonym CaseClause = "(IExpr, IStmt) CaseClauseNode"

text \<open>The zero values of the structs, as Go initialises a declared variable.\<close>

definition PropertyName0 :: PropertyName where
  "PropertyName0 = PropertyName ErrorToken [] NilExpr"

definition BindingElement0 :: BindingElement where
  "BindingElement0 = BindingElement NilBinding NilExpr"

definition Params0 :: Params where
  "Params0 = Params [] NilBinding"

definition BlockStmt0 :: BlockStmt where
  "BlockStmt0 = BlockStmt [] None"

definition Arguments0 :: Arguments where
  "Arguments0 = Arguments [] NilExpr"

record AST =
  Comment :: bytes
  Module :: BlockStmt
  Vars :: "Var list"
  Scopes :: "addr \<Rightarrow> Scope"
  NumScopes :: nat

definition Scope0 :: Scope where
  "Scope0 = \<lparr>Parent = None, Func = None, Declared = [], Undeclared = [], NumArguments = 0\<rparr>"

definition newAST :: AST where
  "newAST = \<lparr>Comment = [], Module = BlockStmt0, Vars = [], Scopes = (\<lambda>a. Scope0), NumScopes = 0\<rparr>"

section \<open>The parser state and the functions the parser is given\<close>

text \<open>
  A Go \<open>error\<close> value: \<open>io.EOF\<close>, an error made by \<open>fmt.Errorf\<close> (its message), or a
  \<open>*parse.Error\<close> made by \<open>parse.NewError\<close> from a byte offset into the input and a message.
  \<open>nil\<close> is \<open>None\<close>.
\<close>

datatype error = EOF | Errorf string | ParseError int string

fun Error :: "error \<Rightarrow> string" where
  "Error EOF = ''EOF''"
| "Error (Errorf msg) = msg"
| "Error (ParseError offset msg) = msg"

text \<open>The lexer is of an arbitrary type \<open>'l\<close>; field \<open>lx\<close> is the Go field \<open>l\<close>.\<close>

record 'l Parser =
  lx :: 'l
  err :: "error option"
  tt :: TokenType
  data :: bytes
  prevLT :: bool
  inFor :: bool
  async :: bool
  generator :: bool
  assumeArrowFunc :: bool
  ast :: AST
  scope :: "addr option"

text \<open>
  The functions that the parser calls and whose code is not among the sources.  A method with a pointer receiver takes the address (for a scope) or the value
  it may change (the lexer, the \<open>AST\<close> with its variables and scopes) and returns the
  changed value with its result.

  \<^item> Lexer: \<open>Next\<close> and \<open>RegExp\<close> return a token type with its bytes, \<open>Err\<close> the lexer's
    error, \<open>Offset\<close> the reader's offset \<open>l.r.Offset()\<close>.
  \<^item> Token table: \<open>IsIdentifier\<close>, \<open>IsNumeric\<close>, \<open>IsIdentifierName\<close>, and \<open>TokenString\<close> for
    \<open>TokenType.String\<close>.
  \<^item> Package \<open>fmt\<close>: \<open>Sprintf\<close> is the text that \<open>fmt.Errorf(msg)\<close> makes of the format string
    \<open>msg\<close> when no operand follows it.
  \<^item> Scopes: \<open>Declare\<close>, \<open>Use\<close>, \<open>HoistUndeclared\<close>, \<open>UndeclareScope\<close>, \<open>MarkArguments\<close> of a
    scope, and \<open>AddVar\<close> of the \<open>AST\<close>.
  \<^item> Property names: \<open>IsSet\<close> and \<open>IsComputed\<close>; \<open>ParseIdentifierName\<close> and
    \<open>ParseNumericLiteral\<close>, which say whether bytes are an identifier name or a numeric
    literal (and of which token type).
\<close>

record 'l env =
  Next :: "'l \<Rightarrow> (TokenType \<times> bytes) \<times> 'l"
  RegExp :: "'l \<Rightarrow> (TokenType \<times> bytes) \<times> 'l"
  Err :: "'l \<Rightarrow> error option"
  Offset :: "'l \<Rightarrow> nat"
  IsIdentifier :: "TokenType \<Rightarrow> bool"
  IsNumeric :: "TokenType \<Rightarrow> bool"
  IsIdentifierName :: "TokenType \<Rightarrow> bool"
  TokenString :: "TokenType \<Rightarrow> string"
  Sprintf :: "string \<Rightarrow> string"
  Declare :: "addr \<Rightarrow> DeclType \<Rightarrow> bytes \<Rightarrow> AST \<Rightarrow> (VarRef \<times> bool) \<times> AST"
  Use :: "addr \<Rightarrow> bytes \<Rightarrow> AST \<Rightarrow> VarRef \<times> AST"
  HoistUndeclared :: "addr \<Rightarrow> AST \<Rightarrow> AST"
  UndeclareScope :: "addr \<Rightarrow> AST \<Rightarrow> AST"
  MarkArguments :: "addr \<Rightarrow> AST \<Rightarrow> AST"
  AddVar :: "DeclType \<Rightarrow> bytes \<Rightarrow> AST \<Rightarrow> VarRef \<times> AST"
  IsSet :: "PropertyName \<Rightarrow> bool"
  IsComputed :: "PropertyName \<Rightarrow> bool"
  ParseIdentifierName :: "bytes \<Rightarrow> bool"
  ParseNumericLiteral :: "bytes \<Rightarrow> TokenType \<times> bool"

subsection \<open>Computations of the parser\<close>

text \<open>
  A method of \<open>*Parser\<close> is a function from the parser state to either an abort or a
  result with the new state.  \<open>Panic\<close> is a Go run-time panic (a failed type assertion, a
  slice bound out of range, a nil dereference).  \<open>OutOfFuel\<close> belongs to the model only:
  recursion and loops are bounded by a counter, and a run that exhausts it says nothing
  about the code.
\<close>

datatype abort = Panic | OutOfFuel

type_synonym ('a, 'l) M = "'l Parser \<Rightarrow> abort + ('a \<times> 'l Parser)"

definition return :: "'a \<Rightarrow> ('a, 'l) M" where
  "return x = (\<lambda>p. Inr (x, p))"

definition bind :: "('a, 'l) M \<Rightarrow> ('a \<Rightarrow> ('b, 'l) M) \<Rightarrow> ('b, 'l) M" where
  "bind m k = (\<lambda>p. case m p of Inl a \<Rightarrow> Inl a | Inr (x, p') \<Rightarrow> k x p')"

definition get :: "('l Parser, 'l) M" where
  "get = (\<lambda>p. Inr (p, p))"

definition modify :: "('l Parser \<Rightarrow> 'l Parser) \<Rightarrow> (unit, 'l) M" where
  "modify f = (\<lambda>p. Inr ((), f p))"

definition panic :: "('a, 'l) M" where
  "panic = (\<lambda>p. Inl Panic)"

definition outOfFuel :: "('a, 'l) M" where
  "outOfFuel = (\<lambda>p. Inl OutOfFuel)"

definition whenM :: "bool \<Rightarrow> (unit, 'l) M \<Rightarrow> (unit, 'l) M" where
  "whenM c m = (if c then m else return ())"

text \<open>
  Where a function returns from inside a \<open>switch\<close> or a loop, the part of the body up to
  there yields \<open>Inl v\<close> for \<open>return v\<close> and \<open>Inr s\<close> for falling through to the code that
  follows, with the values \<open>s\<close> of the local variables that code reads.
\<close>

type_synonym ('r, 's) flow = "'r + 's"

text \<open>
  The recursive calls and the loops of the parser, bounded by the counter.  Every
  \<open>parse...\<close> definition below takes such a record \<open>rec\<close> and calls its fields where the Go
  code calls \<open>parseStmt\<close>, \<open>parseBinding\<close>, \<open>parseExpression\<close> or
  \<open>parseExpressionSuffix\<close>, or goes round a loop again; all other calls are direct.
  A loop's field takes the local variables the loop changes.
\<close>

record 'l recs =
  rNextLoop :: "(unit, 'l) M"
  rStmt :: "bool \<Rightarrow> (IStmt, 'l) M"
  rBinding :: "DeclType \<Rightarrow> (IBinding, 'l) M"
  rExpression :: "OpPrec \<Rightarrow> (IExpr, 'l) M"
  rExpressionSuffix :: "IExpr \<Rightarrow> OpPrec \<Rightarrow> OpPrec \<Rightarrow> (IExpr, 'l) M"
  rModuleLoop :: "IStmt list \<Rightarrow> (IStmt list, 'l) M"
  rSwitchLoop :: "CaseClause list \<Rightarrow> ((IStmt, CaseClause list) flow, 'l) M"
  rCaseStmtsLoop :: "IStmt list \<Rightarrow> (IStmt list, 'l) M"
  rBlockLoop :: "IStmt list \<Rightarrow> ((IStmt list, IStmt list) flow, 'l) M"
  rImportLoop :: "Alias list \<Rightarrow> ((Alias list, Alias list) flow, 'l) M"
  rExportLoop :: "Alias list \<Rightarrow> ((Alias list, Alias list) flow, 'l) M"
  rVarDeclLoop :: "DeclType \<Rightarrow> BindingElement list \<Rightarrow> (BindingElement list, 'l) M"
  rFuncParamsLoop :: "string \<Rightarrow> BindingElement list \<Rightarrow> ((Params, BindingElement list) flow, 'l) M"
  rClassLoop :: "MethodDecl list \<Rightarrow> ((MethodDecl list, MethodDecl list) flow, 'l) M"
  rElisionLoop :: "BindingElement list \<Rightarrow> (BindingElement list, 'l) M"
  rArrayBindingLoop :: "DeclType \<Rightarrow> BindingElement list \<Rightarrow> ((IBinding, BindingElement list \<times> IBinding) flow, 'l) M"
  rObjectBindingLoop :: "DeclType \<Rightarrow> BindingObjectItem list \<Rightarrow> ((IBinding, BindingObjectItem list \<times> IBinding) flow, 'l) M"
  rArrayLiteralLoop :: "Element list \<Rightarrow> bool \<Rightarrow> (Element list, 'l) M"
  rObjectLiteralLoop :: "Property list \<Rightarrow> (Property list, 'l) M"
  rArgsLoop :: "IExpr list \<Rightarrow> (IExpr list \<times> IExpr, 'l) M"
  rParenLoop :: "IExpr list \<Rightarrow> (IExpr list \<times> IBinding, 'l) M"

definition returnNow :: "'r \<Rightarrow> (('r, 's) flow, 'l) M" where
  "returnNow r = return (Inl r)"

definition fallThrough :: "'s \<Rightarrow> (('r, 's) flow, 'l) M" where
  "fallThrough s = return (Inr s)"

definition flowBind :: "(('r, 's) flow, 'l) M \<Rightarrow> ('s \<Rightarrow> (('r, 't) flow, 'l) M) \<Rightarrow> (('r, 't) flow, 'l) M" where
  \<comment> \<open>the code after a part that may have returned, itself followed by more code\<close>
  "flowBind m k = bind m (\<lambda>fl. case fl of Inl r \<Rightarrow> return (Inl r) | Inr s \<Rightarrow> k s)"

definition flowEnd :: "(('r, 's) flow, 'l) M \<Rightarrow> ('s \<Rightarrow> ('r, 'l) M) \<Rightarrow> ('r, 'l) M" where
  \<comment> \<open>the code after a part that may have returned, up to the end of the function\<close>
  "flowEnd m k = bind m (\<lambda>fl. case fl of Inl r \<Rightarrow> return r | Inr s \<Rightarrow> k s)"

section \<open>The parser\<close>

subsection \<open>Tokens, errors and scopes\<close>

definition lexNext :: "'l env \<Rightarrow> (unit, 'l) M" where
  \<comment> \<open>\<open>p.tt, p.data = p.l.Next()\<close>\<close>
  "lexNext env = modify (\<lambda>p. case Next env (lx p) of ((t, d), l') \<Rightarrow> p\<lparr>tt := t, data := d, lx := l'\<rparr>)"

definition lexRegExp :: "'l env \<Rightarrow> (unit, 'l) M" where
  \<comment> \<open>\<open>p.tt, p.data = p.l.RegExp()\<close>\<close>
  "lexRegExp env = modify (\<lambda>p. case RegExp env (lx p) of ((t, d), l') \<Rightarrow> p\<lparr>tt := t, data := d, lx := l'\<rparr>)"

definition setPrevLT :: "bool \<Rightarrow> (unit, 'l) M" where
  "setPrevLT b = modify (\<lambda>p. p\<lparr>prevLT := b\<rparr>)"

definition nextLoop :: "'l env \<Rightarrow> 'l recs \<Rightarrow> (unit, 'l) M" where
  \<comment> \<open>the \<open>for\<close> loop of \<open>next\<close>\<close>
  "nextLoop env rec = bind get (\<lambda>p.
     if tt p = WhitespaceToken \<or> tt p = LineTerminatorToken \<or> tt p = CommentToken \<or> tt p = CommentLineTerminatorToken then
       bind (whenM (tt p = LineTerminatorToken \<or> tt p = CommentLineTerminatorToken) (setPrevLT True)) (\<lambda>_.
       bind (lexNext env) (\<lambda>_.
       rNextLoop rec))
     else return ())"

definition next' :: "'l env \<Rightarrow> 'l recs \<Rightarrow> (unit, 'l) M" where
  "next' env rec =
     bind (setPrevLT False) (\<lambda>_.
     bind (lexNext env) (\<lambda>_.
     nextLoop env rec))"

definition quote :: char where
  "quote = CHR 0x27"

definition setErr :: "error \<Rightarrow> (unit, 'l) M" where
  \<comment> \<open>\<open>p.err = e; p.tt = ErrorToken\<close>\<close>
  "setErr e = modify (\<lambda>p. p\<lparr>err := Some e, tt := ErrorToken\<rparr>)"

definition failMessage :: "string \<Rightarrow> (unit, 'l) M" where
  \<comment> \<open>takes the message that \<open>fmt.Errorf(msg, args...)\<close> formats\<close>
  "failMessage msg = bind get (\<lambda>p.
     if err p = None then setErr (Errorf msg)
     else return ())"

definition alreadyDeclared :: "bytes \<Rightarrow> string" where
  \<comment> \<open>the format \<open>identifier '%s' has already been declared\<close>\<close>
  "alreadyDeclared name = ''identifier '' @ [quote] @ name @ [quote] @ '' has already been declared''"

fun expectedList :: "'l env \<Rightarrow> nat \<Rightarrow> TokenType list \<Rightarrow> string" where
  \<comment> \<open>the loop over \<open>expected[:len(expected)-1]\<close>, from index \<open>i\<close> on\<close>
  "expectedList env i [] = []"
| "expectedList env i (t # ts) =
     (if 0 < i then '','' else []) @ '' '' @ [quote] @ TokenString env t @ [quote] @ expectedList env (i + 1) ts"

definition failMsg :: "'l env \<Rightarrow> string \<Rightarrow> TokenType list \<Rightarrow> 'l Parser \<Rightarrow> string" where
  "failMsg env inn expected p =
     (let msg = ''unexpected'';
          msg = (if 0 < length expected then
                   ''expected'' @ expectedList env 0 (butlast expected)
                   @ (if 2 < length expected then '', or'' else if 1 < length expected then '' or'' else [])
                   @ '' '' @ [quote] @ TokenString env (last expected) @ [quote] @ '' instead of''
                 else msg);
          msg = (if tt p = ErrorToken then
                   (case Err env (lx p) of
                      Some EOF \<Rightarrow> msg @ '' EOF''
                    | Some (ParseError offset m) \<Rightarrow> m
                    | _ \<Rightarrow> msg)
                 else msg @ '' '' @ [quote] @ data p @ [quote]);
          msg = (if inn \<noteq> [] then msg @ '' in '' @ inn else msg)
      in msg)"

definition fail :: "'l env \<Rightarrow> string \<Rightarrow> TokenType list \<Rightarrow> (unit, 'l) M" where
  \<comment> \<open>\<open>p.err = fmt.Errorf(msg)\<close>: the message that is put together is the format string\<close>
  "fail env inn expected = bind get (\<lambda>p.
     if err p = None then setErr (Errorf (Sprintf env (failMsg env inn expected p)))
     else return ())"

definition consume :: "'l env \<Rightarrow> 'l recs \<Rightarrow> string \<Rightarrow> TokenType \<Rightarrow> (bool, 'l) M" where
  "consume env rec inn t = bind get (\<lambda>p.
     if tt p \<noteq> t then bind (fail env inn [t]) (\<lambda>_. return False)
     else bind (next' env rec) (\<lambda>_. return True))"

definition setAst :: "AST \<Rightarrow> (unit, 'l) M" where
  \<comment> \<open>the \<open>AST\<close> behind \<open>p.ast\<close> as a callee has left it\<close>
  "setAst a = modify (\<lambda>p. p\<lparr>ast := a\<rparr>)"

definition setScope :: "addr option \<Rightarrow> (unit, 'l) M" where
  \<comment> \<open>\<open>p.scope = s\<close>\<close>
  "setScope s = modify (\<lambda>p. p\<lparr>scope := s\<rparr>)"

definition enterScope :: "bool \<Rightarrow> (addr option \<times> addr, 'l) M" where
  \<comment> \<open>allocates the scope of the node under construction (the Go caller passes its
      address) and returns the parent with that address\<close>
  "enterScope isFunc = bind get (\<lambda>p.
     let parent = scope p;
         a = NumScopes (ast p);
         func = (if isFunc then Some a
                 else case parent of Some pa \<Rightarrow> Func (Scopes (ast p) pa) | None \<Rightarrow> None);
         sc = \<lparr>Parent = parent, Func = func, Declared = [], Undeclared = [], NumArguments = 0\<rparr>
     in bind (setAst ((ast p)\<lparr>Scopes := (Scopes (ast p))(a := sc), NumScopes := a + 1\<rparr>)) (\<lambda>_.
        bind (setScope (Some a)) (\<lambda>_.
        return (parent, a))))"

definition withScope :: "(addr \<Rightarrow> ('a, 'l) M) \<Rightarrow> ('a, 'l) M" where
  \<comment> \<open>a method call on \<open>p.scope\<close>; a nil scope cannot be dereferenced\<close>
  "withScope f = bind get (\<lambda>p. case scope p of None \<Rightarrow> panic | Some a \<Rightarrow> f a)"

definition scopeDeclare :: "'l env \<Rightarrow> DeclType \<Rightarrow> bytes \<Rightarrow> (VarRef \<times> bool, 'l) M" where
  \<comment> \<open>\<open>p.scope.Declare(p.ast, decl, name)\<close>\<close>
  "scopeDeclare env decl name = withScope (\<lambda>a. bind get (\<lambda>p.
     case Declare env a decl name (ast p) of (r, ast') \<Rightarrow>
       bind (setAst ast') (\<lambda>_. return r)))"

definition scopeUse :: "'l env \<Rightarrow> bytes \<Rightarrow> (VarRef, 'l) M" where
  \<comment> \<open>\<open>p.scope.Use(p.ast, name)\<close>\<close>
  "scopeUse env name = withScope (\<lambda>a. bind get (\<lambda>p.
     case Use env a name (ast p) of (r, ast') \<Rightarrow>
       bind (setAst ast') (\<lambda>_. return r)))"

definition scopeMarkArguments :: "'l env \<Rightarrow> (unit, 'l) M" where
  \<comment> \<open>\<open>p.scope.MarkArguments()\<close>\<close>
  "scopeMarkArguments env = withScope (\<lambda>a. bind get (\<lambda>p.
     setAst (MarkArguments env a (ast p))))"

definition astAddVar :: "'l env \<Rightarrow> DeclType \<Rightarrow> bytes \<Rightarrow> (VarRef, 'l) M" where
  \<comment> \<open>\<open>p.ast.AddVar(decl, name)\<close>, returning the \<open>Ref\<close> of the new variable\<close>
  "astAddVar env decl name = bind get (\<lambda>p.
     case AddVar env decl name (ast p) of (r, ast') \<Rightarrow>
       bind (setAst ast') (\<lambda>_. return r))"

definition astUndeclareScope :: "'l env \<Rightarrow> addr \<Rightarrow> (unit, 'l) M" where
  \<comment> \<open>\<open>arrowFunc.Scope.UndeclareScope(p.ast)\<close>, for the address of that scope\<close>
  "astUndeclareScope env a = modify (\<lambda>p. p\<lparr>ast := UndeclareScope env a (ast p)\<rparr>)"

definition exitScope :: "'l env \<Rightarrow> addr option \<Rightarrow> (unit, 'l) M" where
  "exitScope env parent = withScope (\<lambda>a. bind get (\<lambda>p.
     bind (setAst (HoistUndeclared env a (ast p))) (\<lambda>_.
     setScope parent)))"

definition isIdentifierReference :: "'l env \<Rightarrow> 'l Parser \<Rightarrow> TokenType \<Rightarrow> bool" where
  "isIdentifierReference env p t \<longleftrightarrow>
     IsIdentifier env t \<or> t = YieldToken \<and> \<not> generator p \<or> t = AwaitToken \<and> \<not> async p"

definition updVar :: "VarRef \<Rightarrow> (Var \<Rightarrow> Var) \<Rightarrow> (unit, 'l) M" where
  \<comment> \<open>a write through the pointer \<open>v\<close> to \<open>p.ast.Vars[ref]\<close>\<close>
  "updVar ref f = modify (\<lambda>p. p\<lparr>ast := (ast p)\<lparr>Vars := (Vars (ast p))[ref := f (Vars (ast p) ! ref)]\<rparr>\<rparr>)"

definition updScope :: "addr \<Rightarrow> (Scope \<Rightarrow> Scope) \<Rightarrow> (unit, 'l) M" where
  \<comment> \<open>a write through a scope pointer\<close>
  "updScope a f = modify (\<lambda>p. p\<lparr>ast := (ast p)\<lparr>Scopes := (Scopes (ast p))(a := f (Scopes (ast p) a))\<rparr>\<rparr>)"

definition setComment :: "bytes \<Rightarrow> (unit, 'l) M" where
  \<comment> \<open>\<open>p.ast.Comment = d\<close>\<close>
  "setComment d = modify (\<lambda>p. p\<lparr>ast := (ast p)\<lparr>Comment := d\<rparr>\<rparr>)"

definition setModule :: "BlockStmt \<Rightarrow> (unit, 'l) M" where
  \<comment> \<open>\<open>p.ast.Module = m\<close>\<close>
  "setModule m = modify (\<lambda>p. p\<lparr>ast := (ast p)\<lparr>Module := m\<rparr>\<rparr>)"

definition setFlags :: "bool \<Rightarrow> bool \<Rightarrow> (unit, 'l) M" where
  \<comment> \<open>\<open>p.async, p.generator = a, g\<close>\<close>
  "setFlags a g = modify (\<lambda>p. p\<lparr>async := a, generator := g\<rparr>)"

definition setAssumeArrowFunc :: "bool \<Rightarrow> (unit, 'l) M" where
  "setAssumeArrowFunc b = modify (\<lambda>p. p\<lparr>assumeArrowFunc := b\<rparr>)"

definition setInFor :: "bool \<Rightarrow> (unit, 'l) M" where
  "setInFor b = modify (\<lambda>p. p\<lparr>inFor := b\<rparr>)"

subsection \<open>Property names, templates and arguments\<close>

definition parsePropertyName :: "'l env \<Rightarrow> 'l recs \<Rightarrow> string \<Rightarrow> (PropertyName, 'l) M" where
  "parsePropertyName env rec inn = bind get (\<lambda>p.
     if IsIdentifierName env (tt p) then
       bind (next' env rec) (\<lambda>_.
       return (PropertyName IdentifierToken (data p) NilExpr))
     else if tt p = StringToken then
       \<comment> \<open>\<open>p.data[1 : len(p.data)-1]\<close> panics on fewer than two bytes\<close>
       (if length (data p) < 2 then panic
        else
          let inner = take (length (data p) - 2) (drop 1 (data p));
              name = (if ParseIdentifierName env inner then PropertyName IdentifierToken inner NilExpr
                      else case ParseNumericLiteral env inner of (t, ok) \<Rightarrow>
                        if ok then PropertyName t inner NilExpr
                        else PropertyName (tt p) (data p) NilExpr)
          in bind (next' env rec) (\<lambda>_. return name))
     else if IsNumeric env (tt p) then
       bind (next' env rec) (\<lambda>_.
       return (PropertyName (tt p) (data p) NilExpr))
     else if tt p = OpenBracketToken then
       bind (next' env rec) (\<lambda>_.
       bind (rExpression rec OpAssign) (\<lambda>computed.
       bind (consume env rec inn CloseBracketToken) (\<lambda>_.
       return (PropertyName ErrorToken [] computed))))
     else
       bind (fail env inn [IdentifierToken, StringToken, NumericToken, OpenBracketToken]) (\<lambda>_.
       return PropertyName0))"

definition parseTemplateLiteral :: "'l env \<Rightarrow> 'l recs \<Rightarrow> (TemplatePart list \<times> bytes, 'l) M" where
  \<comment> \<open>returns the fields \<open>List\<close> and \<open>Tail\<close> of the template; every round of the Go loop ends
      in \<open>break\<close> or \<open>return\<close>, so its body runs at most once\<close>
  "parseTemplateLiteral env rec = bind get (\<lambda>p.
     if tt p = TemplateStartToken \<or> tt p = TemplateMiddleToken then
       bind (next' env rec) (\<lambda>_.
       bind (rExpression rec OpExpr) (\<lambda>e.
       bind get (\<lambda>p'.
       if tt p' = TemplateEndToken then
         bind (next' env rec) (\<lambda>_.
         return ([TemplatePart (data p) e], data p'))
       else
         bind (fail env ''template literal'' [TemplateToken]) (\<lambda>_.
         return ([TemplatePart (data p) e], [])))))
     else
       bind (next' env rec) (\<lambda>_.
       return ([], data p)))"

definition argsLoop :: "'l env \<Rightarrow> 'l recs \<Rightarrow> IExpr list \<Rightarrow> (IExpr list \<times> IExpr, 'l) M" where
  \<comment> \<open>the loop of \<open>parseArgs\<close>; yields \<open>args.List\<close> and \<open>args.Rest\<close>\<close>
  "argsLoop env rec list = bind get (\<lambda>p.
     if tt p = EllipsisToken then
       bind (next' env rec) (\<lambda>_.
       bind (rExpression rec OpAssign) (\<lambda>rest.
       bind get (\<lambda>p.
       bind (whenM (tt p = CommaToken) (next' env rec)) (\<lambda>_.
       return (list, rest)))))
     else if tt p = CloseParenToken \<or> tt p = ErrorToken then return (list, NilExpr)
     else
       bind (rExpression rec OpAssign) (\<lambda>e.
       bind get (\<lambda>p.
       bind (whenM (tt p = CommaToken) (next' env rec)) (\<lambda>_.
       rArgsLoop rec (list @ [e])))))"

definition parseArgs :: "'l env \<Rightarrow> 'l recs \<Rightarrow> (Arguments, 'l) M" where
  "parseArgs env rec =
     bind (next' env rec) (\<lambda>_.
     bind (argsLoop env rec []) (\<lambda>(list, rest).
     bind (consume env rec ''arguments'' CloseParenToken) (\<lambda>_.
     return (Arguments list rest))))"

subsection \<open>Bindings\<close>

definition parseBindingElement :: "'l env \<Rightarrow> 'l recs \<Rightarrow> DeclType \<Rightarrow> (BindingElement, 'l) M" where
  "parseBindingElement env rec decl =
     bind (rBinding rec decl) (\<lambda>binding.
     bind get (\<lambda>p.
     if tt p = EqToken then
       bind (next' env rec) (\<lambda>_.
       bind (rExpression rec OpAssign) (\<lambda>default.
       return (BindingElement binding default)))
     else return (BindingElement binding NilExpr)))"

definition elisionLoop :: "'l env \<Rightarrow> 'l recs \<Rightarrow> BindingElement list \<Rightarrow> (BindingElement list, 'l) M" where
  \<comment> \<open>\<open>for p.tt == CommaToken { ... }\<close> in the array binding pattern\<close>
  "elisionLoop env rec list = bind get (\<lambda>p.
     if tt p = CommaToken then
       bind (next' env rec) (\<lambda>_.
       bind get (\<lambda>p.
       rElisionLoop rec (if tt p = CommaToken then list @ [BindingElement0] else list)))
     else return list)"

definition arrayBindingLoop ::
  "'l env \<Rightarrow> 'l recs \<Rightarrow> DeclType \<Rightarrow> BindingElement list \<Rightarrow> ((IBinding, BindingElement list \<times> IBinding) flow, 'l) M" where
  \<comment> \<open>\<open>for p.tt != CloseBracketToken { ... }\<close>; yields \<open>array.List\<close> and \<open>array.Rest\<close>, or returns
      (the binding is still nil then)\<close>
  "arrayBindingLoop env rec decl list = bind get (\<lambda>p.
     if tt p \<noteq> CloseBracketToken then
       bind (elisionLoop env rec list) (\<lambda>list.
       bind get (\<lambda>p.
       if tt p = EllipsisToken then
         bind (next' env rec) (\<lambda>_.
         bind (rBinding rec decl) (\<lambda>rest.
         bind get (\<lambda>p.
         if tt p \<noteq> CloseBracketToken then
           bind (fail env ''array binding pattern'' [CloseBracketToken]) (\<lambda>_.
           returnNow NilBinding)
         else fallThrough (list, rest))))
       else if tt p = CloseBracketToken then fallThrough (list, NilBinding)
       else
         bind (parseBindingElement env rec decl) (\<lambda>element.
         bind get (\<lambda>p.
         if tt p \<noteq> CommaToken \<and> tt p \<noteq> CloseBracketToken then
           bind (fail env ''array binding pattern'' [CommaToken, CloseBracketToken]) (\<lambda>_.
           returnNow NilBinding)
         else rArrayBindingLoop rec decl (list @ [element])))))
     else fallThrough (list, NilBinding))"

definition objectBindingItem ::
  "'l env \<Rightarrow> 'l recs \<Rightarrow> DeclType \<Rightarrow> ((IBinding, BindingObjectItem) flow, 'l) M" where
  \<comment> \<open>one \<open>item\<close> of the object binding pattern, from \<open>item := BindingObjectItem{}\<close> up to the
      \<open>append\<close>\<close>
  "objectBindingItem env rec decl = bind get (\<lambda>p.
     if isIdentifierReference env p (tt p) then
       (let name = data p in
        bind (next' env rec) (\<lambda>_.
        bind get (\<lambda>p.
        if tt p = ColonToken then
          bind (next' env rec) (\<lambda>_.
          bind (parseBindingElement env rec decl) (\<lambda>v.
          fallThrough (BindingObjectItem (PropertyName IdentifierToken name NilExpr) v)))
        else
          bind (scopeDeclare env decl name) (\<lambda>(ref, ok).
          if \<not> ok then
            bind (failMessage (alreadyDeclared name)) (\<lambda>_.
            returnNow NilBinding)
          else
            bind get (\<lambda>p.
            if tt p = EqToken then
              bind (next' env rec) (\<lambda>_.
              bind (rExpression rec OpAssign) (\<lambda>default.
              fallThrough (BindingObjectItem (PropertyName IdentifierToken name NilExpr)
                             (BindingElement (VarRefB ref) default))))
            else
              fallThrough (BindingObjectItem (PropertyName IdentifierToken name NilExpr)
                             (BindingElement (VarRefB ref) NilExpr)))))))
     else
       bind (parsePropertyName env rec ''object binding pattern'') (\<lambda>key.
       bind (consume env rec ''object binding pattern'' ColonToken) (\<lambda>ok.
       if \<not> ok then returnNow NilBinding
       else
         bind (parseBindingElement env rec decl) (\<lambda>v.
         fallThrough (BindingObjectItem key v)))))"

definition objectBindingLoop ::
  "'l env \<Rightarrow> 'l recs \<Rightarrow> DeclType \<Rightarrow> BindingObjectItem list \<Rightarrow> ((IBinding, BindingObjectItem list \<times> IBinding) flow, 'l) M" where
  \<comment> \<open>\<open>for p.tt != CloseBraceToken { ... }\<close>; yields \<open>object.List\<close> and \<open>object.Rest\<close>, or returns\<close>
  "objectBindingLoop env rec decl list = bind get (\<lambda>p.
     if tt p \<noteq> CloseBraceToken then
       (if tt p = EllipsisToken then
          bind (next' env rec) (\<lambda>_.
          bind get (\<lambda>p.
          if \<not> isIdentifierReference env p (tt p) then
            bind (fail env ''object binding pattern'' [IdentifierToken]) (\<lambda>_.
            returnNow NilBinding)
          else
            bind (scopeDeclare env decl (data p)) (\<lambda>(ref, ok).
            if \<not> ok then
              bind (failMessage (alreadyDeclared (data p))) (\<lambda>_.
              returnNow NilBinding)
            else
              bind (next' env rec) (\<lambda>_.
              bind get (\<lambda>p.
              if tt p \<noteq> CloseBraceToken then
                bind (fail env ''object binding pattern'' [CloseBraceToken]) (\<lambda>_.
                returnNow NilBinding)
              else fallThrough (list, VarRefB ref))))))
        else
          flowBind (objectBindingItem env rec decl) (\<lambda>item.
          bind get (\<lambda>p.
          if tt p = CommaToken then
            bind (next' env rec) (\<lambda>_.
            rObjectBindingLoop rec decl (list @ [item]))
          else if tt p \<noteq> CloseBraceToken then
            bind (fail env ''object binding pattern'' [CommaToken, CloseBraceToken]) (\<lambda>_.
            returnNow NilBinding)
          else rObjectBindingLoop rec decl (list @ [item]))))
     else fallThrough (list, NilBinding))"

definition parseBinding :: "'l env \<Rightarrow> 'l recs \<Rightarrow> DeclType \<Rightarrow> (IBinding, 'l) M" where
  "parseBinding env rec decl = bind get (\<lambda>p.
     if IsIdentifier env (tt p) \<or> \<not> generator p \<and> tt p = YieldToken \<or> \<not> async p \<and> tt p = AwaitToken then
       bind (scopeDeclare env decl (data p)) (\<lambda>(ref, ok).
       if \<not> ok then
         bind (failMessage (alreadyDeclared (data p))) (\<lambda>_.
         return (VarRefB ref))
       else
         bind (next' env rec) (\<lambda>_.
         return (VarRefB ref)))
     else if tt p = OpenBracketToken then
       bind (next' env rec) (\<lambda>_.
       bind get (\<lambda>p.
       flowEnd (arrayBindingLoop env rec decl (if tt p = CommaToken then [BindingElement0] else []))
         (\<lambda>(list, rest).
            bind (next' env rec) (\<lambda>_.
            return (BindingArray list rest)))))
     else if tt p = OpenBraceToken then
       bind (next' env rec) (\<lambda>_.
       flowEnd (objectBindingLoop env rec decl [])
         (\<lambda>(list, rest).
            bind (next' env rec) (\<lambda>_.
            return (BindingObject list rest))))
     else
       bind (fail env ''binding'' []) (\<lambda>_.
       return NilBinding))"

definition varDeclLoop :: "'l env \<Rightarrow> 'l recs \<Rightarrow> DeclType \<Rightarrow> BindingElement list \<Rightarrow> (BindingElement list, 'l) M" where
  "varDeclLoop env rec declType list =
     bind (parseBindingElement env rec declType) (\<lambda>element.
     bind get (\<lambda>p.
     if tt p = CommaToken then
       bind (next' env rec) (\<lambda>_.
       rVarDeclLoop rec declType (list @ [element]))
     else return (list @ [element])))"

definition parseVarDecl :: "'l env \<Rightarrow> 'l recs \<Rightarrow> TokenType \<Rightarrow> (VarDecl, 'l) M" where
  "parseVarDecl env rec t =
     bind (varDeclLoop env rec (if t = VarToken then VariableDecl else LexicalDecl) []) (\<lambda>list.
     return (VarDecl t list))"

subsection \<open>Parameters, blocks, functions, classes and methods\<close>

definition funcParamsLoop ::
  "'l env \<Rightarrow> 'l recs \<Rightarrow> string \<Rightarrow> BindingElement list \<Rightarrow> ((Params, BindingElement list) flow, 'l) M" where
  \<comment> \<open>\<open>for p.tt != CloseParenToken && p.tt != ErrorToken { ... }\<close>; yields \<open>params.List\<close>, or
      returns the parameters with their rest element\<close>
  "funcParamsLoop env rec inn list = bind get (\<lambda>p.
     if tt p \<noteq> CloseParenToken \<and> tt p \<noteq> ErrorToken then
       (if tt p = EllipsisToken then
          bind (next' env rec) (\<lambda>_.
          bind (rBinding rec ArgumentDecl) (\<lambda>rest.
          bind (consume env rec inn CloseParenToken) (\<lambda>_.
          returnNow (Params list rest))))
        else
          bind (parseBindingElement env rec ArgumentDecl) (\<lambda>element.
          bind get (\<lambda>p.
          if tt p \<noteq> CommaToken then fallThrough (list @ [element])
          else
            bind (next' env rec) (\<lambda>_.
            rFuncParamsLoop rec inn (list @ [element])))))
     else fallThrough list)"

definition parseFuncParams :: "'l env \<Rightarrow> 'l recs \<Rightarrow> string \<Rightarrow> (Params, 'l) M" where
  "parseFuncParams env rec inn =
     bind (consume env rec inn OpenParenToken) (\<lambda>ok.
     if \<not> ok then return Params0
     else
       flowEnd (funcParamsLoop env rec inn []) (\<lambda>list.
       bind get (\<lambda>p.
       if tt p \<noteq> CloseParenToken then
         bind (fail env inn []) (\<lambda>_.
         return (Params list NilBinding))
       else
         bind (next' env rec) (\<lambda>_.
         bind (scopeMarkArguments env) (\<lambda>_.
         return (Params list NilBinding))))))"

definition blockLoop :: "'l env \<Rightarrow> 'l recs \<Rightarrow> IStmt list \<Rightarrow> ((IStmt list, IStmt list) flow, 'l) M" where
  \<comment> \<open>the loop of \<open>parseBlockStmt\<close>; yields \<open>blockStmt.List\<close>, at a \<open>return\<close> or after the loop\<close>
  "blockLoop env rec list = bind get (\<lambda>p.
     if tt p = ErrorToken then
       bind (fail env [] []) (\<lambda>_.
       returnNow list)
     else if tt p = CloseBraceToken then
       bind (next' env rec) (\<lambda>_.
       fallThrough list)
     else
       bind (rStmt rec True) (\<lambda>stmt.
       rBlockLoop rec (list @ [stmt])))"

definition parseBlockStmt :: "'l env \<Rightarrow> 'l recs \<Rightarrow> string \<Rightarrow> bool \<Rightarrow> (BlockStmt, 'l) M" where
  "parseBlockStmt env rec inn enterContext =
     bind (if enterContext then bind (enterScope False) (\<lambda>(parent, sc). return (parent, Some sc))
           else return (None, None)) (\<lambda>(parent, sc).
     bind (consume env rec inn OpenBraceToken) (\<lambda>ok.
     if \<not> ok then return (BlockStmt [] sc)
     else
       bind (blockLoop env rec []) (\<lambda>fl.
       case fl of
         Inl list \<Rightarrow> return (BlockStmt list sc)
       | Inr list \<Rightarrow>
           bind (whenM enterContext (exitScope env parent)) (\<lambda>_.
           return (BlockStmt list sc)))))"

definition parseArrowFuncBody :: "'l env \<Rightarrow> 'l recs \<Rightarrow> (BlockStmt, 'l) M" where
  "parseArrowFuncBody env rec = bind get (\<lambda>p.
     if tt p \<noteq> ArrowToken then
       bind (fail env ''arrow function'' [ArrowToken]) (\<lambda>_.
       return BlockStmt0)
     else if prevLT p then
       bind (fail env ''expression'' []) (\<lambda>_.
       return BlockStmt0)
     else
       bind (next' env rec) (\<lambda>_.
       bind (scopeMarkArguments env) (\<lambda>_.
       bind get (\<lambda>p.
       if tt p = OpenBraceToken then parseBlockStmt env rec ''arrow function'' False
       else
         bind (rExpression rec OpAssign) (\<lambda>e.
         return (BlockStmt [ReturnStmt e] None))))))"

definition parseAnyFuncName ::
  "'l env \<Rightarrow> 'l recs \<Rightarrow> bool \<Rightarrow> bool \<Rightarrow> bool \<Rightarrow> ((FuncDecl, bytes \<times> VarRef option) flow, 'l) M" where
  \<comment> \<open>the name of \<open>parseAnyFunc\<close>; yields the local \<open>name\<close> and the field \<open>funcDecl.Name\<close>\<close>
  "parseAnyFuncName env rec async' gen inExpr = bind get (\<lambda>p.
     if inExpr \<and> (IsIdentifier env (tt p) \<or> tt p = YieldToken \<or> tt p = AwaitToken)
        \<or> \<not> inExpr \<and> isIdentifierReference env p (tt p) then
       flowBind (if \<not> inExpr then
                   bind (scopeDeclare env FunctionDecl (data p)) (\<lambda>(ref, ok).
                   if \<not> ok then
                     bind (failMessage (alreadyDeclared (data p))) (\<lambda>_.
                     returnNow (FuncDecl async' gen (Some ref) Params0 BlockStmt0 None))
                   else fallThrough (Some ref))
                 else fallThrough None) (\<lambda>fname.
       bind (next' env rec) (\<lambda>_.
       fallThrough (data p, fname)))
     else if tt p \<noteq> OpenParenToken then
       bind (fail env ''function declaration'' [IdentifierToken, OpenParenToken]) (\<lambda>_.
       returnNow (FuncDecl async' gen None Params0 BlockStmt0 None))
     else fallThrough ([], None))"

definition parseAnyFunc :: "'l env \<Rightarrow> 'l recs \<Rightarrow> bool \<Rightarrow> bool \<Rightarrow> (FuncDecl, 'l) M" where
  "parseAnyFunc env rec async' inExpr =
     bind (next' env rec) (\<lambda>_.
     bind get (\<lambda>p.
     let gen = (tt p = MulToken) in
     bind (whenM gen (next' env rec)) (\<lambda>_.
     flowEnd (parseAnyFuncName env rec async' gen inExpr) (\<lambda>(name, fname).
     bind (enterScope True) (\<lambda>(parent, sc).
     bind get (\<lambda>saved.
     bind (setFlags async' gen) (\<lambda>_.
     bind (if inExpr \<and> name \<noteq> [] then
             bind (scopeDeclare env ExprDecl name) (\<lambda>(ref, _). return (Some ref))
           else return fname) (\<lambda>fname.
     bind (parseFuncParams env rec ''function declaration'') (\<lambda>params.
     bind (parseBlockStmt env rec ''function declaration'' False) (\<lambda>body.
     bind (setFlags (async saved) (generator saved)) (\<lambda>_.
     bind (exitScope env parent) (\<lambda>_.
     return (FuncDecl async' gen fname params body (Some sc))))))))))))))"

definition parseFuncDecl :: "'l env \<Rightarrow> 'l recs \<Rightarrow> (FuncDecl, 'l) M" where
  "parseFuncDecl env rec = parseAnyFunc env rec False False"

definition parseAsyncFuncDecl :: "'l env \<Rightarrow> 'l recs \<Rightarrow> (FuncDecl, 'l) M" where
  "parseAsyncFuncDecl env rec = parseAnyFunc env rec True False"

definition parseFuncExpr :: "'l env \<Rightarrow> 'l recs \<Rightarrow> (FuncDecl, 'l) M" where
  "parseFuncExpr env rec = parseAnyFunc env rec False True"

definition parseAsyncFuncExpr :: "'l env \<Rightarrow> 'l recs \<Rightarrow> (FuncDecl, 'l) M" where
  "parseAsyncFuncExpr env rec = parseAnyFunc env rec True True"

definition parseMethodModifiers ::
  "'l env \<Rightarrow> 'l recs \<Rightarrow> bytes \<Rightarrow> (bool \<times> bool \<times> bool \<times> bool \<times> bytes, 'l) M" where
  \<comment> \<open>the \<open>*\<close>, \<open>async\<close>, \<open>get\<close> and \<open>set\<close> of \<open>parseMethod\<close>; yields \<open>method.Async\<close>,
      \<open>method.Generator\<close>, \<open>method.Get\<close>, \<open>method.Set\<close> and the local \<open>data\<close>\<close>
  "parseMethodModifiers env rec dat = bind get (\<lambda>p.
     if tt p = MulToken then
       bind (next' env rec) (\<lambda>_.
       return (False, True, False, False, dat))
     else if tt p = AsyncToken then
       bind (next' env rec) (\<lambda>_.
       bind get (\<lambda>p'.
       if \<not> prevLT p' then
         (if tt p' = MulToken then
            bind (next' env rec) (\<lambda>_.
            return (True, True, False, False, []))
          else return (True, False, False, False, data p))
       else return (False, False, False, False, data p)))
     else if tt p = GetToken then
       bind (next' env rec) (\<lambda>_.
       return (False, False, True, False, data p))
     else if tt p = SetToken then
       bind (next' env rec) (\<lambda>_.
       return (False, False, False, True, data p))
     else return (False, False, False, False, dat))"

definition parseMethod :: "'l env \<Rightarrow> 'l recs \<Rightarrow> (MethodDecl, 'l) M" where
  "parseMethod env rec = bind get (\<lambda>p.
     bind (if tt p = StaticToken then
             bind (next' env rec) (\<lambda>_. return (True, data p))
           else return (False, [])) (\<lambda>(static, dat).
     bind (parseMethodModifiers env rec dat) (\<lambda>(async', gen, get', set', dat).
     bind get (\<lambda>p.
     bind (if dat \<noteq> [] \<and> tt p = OpenParenToken then
             (if async' \<or> get' \<or> set' then
                return (static, False, gen, False, False, PropertyName IdentifierToken dat NilExpr)
              else return (False, async', gen, get', set', PropertyName IdentifierToken dat NilExpr))
           else
             bind (parsePropertyName env rec ''method definition'') (\<lambda>name.
             return (static, async', gen, get', set', name)))
       (\<lambda>(static, async', gen, get', set', name).
     bind (enterScope True) (\<lambda>(parent, sc).
     bind get (\<lambda>saved.
     bind (setFlags async' gen) (\<lambda>_.
     bind (parseFuncParams env rec ''method definition'') (\<lambda>params.
     bind (parseBlockStmt env rec ''method definition'' False) (\<lambda>body.
     bind (setFlags (async saved) (generator saved)) (\<lambda>_.
     bind (exitScope env parent) (\<lambda>_.
     return (MethodDecl static async' gen get' set' name params body (Some sc))))))))))))))"

definition classLoop :: "'l env \<Rightarrow> 'l recs \<Rightarrow> MethodDecl list \<Rightarrow> ((MethodDecl list, MethodDecl list) flow, 'l) M" where
  \<comment> \<open>the loop of \<open>parseAnyClass\<close>; yields \<open>classDecl.Methods\<close>, at a \<open>return\<close> or after the loop\<close>
  "classLoop env rec methods = bind get (\<lambda>p.
     if tt p = ErrorToken then
       bind (fail env ''class declaration'' []) (\<lambda>_.
       returnNow methods)
     else if tt p = SemicolonToken then
       bind (next' env rec) (\<lambda>_.
       rClassLoop rec methods)
     else if tt p = CloseBraceToken then
       bind (next' env rec) (\<lambda>_.
       fallThrough methods)
     else
       bind (parseMethod env rec) (\<lambda>method.
       rClassLoop rec (methods @ [method])))"

definition parseAnyClassName :: "'l env \<Rightarrow> 'l recs \<Rightarrow> bool \<Rightarrow> ((ClassDecl, VarRef option) flow, 'l) M" where
  \<comment> \<open>the name of \<open>parseAnyClass\<close>; yields \<open>classDecl.Name\<close>\<close>
  "parseAnyClassName env rec inExpr = bind get (\<lambda>p.
     if IsIdentifier env (tt p) \<or> tt p = YieldToken \<or> tt p = AwaitToken then
       flowBind (if \<not> inExpr then
                   bind (scopeDeclare env LexicalDecl (data p)) (\<lambda>(ref, ok).
                   if \<not> ok then
                     bind (failMessage (alreadyDeclared (data p))) (\<lambda>_.
                     returnNow (ClassDecl (Some ref) NilExpr []))
                   else fallThrough (Some ref))
                 else
                   bind (astAddVar env ExprDecl (data p)) (\<lambda>ref.
                   fallThrough (Some ref))) (\<lambda>name.
       bind (next' env rec) (\<lambda>_.
       fallThrough name))
     else fallThrough None)"

definition parseAnyClass :: "'l env \<Rightarrow> 'l recs \<Rightarrow> bool \<Rightarrow> (ClassDecl, 'l) M" where
  "parseAnyClass env rec inExpr =
     bind (next' env rec) (\<lambda>_.
     flowEnd (parseAnyClassName env rec inExpr) (\<lambda>name.
     bind get (\<lambda>p.
     bind (if tt p = ExtendsToken then
             bind (next' env rec) (\<lambda>_.
             rExpression rec OpLHS)
           else return NilExpr) (\<lambda>extends.
     bind (consume env rec ''class declaration'' OpenBraceToken) (\<lambda>ok.
     if \<not> ok then return (ClassDecl name extends [])
     else
       bind (classLoop env rec []) (\<lambda>fl.
       case fl of
         Inl methods \<Rightarrow> return (ClassDecl name extends methods)
       | Inr methods \<Rightarrow> return (ClassDecl name extends methods)))))))"

definition parseClassDecl :: "'l env \<Rightarrow> 'l recs \<Rightarrow> (ClassDecl, 'l) M" where
  "parseClassDecl env rec = parseAnyClass env rec False"

definition parseClassExpr :: "'l env \<Rightarrow> 'l recs \<Rightarrow> (ClassDecl, 'l) M" where
  "parseClassExpr env rec = parseAnyClass env rec True"

subsection \<open>Arrow functions\<close>

definition parseAsyncArrowFunc :: "'l env \<Rightarrow> 'l recs \<Rightarrow> (ArrowFunc, 'l) M" where
  "parseAsyncArrowFunc env rec =
     bind (enterScope True) (\<lambda>(parent, sc).
     bind get (\<lambda>saved.
     bind (setFlags True False) (\<lambda>_.
     bind get (\<lambda>p.
     bind (if IsIdentifier env (tt p) \<or> \<not> generator p \<and> tt p = YieldToken then
             bind (scopeDeclare env ArgumentDecl (data p)) (\<lambda>(ref, _).
             bind (next' env rec) (\<lambda>_.
             return (Params [BindingElement (VarRefB ref) NilExpr] NilBinding)))
           else parseFuncParams env rec ''arrow function'') (\<lambda>params.
     bind (parseArrowFuncBody env rec) (\<lambda>body.
     bind (setFlags (async saved) (generator saved)) (\<lambda>_.
     bind (exitScope env parent) (\<lambda>_.
     return (ArrowFunc True params body (Some sc))))))))))"

definition detachIdentifier :: "'l env \<Rightarrow> VarRef \<Rightarrow> (VarRef, 'l) M" where
  \<comment> \<open>in \<open>parseIdentifierArrowFunc\<close>, from \<open>v := p.ast.Vars[ref]\<close> to the end of the
      \<open>if\<close>; yields the local \<open>ref\<close>.  Indexing \<open>Vars\<close> out of range, slicing the empty
      \<open>Undeclared\<close> to \<open>len - 1\<close> and dereferencing a nil \<open>Parent\<close> panic.\<close>
  "detachIdentifier env ref = bind get (\<lambda>p.
     if \<not> ref < length (Vars (ast p)) then panic
     else
       let v = Vars (ast p) ! ref in
       if 1 < Uses v then
         bind (updVar ref (\<lambda>v. v\<lparr>Uses := Uses v - 1\<rparr>)) (\<lambda>_.
         bind (scopeDeclare env ArgumentDecl (Name v)) (\<lambda>(ref', _).
         return ref'))
       else
         withScope (\<lambda>sc.
         case Parent (Scopes (ast p) sc) of
           None \<Rightarrow> panic
         | Some parent \<Rightarrow>
             if length (Undeclared (Scopes (ast p) parent)) = 0 then panic
             else
               bind (updScope parent (\<lambda>s. s\<lparr>Undeclared := butlast (Undeclared s)\<rparr>)) (\<lambda>_.
               bind (updVar ref (\<lambda>v. v\<lparr>Decl := ArgumentDecl\<rparr>)) (\<lambda>_.
               bind (updScope sc (\<lambda>s. s\<lparr>Declared := Declared s @ [ref]\<rparr>)) (\<lambda>_.
               return ref)))))"

definition parseIdentifierArrowFunc :: "'l env \<Rightarrow> 'l recs \<Rightarrow> VarRef \<Rightarrow> (ArrowFunc, 'l) M" where
  "parseIdentifierArrowFunc env rec ref =
     bind (enterScope True) (\<lambda>(parent, sc).
     bind get (\<lambda>saved.
     bind (setFlags False False) (\<lambda>_.
     bind (detachIdentifier env ref) (\<lambda>ref.
     bind (parseArrowFuncBody env rec) (\<lambda>body.
     bind (setFlags (async saved) (generator saved)) (\<lambda>_.
     bind (exitScope env parent) (\<lambda>_.
     return (ArrowFunc False (Params [BindingElement (VarRefB ref) NilExpr] NilBinding) body (Some sc)))))))))"

text \<open>
  \<open>exprToBinding\<close> and \<open>exprToBindingElement\<close> do not touch the parser state; \<open>None\<close> is
  the panic of the failed type assertion \<open>item.Value.(VarRef)\<close>.  \<open>arrayToBinding\<close> and
  \<open>objectToBinding\<close> are the two \<open>range\<close> loops, with the list built so far.
\<close>

function (sequential) exprToBinding :: "IExpr \<Rightarrow> IBinding option"
  and exprToBindingElement :: "IExpr \<Rightarrow> BindingElement option"
  and arrayToBinding :: "Element list \<Rightarrow> BindingElement list \<Rightarrow> IBinding option"
  and objectToBinding :: "Property list \<Rightarrow> BindingObjectItem list \<Rightarrow> IBinding option"
where
  "exprToBinding (VarRefE ref) = Some (VarRefB ref)"
| "exprToBinding (ArrayExpr list) = arrayToBinding list []"
| "exprToBinding (ObjectExpr list) = objectToBinding list []"
| "exprToBinding _ = Some NilBinding"
| "exprToBindingElement (BinaryExpr op x y) =
     (if op = EqToken then
        (case exprToBinding x of None \<Rightarrow> None | Some binding \<Rightarrow> Some (BindingElement binding y))
      else
        (case exprToBinding (BinaryExpr op x y) of None \<Rightarrow> None
         | Some binding \<Rightarrow> Some (BindingElement binding NilExpr)))"
| "exprToBindingElement expr =
     (case exprToBinding expr of None \<Rightarrow> None | Some binding \<Rightarrow> Some (BindingElement binding NilExpr))"
| "arrayToBinding [] acc = Some (BindingArray acc NilBinding)"
| "arrayToBinding (Element v spread # items) acc =
     (if spread then
        (case exprToBinding v of None \<Rightarrow> None | Some rest \<Rightarrow> Some (BindingArray acc rest))
      else
        (case exprToBindingElement v of None \<Rightarrow> None
         | Some element \<Rightarrow> arrayToBinding items (acc @ [element])))"
| "objectToBinding [] acc = Some (BindingObject acc NilBinding)"
| "objectToBinding (Property name spread v init # items) acc =
     (if spread then
        (case v of VarRefE ref \<Rightarrow> Some (BindingObject acc (VarRefB ref)) | _ \<Rightarrow> None)
      else
        (case exprToBinding v of None \<Rightarrow> None
         | Some binding \<Rightarrow> objectToBinding items (acc @ [BindingObjectItem name (BindingElement binding init)])))"
  by pat_completeness auto
termination
  by (relation "measure (\<lambda>x. case x of
        Inl (Inl e) \<Rightarrow> 2 * size e
      | Inl (Inr e) \<Rightarrow> 2 * size e + 1
      | Inr (Inl (l, acc)) \<Rightarrow> 2 * size_list (size_ElementNode size) l + 1
      | Inr (Inr (l, acc)) \<Rightarrow> 2 * size_list (size_PropertyNode size) l + 1)") auto

fun exprsToBindingElements :: "IExpr list \<Rightarrow> BindingElement list option" where
  \<comment> \<open>\<open>for i, item := range list { arrowFunc.Params.List[i] = p.exprToBindingElement(item) }\<close>\<close>
  "exprsToBindingElements [] = Some []"
| "exprsToBindingElements (item # items) =
     (case exprToBindingElement item of None \<Rightarrow> None
      | Some element \<Rightarrow>
          (case exprsToBindingElements items of None \<Rightarrow> None | Some elements \<Rightarrow> Some (element # elements)))"

subsection \<open>Expressions\<close>

definition asVarRef :: "IExpr \<Rightarrow> VarRef option" where
  \<comment> \<open>the type assertion \<open>ref, ok := left.(VarRef)\<close>\<close>
  "asVarRef e = (case e of VarRefE ref \<Rightarrow> Some ref | _ \<Rightarrow> None)"

definition infixOp ::
  "'l env \<Rightarrow> 'l recs \<Rightarrow> TokenType \<Rightarrow> IExpr \<Rightarrow> OpPrec \<Rightarrow> OpPrec \<Rightarrow> OpPrec \<Rightarrow> OpPrec \<Rightarrow> OpPrec
     \<Rightarrow> ((IExpr, IExpr \<times> OpPrec) flow, 'l) M" where
  \<comment> \<open>the shape shared by the binary operators of \<open>parseExpressionSuffix\<close>:
      \<open>if op < prec { return left } else if precLeft < minLeft { p.fail("expression"); return nil }\<close>,
      \<open>p.next()\<close>, \<open>left = &BinaryExpr{tt, left, p.parseExpression(right)}\<close>, \<open>precLeft = op\<close>\<close>
  "infixOp env rec t left prec precLeft op minLeft right =
     (if op < prec then returnNow left
      else if precLeft < minLeft then
        bind (fail env ''expression'' []) (\<lambda>_.
        returnNow NilExpr)
      else
        bind (next' env rec) (\<lambda>_.
        bind (rExpression rec right) (\<lambda>y.
        fallThrough (BinaryExpr t left y, op))))"

definition postfixOp ::
  "'l env \<Rightarrow> 'l recs \<Rightarrow> TokenType \<Rightarrow> IExpr \<Rightarrow> OpPrec \<Rightarrow> OpPrec \<Rightarrow> ((IExpr, IExpr \<times> OpPrec) flow, 'l) M" where
  \<comment> \<open>the cases \<open>IncrToken\<close> and \<open>DecrToken\<close>, with the token of the resulting \<open>UnaryExpr\<close>\<close>
  "postfixOp env rec post left prec precLeft = bind get (\<lambda>p.
     if prevLT p \<or> OpUpdate < prec then returnNow left
     else if precLeft < OpLHS then
       bind (fail env ''expression'' []) (\<lambda>_.
       returnNow NilExpr)
     else
       bind (next' env rec) (\<lambda>_.
       fallThrough (UnaryExpr post left, OpUpdate)))"

definition optChain :: "'l env \<Rightarrow> 'l recs \<Rightarrow> IExpr \<Rightarrow> OpPrec \<Rightarrow> ((IExpr, IExpr \<times> OpPrec) flow, 'l) M" where
  \<comment> \<open>the case \<open>OptChainToken\<close>\<close>
  "optChain env rec left prec =
     (if OpLHS < prec then returnNow left
      else
        bind (next' env rec) (\<lambda>_.
        bind get (\<lambda>p.
        if tt p = OpenParenToken then
          bind (parseArgs env rec) (\<lambda>args.
          fallThrough (OptChainExpr left (CallExpr NilExpr args), OpLHS))
        else if tt p = OpenBracketToken then
          bind (next' env rec) (\<lambda>_.
          bind (rExpression rec OpExpr) (\<lambda>index.
          bind (consume env rec ''optional chaining expression'' CloseBracketToken) (\<lambda>ok.
          if \<not> ok then returnNow NilExpr
          else fallThrough (OptChainExpr left (IndexExpr NilExpr index), OpLHS))))
        else if tt p = TemplateToken \<or> tt p = TemplateStartToken then
          bind (parseTemplateLiteral env rec) (\<lambda>(list, tail).
          fallThrough (OptChainExpr left (TemplateExpr NilExpr list tail), OpLHS))
        else if IsIdentifierName env (tt p) then
          bind (next' env rec) (\<lambda>_.
          fallThrough (OptChainExpr left (LiteralExpr IdentifierToken (data p)), OpLHS))
        else
          bind (fail env ''optional chaining expression''
                  [IdentifierToken, OpenParenToken, OpenBracketToken, TemplateToken]) (\<lambda>_.
          returnNow NilExpr))))"

definition suffixStep ::
  "'l env \<Rightarrow> 'l recs \<Rightarrow> IExpr \<Rightarrow> OpPrec \<Rightarrow> OpPrec \<Rightarrow> ((IExpr, IExpr \<times> OpPrec) flow, 'l) M" where
  \<comment> \<open>the \<open>switch\<close> of \<open>parseExpressionSuffix\<close>: one round of its loop; yields the new
      \<open>left\<close> and \<open>precLeft\<close>, or returns\<close>
  "suffixStep env rec left prec precLeft = bind get (\<lambda>p.
     let t = tt p in
     if t = EqToken \<or> t = MulEqToken \<or> t = DivEqToken \<or> t = ModEqToken \<or> t = ExpEqToken \<or> t = AddEqToken
        \<or> t = SubEqToken \<or> t = LtLtEqToken \<or> t = GtGtEqToken \<or> t = GtGtGtEqToken \<or> t = BitAndEqToken
        \<or> t = BitXorEqToken \<or> t = BitOrEqToken then
       infixOp env rec t left prec precLeft OpAssign OpLHS OpAssign
     else if t = LtToken \<or> t = LtEqToken \<or> t = GtToken \<or> t = GtEqToken \<or> t = InToken \<or> t = InstanceofToken then
       (if OpCompare < prec \<or> inFor p \<and> t = InToken then returnNow left
        else if precLeft < OpCompare then
          bind (fail env ''expression'' []) (\<lambda>_.
          returnNow NilExpr)
        else
          bind (next' env rec) (\<lambda>_.
          bind (rExpression rec OpShift) (\<lambda>y.
          fallThrough (BinaryExpr t left y, OpCompare))))
     else if t = EqEqToken \<or> t = NotEqToken \<or> t = EqEqEqToken \<or> t = NotEqEqToken then
       infixOp env rec t left prec precLeft OpEquals OpEquals OpCompare
     else if t = AndToken then infixOp env rec t left prec precLeft OpAnd OpAnd OpBitOr
     else if t = OrToken then infixOp env rec t left prec precLeft OpOr OpOr OpAnd
     else if t = NullishToken then
       (if OpCoalesce < prec then returnNow left
        else if precLeft < OpBitOr \<and> precLeft \<noteq> OpCoalesce then
          bind (fail env ''expression'' []) (\<lambda>_.
          returnNow NilExpr)
        else
          bind (next' env rec) (\<lambda>_.
          bind (rExpression rec OpBitOr) (\<lambda>y.
          fallThrough (BinaryExpr t left y, OpCoalesce))))
     else if t = DotToken then
       (if precLeft < OpLHS then
          bind (fail env ''expression'' []) (\<lambda>_.
          returnNow NilExpr)
        else
          bind (next' env rec) (\<lambda>_.
          bind get (\<lambda>p.
          if \<not> IsIdentifierName env (tt p) then
            bind (fail env ''dot expression'' [IdentifierToken]) (\<lambda>_.
            returnNow NilExpr)
          else
            bind (next' env rec) (\<lambda>_.
            fallThrough (DotExpr left IdentifierToken (data p), OpMember)))))
     else if t = OpenBracketToken then
       (if precLeft < OpLHS then
          bind (fail env ''expression'' []) (\<lambda>_.
          returnNow NilExpr)
        else
          bind (next' env rec) (\<lambda>_.
          bind (rExpression rec OpExpr) (\<lambda>index.
          bind (consume env rec ''index expression'' CloseBracketToken) (\<lambda>ok.
          if \<not> ok then returnNow NilExpr
          else fallThrough (IndexExpr left index, OpMember)))))
     else if t = OpenParenToken then
       (if OpLHS < prec then returnNow left
        else if precLeft < OpLHS then
          bind (fail env ''expression'' []) (\<lambda>_.
          returnNow NilExpr)
        else
          bind (parseArgs env rec) (\<lambda>args.
          fallThrough (CallExpr left args, OpLHS)))
     else if t = TemplateToken \<or> t = TemplateStartToken then
       (if precLeft < OpLHS then
          bind (fail env ''expression'' []) (\<lambda>_.
          returnNow NilExpr)
        else
          bind (parseTemplateLiteral env rec) (\<lambda>(list, tail).
          fallThrough (TemplateExpr left list tail, OpMember)))
     else if t = OptChainToken then optChain env rec left prec
     else if t = IncrToken then postfixOp env rec PostIncrToken left prec precLeft
     else if t = DecrToken then postfixOp env rec PostDecrToken left prec precLeft
     else if t = ExpToken then infixOp env rec t left prec precLeft OpExp OpUpdate OpExp
     else if t = MulToken \<or> t = DivToken \<or> t = ModToken then infixOp env rec t left prec precLeft OpMul OpMul OpExp
     else if t = AddToken \<or> t = SubToken then infixOp env rec t left prec precLeft OpAdd OpAdd OpMul
     else if t = LtLtToken \<or> t = GtGtToken \<or> t = GtGtGtToken then
       infixOp env rec t left prec precLeft OpShift OpShift OpAdd
     else if t = BitAndToken then infixOp env rec t left prec precLeft OpBitAnd OpBitAnd OpEquals
     else if t = BitXorToken then infixOp env rec t left prec precLeft OpBitXor OpBitXor OpBitAnd
     else if t = BitOrToken then infixOp env rec t left prec precLeft OpBitOr OpBitOr OpBitXor
     else if t = QuestionToken then
       (if OpAssign < prec then returnNow left
        else if precLeft < OpCoalesce then
          bind (fail env ''expression'' []) (\<lambda>_.
          returnNow NilExpr)
        else
          bind (next' env rec) (\<lambda>_.
          bind (rExpression rec OpAssign) (\<lambda>ifExpr.
          bind (consume env rec ''conditional expression'' ColonToken) (\<lambda>ok.
          if \<not> ok then returnNow NilExpr
          else
            bind (rExpression rec OpAssign) (\<lambda>elseExpr.
            fallThrough (CondExpr left ifExpr elseExpr, OpAssign))))))
     else if t = CommaToken then
       (if OpExpr < prec then returnNow left
        else
          bind (next' env rec) (\<lambda>_.
          bind (rExpression rec OpAssign) (\<lambda>y.
          fallThrough (BinaryExpr t left y, OpExpr))))
     else if t = ArrowToken then
       (if OpAssign < prec then returnNow left
        else if precLeft < OpPrimary then
          bind (fail env ''expression'' []) (\<lambda>_.
          returnNow NilExpr)
        else
          case asVarRef left of
            None \<Rightarrow>
              bind (fail env ''expression'' []) (\<lambda>_.
              returnNow NilExpr)
          | Some ref \<Rightarrow>
              bind (parseIdentifierArrowFunc env rec ref) (\<lambda>arrowFunc.
              fallThrough (ArrowFuncE arrowFunc, OpAssign)))
     else returnNow left)"

definition parseExpressionSuffix :: "'l env \<Rightarrow> 'l recs \<Rightarrow> IExpr \<Rightarrow> OpPrec \<Rightarrow> OpPrec \<Rightarrow> (IExpr, 'l) M" where
  \<comment> \<open>one round of the loop, then the loop again\<close>
  "parseExpressionSuffix env rec left prec precLeft =
     flowEnd (suffixStep env rec left prec precLeft) (\<lambda>(left, precLeft).
     rExpressionSuffix rec left prec precLeft)"

definition parseIdentifierExpression :: "'l env \<Rightarrow> 'l recs \<Rightarrow> OpPrec \<Rightarrow> bytes \<Rightarrow> (IExpr, 'l) M" where
  "parseIdentifierExpression env rec prec ident =
     bind (scopeUse env ident) (\<lambda>ref.
     parseExpressionSuffix env rec (VarRefE ref) prec OpPrimary)"

definition parseAsyncExpression :: "'l env \<Rightarrow> 'l recs \<Rightarrow> OpPrec \<Rightarrow> bytes \<Rightarrow> (IExpr, 'l) M" where
  "parseAsyncExpression env rec prec async' = bind get (\<lambda>p.
     flowEnd
       (if \<not> prevLT p \<and> tt p = FunctionToken then
          bind (parseAsyncFuncExpr env rec) (\<lambda>funcDecl.
          fallThrough (FuncDeclE funcDecl, OpPrimary))
        else if \<not> prevLT p \<and> prec \<le> OpAssign
                \<and> (tt p = OpenParenToken \<or> IsIdentifier env (tt p) \<or> \<not> generator p \<and> tt p = YieldToken
                     \<or> tt p = AwaitToken) then
          (if tt p = AwaitToken then
             bind (fail env ''arrow function'' []) (\<lambda>_.
             returnNow NilExpr)
           else
             bind (parseAsyncArrowFunc env rec) (\<lambda>arrowFunc.
             fallThrough (ArrowFuncE arrowFunc, OpAssign)))
        else
          bind (scopeUse env async') (\<lambda>ref.
          fallThrough (VarRefE ref, OpPrimary)))
       (\<lambda>(left, precLeft). parseExpressionSuffix env rec left prec precLeft))"

definition parseAssignmentExpression :: "'l env \<Rightarrow> 'l recs \<Rightarrow> (IExpr, 'l) M" where
  "parseAssignmentExpression env rec = bind get (\<lambda>p.
     if assumeArrowFunc p \<and> IsIdentifier env (tt p) then
       bind (next' env rec) (\<lambda>_.
       bind get (\<lambda>p'.
       if tt p' = EqToken \<or> tt p' = CommaToken \<or> tt p' = CloseParenToken \<or> tt p' = CloseBraceToken
          \<or> tt p' = CloseBracketToken then
         bind (scopeDeclare env ArgumentDecl (data p)) (\<lambda>(ref, _).
         parseExpressionSuffix env rec (VarRefE ref) OpAssign OpPrimary)
       else
         bind (setAssumeArrowFunc False) (\<lambda>_.
         if tt p = AsyncToken then parseAsyncExpression env rec OpAssign (data p)
         else parseIdentifierExpression env rec OpAssign (data p))))
     else
       bind (whenM (tt p \<noteq> OpenBracketToken \<and> tt p \<noteq> OpenBraceToken) (setAssumeArrowFunc False)) (\<lambda>_.
       rExpression rec OpAssign))"

definition arrayLiteralLoop :: "'l env \<Rightarrow> 'l recs \<Rightarrow> Element list \<Rightarrow> bool \<Rightarrow> (Element list, 'l) M" where
  \<comment> \<open>the loop of \<open>parseArrayLiteral\<close> with its locals \<open>array.List\<close> and \<open>prevComma\<close>;
      yields \<open>array.List\<close>, at the \<open>return\<close> or after the loop\<close>
  "arrayLiteralLoop env rec list prevComma = bind get (\<lambda>p.
     if tt p = ErrorToken then
       bind (fail env ''expression'' []) (\<lambda>_.
       return list)
     else if tt p = CloseBracketToken then
       bind (next' env rec) (\<lambda>_.
       return list)
     else if tt p = CommaToken then
       bind (next' env rec) (\<lambda>_.
       rArrayLiteralLoop rec (if prevComma then list @ [Element NilExpr False] else list) True)
     else
       (let spread = (tt p = EllipsisToken) in
        bind (whenM spread (next' env rec)) (\<lambda>_.
        bind (parseAssignmentExpression env rec) (\<lambda>e.
        bind get (\<lambda>p.
        bind (whenM (spread \<and> tt p \<noteq> CloseBracketToken) (setAssumeArrowFunc False)) (\<lambda>_.
        rArrayLiteralLoop rec (list @ [Element e spread]) False))))))"

definition parseArrayLiteral :: "'l env \<Rightarrow> 'l recs \<Rightarrow> (IExpr, 'l) M" where
  "parseArrayLiteral env rec =
     bind (next' env rec) (\<lambda>_.
     bind (arrayLiteralLoop env rec [] True) (\<lambda>list.
     return (ArrayExpr list)))"

definition objectMethodModifiers ::
  "'l env \<Rightarrow> 'l recs \<Rightarrow> (bool \<times> bool \<times> bool \<times> bool \<times> PropertyName \<times> bytes, 'l) M" where
  \<comment> \<open>the \<open>*\<close>, \<open>async\<close>, \<open>get\<close> and \<open>set\<close> of a property of \<open>parseObjectLiteral\<close>; yields
      \<open>method.Async\<close>, \<open>method.Generator\<close>, \<open>method.Get\<close>, \<open>method.Set\<close>, \<open>method.Name\<close> and the
      local \<open>data\<close>\<close>
  "objectMethodModifiers env rec = bind get (\<lambda>p.
     if tt p = MulToken then
       bind (next' env rec) (\<lambda>_.
       return (False, True, False, False, PropertyName0, []))
     else if tt p = AsyncToken then
       bind (next' env rec) (\<lambda>_.
       bind get (\<lambda>p'.
       if \<not> prevLT p' then
         (if tt p' = MulToken then
            bind (next' env rec) (\<lambda>_.
            return (True, True, False, False, PropertyName0, []))
          else return (True, False, False, False, PropertyName0, data p))
       else return (False, False, False, False, PropertyName IdentifierToken (data p) NilExpr, [])))
     else if tt p = GetToken then
       bind (next' env rec) (\<lambda>_.
       return (False, False, True, False, PropertyName0, data p))
     else if tt p = SetToken then
       bind (next' env rec) (\<lambda>_.
       return (False, False, False, True, PropertyName0, data p))
     else return (False, False, False, False, PropertyName0, []))"

definition objectPropertyName ::
  "'l env \<Rightarrow> 'l recs \<Rightarrow> bool \<times> bool \<times> bool \<times> bool \<times> PropertyName \<times> bytes
     \<Rightarrow> ((unit, bool \<times> bool \<times> bool \<times> PropertyName) flow, 'l) M" where
  \<comment> \<open>the part \<open>// PropertyName\<close> of a property; yields \<open>method.Async\<close>, \<open>method.Get\<close>,
      \<open>method.Set\<close> and \<open>method.Name\<close>\<close>
  "objectPropertyName env rec = (\<lambda>(async', gen, get', set', name, dat). bind get (\<lambda>p.
     if dat \<noteq> [] \<and> \<not> gen
        \<and> (tt p = EqToken \<or> tt p = CommaToken \<or> tt p = CloseBraceToken \<or> tt p = ColonToken
             \<or> tt p = OpenParenToken) then
       fallThrough (False, False, False, PropertyName IdentifierToken dat NilExpr)
     else if \<not> IsSet env name then
       bind (parsePropertyName env rec ''object literal'') (\<lambda>name.
       if \<not> IsSet env name then returnNow ()
       else fallThrough (async', get', set', name))
     else fallThrough (async', get', set', name)))"

definition objectPropertyValue ::
  "'l env \<Rightarrow> 'l recs \<Rightarrow> bool \<Rightarrow> bool \<times> bool \<times> bool \<times> PropertyName \<Rightarrow> ((unit, Property) flow, 'l) M" where
  \<comment> \<open>the rest of a property that is not a spread: a method definition, a name with a
      value, or an identifier reference\<close>
  "objectPropertyValue env rec gen = (\<lambda>(async', get', set', name). bind get (\<lambda>p.
     if tt p = OpenParenToken then
       bind (enterScope True) (\<lambda>(parent, sc).
       bind get (\<lambda>saved.
       bind (setFlags async' gen) (\<lambda>_.
       bind (parseFuncParams env rec ''method definition'') (\<lambda>params.
       bind (parseBlockStmt env rec ''method definition'' False) (\<lambda>body.
       bind (setFlags (async saved) (generator saved)) (\<lambda>_.
       bind (exitScope env parent) (\<lambda>_.
       bind (setAssumeArrowFunc False) (\<lambda>_.
       fallThrough (Property PropertyName0 False
                      (MethodDeclE (MethodDecl False async' gen get' set' name params body (Some sc)))
                      NilExpr)))))))))
     else if tt p = ColonToken then
       bind (next' env rec) (\<lambda>_.
       bind (parseAssignmentExpression env rec) (\<lambda>v.
       fallThrough (Property name False v NilExpr)))
     else if IsComputed env name \<or> \<not> isIdentifierReference env p (LiteralTokenType name) then
       bind (fail env ''object literal'' [ColonToken, OpenParenToken]) (\<lambda>_.
       returnNow ())
     else
       bind (if assumeArrowFunc p then
               bind (scopeDeclare env ArgumentDecl (LiteralData name)) (\<lambda>(ref, _). return ref)
             else scopeUse env (LiteralData name)) (\<lambda>ref.
       bind get (\<lambda>p.
       if tt p = EqToken then
         bind (next' env rec) (\<lambda>_.
         bind (rExpression rec OpAssign) (\<lambda>init.
         fallThrough (Property name False (VarRefE ref) init)))
       else fallThrough (Property name False (VarRefE ref) NilExpr)))))"

definition objectProperty :: "'l env \<Rightarrow> 'l recs \<Rightarrow> ((unit, Property) flow, 'l) M" where
  \<comment> \<open>one \<open>property\<close> of \<open>parseObjectLiteral\<close>, from \<open>property := Property{}\<close> up to the
      \<open>append\<close>; a \<open>return\<close> here leaves the object with the list built so far\<close>
  "objectProperty env rec = bind get (\<lambda>p.
     if tt p = EllipsisToken then
       bind (next' env rec) (\<lambda>_.
       bind (parseAssignmentExpression env rec) (\<lambda>v.
       bind get (\<lambda>p.
       bind (whenM (tt p \<noteq> CloseBraceToken) (setAssumeArrowFunc False)) (\<lambda>_.
       fallThrough (Property PropertyName0 True v NilExpr)))))
     else
       bind (objectMethodModifiers env rec) (\<lambda>m.
       flowBind (objectPropertyName env rec m) (objectPropertyValue env rec (fst (snd m)))))"

definition objectLiteralLoop :: "'l env \<Rightarrow> 'l recs \<Rightarrow> Property list \<Rightarrow> (Property list, 'l) M" where
  \<comment> \<open>the loop of \<open>parseObjectLiteral\<close>; yields \<open>object.List\<close>, at a \<open>return\<close> or after the loop\<close>
  "objectLiteralLoop env rec list = bind get (\<lambda>p.
     if tt p = ErrorToken then
       bind (fail env ''object literal'' [CloseBraceToken]) (\<lambda>_.
       return list)
     else if tt p = CloseBraceToken then
       bind (next' env rec) (\<lambda>_.
       return list)
     else
       bind (objectProperty env rec) (\<lambda>fl.
       case fl of
         Inl _ \<Rightarrow> return list
       | Inr property \<Rightarrow>
           bind get (\<lambda>p.
           if tt p = CommaToken then
             bind (next' env rec) (\<lambda>_.
             rObjectLiteralLoop rec (list @ [property]))
           else if tt p \<noteq> CloseBraceToken then
             bind (fail env ''object literal'' []) (\<lambda>_.
             return (list @ [property]))
           else rObjectLiteralLoop rec (list @ [property]))))"

definition parseObjectLiteral :: "'l env \<Rightarrow> 'l recs \<Rightarrow> (IExpr, 'l) M" where
  "parseObjectLiteral env rec =
     bind (next' env rec) (\<lambda>_.
     bind (objectLiteralLoop env rec []) (\<lambda>list.
     return (ObjectExpr list)))"

definition parenLoop :: "'l env \<Rightarrow> 'l recs \<Rightarrow> IExpr list \<Rightarrow> (IExpr list \<times> IBinding, 'l) M" where
  \<comment> \<open>the loop of \<open>parseParenthesizedExpressionOrArrowFunc\<close>; yields \<open>list\<close> and \<open>rest\<close>\<close>
  "parenLoop env rec list = bind get (\<lambda>p.
     if tt p \<noteq> CloseParenToken \<and> tt p \<noteq> ErrorToken then
       (if tt p = EllipsisToken \<and> assumeArrowFunc p then
          bind (next' env rec) (\<lambda>_.
          bind (rBinding rec ArgumentDecl) (\<lambda>rest.
          return (list, rest)))
        else
          bind (parseAssignmentExpression env rec) (\<lambda>e.
          bind get (\<lambda>p.
          if tt p \<noteq> CommaToken then return (list @ [e], NilBinding)
          else
            bind (next' env rec) (\<lambda>_.
            rParenLoop rec (list @ [e])))))
     else return (list, NilBinding))"

definition commaList :: "IExpr list \<Rightarrow> IExpr" where
  \<comment> \<open>\<open>left = list[0]; for _, item := range list[1:] { left = &BinaryExpr{CommaToken, left, item} }\<close>,
      for a list that is not empty\<close>
  "commaList list = foldl (\<lambda>left item. BinaryExpr CommaToken left item) (hd list) (tl list)"

definition parenDecide ::
  "'l env \<Rightarrow> 'l recs \<Rightarrow> addr option \<Rightarrow> addr \<Rightarrow> bool \<Rightarrow> IExpr list \<Rightarrow> IBinding
     \<Rightarrow> ((IExpr, IExpr \<times> OpPrec) flow, 'l) M" where
  \<comment> \<open>\<open>parseParenthesizedExpressionOrArrowFunc\<close> after the closing parenthesis, from
      \<open>if p.tt == ArrowToken && p.assumeArrowFunc\<close> to the end of that \<open>if\<close>; takes \<open>parent\<close>, the
      address of \<open>arrowFunc.Scope\<close>, \<open>parentAssumeArrowFunc\<close>, \<open>list\<close> and \<open>rest\<close>; yields \<open>left\<close>
      and \<open>precLeft\<close>, or returns\<close>
  "parenDecide env rec parent sc parentAssumeArrowFunc list rest = bind get (\<lambda>p.
     if tt p = ArrowToken \<and> assumeArrowFunc p then
       bind (setFlags False False) (\<lambda>_.
       case exprsToBindingElements list of
         None \<Rightarrow> panic
       | Some elements \<Rightarrow>
           bind (parseArrowFuncBody env rec) (\<lambda>body.
           bind (setFlags (async p) (generator p)) (\<lambda>_.
           bind (setAssumeArrowFunc parentAssumeArrowFunc) (\<lambda>_.
           bind (exitScope env parent) (\<lambda>_.
           fallThrough (ArrowFuncE (ArrowFunc False (Params elements rest) body (Some sc)), OpAssign))))))
     else if length list = 0 \<or> rest \<noteq> NilBinding then
       bind (fail env ''arrow function'' [ArrowToken]) (\<lambda>_.
       returnNow NilExpr)
     else
       bind (setAssumeArrowFunc parentAssumeArrowFunc) (\<lambda>_.
       bind (exitScope env parent) (\<lambda>_.
       bind (astUndeclareScope env sc) (\<lambda>_.
       fallThrough (GroupExpr (commaList list), OpPrimary)))))"

definition parseParenthesizedExpressionOrArrowFunc :: "'l env \<Rightarrow> 'l recs \<Rightarrow> OpPrec \<Rightarrow> (IExpr, 'l) M" where
  "parseParenthesizedExpressionOrArrowFunc env rec prec =
     bind (next' env rec) (\<lambda>_.
     bind (enterScope True) (\<lambda>(parent, sc).
     bind get (\<lambda>saved.
     bind (setAssumeArrowFunc True) (\<lambda>_.
     bind (parenLoop env rec []) (\<lambda>(list, rest).
     bind get (\<lambda>p.
     if tt p \<noteq> CloseParenToken then
       bind (fail env ''expression'' []) (\<lambda>_.
       return NilExpr)
     else
       bind (next' env rec) (\<lambda>_.
       flowEnd (parenDecide env rec parent sc (assumeArrowFunc saved) list rest) (\<lambda>(left, precLeft).
       parseExpressionSuffix env rec left prec precLeft))))))))"

definition prefixOp ::
  "'l env \<Rightarrow> 'l recs \<Rightarrow> TokenType \<Rightarrow> OpPrec \<Rightarrow> OpPrec \<Rightarrow> ((IExpr, IExpr \<times> OpPrec) flow, 'l) M" where
  \<comment> \<open>the shape shared by the prefix operators of \<open>parseExpression\<close>:
      \<open>if limit < prec { p.fail("expression"); return nil }\<close>, \<open>p.next()\<close>,
      \<open>left = &UnaryExpr{op, p.parseExpression(OpUnary)}\<close>, \<open>precLeft = OpUnary\<close>\<close>
  "prefixOp env rec op limit prec =
     (if limit < prec then
        bind (fail env ''expression'' []) (\<lambda>_.
        returnNow NilExpr)
      else
        bind (next' env rec) (\<lambda>_.
        bind (rExpression rec OpUnary) (\<lambda>x.
        fallThrough (UnaryExpr op x, OpUnary))))"

definition parseNew :: "'l env \<Rightarrow> 'l recs \<Rightarrow> ((IExpr, IExpr \<times> OpPrec) flow, 'l) M" where
  \<comment> \<open>the case \<open>NewToken\<close>\<close>
  "parseNew env rec =
     bind (next' env rec) (\<lambda>_.
     bind get (\<lambda>p.
     if tt p = DotToken then
       bind (next' env rec) (\<lambda>_.
       bind (consume env rec ''new.target expression'' TargetToken) (\<lambda>ok.
       if \<not> ok then returnNow NilExpr
       else fallThrough (NewTargetExpr, OpMember)))
     else
       bind (rExpression rec OpMember) (\<lambda>x.
       bind get (\<lambda>p.
       if tt p = OpenParenToken then
         bind (parseArgs env rec) (\<lambda>args.
         fallThrough (NewExpr x (if length (ArgsList args) \<noteq> 0 \<or> ArgsRest args \<noteq> NilExpr then Some args else None),
                      OpMember))
       else fallThrough (NewExpr x None, OpLHS)))))"

definition parseImportExpr :: "'l env \<Rightarrow> 'l recs \<Rightarrow> OpPrec \<Rightarrow> ((IExpr, IExpr \<times> OpPrec) flow, 'l) M" where
  \<comment> \<open>the case \<open>ImportToken\<close>\<close>
  "parseImportExpr env rec prec = bind get (\<lambda>p.
     bind (next' env rec) (\<lambda>_.
     bind get (\<lambda>p'.
     if tt p' = DotToken then
       bind (next' env rec) (\<lambda>_.
       bind (consume env rec ''import.meta expression'' MetaToken) (\<lambda>ok.
       if \<not> ok then returnNow NilExpr
       else fallThrough (ImportMetaExpr, OpMember)))
     else if tt p' \<noteq> OpenParenToken then
       bind (fail env ''import expression'' [OpenParenToken]) (\<lambda>_.
       returnNow NilExpr)
     else if OpLHS < prec then
       bind (fail env ''expression'' []) (\<lambda>_.
       returnNow NilExpr)
     else fallThrough (LiteralExpr (tt p) (data p), OpLHS))))"

definition parseSuper :: "'l env \<Rightarrow> 'l recs \<Rightarrow> OpPrec \<Rightarrow> ((IExpr, IExpr \<times> OpPrec) flow, 'l) M" where
  \<comment> \<open>the case \<open>SuperToken\<close>\<close>
  "parseSuper env rec prec = bind get (\<lambda>p.
     bind (next' env rec) (\<lambda>_.
     bind get (\<lambda>p'.
     if OpLHS < prec \<and> tt p' \<noteq> DotToken \<and> tt p' \<noteq> OpenBracketToken then
       bind (fail env ''super expression'' [OpenBracketToken, DotToken]) (\<lambda>_.
       returnNow NilExpr)
     else if tt p' \<noteq> DotToken \<and> tt p' \<noteq> OpenBracketToken \<and> tt p' \<noteq> OpenParenToken then
       bind (fail env ''super expression'' [OpenBracketToken, OpenParenToken, DotToken]) (\<lambda>_.
       returnNow NilExpr)
     else fallThrough (LiteralExpr (tt p) (data p), if OpLHS < prec then OpMember else OpLHS))))"

definition parseYield :: "'l env \<Rightarrow> 'l recs \<Rightarrow> OpPrec \<Rightarrow> ((IExpr, IExpr \<times> OpPrec) flow, 'l) M" where
  \<comment> \<open>the case \<open>YieldToken\<close>\<close>
  "parseYield env rec prec = bind get (\<lambda>p.
     if generator p \<and> prec \<le> OpAssign then
       bind (next' env rec) (\<lambda>_.
       bind get (\<lambda>p.
       if \<not> prevLT p then
         (let gen = (tt p = MulToken) in
          bind (whenM gen (next' env rec)) (\<lambda>_.
          bind (rExpression rec OpAssign) (\<lambda>x.
          fallThrough (YieldExpr gen x, OpAssign))))
       else fallThrough (YieldExpr False NilExpr, OpAssign)))
     else if generator p then
       bind (fail env ''expression'' []) (\<lambda>_.
       returnNow NilExpr)
     else
       bind (scopeUse env (data p)) (\<lambda>ref.
       bind (next' env rec) (\<lambda>_.
       fallThrough (VarRefE ref, OpPrimary))))"

definition parseAwait :: "'l env \<Rightarrow> 'l recs \<Rightarrow> OpPrec \<Rightarrow> ((IExpr, IExpr \<times> OpPrec) flow, 'l) M" where
  \<comment> \<open>the case \<open>AwaitToken\<close>\<close>
  "parseAwait env rec prec = bind get (\<lambda>p.
     if async p \<and> prec \<le> OpUnary then
       bind (next' env rec) (\<lambda>_.
       bind (rExpression rec OpUnary) (\<lambda>x.
       fallThrough (UnaryExpr AwaitToken x, OpUnary)))
     else if async p then
       bind (fail env ''expression'' []) (\<lambda>_.
       returnNow NilExpr)
     else
       bind (scopeUse env (data p)) (\<lambda>ref.
       bind (next' env rec) (\<lambda>_.
       fallThrough (VarRefE ref, OpPrimary))))"

definition parsePrimary :: "'l env \<Rightarrow> 'l recs \<Rightarrow> OpPrec \<Rightarrow> ((IExpr, IExpr \<times> OpPrec) flow, 'l) M" where
  \<comment> \<open>the \<open>switch\<close> of \<open>parseExpression\<close>; yields \<open>left\<close> and \<open>precLeft\<close>, or returns\<close>
  "parsePrimary env rec prec = bind get (\<lambda>p.
     let t = tt p in
     if t = StringToken \<or> t = ThisToken \<or> t = NullToken \<or> t = TrueToken \<or> t = FalseToken \<or> t = RegExpToken then
       bind (next' env rec) (\<lambda>_.
       fallThrough (LiteralExpr (tt p) (data p), OpPrimary))
     else if t = OpenBracketToken then
       bind (parseArrayLiteral env rec) (\<lambda>array.
       fallThrough (array, OpPrimary))
     else if t = OpenBraceToken then
       bind (parseObjectLiteral env rec) (\<lambda>object.
       fallThrough (object, OpPrimary))
     else if t = OpenParenToken then
       (if OpAssign < prec then
          bind (next' env rec) (\<lambda>_.
          bind (rExpression rec OpExpr) (\<lambda>x.
          bind (consume env rec ''expression'' CloseParenToken) (\<lambda>ok.
          if \<not> ok then returnNow NilExpr
          else fallThrough (GroupExpr x, OpPrimary))))
        else
          bind (parseParenthesizedExpressionOrArrowFunc env rec prec) (\<lambda>e.
          returnNow e))
     else if t = NotToken \<or> t = BitNotToken \<or> t = TypeofToken \<or> t = VoidToken \<or> t = DeleteToken then
       prefixOp env rec t OpUnary prec
     else if t = AddToken then prefixOp env rec PosToken OpUnary prec
     else if t = SubToken then prefixOp env rec NegToken OpUnary prec
     else if t = IncrToken then prefixOp env rec PreIncrToken OpUpdate prec
     else if t = DecrToken then prefixOp env rec PreDecrToken OpUpdate prec
     else if t = AwaitToken then parseAwait env rec prec
     else if t = NewToken then parseNew env rec
     else if t = ImportToken then parseImportExpr env rec prec
     else if t = SuperToken then parseSuper env rec prec
     else if t = YieldToken then parseYield env rec prec
     else if t = AsyncToken then
       bind (next' env rec) (\<lambda>_.
       bind (parseAsyncExpression env rec prec (data p)) (\<lambda>left.
       fallThrough (left, OpPrimary)))
     else if t = ClassToken then
       bind (parseClassExpr env rec) (\<lambda>classDecl.
       fallThrough (ClassDeclE classDecl, OpPrimary))
     else if t = FunctionToken then
       bind (parseFuncExpr env rec) (\<lambda>funcDecl.
       fallThrough (FuncDeclE funcDecl, OpPrimary))
     else if t = TemplateToken \<or> t = TemplateStartToken then
       bind (parseTemplateLiteral env rec) (\<lambda>(list, tail).
       fallThrough (TemplateExpr NilExpr list tail, OpPrimary))
     else
       bind (fail env ''expression'' []) (\<lambda>_.
       returnNow NilExpr))"

definition relexRegExp :: "'l env \<Rightarrow> ((IExpr, unit) flow, 'l) M" where
  \<comment> \<open>the start of \<open>parseExpression\<close>: a \<open>/\<close> or \<open>/=\<close> at the beginning of an expression is
      read again as a regular expression\<close>
  "relexRegExp env = bind get (\<lambda>p.
     if tt p = DivToken \<or> tt p = DivEqToken then
       bind (lexRegExp env) (\<lambda>_.
       bind get (\<lambda>p.
       if tt p = ErrorToken then
         bind (fail env ''regular expression'' []) (\<lambda>_.
         returnNow NilExpr)
       else fallThrough ()))
     else fallThrough ())"

definition parseOperand :: "'l env \<Rightarrow> 'l recs \<Rightarrow> OpPrec \<Rightarrow> (IExpr, 'l) M" where
  \<comment> \<open>\<open>parseExpression\<close> after its first \<open>if\<close>, from \<open>var left IExpr\<close> on\<close>
  "parseOperand env rec prec = bind get (\<lambda>p.
     if IsIdentifier env (tt p) \<and> tt p \<noteq> AsyncToken then
       bind (scopeUse env (data p)) (\<lambda>ref.
       bind (next' env rec) (\<lambda>_.
       parseExpressionSuffix env rec (VarRefE ref) prec OpPrimary))
     else if IsNumeric env (tt p) then
       bind (next' env rec) (\<lambda>_.
       parseExpressionSuffix env rec (LiteralExpr (tt p) (data p)) prec OpPrimary)
     else
       flowEnd (parsePrimary env rec prec) (\<lambda>(left, precLeft).
       parseExpressionSuffix env rec left prec precLeft))"

definition parseExpression :: "'l env \<Rightarrow> 'l recs \<Rightarrow> OpPrec \<Rightarrow> (IExpr, 'l) M" where
  "parseExpression env rec prec =
     flowEnd (relexRegExp env) (\<lambda>_.
     parseOperand env rec prec)"

subsection \<open>Statements\<close>

definition endOfStatement :: "'l Parser \<Rightarrow> bool" where
  \<comment> \<open>the negation of \<open>!p.prevLT && p.tt != SemicolonToken && p.tt != CloseBraceToken && p.tt != ErrorToken\<close>\<close>
  "endOfStatement p \<longleftrightarrow>
     \<not> (\<not> prevLT p \<and> tt p \<noteq> SemicolonToken \<and> tt p \<noteq> CloseBraceToken \<and> tt p \<noteq> ErrorToken)"

definition checkEnd :: "'l env \<Rightarrow> string \<Rightarrow> IStmt \<Rightarrow> ((IStmt, IStmt) flow, 'l) M" where
  \<comment> \<open>\<open>if !p.prevLT && p.tt != SemicolonToken && ... { p.fail(in); return }\<close> after \<open>stmt\<close> is set\<close>
  "checkEnd env inn stmt = bind get (\<lambda>p.
     if \<not> endOfStatement p then
       bind (fail env inn []) (\<lambda>_.
       returnNow stmt)
     else fallThrough stmt)"

definition parseStmtVar :: "'l env \<Rightarrow> 'l recs \<Rightarrow> bool \<Rightarrow> ((IStmt, IStmt) flow, 'l) M" where
  \<comment> \<open>the case \<open>ConstToken, VarToken\<close>\<close>
  "parseStmtVar env rec allowDeclaration = bind get (\<lambda>p.
     if \<not> allowDeclaration \<and> tt p = ConstToken then
       bind (fail env ''statement'' []) (\<lambda>_.
       returnNow NilStmt)
     else
       bind (next' env rec) (\<lambda>_.
       bind (parseVarDecl env rec (tt p)) (\<lambda>varDecl.
       checkEnd env (if tt p = ConstToken then ''const declaration'' else ''var statement'') (VarDeclS varDecl))))"

definition parseStmtLet :: "'l env \<Rightarrow> 'l recs \<Rightarrow> bool \<Rightarrow> ((IStmt, IStmt) flow, 'l) M" where
  \<comment> \<open>the case \<open>LetToken\<close>\<close>
  "parseStmtLet env rec allowDeclaration = bind get (\<lambda>p.
     bind (next' env rec) (\<lambda>_.
     bind get (\<lambda>p'.
     if allowDeclaration \<and> (IsIdentifier env (tt p') \<or> tt p' = YieldToken \<or> tt p' = AwaitToken
                              \<or> tt p' = OpenBracketToken \<or> tt p' = OpenBraceToken) then
       bind (parseVarDecl env rec (tt p)) (\<lambda>varDecl.
       checkEnd env ''let declaration'' (VarDeclS varDecl))
     else
       bind (parseIdentifierExpression env rec OpExpr (data p)) (\<lambda>e.
       checkEnd env ''expression'' (ExprStmt e)))))"

definition parseStmtIf :: "'l env \<Rightarrow> 'l recs \<Rightarrow> ((IStmt, IStmt) flow, 'l) M" where
  \<comment> \<open>the case \<open>IfToken\<close>\<close>
  "parseStmtIf env rec =
     bind (next' env rec) (\<lambda>_.
     bind (consume env rec ''if statement'' OpenParenToken) (\<lambda>ok.
     if \<not> ok then returnNow NilStmt
     else
       bind (rExpression rec OpExpr) (\<lambda>cond.
       bind (consume env rec ''if statement'' CloseParenToken) (\<lambda>ok.
       if \<not> ok then returnNow NilStmt
       else
         bind (rStmt rec False) (\<lambda>body.
         bind get (\<lambda>p.
         bind (if tt p = ElseToken then
                 bind (next' env rec) (\<lambda>_.
                 rStmt rec False)
               else return NilStmt) (\<lambda>elseBody.
         fallThrough (IfStmt cond body elseBody))))))))"

definition parseStmtBranch :: "'l env \<Rightarrow> 'l recs \<Rightarrow> ((IStmt, IStmt) flow, 'l) M" where
  \<comment> \<open>the case \<open>ContinueToken, BreakToken\<close>\<close>
  "parseStmtBranch env rec = bind get (\<lambda>p.
     bind (next' env rec) (\<lambda>_.
     bind get (\<lambda>p'.
     if \<not> prevLT p' \<and> isIdentifierReference env p' (tt p') then
       bind (next' env rec) (\<lambda>_.
       fallThrough (BranchStmt (tt p) (data p')))
     else fallThrough (BranchStmt (tt p) []))))"

definition parseStmtReturn :: "'l env \<Rightarrow> 'l recs \<Rightarrow> ((IStmt, IStmt) flow, 'l) M" where
  \<comment> \<open>the case \<open>ReturnToken\<close>\<close>
  "parseStmtReturn env rec =
     bind (next' env rec) (\<lambda>_.
     bind get (\<lambda>p.
     if \<not> prevLT p \<and> tt p \<noteq> SemicolonToken \<and> tt p \<noteq> CloseBraceToken \<and> tt p \<noteq> ErrorToken then
       bind (rExpression rec OpExpr) (\<lambda>v.
       fallThrough (ReturnStmt v))
     else fallThrough (ReturnStmt NilExpr)))"

definition parseStmtWith :: "'l env \<Rightarrow> 'l recs \<Rightarrow> ((IStmt, IStmt) flow, 'l) M" where
  \<comment> \<open>the case \<open>WithToken\<close>\<close>
  "parseStmtWith env rec =
     bind (next' env rec) (\<lambda>_.
     bind (consume env rec ''with statement'' OpenParenToken) (\<lambda>ok.
     if \<not> ok then returnNow NilStmt
     else
       bind (rExpression rec OpExpr) (\<lambda>cond.
       bind (consume env rec ''with statement'' CloseParenToken) (\<lambda>ok.
       if \<not> ok then returnNow NilStmt
       else
         bind (rStmt rec False) (\<lambda>body.
         fallThrough (WithStmt cond body))))))"

definition parseStmtDo :: "'l env \<Rightarrow> 'l recs \<Rightarrow> ((IStmt, IStmt) flow, 'l) M" where
  \<comment> \<open>the case \<open>DoToken\<close>; \<open>stmt\<close> is \<open>&DoWhileStmt{}\<close> from the start\<close>
  "parseStmtDo env rec =
     bind (next' env rec) (\<lambda>_.
     bind (rStmt rec False) (\<lambda>body.
     bind (consume env rec ''do-while statement'' WhileToken) (\<lambda>ok.
     if \<not> ok then returnNow (DoWhileStmt NilExpr NilStmt)
     else
       bind (consume env rec ''do-while statement'' OpenParenToken) (\<lambda>ok.
       if \<not> ok then returnNow (DoWhileStmt NilExpr NilStmt)
       else
         bind (rExpression rec OpExpr) (\<lambda>cond.
         bind (consume env rec ''do-while statement'' CloseParenToken) (\<lambda>ok.
         if \<not> ok then returnNow (DoWhileStmt cond body)
         else fallThrough (DoWhileStmt cond body)))))))"

definition parseStmtWhile :: "'l env \<Rightarrow> 'l recs \<Rightarrow> ((IStmt, IStmt) flow, 'l) M" where
  \<comment> \<open>the case \<open>WhileToken\<close>\<close>
  "parseStmtWhile env rec =
     bind (next' env rec) (\<lambda>_.
     bind (consume env rec ''while statement'' OpenParenToken) (\<lambda>ok.
     if \<not> ok then returnNow NilStmt
     else
       bind (rExpression rec OpExpr) (\<lambda>cond.
       bind (consume env rec ''while statement'' CloseParenToken) (\<lambda>ok.
       if \<not> ok then returnNow NilStmt
       else
         bind (rStmt rec False) (\<lambda>body.
         fallThrough (WhileStmt cond body))))))"

definition parseForInit :: "'l env \<Rightarrow> 'l recs \<Rightarrow> (IExpr, 'l) M" where
  \<comment> \<open>in the case \<open>ForToken\<close>, from \<open>var init IExpr\<close> to \<open>p.inFor = false\<close>; yields \<open>init\<close>\<close>
  "parseForInit env rec =
     bind (setInFor True) (\<lambda>_.
     bind get (\<lambda>p.
     bind (if tt p = VarToken \<or> tt p = LetToken \<or> tt p = ConstToken then
             bind (next' env rec) (\<lambda>_.
             bind (parseVarDecl env rec (tt p)) (\<lambda>varDecl.
             return (VarDeclE varDecl)))
           else if tt p \<noteq> SemicolonToken then rExpression rec OpExpr
           else return NilExpr) (\<lambda>init.
     bind (setInFor False) (\<lambda>_.
     return init))))"

definition parseForRest :: "'l env \<Rightarrow> 'l recs \<Rightarrow> bool \<Rightarrow> IExpr \<Rightarrow> ((IStmt, IStmt) flow, 'l) M" where
  \<comment> \<open>in the case \<open>ForToken\<close>, from \<open>if p.tt == SemicolonToken\<close> to the end of the case, with the
      locals \<open>await\<close> and \<open>init\<close>\<close>
  "parseForRest env rec await init = bind get (\<lambda>p.
     if tt p = SemicolonToken then
       (if await then
          bind (fail env ''for statement'' [OfToken]) (\<lambda>_.
          returnNow NilStmt)
        else
          bind (next' env rec) (\<lambda>_.
          bind get (\<lambda>p.
          bind (if tt p \<noteq> SemicolonToken then rExpression rec OpExpr else return NilExpr) (\<lambda>cond.
          bind (consume env rec ''for statement'' SemicolonToken) (\<lambda>ok.
          if \<not> ok then returnNow NilStmt
          else
            bind get (\<lambda>p.
            bind (if tt p \<noteq> CloseParenToken then rExpression rec OpExpr else return NilExpr) (\<lambda>post.
            bind (consume env rec ''for statement'' CloseParenToken) (\<lambda>ok.
            if \<not> ok then returnNow NilStmt
            else
              bind (rStmt rec False) (\<lambda>body.
              fallThrough (ForStmt init cond post body))))))))))
     else if tt p = InToken then
       (if await then
          bind (fail env ''for statement'' [OfToken]) (\<lambda>_.
          returnNow NilStmt)
        else
          bind (next' env rec) (\<lambda>_.
          bind (rExpression rec OpExpr) (\<lambda>v.
          bind (consume env rec ''for statement'' CloseParenToken) (\<lambda>ok.
          if \<not> ok then returnNow NilStmt
          else
            bind (rStmt rec False) (\<lambda>body.
            fallThrough (ForInStmt init v body))))))
     else if tt p = OfToken then
       bind (next' env rec) (\<lambda>_.
       bind (rExpression rec OpAssign) (\<lambda>v.
       bind (consume env rec ''for statement'' CloseParenToken) (\<lambda>ok.
       if \<not> ok then returnNow NilStmt
       else
         bind (rStmt rec False) (\<lambda>body.
         fallThrough (ForOfStmt await init v body)))))
     else
       bind (fail env ''for statement'' [InToken, OfToken, SemicolonToken]) (\<lambda>_.
       returnNow NilStmt))"

definition parseStmtFor :: "'l env \<Rightarrow> 'l recs \<Rightarrow> ((IStmt, IStmt) flow, 'l) M" where
  \<comment> \<open>the case \<open>ForToken\<close>\<close>
  "parseStmtFor env rec =
     bind (next' env rec) (\<lambda>_.
     bind get (\<lambda>p.
     let await = (async p \<and> tt p = AwaitToken) in
     bind (whenM await (next' env rec)) (\<lambda>_.
     bind (consume env rec ''for statement'' OpenParenToken) (\<lambda>ok.
     if \<not> ok then returnNow NilStmt
     else
       bind (parseForInit env rec) (\<lambda>init.
       parseForRest env rec await init)))))"

definition caseStmtsLoop :: "'l env \<Rightarrow> 'l recs \<Rightarrow> IStmt list \<Rightarrow> (IStmt list, 'l) M" where
  \<comment> \<open>the loop over the statements of one case clause\<close>
  "caseStmtsLoop env rec stmts = bind get (\<lambda>p.
     if tt p \<noteq> CaseToken \<and> tt p \<noteq> DefaultToken \<and> tt p \<noteq> CloseBraceToken \<and> tt p \<noteq> ErrorToken then
       bind (rStmt rec True) (\<lambda>stmt.
       rCaseStmtsLoop rec (stmts @ [stmt]))
     else return stmts)"

definition switchLoop :: "'l env \<Rightarrow> 'l recs \<Rightarrow> CaseClause list \<Rightarrow> ((IStmt, CaseClause list) flow, 'l) M" where
  \<comment> \<open>the loop over the case clauses; yields \<open>clauses\<close>, or returns (\<open>stmt\<close> is still nil then)\<close>
  "switchLoop env rec clauses = bind get (\<lambda>p.
     if tt p = ErrorToken then
       bind (fail env ''switch statement'' []) (\<lambda>_.
       returnNow NilStmt)
     else if tt p = CloseBraceToken then
       bind (next' env rec) (\<lambda>_.
       fallThrough clauses)
     else
       flowBind (if tt p = CaseToken then
                   bind (next' env rec) (\<lambda>_.
                   bind (rExpression rec OpExpr) (\<lambda>list.
                   fallThrough list))
                 else if tt p = DefaultToken then
                   bind (next' env rec) (\<lambda>_.
                   fallThrough NilExpr)
                 else
                   bind (fail env ''switch statement'' [CaseToken, DefaultToken]) (\<lambda>_.
                   returnNow NilStmt)) (\<lambda>list.
       bind (consume env rec ''switch statement'' ColonToken) (\<lambda>ok.
       if \<not> ok then returnNow NilStmt
       else
         bind (caseStmtsLoop env rec []) (\<lambda>stmts.
         rSwitchLoop rec (clauses @ [CaseClause (tt p) list stmts])))))"

definition parseStmtSwitch :: "'l env \<Rightarrow> 'l recs \<Rightarrow> ((IStmt, IStmt) flow, 'l) M" where
  \<comment> \<open>the case \<open>SwitchToken\<close>\<close>
  "parseStmtSwitch env rec =
     bind (next' env rec) (\<lambda>_.
     bind (consume env rec ''switch statement'' OpenParenToken) (\<lambda>ok.
     if \<not> ok then returnNow NilStmt
     else
       bind (rExpression rec OpExpr) (\<lambda>init.
       bind (consume env rec ''switch statement'' CloseParenToken) (\<lambda>ok.
       if \<not> ok then returnNow NilStmt
       else
         bind (consume env rec ''switch statement'' OpenBraceToken) (\<lambda>ok.
         if \<not> ok then returnNow NilStmt
         else
           flowBind (switchLoop env rec []) (\<lambda>clauses.
           fallThrough (SwitchStmt init clauses)))))))"

definition parseStmtAsync :: "'l env \<Rightarrow> 'l recs \<Rightarrow> bool \<Rightarrow> ((IStmt, IStmt) flow, 'l) M" where
  \<comment> \<open>the case \<open>AsyncToken\<close>\<close>
  "parseStmtAsync env rec allowDeclaration = bind get (\<lambda>p.
     if \<not> allowDeclaration then
       bind (fail env ''statement'' []) (\<lambda>_.
       returnNow NilStmt)
     else
       bind (next' env rec) (\<lambda>_.
       bind get (\<lambda>p'.
       if tt p' = FunctionToken \<and> \<not> prevLT p' then
         bind (parseAsyncFuncDecl env rec) (\<lambda>funcDecl.
         fallThrough (FuncDeclS funcDecl))
       else
         bind (parseAsyncExpression env rec OpExpr (data p)) (\<lambda>e.
         checkEnd env ''expression'' (ExprStmt e)))))"

definition parseStmtTry :: "'l env \<Rightarrow> 'l recs \<Rightarrow> ((IStmt, IStmt) flow, 'l) M" where
  \<comment> \<open>the case \<open>TryToken\<close>\<close>
  "parseStmtTry env rec =
     bind (next' env rec) (\<lambda>_.
     bind (parseBlockStmt env rec ''try statement'' True) (\<lambda>body.
     bind get (\<lambda>p.
     flowBind
       (if tt p = CatchToken then
          bind (next' env rec) (\<lambda>_.
          bind (enterScope False) (\<lambda>(parent, sc).
          bind get (\<lambda>p.
          flowBind (if tt p = OpenParenToken then
                      bind (next' env rec) (\<lambda>_.
                      bind (rBinding rec LexicalDecl) (\<lambda>binding.
                      bind (consume env rec ''try-catch statement'' CloseParenToken) (\<lambda>ok.
                      if \<not> ok then returnNow NilStmt
                      else fallThrough binding)))
                    else fallThrough NilBinding) (\<lambda>binding.
          bind (parseBlockStmt env rec ''try-catch statement'' False) (\<lambda>block.
          bind (exitScope env parent) (\<lambda>_.
          fallThrough (binding, BlockStmt (BlockList block) (Some sc))))))))
        else fallThrough (NilBinding, BlockStmt0)) (\<lambda>(binding, catch).
     bind get (\<lambda>p.
     bind (if tt p = FinallyToken then
             bind (next' env rec) (\<lambda>_.
             parseBlockStmt env rec ''try-finally statement'' True)
           else return BlockStmt0) (\<lambda>finally'.
     fallThrough (TryStmt body binding catch finally')))))))"

definition parseStmtDefault :: "'l env \<Rightarrow> 'l recs \<Rightarrow> ((IStmt, IStmt) flow, 'l) M" where
  \<comment> \<open>the case \<open>default\<close>\<close>
  "parseStmtDefault env rec = bind get (\<lambda>p.
     if isIdentifierReference env p (tt p) then
       bind (next' env rec) (\<lambda>_.
       bind get (\<lambda>p'.
       if tt p' = ColonToken then
         bind (next' env rec) (\<lambda>_.
         bind (rStmt rec True) (\<lambda>stmt.
         fallThrough (LabelledStmt (data p) stmt)))
       else
         bind (parseIdentifierExpression env rec OpExpr (data p)) (\<lambda>e.
         checkEnd env ''expression'' (ExprStmt e))))
     else
       bind (rExpression rec OpExpr) (\<lambda>e.
       checkEnd env ''expression'' (ExprStmt e)))"

definition parseStmt :: "'l env \<Rightarrow> 'l recs \<Rightarrow> bool \<Rightarrow> (IStmt, 'l) M" where
  "parseStmt env rec allowDeclaration = bind get (\<lambda>p.
     let t = tt p in
     flowEnd
       (if t = OpenBraceToken then
          bind (parseBlockStmt env rec ''block statement'' True) (\<lambda>blockStmt.
          fallThrough (BlockStmtS blockStmt))
        else if t = ConstToken \<or> t = VarToken then parseStmtVar env rec allowDeclaration
        else if t = LetToken then parseStmtLet env rec allowDeclaration
        else if t = IfToken then parseStmtIf env rec
        else if t = ContinueToken \<or> t = BreakToken then parseStmtBranch env rec
        else if t = ReturnToken then parseStmtReturn env rec
        else if t = WithToken then parseStmtWith env rec
        else if t = DoToken then parseStmtDo env rec
        else if t = WhileToken then parseStmtWhile env rec
        else if t = ForToken then parseStmtFor env rec
        else if t = SwitchToken then parseStmtSwitch env rec
        else if t = FunctionToken then
          (if \<not> allowDeclaration then
             bind (fail env ''statement'' []) (\<lambda>_.
             returnNow NilStmt)
           else
             bind (parseFuncDecl env rec) (\<lambda>funcDecl.
             fallThrough (FuncDeclS funcDecl)))
        else if t = AsyncToken then parseStmtAsync env rec allowDeclaration
        else if t = ClassToken then
          (if \<not> allowDeclaration then
             bind (fail env ''statement'' []) (\<lambda>_.
             returnNow NilStmt)
           else
             bind (parseClassDecl env rec) (\<lambda>classDecl.
             fallThrough (ClassDeclS classDecl)))
        else if t = ThrowToken then
          bind (next' env rec) (\<lambda>_.
          bind get (\<lambda>p.
          bind (if \<not> prevLT p then rExpression rec OpExpr else return NilExpr) (\<lambda>v.
          fallThrough (ThrowStmt v))))
        else if t = TryToken then parseStmtTry env rec
        else if t = DebuggerToken then
          bind (next' env rec) (\<lambda>_.
          fallThrough DebuggerStmt)
        else if t = SemicolonToken \<or> t = ErrorToken then fallThrough EmptyStmt
        else parseStmtDefault env rec)
       (\<lambda>stmt.
     bind get (\<lambda>p.
     bind (whenM (tt p = SemicolonToken) (next' env rec)) (\<lambda>_.
     return stmt))))"

subsection \<open>Modules\<close>

definition isBindingIdentifier :: "'l env \<Rightarrow> TokenType \<Rightarrow> bool" where
  \<comment> \<open>\<open>IsIdentifier(p.tt) || p.tt == YieldToken || p.tt == AwaitToken\<close>\<close>
  "isBindingIdentifier env t \<longleftrightarrow> IsIdentifier env t \<or> t = YieldToken \<or> t = AwaitToken"

definition importLoop :: "'l env \<Rightarrow> 'l recs \<Rightarrow> Alias list \<Rightarrow> ((Alias list, Alias list) flow, 'l) M" where
  \<comment> \<open>\<open>for IsIdentifierName(p.tt) { ... }\<close> of \<open>parseImportStmt\<close>; yields \<open>importStmt.List\<close>, at
      a \<open>return\<close> or after the loop\<close>
  "importLoop env rec list = bind get (\<lambda>p.
     if IsIdentifierName env (tt p) then
       bind (next' env rec) (\<lambda>_.
       bind get (\<lambda>p'.
       flowBind (if tt p' = AsToken then
                   bind (next' env rec) (\<lambda>_.
                   bind get (\<lambda>p''.
                   if \<not> IsIdentifier env (tt p'') \<and> tt p'' \<noteq> YieldToken \<and> tt p'' \<noteq> AwaitToken then
                     bind (fail env ''import statement'' [IdentifierToken]) (\<lambda>_.
                     returnNow list)
                   else
                     bind (next' env rec) (\<lambda>_.
                     fallThrough (Alias (data p) (data p'')))))
                 else fallThrough (Alias [] (data p))) (\<lambda>alias.
       bind get (\<lambda>p.
       if tt p = CommaToken then
         bind (next' env rec) (\<lambda>_.
         bind get (\<lambda>p.
         if tt p = CloseBraceToken then fallThrough (list @ [alias, Alias [] []])
         else rImportLoop rec (list @ [alias])))
       else rImportLoop rec (list @ [alias])))))
     else fallThrough list)"

definition parseImportStmt :: "'l env \<Rightarrow> 'l recs \<Rightarrow> (IStmt, 'l) M" where
  "parseImportStmt env rec =
     bind (next' env rec) (\<lambda>_.
     bind get (\<lambda>p.
     flowEnd
       (if tt p = StringToken then
          bind (next' env rec) (\<lambda>_.
          fallThrough (ImportStmt [] [] (data p)))
        else
          bind (if isBindingIdentifier env (tt p) then
                  bind (next' env rec) (\<lambda>_.
                  bind get (\<lambda>p'.
                  bind (whenM (tt p' = CommaToken) (next' env rec)) (\<lambda>_.
                  return (data p))))
                else return []) (\<lambda>default.
          bind get (\<lambda>p.
          flowBind
            (if tt p = MulToken then
               bind (next' env rec) (\<lambda>_.
               bind (consume env rec ''import statement'' AsToken) (\<lambda>ok.
               if \<not> ok then returnNow (ImportStmt [] default [])
               else
                 bind get (\<lambda>p'.
                 if \<not> IsIdentifier env (tt p') \<and> tt p' \<noteq> YieldToken \<and> tt p' \<noteq> AwaitToken then
                   bind (fail env ''import statement'' [IdentifierToken]) (\<lambda>_.
                   returnNow (ImportStmt [] default []))
                 else
                   bind (next' env rec) (\<lambda>_.
                   fallThrough [Alias (data p) (data p')]))))
             else if tt p = OpenBraceToken then
               bind (next' env rec) (\<lambda>_.
               bind (importLoop env rec []) (\<lambda>fl.
               case fl of
                 Inl list \<Rightarrow> returnNow (ImportStmt list default [])
               | Inr list \<Rightarrow>
                   bind (consume env rec ''import statement'' CloseBraceToken) (\<lambda>ok.
                   if \<not> ok then returnNow (ImportStmt list default [])
                   else fallThrough list)))
             else fallThrough []) (\<lambda>list.
          if default = [] \<and> length list = 0 then
            bind (fail env ''import statement'' [StringToken, IdentifierToken, MulToken, OpenBraceToken]) (\<lambda>_.
            returnNow (ImportStmt list default []))
          else
            bind (consume env rec ''import statement'' FromToken) (\<lambda>ok.
            if \<not> ok then returnNow (ImportStmt list default [])
            else
              bind get (\<lambda>p.
              if tt p \<noteq> StringToken then
                bind (fail env ''import statement'' [StringToken]) (\<lambda>_.
                returnNow (ImportStmt list default []))
              else
                bind (next' env rec) (\<lambda>_.
                fallThrough (ImportStmt list default (data p)))))))))
       (\<lambda>stmt.
     bind get (\<lambda>p.
     bind (whenM (tt p = SemicolonToken) (next' env rec)) (\<lambda>_.
     return stmt)))))"

definition exportLoop :: "'l env \<Rightarrow> 'l recs \<Rightarrow> Alias list \<Rightarrow> ((Alias list, Alias list) flow, 'l) M" where
  \<comment> \<open>\<open>for IsIdentifierName(p.tt) { ... }\<close> of \<open>parseExportStmt\<close>\<close>
  "exportLoop env rec list = bind get (\<lambda>p.
     if IsIdentifierName env (tt p) then
       bind (next' env rec) (\<lambda>_.
       bind get (\<lambda>p'.
       flowBind (if tt p' = AsToken then
                   bind (next' env rec) (\<lambda>_.
                   bind get (\<lambda>p''.
                   if \<not> IsIdentifierName env (tt p'') then
                     bind (fail env ''export statement'' [IdentifierToken]) (\<lambda>_.
                     returnNow list)
                   else
                     bind (next' env rec) (\<lambda>_.
                     fallThrough (Alias (data p) (data p'')))))
                 else fallThrough (Alias [] (data p))) (\<lambda>alias.
       bind get (\<lambda>p.
       if tt p = CommaToken then
         bind (next' env rec) (\<lambda>_.
         bind get (\<lambda>p.
         if tt p = CloseBraceToken then fallThrough (list @ [alias, Alias [] []])
         else rExportLoop rec (list @ [alias])))
       else rExportLoop rec (list @ [alias])))))
     else fallThrough list)"

definition parseExportList :: "'l env \<Rightarrow> 'l recs \<Rightarrow> ((IStmt, IStmt) flow, 'l) M" where
  \<comment> \<open>the branch \<open>p.tt == MulToken || p.tt == OpenBraceToken\<close> of \<open>parseExportStmt\<close>\<close>
  "parseExportList env rec = bind get (\<lambda>p.
     flowBind
       (if tt p = MulToken then
          bind (next' env rec) (\<lambda>_.
          bind get (\<lambda>p'.
          flowBind (if tt p' = AsToken then
                      bind (next' env rec) (\<lambda>_.
                      bind get (\<lambda>p''.
                      if \<not> IsIdentifierName env (tt p'') then
                        bind (fail env ''export statement'' [IdentifierToken]) (\<lambda>_.
                        returnNow (ExportStmt [] [] False NilExpr))
                      else
                        bind (next' env rec) (\<lambda>_.
                        fallThrough [Alias (data p) (data p'')])))
                    else fallThrough [Alias [] (data p)]) (\<lambda>list.
          bind get (\<lambda>p.
          if tt p \<noteq> FromToken then
            bind (fail env ''export statement'' [FromToken]) (\<lambda>_.
            returnNow (ExportStmt list [] False NilExpr))
          else fallThrough list))))
        else
          bind (next' env rec) (\<lambda>_.
          bind (exportLoop env rec []) (\<lambda>fl.
          case fl of
            Inl list \<Rightarrow> returnNow (ExportStmt list [] False NilExpr)
          | Inr list \<Rightarrow>
              bind (consume env rec ''export statement'' CloseBraceToken) (\<lambda>ok.
              if \<not> ok then returnNow (ExportStmt list [] False NilExpr)
              else fallThrough list)))) (\<lambda>list.
     bind get (\<lambda>p.
     if tt p = FromToken then
       bind (next' env rec) (\<lambda>_.
       bind get (\<lambda>p.
       if tt p \<noteq> StringToken then
         bind (fail env ''export statement'' [StringToken]) (\<lambda>_.
         returnNow (ExportStmt list [] False NilExpr))
       else
         bind (next' env rec) (\<lambda>_.
         fallThrough (ExportStmt list (data p) False NilExpr))))
     else fallThrough (ExportStmt list [] False NilExpr))))"

definition parseExportDefault :: "'l env \<Rightarrow> 'l recs \<Rightarrow> (IExpr, 'l) M" where
  \<comment> \<open>the branch \<open>p.tt == DefaultToken\<close> of \<open>parseExportStmt\<close>, after \<open>p.next()\<close>; yields
      \<open>exportStmt.Decl\<close>\<close>
  "parseExportDefault env rec = bind get (\<lambda>p.
     if tt p = FunctionToken then
       bind (parseFuncExpr env rec) (\<lambda>funcDecl.
       return (FuncDeclE funcDecl))
     else if tt p = AsyncToken then
       bind (next' env rec) (\<lambda>_.
       bind get (\<lambda>p'.
       if tt p' = FunctionToken \<and> \<not> prevLT p' then
         bind (parseAsyncFuncDecl env rec) (\<lambda>funcDecl.
         return (FuncDeclE funcDecl))
       else parseAsyncExpression env rec OpExpr (data p)))
     else if tt p = ClassToken then
       bind (parseClassDecl env rec) (\<lambda>classDecl.
       return (ClassDeclE classDecl))
     else rExpression rec OpAssign)"

definition parseExportStmt :: "'l env \<Rightarrow> 'l recs \<Rightarrow> (IStmt, 'l) M" where
  "parseExportStmt env rec =
     bind (next' env rec) (\<lambda>_.
     bind get (\<lambda>p.
     flowEnd
       (if tt p = MulToken \<or> tt p = OpenBraceToken then parseExportList env rec
        else if tt p = VarToken \<or> tt p = ConstToken \<or> tt p = LetToken then
          bind (next' env rec) (\<lambda>_.
          bind (parseVarDecl env rec (tt p)) (\<lambda>varDecl.
          fallThrough (ExportStmt [] [] False (VarDeclE varDecl))))
        else if tt p = FunctionToken then
          bind (parseFuncDecl env rec) (\<lambda>funcDecl.
          fallThrough (ExportStmt [] [] False (FuncDeclE funcDecl)))
        else if tt p = AsyncToken then
          bind (next' env rec) (\<lambda>_.
          bind get (\<lambda>p.
          if tt p \<noteq> FunctionToken \<or> prevLT p then
            bind (fail env ''export statement'' [FunctionToken]) (\<lambda>_.
            returnNow (ExportStmt [] [] False NilExpr))
          else
            bind (parseAsyncFuncDecl env rec) (\<lambda>funcDecl.
            fallThrough (ExportStmt [] [] False (FuncDeclE funcDecl)))))
        else if tt p = ClassToken then
          bind (parseClassDecl env rec) (\<lambda>classDecl.
          fallThrough (ExportStmt [] [] False (ClassDeclE classDecl)))
        else if tt p = DefaultToken then
          bind (next' env rec) (\<lambda>_.
          bind (parseExportDefault env rec) (\<lambda>decl.
          fallThrough (ExportStmt [] [] True decl)))
        else
          bind (fail env ''export statement''
                  [MulToken, OpenBraceToken, VarToken, LetToken, ConstToken, FunctionToken, AsyncToken,
                   ClassToken, DefaultToken]) (\<lambda>_.
          returnNow (ExportStmt [] [] False NilExpr)))
       (\<lambda>stmt.
     bind get (\<lambda>p.
     bind (whenM (tt p = SemicolonToken) (next' env rec)) (\<lambda>_.
     return stmt)))))"

definition moduleLoop :: "'l env \<Rightarrow> 'l recs \<Rightarrow> IStmt list \<Rightarrow> (IStmt list, 'l) M" where
  \<comment> \<open>the loop of \<open>parseModule\<close>; yields \<open>module.List\<close> at the \<open>return\<close>\<close>
  "moduleLoop env rec list = bind get (\<lambda>p.
     if tt p = ErrorToken then return list
     else if tt p = ImportToken then
       bind (parseImportStmt env rec) (\<lambda>importStmt.
       rModuleLoop rec (list @ [importStmt]))
     else if tt p = ExportToken then
       bind (parseExportStmt env rec) (\<lambda>exportStmt.
       rModuleLoop rec (list @ [exportStmt]))
     else
       bind (parseStmt env rec True) (\<lambda>stmt.
       rModuleLoop rec (list @ [stmt])))"

definition parseModule :: "'l env \<Rightarrow> 'l recs \<Rightarrow> (BlockStmt, 'l) M" where
  "parseModule env rec =
     bind (enterScope True) (\<lambda>(parent, sc).
     bind (moduleLoop env rec []) (\<lambda>list.
     return (BlockStmt list (Some sc))))"

subsection \<open>The bounded recursion and \<open>Parse\<close>\<close>

text \<open>
  \<open>run n\<close> gives the recursive calls and loops \<open>n\<close> levels of nesting; with none left every
  one of them is \<open>OutOfFuel\<close>.
\<close>

definition noRecs :: "'l recs" where
  "noRecs = \<lparr>rNextLoop = outOfFuel, rStmt = (\<lambda>_. outOfFuel), rBinding = (\<lambda>_. outOfFuel),
     rExpression = (\<lambda>_. outOfFuel), rExpressionSuffix = (\<lambda>_ _ _. outOfFuel),
     rModuleLoop = (\<lambda>_. outOfFuel), rSwitchLoop = (\<lambda>_. outOfFuel), rCaseStmtsLoop = (\<lambda>_. outOfFuel),
     rBlockLoop = (\<lambda>_. outOfFuel), rImportLoop = (\<lambda>_. outOfFuel), rExportLoop = (\<lambda>_. outOfFuel),
     rVarDeclLoop = (\<lambda>_ _. outOfFuel), rFuncParamsLoop = (\<lambda>_ _. outOfFuel), rClassLoop = (\<lambda>_. outOfFuel),
     rElisionLoop = (\<lambda>_. outOfFuel), rArrayBindingLoop = (\<lambda>_ _. outOfFuel),
     rObjectBindingLoop = (\<lambda>_ _. outOfFuel), rArrayLiteralLoop = (\<lambda>_ _. outOfFuel),
     rObjectLiteralLoop = (\<lambda>_. outOfFuel), rArgsLoop = (\<lambda>_. outOfFuel), rParenLoop = (\<lambda>_. outOfFuel)\<rparr>"

definition step :: "'l env \<Rightarrow> 'l recs \<Rightarrow> 'l recs" where
  "step env rec = \<lparr>rNextLoop = nextLoop env rec, rStmt = parseStmt env rec, rBinding = parseBinding env rec,
     rExpression = parseExpression env rec, rExpressionSuffix = parseExpressionSuffix env rec,
     rModuleLoop = moduleLoop env rec, rSwitchLoop = switchLoop env rec, rCaseStmtsLoop = caseStmtsLoop env rec,
     rBlockLoop = blockLoop env rec, rImportLoop = importLoop env rec, rExportLoop = exportLoop env rec,
     rVarDeclLoop = varDeclLoop env rec, rFuncParamsLoop = funcParamsLoop env rec, rClassLoop = classLoop env rec,
     rElisionLoop = elisionLoop env rec, rArrayBindingLoop = arrayBindingLoop env rec,
     rObjectBindingLoop = objectBindingLoop env rec, rArrayLiteralLoop = arrayLiteralLoop env rec,
     rObjectLiteralLoop = objectLiteralLoop env rec, rArgsLoop = argsLoop env rec, rParenLoop = parenLoop env rec\<rparr>"

primrec run :: "nat \<Rightarrow> 'l env \<Rightarrow> 'l recs" where
  "run 0 env = noRecs"
| "run (Suc n) env = step env (run n env)"

definition newParser :: "'l \<Rightarrow> 'l Parser" where
  \<comment> \<open>\<open>&Parser{l: NewLexer(r), tt: WhitespaceToken, ast: newAST()}\<close>, for the lexer over the input\<close>
  "newParser l = \<lparr>lx = l, err = None, tt = WhitespaceToken, data = [], prevLT = False, inFor = False,
     async = False, generator = False, assumeArrowFunc = False, ast = newAST, scope = None\<rparr>"

definition parseBody :: "'l env \<Rightarrow> 'l recs \<Rightarrow> (unit, 'l) M" where
  \<comment> \<open>\<open>Parse\<close> from the first \<open>p.l.Next()\<close> to \<open>p.ast.Module = p.parseModule()\<close>\<close>
  "parseBody env rec =
     bind (lexNext env) (\<lambda>_.
     bind get (\<lambda>p.
     bind (whenM (tt p = CommentToken \<or> tt p = CommentLineTerminatorToken)
             (bind (setComment (data p)) (\<lambda>_.
              next' env rec))) (\<lambda>_.
     bind (parseModule env rec) (\<lambda>module.
     setModule module))))"

definition parseError :: "'l env \<Rightarrow> 'l Parser \<Rightarrow> error option" where
  \<comment> \<open>the end of \<open>Parse\<close>: the returned error.  \<open>parse.NewError\<close> takes the offset
      \<open>p.l.r.Offset() - len(p.data)\<close> and the message \<open>p.err.Error()\<close>.\<close>
  "parseError env p =
     (let e = (case err p of
                 None \<Rightarrow> Err env (lx p)
               | Some e \<Rightarrow> Some (ParseError (int (Offset env (lx p)) - int (length (data p))) (Error e)))
      in if e = Some EOF then None else e)"

definition ParseState :: "'l env \<Rightarrow> nat \<Rightarrow> 'l \<Rightarrow> abort + 'l Parser" where
  \<comment> \<open>the parser state when \<open>Parse\<close> has assigned \<open>p.ast.Module\<close>\<close>
  "ParseState env n l = (case parseBody env (run n env) (newParser l) of Inl a \<Rightarrow> Inl a | Inr (_, p) \<Rightarrow> Inr p)"

definition Parse :: "'l env \<Rightarrow> nat \<Rightarrow> 'l \<Rightarrow> abort + (AST \<times> error option)" where
  \<comment> \<open>\<open>Parse\<close> for the lexer \<open>l\<close> over the input; \<open>n\<close> bounds the nesting of calls and loops\<close>
  "Parse env n l = (case ParseState env n l of Inl a \<Rightarrow> Inl a | Inr p \<Rightarrow> Inr (ast p, parseError env p))"

section \<open>An instance of the parameters\<close>

text \<open>
  The theorems below hold for every \<open>env\<close>.  To run the parser on concrete token streams
  the parameters are instantiated here: a token source that reads a prepared list, a token
  table, and the scope operations.
\<close>

subsection \<open>Token source\<close>

text \<open>
  Modelled from the spec: the Token Source of the spec's section 6 (the package's lexer is
  not among the sources).  \<open>next()\<close> yields one token with its bytes; \<open>relexAsRegex()\<close>
  re-lexes from the boundary before the \<open>/\<close> or \<open>/=\<close> read last; \<open>lastError()\<close> is
  end-of-input once the input is used up.  An item of the stream is a token, or a \<open>/\<close> or
  \<open>/=\<close> token together with the regular expression that starts there and the number of
  following items that it swallows.  \<open>off\<close> is the reader's offset.
\<close>

datatype item = T TokenType bytes | Slash TokenType bytes bytes nat

record exLexer =
  toks :: "item list"
  off :: nat
  relex :: "(bytes \<times> nat) option"
  broken :: bool

definition exNext :: "exLexer \<Rightarrow> (TokenType \<times> bytes) \<times> exLexer" where
  "exNext l =
     (case toks l of
        [] \<Rightarrow> ((ErrorToken, []), l\<lparr>relex := None\<rparr>)
      | T t d # rest \<Rightarrow> ((t, d), l\<lparr>toks := rest, off := off l + length d, relex := None\<rparr>)
      | Slash t d re n # rest \<Rightarrow> ((t, d), l\<lparr>toks := rest, off := off l + length d, relex := Some (re, n)\<rparr>))"

definition exRegExp :: "exLexer \<Rightarrow> (TokenType \<times> bytes) \<times> exLexer" where
  "exRegExp l =
     (case relex l of
        None \<Rightarrow> ((ErrorToken, []), l\<lparr>broken := True\<rparr>)
      | Some (re, n) \<Rightarrow>
          ((RegExpToken, re), l\<lparr>toks := drop n (toks l), off := off l + length re - 1, relex := None\<rparr>))"

definition exErr :: "exLexer \<Rightarrow> error option" where
  "exErr l =
     (if broken l then Some (ParseError (int (off l)) ''unexpected EOF or newline'')
      else if toks l = [] then Some EOF
      else None)"

definition lexer :: "item list \<Rightarrow> exLexer" where
  "lexer items = \<lparr>toks = items, off = 0, relex = None, broken = False\<rparr>"

subsection \<open>Token table\<close>

text \<open>
  Modelled from the spec: the token table is not among the sources.  The spec's closed
  enumeration has keywords, identifiers (with the contextual keywords \<open>let\<close>, \<open>async\<close>, \<open>of\<close>
  and the like, which are plain identifiers elsewhere) and numeric literals; \<open>yield\<close> and
  \<open>await\<close> are not identifiers of the table, the parser admits them by their flags.
\<close>

definition exIsIdentifier :: "TokenType \<Rightarrow> bool" where
  "exIsIdentifier t \<longleftrightarrow> IdentifierToken \<le> t \<and> t \<le> TargetToken"

definition exIsNumeric :: "TokenType \<Rightarrow> bool" where
  "exIsNumeric t \<longleftrightarrow> t = NumericToken \<or> t = DecimalToken"

definition exIsIdentifierName :: "TokenType \<Rightarrow> bool" where
  "exIsIdentifierName t \<longleftrightarrow> exIsIdentifier t \<or> AwaitToken \<le> t \<and> t \<le> WithToken"

definition exTokenString :: "TokenType \<Rightarrow> string" where
  "exTokenString t =
     (if t = ArrowToken then ''=>'' else if t = CloseParenToken then '')''
      else if t = OpenParenToken then ''('' else if t = SemicolonToken then '';''
      else if t = CloseBraceToken then ''}'' else if t = IdentifierToken then ''Identifier''
      else ''token'')"

subsection \<open>Formatting of an error message\<close>

text \<open>
  Package \<open>fmt\<close> is no part of the sources.  \<open>exSprintf\<close> is its reading of a format string
  that no operand follows, after the package's documentation: text up to a \<open>%\<close> is
  printed as it is; after the \<open>%\<close> come flags (\<open>#0+-\<close> and the space), an argument index in
  brackets, a width, a precision after a dot (a \<open>*\<close> for width or precision asks for an
  operand and prints \<open>%!(BADWIDTH)\<close> or \<open>%!(BADPREC)\<close>) and the verb.  The verb \<open>%\<close> prints a
  percent sign; any other verb \<open>v\<close> prints \<open>%!v(BADINDEX)\<close> after an argument index (there is
  no operand that it could name) and \<open>%!v(MISSING)\<close> otherwise; a format that ends before
  the verb prints \<open>%!(NOVERB)\<close>.  A number of more than seven digits ends the reading of
  the format.  The verb is one UTF-8 encoded character; a byte that starts no such
  character prints as the replacement character.
\<close>

definition isFlag :: "char \<Rightarrow> bool" where
  "isFlag c \<longleftrightarrow> c = CHR ''#'' \<or> c = CHR ''0'' \<or> c = CHR ''+'' \<or> c = CHR ''-'' \<or> c = CHR '' ''"

definition isDigit :: "char \<Rightarrow> bool" where
  "isDigit c \<longleftrightarrow> byte CHR ''0'' \<le> byte c \<and> byte c \<le> byte CHR ''9''"

fun parsenum :: "nat \<Rightarrow> bool \<Rightarrow> string \<Rightarrow> bool \<times> string" where
  \<comment> \<open>the number read so far, whether a digit was read, the text; yields whether there is a
      number, and the text after it\<close>
  "parsenum num isnum [] = (isnum, [])"
| "parsenum num isnum (c # cs) =
     (if isDigit c then
        (if 1000000 < num then (False, [])
         else parsenum (num * 10 + (byte c - byte CHR ''0'')) True cs)
      else (isnum, c # cs))"

definition parseArgNumber :: "string \<Rightarrow> nat \<times> bool" where
  \<comment> \<open>for a text that starts with \<open>[\<close>: the width of the index, and whether it is a number
      in brackets\<close>
  "parseArgNumber s =
     (if length s < 3 then (1, False)
      else
        let inner = takeWhile (\<lambda>c. c \<noteq> CHR '']'') (tl s) in
        if length inner = length (tl s) then (1, False)
        else (case parsenum 0 False inner of (isnum, rest) \<Rightarrow> (length inner + 2, isnum \<and> rest = [])))"

definition argNumber :: "string \<Rightarrow> bool \<Rightarrow> string \<times> bool \<times> bool" where
  \<comment> \<open>the text and \<open>goodArgNum\<close>; yields the text after an index, whether an index was found,
      and \<open>goodArgNum\<close>: with no operand every index is out of range\<close>
  "argNumber s good =
     (case s of
        [] \<Rightarrow> (s, False, good)
      | c # cs \<Rightarrow>
          if c = CHR ''['' then (case parseArgNumber s of (wid, ok) \<Rightarrow> (drop wid s, ok, False))
          else (s, False, good))"

definition cont :: "char \<Rightarrow> bool" where
  \<comment> \<open>a continuation byte of UTF-8\<close>
  "cont c \<longleftrightarrow> 128 \<le> byte c \<and> byte c \<le> 191"

definition utf8Len :: "string \<Rightarrow> nat" where
  \<comment> \<open>the length of the UTF-8 encoded character at the start, 0 if there is none\<close>
  "utf8Len s =
     (case s of
        [] \<Rightarrow> 0
      | b0 # r \<Rightarrow>
          let x = byte b0 in
          if x < 128 then 1
          else if 194 \<le> x \<and> x \<le> 223 then
            (case r of b1 # _ \<Rightarrow> if cont b1 then 2 else 0 | _ \<Rightarrow> 0)
          else if 224 \<le> x \<and> x \<le> 239 then
            (case r of
               b1 # b2 # _ \<Rightarrow>
                 if (if x = 224 then 160 else 128) \<le> byte b1 \<and> byte b1 \<le> (if x = 237 then 159 else 191) \<and> cont b2
                 then 3 else 0
             | _ \<Rightarrow> 0)
          else if 240 \<le> x \<and> x \<le> 244 then
            (case r of
               b1 # b2 # b3 # _ \<Rightarrow>
                 if (if x = 240 then 144 else 128) \<le> byte b1 \<and> byte b1 \<le> (if x = 244 then 143 else 191)
                    \<and> cont b2 \<and> cont b3
                 then 4 else 0
             | _ \<Rightarrow> 0)
          else 0)"

definition decodeRune :: "string \<Rightarrow> string \<times> nat" where
  \<comment> \<open>the verb as it is printed, and the number of bytes it takes in the format\<close>
  "decodeRune s =
     (if utf8Len s = 0 then ([CHR 0xEF, CHR 0xBF, CHR 0xBD], 1)
      else (take (utf8Len s) s, utf8Len s))"

definition directive :: "string \<Rightarrow> string \<times> string" where
  \<comment> \<open>for the text after a \<open>%\<close>: what is printed, and the text after the verb\<close>
  "directive s =
     (let s1 = dropWhile isFlag s in
      case argNumber s1 True of (s2, afterIndex, good) \<Rightarrow>
      case (case s2 of
              [] \<Rightarrow> ([], [], afterIndex, good)
            | c # cs \<Rightarrow>
                if c = CHR ''*'' then (''%!(BADWIDTH)'', cs, False, good)
                else (case parsenum 0 False s2 of
                        (widPresent, r) \<Rightarrow> ([], r, afterIndex, good \<and> \<not> (afterIndex \<and> widPresent))))
      of (o3, s3, afterIndex, good) \<Rightarrow>
      case (case s3 of
              [] \<Rightarrow> ([], [], afterIndex, good)
            | c # cs \<Rightarrow>
                if c = CHR ''.'' then
                  (case argNumber cs (good \<and> \<not> afterIndex) of
                     (s', afterIndex', good') \<Rightarrow>
                       (case s' of
                          [] \<Rightarrow> ([], [], afterIndex', good')
                        | c' # cs' \<Rightarrow>
                            if c' = CHR ''*'' then (''%!(BADPREC)'', cs', False, good')
                            else ([], snd (parsenum 0 False s'), afterIndex', good')))
                else ([], s3, afterIndex, good))
      of (o4, s4, afterIndex, good) \<Rightarrow>
      case (if afterIndex then (s4, good)
            else (case argNumber s4 good of (s', found, good') \<Rightarrow> (s', good')))
      of (s5, good) \<Rightarrow>
        if s5 = [] then (o3 @ o4 @ ''%!(NOVERB)'', [])
        else
          (case decodeRune s5 of
             (verb, n) \<Rightarrow>
               (o3 @ o4 @ (if verb = ''%'' then ''%''
                           else if \<not> good then ''%!'' @ verb @ ''(BADINDEX)''
                           else ''%!'' @ verb @ ''(MISSING)''),
                drop n s5)))"

fun fmtFrom :: "nat \<Rightarrow> string \<Rightarrow> string" where
  \<comment> \<open>prints the format; the number counts the bytes in front that a verb has taken\<close>
  "fmtFrom n [] = []"
| "fmtFrom (Suc n) (c # cs) = fmtFrom n cs"
| "fmtFrom 0 (c # cs) =
     (if c = CHR ''%'' then
        (case directive cs of (out, rest) \<Rightarrow> out @ fmtFrom (length cs - length rest) cs)
      else c # fmtFrom 0 cs)"

definition exSprintf :: "string \<Rightarrow> string" where
  "exSprintf msg = fmtFrom 0 msg"

subsection \<open>Scopes and variables\<close>

text \<open>
  Modelled from the spec: the Scope and Binding Resolver of the spec's section 4.1 (the
  file with \<open>Scope\<close>, \<open>Var\<close> and their methods is not among the sources).

  The use count of a variable is the number of places of the tree whose \<open>VarRef\<close> resolves
  to it (the invariant of the spec's sections 3 and 8), the declaring place among them.
  Section 4.1 of the spec leaves the declaring place out; the parser needs it counted: in
  \<open>parseIdentifierArrowFunc\<close> a variable that was just used and has no second use
  \<open>must be undeclared\<close>, which does not hold of \<open>x\<close> in \<open>var x; x => 1\<close> unless its
  declaration counts.
\<close>

definition findVar :: "Var list \<Rightarrow> VarRef list \<Rightarrow> bytes \<Rightarrow> VarRef option" where
  \<comment> \<open>the first reference of the list to a variable of that name\<close>
  "findVar vars refs name = find (\<lambda>r. r < length vars \<and> Name (vars ! r) = name) refs"

definition mapVar :: "VarRef \<Rightarrow> (Var \<Rightarrow> Var) \<Rightarrow> AST \<Rightarrow> AST" where
  "mapVar r f a = a\<lparr>Vars := (Vars a)[r := f (Vars a ! r)]\<rparr>"

definition mapScope :: "addr \<Rightarrow> (Scope \<Rightarrow> Scope) \<Rightarrow> AST \<Rightarrow> AST" where
  "mapScope s f a = a\<lparr>Scopes := (Scopes a)(s := f (Scopes a s))\<rparr>"

definition exAddVar :: "DeclType \<Rightarrow> bytes \<Rightarrow> AST \<Rightarrow> VarRef \<times> AST" where
  \<comment> \<open>a Variable is stored once, in the append-only array, and referred to by its index\<close>
  "exAddVar decl name a = (length (Vars a), a\<lparr>Vars := Vars a @ [\<lparr>Uses = 0, Decl = decl, Name = name\<rparr>]\<rparr>)"

definition exDeclare :: "addr \<Rightarrow> DeclType \<Rightarrow> bytes \<Rightarrow> AST \<Rightarrow> (VarRef \<times> bool) \<times> AST" where
  \<comment> \<open>\<open>declare\<close>: creates or reuses an entry; a lexical or function declaration fails when a
      lexical binding of the name exists in the same scope, a \<open>var\<close> of the same name merges;
      on success the reference is appended to \<open>declared\<close>, and the declaring site is counted\<close>
  "exDeclare s decl name a =
     (let target = (if decl = VariableDecl then (case Func (Scopes a s) of Some f \<Rightarrow> f | None \<Rightarrow> s) else s)
      in case findVar (Vars a) (Declared (Scopes a target)) name of
           Some r \<Rightarrow>
             if (decl = LexicalDecl \<or> decl = FunctionDecl) \<and> Decl (Vars a ! r) = LexicalDecl then ((0, False), a)
             else ((r, True), mapVar r (\<lambda>v. v\<lparr>Uses := Uses v + 1\<rparr>) a)
         | None \<Rightarrow>
             (case exAddVar decl name a of (r, a') \<Rightarrow>
                ((r, True), mapScope target (\<lambda>sc. sc\<lparr>Declared := Declared sc @ [r]\<rparr>)
                              (mapVar r (\<lambda>v. v\<lparr>Uses := 1\<rparr>) a'))))"

fun lookupDeclared :: "nat \<Rightarrow> AST \<Rightarrow> addr \<Rightarrow> bytes \<Rightarrow> VarRef option" where
  \<comment> \<open>walks the scope chain from the innermost scope outward, over at most \<open>n\<close> scopes\<close>
  "lookupDeclared 0 a s name = None"
| "lookupDeclared (Suc n) a s name =
     (case findVar (Vars a) (Declared (Scopes a s)) name of
        Some r \<Rightarrow> Some r
      | None \<Rightarrow> (case Parent (Scopes a s) of None \<Rightarrow> None | Some parent \<Rightarrow> lookupDeclared n a parent name))"

definition exUse :: "addr \<Rightarrow> bytes \<Rightarrow> AST \<Rightarrow> VarRef \<times> AST" where
  \<comment> \<open>\<open>use\<close>: a declared variable found on the chain is returned and its use count
      incremented; otherwise a placeholder is created, or reused, in the \<open>undeclared\<close> list
      of the innermost scope\<close>
  "exUse s name a =
     (case lookupDeclared (NumScopes a) a s name of
        Some r \<Rightarrow> (r, mapVar r (\<lambda>v. v\<lparr>Uses := Uses v + 1\<rparr>) a)
      | None \<Rightarrow>
          (case findVar (Vars a) (Undeclared (Scopes a s)) name of
             Some r \<Rightarrow> (r, mapVar r (\<lambda>v. v\<lparr>Uses := Uses v + 1\<rparr>) a)
           | None \<Rightarrow>
               (case exAddVar NoDecl name a of (r, a') \<Rightarrow>
                  (r, mapScope s (\<lambda>sc. sc\<lparr>Undeclared := Undeclared sc @ [r]\<rparr>)
                        (mapVar r (\<lambda>v. v\<lparr>Uses := 1\<rparr>) a')))))"

definition exHoistUndeclared :: "addr \<Rightarrow> AST \<Rightarrow> AST" where
  \<comment> \<open>\<open>exitScope\<close>: every entry of \<open>undeclared\<close> that no declaration of the scope matches is
      recorded again in the parent's \<open>undeclared\<close>\<close>
  "exHoistUndeclared s a =
     (case Parent (Scopes a s) of
        None \<Rightarrow> a
      | Some parent \<Rightarrow>
          mapScope parent (\<lambda>sc. sc\<lparr>Undeclared := Undeclared sc
             @ filter (\<lambda>r. r < length (Vars a)
                            \<and> findVar (Vars a) (Declared (Scopes a s)) (Name (Vars a ! r)) = None)
                 (Undeclared (Scopes a s))\<rparr>) a)"

definition exUndeclareScope :: "addr \<Rightarrow> AST \<Rightarrow> AST" where
  \<comment> \<open>"undeclare": every variable the scope declared is demoted to an ordinary free-variable
      use and merged into the parent scope; its place in the tree is counted already\<close>
  "exUndeclareScope s a =
     (let declared = Declared (Scopes a s);
          a = foldl (\<lambda>a r. mapVar r (\<lambda>v. v\<lparr>Decl := NoDecl\<rparr>) a) a declared;
          a = mapScope s (\<lambda>sc. sc\<lparr>Declared := []\<rparr>) a
      in case Parent (Scopes a s) of
           None \<Rightarrow> a
         | Some parent \<Rightarrow> mapScope parent (\<lambda>sc. sc\<lparr>Undeclared := Undeclared sc @ declared\<rparr>) a)"

definition exMarkArguments :: "addr \<Rightarrow> AST \<Rightarrow> AST" where
  \<comment> \<open>marks the variables that are undeclared so far as used by the parameters (the
      parser's comment at its two calls)\<close>
  "exMarkArguments s a = mapScope s (\<lambda>sc. sc\<lparr>NumArguments := length (Undeclared sc)\<rparr>) a"

definition exIsComputed :: "PropertyName \<Rightarrow> bool" where
  "exIsComputed n \<longleftrightarrow> Computed n \<noteq> NilExpr"

definition exIsSet :: "PropertyName \<Rightarrow> bool" where
  "exIsSet n \<longleftrightarrow> exIsComputed n \<or> LiteralTokenType n \<noteq> ErrorToken"

definition exEnv :: "exLexer env" where
  "exEnv = \<lparr>Next = exNext, RegExp = exRegExp, Err = exErr, Offset = off,
     IsIdentifier = exIsIdentifier, IsNumeric = exIsNumeric, IsIdentifierName = exIsIdentifierName,
     TokenString = exTokenString, Sprintf = exSprintf,
     Declare = exDeclare, Use = exUse, HoistUndeclared = exHoistUndeclared,
     UndeclareScope = exUndeclareScope, MarkArguments = exMarkArguments, AddVar = exAddVar,
     IsSet = exIsSet, IsComputed = exIsComputed,
     ParseIdentifierName = (\<lambda>b. False), ParseNumericLiteral = (\<lambda>b. (ErrorToken, False))\<rparr>"

section \<open>Notions for the properties\<close>

text \<open>
  \<open>preserves I m\<close>: a run of \<open>m\<close> that returns from a state with \<open>I\<close> ends in a state with \<open>I\<close>.
  \<open>establishes I m\<close>: every run of \<open>m\<close> that returns ends in a state with \<open>I\<close>.
\<close>

definition preserves :: "('l Parser \<Rightarrow> bool) \<Rightarrow> ('a, 'l) M \<Rightarrow> bool" where
  "preserves I m \<longleftrightarrow> (\<forall>p r p'. I p \<longrightarrow> m p = Inr (r, p') \<longrightarrow> I p')"

definition establishes :: "('l Parser \<Rightarrow> bool) \<Rightarrow> ('a, 'l) M \<Rightarrow> bool" where
  "establishes I m \<longleftrightarrow> (\<forall>p r p'. m p = Inr (r, p') \<longrightarrow> I p')"

definition recsPreserve :: "('l Parser \<Rightarrow> bool) \<Rightarrow> 'l recs \<Rightarrow> bool" where
  \<comment> \<open>every recursive call and loop preserves \<open>I\<close>\<close>
  "recsPreserve I rec \<longleftrightarrow>
     preserves I (rNextLoop rec) \<and> (\<forall>a. preserves I (rStmt rec a)) \<and> (\<forall>a. preserves I (rBinding rec a))
     \<and> (\<forall>a. preserves I (rExpression rec a)) \<and> (\<forall>a b c. preserves I (rExpressionSuffix rec a b c))
     \<and> (\<forall>a. preserves I (rModuleLoop rec a)) \<and> (\<forall>a. preserves I (rSwitchLoop rec a))
     \<and> (\<forall>a. preserves I (rCaseStmtsLoop rec a)) \<and> (\<forall>a. preserves I (rBlockLoop rec a))
     \<and> (\<forall>a. preserves I (rImportLoop rec a)) \<and> (\<forall>a. preserves I (rExportLoop rec a))
     \<and> (\<forall>a b. preserves I (rVarDeclLoop rec a b)) \<and> (\<forall>a b. preserves I (rFuncParamsLoop rec a b))
     \<and> (\<forall>a. preserves I (rClassLoop rec a)) \<and> (\<forall>a. preserves I (rElisionLoop rec a))
     \<and> (\<forall>a b. preserves I (rArrayBindingLoop rec a b)) \<and> (\<forall>a b. preserves I (rObjectBindingLoop rec a b))
     \<and> (\<forall>a b. preserves I (rArrayLiteralLoop rec a b)) \<and> (\<forall>a. preserves I (rObjectLiteralLoop rec a))
     \<and> (\<forall>a. preserves I (rArgsLoop rec a)) \<and> (\<forall>a. preserves I (rParenLoop rec a))"

definition errIs :: "error \<Rightarrow> 'l Parser \<Rightarrow> bool" where
  \<comment> \<open>the error \<open>e\<close> is recorded\<close>
  "errIs e p \<longleftrightarrow> err p = Some e"

definition flagsAre :: "bool \<Rightarrow> bool \<Rightarrow> 'l Parser \<Rightarrow> bool" where
  \<comment> \<open>the async and generator flags have these values\<close>
  "flagsAre a g p \<longleftrightarrow> async p = a \<and> generator p = g"

definition keepsOthers :: "('l Parser \<Rightarrow> bool) \<Rightarrow> bool" where
  \<comment> \<open>\<open>I\<close> looks at nothing but the recorded error and the two flags\<close>
  "keepsOthers I \<longleftrightarrow>
     (\<forall>p q. err q = err p \<longrightarrow> async q = async p \<longrightarrow> generator q = generator p \<longrightarrow> I p \<longrightarrow> I q)"

text \<open>
  A result that the counter did not cut short stays the same with a larger counter:
  \<open>refines m m'\<close> says so for two computations, \<open>recsRefine\<close> for all recursive calls and loops.
\<close>

definition refines :: "('a, 'l) M \<Rightarrow> ('a, 'l) M \<Rightarrow> bool" where
  "refines m m' \<longleftrightarrow> (\<forall>p. m p \<noteq> Inl OutOfFuel \<longrightarrow> m' p = m p)"

definition recsRefine :: "'l recs \<Rightarrow> 'l recs \<Rightarrow> bool" where
  "recsRefine rec rec' \<longleftrightarrow>
     refines (rNextLoop rec) (rNextLoop rec') \<and> (\<forall>a. refines (rStmt rec a) (rStmt rec' a))
     \<and> (\<forall>a. refines (rBinding rec a) (rBinding rec' a)) \<and> (\<forall>a. refines (rExpression rec a) (rExpression rec' a))
     \<and> (\<forall>a b c. refines (rExpressionSuffix rec a b c) (rExpressionSuffix rec' a b c))
     \<and> (\<forall>a. refines (rModuleLoop rec a) (rModuleLoop rec' a)) \<and> (\<forall>a. refines (rSwitchLoop rec a) (rSwitchLoop rec' a))
     \<and> (\<forall>a. refines (rCaseStmtsLoop rec a) (rCaseStmtsLoop rec' a)) \<and> (\<forall>a. refines (rBlockLoop rec a) (rBlockLoop rec' a))
     \<and> (\<forall>a. refines (rImportLoop rec a) (rImportLoop rec' a)) \<and> (\<forall>a. refines (rExportLoop rec a) (rExportLoop rec' a))
     \<and> (\<forall>a b. refines (rVarDeclLoop rec a b) (rVarDeclLoop rec' a b))
     \<and> (\<forall>a b. refines (rFuncParamsLoop rec a b) (rFuncParamsLoop rec' a b))
     \<and> (\<forall>a. refines (rClassLoop rec a) (rClassLoop rec' a)) \<and> (\<forall>a. refines (rElisionLoop rec a) (rElisionLoop rec' a))
     \<and> (\<forall>a b. refines (rArrayBindingLoop rec a b) (rArrayBindingLoop rec' a b))
     \<and> (\<forall>a b. refines (rObjectBindingLoop rec a b) (rObjectBindingLoop rec' a b))
     \<and> (\<forall>a b. refines (rArrayLiteralLoop rec a b) (rArrayLiteralLoop rec' a b))
     \<and> (\<forall>a. refines (rObjectLiteralLoop rec a) (rObjectLiteralLoop rec' a))
     \<and> (\<forall>a. refines (rArgsLoop rec a) (rArgsLoop rec' a)) \<and> (\<forall>a. refines (rParenLoop rec a) (rParenLoop rec' a))"

text \<open>
  The spec's words for \<open>prevLT\<close>: a line terminator was observed since the last token.  The
  tokens that \<open>next\<close> passes over are white space, line terminators and comments;
  \<open>skippedTokens\<close> lists them, from a token that the token source has delivered up to the
  first token of another kind, which it yields with the state of the token source.  The
  number bounds the length of the list.
\<close>

definition skippedToken :: "TokenType \<Rightarrow> bool" where
  "skippedToken t \<longleftrightarrow>
     t = WhitespaceToken \<or> t = LineTerminatorToken \<or> t = CommentToken \<or> t = CommentLineTerminatorToken"

fun skippedTokens ::
  "'l env \<Rightarrow> nat \<Rightarrow> (TokenType \<times> bytes) \<times> 'l \<Rightarrow> (TokenType list \<times> (TokenType \<times> bytes) \<times> 'l) option" where
  "skippedTokens env 0 x = None"
| "skippedTokens env (Suc k) x =
     (if skippedToken (fst (fst x)) then
        (case skippedTokens env k (Next env (snd x)) of
           None \<Rightarrow> None
         | Some (ts, r) \<Rightarrow> Some (fst (fst x) # ts, r))
      else Some ([], x))"

definition lineTerminatorAmong :: "TokenType list \<Rightarrow> bool" where
  "lineTerminatorAmong ts \<longleftrightarrow> LineTerminatorToken \<in> set ts \<or> CommentLineTerminatorToken \<in> set ts"

text \<open>The rules proved function by function, one collection for each of the three notions.\<close>

named_theorems err_rules \<open>a recorded error stays\<close>

named_theorems fl_rules \<open>the async and generator flags stay\<close>

named_theorems ref_rules \<open>a larger bound on the nesting gives the same result\<close>

subsection \<open>Token streams\<close>

text \<open>
  The inputs of the examples, as the token source delivers them.
\<close>

abbreviation ident :: "bytes \<Rightarrow> item" where
  "ident name \<equiv> T IdentifierToken name"

abbreviation ws :: item where
  "ws \<equiv> T WhitespaceToken '' ''"

abbreviation nl :: item where
  "nl \<equiv> T LineTerminatorToken [CHR 0x0A]"




definition exDetach :: "item list" where
  \<comment> \<open>\<open>let f = x => x + y; let g = x;\<close>\<close>
  "exDetach = [T LetToken ''let'', ws, ident ''f'', ws, T EqToken ''='', ws, ident ''x'', ws, T ArrowToken ''=>'', ws,
     ident ''x'', ws, T AddToken ''+'', ws, ident ''y'', T SemicolonToken '';'', ws,
     T LetToken ''let'', ws, ident ''g'', ws, T EqToken ''='', ws, ident ''x'', T SemicolonToken '';'']"

definition exShared :: "item list" where
  \<comment> \<open>\<open>x; x => x\<close>\<close>
  "exShared = [ident ''x'', T SemicolonToken '';'', ws, ident ''x'', ws, T ArrowToken ''=>'', ws, ident ''x'']"

definition exTwoErrors :: "item list" where
  \<comment> \<open>\<open>f(;\<close>: the expression fails at \<open>;\<close>, then the closing parenthesis is missing\<close>
  "exTwoErrors = [ident ''f'', T OpenParenToken ''('', T SemicolonToken '';'']"

definition exFailed :: "exLexer Parser" where
  \<comment> \<open>a parser state with a recorded error\<close>
  "exFailed = (newParser (lexer []))\<lparr>err := Some (Errorf ''first''), tt := ErrorToken\<rparr>"

definition exRegExpLiteral :: "item list" where
  \<comment> \<open>\<open>/ab+c/;\<close>: the token source reads \<open>/\<close> first, four more tokens lie in the regular expression\<close>
  "exRegExpLiteral = [Slash DivToken ''/'' ''/ab+c/'' 4, ident ''ab'', T AddToken ''+'', ident ''c'',
     T DivToken ''/'', T SemicolonToken '';'']"

definition exDivide :: "item list" where
  \<comment> \<open>\<open>a / b / c\<close>: read again at the first \<open>/\<close>, the text \<open>/ b /\<close> would be a regular expression\<close>
  "exDivide = [ident ''a'', ws, Slash DivToken ''/'' ''/ b /'' 4, ws, ident ''b'', ws, T DivToken ''/'', ws, ident ''c'']"

definition exReturnLine :: "item list" where
  \<comment> \<open>\<open>return\<close>, a line feed, \<open>1\<close>\<close>
  "exReturnLine = [T ReturnToken ''return'', nl, T DecimalToken ''1'']"

definition exReturnValue :: "item list" where
  \<comment> \<open>\<open>return 1\<close>\<close>
  "exReturnValue = [T ReturnToken ''return'', ws, T DecimalToken ''1'']"

definition exForIn :: "item list" where
  \<comment> \<open>\<open>for (a in b);\<close>\<close>
  "exForIn = [T ForToken ''for'', ws, T OpenParenToken ''('', ident ''a'', ws, T InToken ''in'', ws, ident ''b'',
     T CloseParenToken '')'', T SemicolonToken '';'']"

definition exForInit :: "item list" where
  \<comment> \<open>\<open>for (a; b in c;);\<close>\<close>
  "exForInit = [T ForToken ''for'', ws, T OpenParenToken ''('', ident ''a'', T SemicolonToken '';'', ws,
     ident ''b'', ws, T InToken ''in'', ws, ident ''c'', T SemicolonToken '';'',
     T CloseParenToken '')'', T SemicolonToken '';'']"

definition exSpreadDefault :: "item list" where
  \<comment> \<open>\<open>({...a=1})=>1\<close>\<close>
  "exSpreadDefault = [T OpenParenToken ''('', T OpenBraceToken ''{'', T EllipsisToken ''...'', ident ''a'',
     T EqToken ''='', T DecimalToken ''1'', T CloseBraceToken ''}'', T CloseParenToken '')'',
     T ArrowToken ''=>'', T DecimalToken ''1'']"

definition exInside :: "TokenType \<Rightarrow> bytes \<Rightarrow> item list \<Rightarrow> exLexer Parser" where
  \<comment> \<open>inside an async generator function, at a token, with the tokens that follow\<close>
  "exInside t d rest =
     (newParser (lexer rest))
     \<lparr>tt := t, data := d, async := True, generator := True, ast := newAST\<lparr>NumScopes := 1\<rparr>, scope := Some 0\<rparr>"

abbreviation emptyBody :: "item list" where
  \<comment> \<open>\<open>(){}\<close>\<close>
  "emptyBody \<equiv> [T OpenParenToken ''('', T CloseParenToken '')'', T OpenBraceToken ''{'', T CloseBraceToken ''}'']"

definition exAtIn :: "exLexer Parser" where
  \<comment> \<open>in the initializer of \<open>for (a in b);\<close>, at the token \<open>in\<close>\<close>
  "exAtIn =
     (newParser (lexer [ws, ident ''b'', T CloseParenToken '')'', T SemicolonToken '';'']))
     \<lparr>tt := InToken, data := ''in'', inFor := True, ast := newAST\<lparr>NumScopes := 1\<rparr>, scope := Some 0\<rparr>"

definition exAtReturn :: "exLexer Parser" where
  \<comment> \<open>at the token \<open>return\<close> of \<open>exReturnLine\<close>\<close>
  "exAtReturn =
     (newParser (lexer (tl exReturnLine)))
     \<lparr>tt := ReturnToken, data := ''return'', ast := newAST\<lparr>NumScopes := 1\<rparr>, scope := Some 0\<rparr>"

definition exAtSlash :: "exLexer Parser" where
  \<comment> \<open>at the first token of \<open>exRegExpLiteral\<close>, as the token source has read it\<close>
  "exAtSlash =
     (newParser ((lexer (tl exRegExpLiteral))\<lparr>off := 1, relex := Some (''/ab+c/'', 4)\<rparr>))
     \<lparr>tt := DivToken, data := ''/'', ast := newAST\<lparr>NumScopes := 1\<rparr>, scope := Some 0\<rparr>"

definition exAtArrow :: "exLexer Parser" where
  \<comment> \<open>\<open>x => x\<close> when \<open>x\<close> is parsed as a use and the scope of the arrow function is entered\<close>
  "exAtArrow =
     (newParser (lexer [ws, ident ''x'']))
     \<lparr>tt := ArrowToken, data := ''=>'',
      ast := newAST\<lparr>Vars := [\<lparr>Uses = 1, Decl = NoDecl, Name = ''x''\<rparr>],
               Scopes := (\<lambda>a. Scope0)
                 (0 := Scope0\<lparr>Func := Some 0, Undeclared := [0]\<rparr>, 1 := Scope0\<lparr>Parent := Some 0, Func := Some 1\<rparr>),
               NumScopes := 2\<rparr>,
      scope := Some 1\<rparr>"


definition exAtArrowShared :: "exLexer Parser" where
  \<comment> \<open>\<open>x; x => x\<close> when the second \<open>x\<close> is parsed as a use and the scope of the arrow function
      is entered\<close>
  "exAtArrowShared =
     (newParser (lexer [ws, ident ''x'']))
     \<lparr>tt := ArrowToken, data := ''=>'',
      ast := newAST\<lparr>Vars := [\<lparr>Uses = 2, Decl = NoDecl, Name = ''x''\<rparr>],
               Scopes := (\<lambda>a. Scope0)
                 (0 := Scope0\<lparr>Func := Some 0, Undeclared := [0]\<rparr>, 1 := Scope0\<lparr>Parent := Some 0, Func := Some 1\<rparr>),
               NumScopes := 2\<rparr>,
      scope := Some 1\<rparr>"

definition exAfterParams :: "exLexer Parser" where
  \<comment> \<open>\<open>(a, b) => a\<close> when the closing parenthesis is read\<close>
  "exAfterParams =
     (newParser (lexer [ws, ident ''a'']))
     \<lparr>tt := ArrowToken, data := ''=>'', assumeArrowFunc := True,
      ast := newAST\<lparr>Vars := [\<lparr>Uses = 1, Decl = ArgumentDecl, Name = ''a''\<rparr>, \<lparr>Uses = 1, Decl = ArgumentDecl, Name = ''b''\<rparr>],
               Scopes := (\<lambda>a. Scope0)
                 (0 := Scope0\<lparr>Func := Some 0\<rparr>, 1 := Scope0\<lparr>Parent := Some 0, Func := Some 1, Declared := [0, 1]\<rparr>),
               NumScopes := 2\<rparr>,
      scope := Some 1\<rparr>"

definition exBeforeArrow :: "exLexer Parser" where
  \<comment> \<open>inside an async generator function, \<open>x => x\<close> when \<open>x\<close> is parsed as a use\<close>
  "exBeforeArrow =
     (exInside ArrowToken ''=>'' [ws, ident ''x''])
     \<lparr>ast := newAST\<lparr>Vars := [\<lparr>Uses = 1, Decl = NoDecl, Name = ''x''\<rparr>],
               Scopes := (\<lambda>a. Scope0)(0 := Scope0\<lparr>Func := Some 0, Undeclared := [0]\<rparr>),
               NumScopes := 1\<rparr>\<rparr>"

definition exReturnSpaceLine :: "item list" where
  \<comment> \<open>\<open>return\<close>, a space, a line feed, \<open>1\<close>\<close>
  "exReturnSpaceLine = [T ReturnToken ''return'', ws, nl, T DecimalToken ''1'']"

definition exForVarIn :: "item list" where
  \<comment> \<open>\<open>for (var x = a in b);\<close>\<close>
  "exForVarIn = [T ForToken ''for'', ws, T OpenParenToken ''('', T VarToken ''var'', ws, ident ''x'', ws,
     T EqToken ''='', ws, ident ''a'', ws, T InToken ''in'', ws, ident ''b'', T CloseParenToken '')'',
     T SemicolonToken '';'']"

definition exVarThenArrow :: "item list" where
  \<comment> \<open>\<open>var x; x => 1\<close>\<close>
  "exVarThenArrow = [T VarToken ''var'', ws, ident ''x'', T SemicolonToken '';'', ws, ident ''x'', ws,
     T ArrowToken ''=>'', ws, T DecimalToken ''1'']"

definition exPercent :: "item list" where
  \<comment> \<open>\<open>%\<close> where an expression has to start\<close>
  "exPercent = [T ModToken ''%'']"

section \<open>Rules for the computations of the parser\<close>

lemma bind_apply: "bind m k p = (case m p of Inl a \<Rightarrow> Inl a | Inr (x, p') \<Rightarrow> k x p')"
  by (simp add: bind_def)

lemma bind_get: "bind get k p = k p p"
  by (simp add: bind_def get_def)

lemma bind_Inr: "bind m k p = Inr (r, p') \<Longrightarrow> \<exists>x q. m p = Inr (x, q) \<and> k x q = Inr (r, p')"
  by (auto simp: bind_def split: sum.splits)

lemma preservesI: "(\<And>p r p'. I p \<Longrightarrow> m p = Inr (r, p') \<Longrightarrow> I p') \<Longrightarrow> preserves I m"
  unfolding preserves_def by blast

lemma preservesD: "preserves I m \<Longrightarrow> I p \<Longrightarrow> m p = Inr (r, p') \<Longrightarrow> I p'"
  unfolding preserves_def by blast

lemma establishesI: "(\<And>p r p'. m p = Inr (r, p') \<Longrightarrow> I p') \<Longrightarrow> establishes I m"
  unfolding establishes_def by blast

lemma establishesD: "establishes I m \<Longrightarrow> m p = Inr (r, p') \<Longrightarrow> I p'"
  unfolding establishes_def by blast

subsection \<open>Preservation follows the structure of a computation\<close>

lemma p_return: "preserves I (return x)"
  by (rule preservesI) (simp add: return_def)

lemma p_panic: "preserves I panic"
  by (rule preservesI) (simp add: panic_def)

lemma p_outOfFuel: "preserves I outOfFuel"
  by (rule preservesI) (simp add: outOfFuel_def)

lemma p_modify: "(\<And>p. I p \<Longrightarrow> I (f p)) \<Longrightarrow> preserves I (modify f)"
  by (rule preservesI) (auto simp: modify_def)

lemma p_bind:
  assumes m: "preserves I m" and k: "\<And>x. preserves I (k x)"
  shows "preserves I (bind m k)"
proof (rule preservesI)
  fix p r p'
  assume I: "I p" and b: "bind m k p = Inr (r, p')"
  from bind_Inr [OF b] obtain x q where mp: "m p = Inr (x, q)" and kq: "k x q = Inr (r, p')"
    by blast
  from m I mp have "I q" by (rule preservesD)
  with k kq show "I p'" by (blast dest: preservesD)
qed

lemma p_get_bind: "(\<And>p. I p \<Longrightarrow> preserves I (k p)) \<Longrightarrow> preserves I (bind get k)"
  by (rule preservesI) (auto simp only: bind_get dest: preservesD)

lemma p_if: "(c \<Longrightarrow> preserves I a) \<Longrightarrow> (\<not> c \<Longrightarrow> preserves I b) \<Longrightarrow> preserves I (if c then a else b)"
  by simp

lemma p_let: "(\<And>x. preserves I (f x)) \<Longrightarrow> preserves I (Let v f)"
  by simp

lemma p_case_prod: "(\<And>a b. preserves I (f a b)) \<Longrightarrow> preserves I (case_prod f x)"
  by (cases x) simp

lemma p_case_sum: "(\<And>a. preserves I (f a)) \<Longrightarrow> (\<And>b. preserves I (g b)) \<Longrightarrow> preserves I (case_sum f g x)"
  by (cases x) simp_all

lemma p_case_option: "preserves I a \<Longrightarrow> (\<And>b. preserves I (g b)) \<Longrightarrow> preserves I (case_option a g x)"
  by (cases x) simp_all

lemma p_whenM: "preserves I m \<Longrightarrow> preserves I (whenM c m)"
  by (simp add: whenM_def p_return)

lemma p_returnNow: "preserves I (returnNow x)"
  by (simp add: returnNow_def p_return)

lemma p_fallThrough: "preserves I (fallThrough x)"
  by (simp add: fallThrough_def p_return)

lemma p_flowBind: "preserves I m \<Longrightarrow> (\<And>x. preserves I (k x)) \<Longrightarrow> preserves I (flowBind m k)"
  unfolding flowBind_def by (rule p_bind, assumption, rule p_case_sum, rule p_return, assumption)

lemma p_flowEnd: "preserves I m \<Longrightarrow> (\<And>x. preserves I (k x)) \<Longrightarrow> preserves I (flowEnd m k)"
  unfolding flowEnd_def by (rule p_bind, assumption, rule p_case_sum, rule p_return, assumption)

lemma p_withScope: "(\<And>a. preserves I (f a)) \<Longrightarrow> preserves I (withScope f)"
  unfolding withScope_def by (rule p_get_bind, rule p_case_option, rule p_panic, assumption)

lemmas p_struct = p_return p_panic p_outOfFuel p_get_bind p_bind p_if p_let p_case_prod p_case_sum
  p_case_option p_whenM p_returnNow p_fallThrough p_flowBind p_flowEnd p_withScope

subsection \<open>The recursive calls\<close>

lemma p_rNextLoop: "recsPreserve I rec \<Longrightarrow> preserves I (rNextLoop rec)"
  by (simp add: recsPreserve_def)

lemma p_rStmt: "recsPreserve I rec \<Longrightarrow> preserves I (rStmt rec x1)"
  by (simp add: recsPreserve_def)

lemma p_rBinding: "recsPreserve I rec \<Longrightarrow> preserves I (rBinding rec x1)"
  by (simp add: recsPreserve_def)

lemma p_rExpression: "recsPreserve I rec \<Longrightarrow> preserves I (rExpression rec x1)"
  by (simp add: recsPreserve_def)

lemma p_rExpressionSuffix: "recsPreserve I rec \<Longrightarrow> preserves I (rExpressionSuffix rec x1 x2 x3)"
  by (simp add: recsPreserve_def)

lemma p_rModuleLoop: "recsPreserve I rec \<Longrightarrow> preserves I (rModuleLoop rec x1)"
  by (simp add: recsPreserve_def)

lemma p_rSwitchLoop: "recsPreserve I rec \<Longrightarrow> preserves I (rSwitchLoop rec x1)"
  by (simp add: recsPreserve_def)

lemma p_rCaseStmtsLoop: "recsPreserve I rec \<Longrightarrow> preserves I (rCaseStmtsLoop rec x1)"
  by (simp add: recsPreserve_def)

lemma p_rBlockLoop: "recsPreserve I rec \<Longrightarrow> preserves I (rBlockLoop rec x1)"
  by (simp add: recsPreserve_def)

lemma p_rImportLoop: "recsPreserve I rec \<Longrightarrow> preserves I (rImportLoop rec x1)"
  by (simp add: recsPreserve_def)

lemma p_rExportLoop: "recsPreserve I rec \<Longrightarrow> preserves I (rExportLoop rec x1)"
  by (simp add: recsPreserve_def)

lemma p_rVarDeclLoop: "recsPreserve I rec \<Longrightarrow> preserves I (rVarDeclLoop rec x1 x2)"
  by (simp add: recsPreserve_def)

lemma p_rFuncParamsLoop: "recsPreserve I rec \<Longrightarrow> preserves I (rFuncParamsLoop rec x1 x2)"
  by (simp add: recsPreserve_def)

lemma p_rClassLoop: "recsPreserve I rec \<Longrightarrow> preserves I (rClassLoop rec x1)"
  by (simp add: recsPreserve_def)

lemma p_rElisionLoop: "recsPreserve I rec \<Longrightarrow> preserves I (rElisionLoop rec x1)"
  by (simp add: recsPreserve_def)

lemma p_rArrayBindingLoop: "recsPreserve I rec \<Longrightarrow> preserves I (rArrayBindingLoop rec x1 x2)"
  by (simp add: recsPreserve_def)

lemma p_rObjectBindingLoop: "recsPreserve I rec \<Longrightarrow> preserves I (rObjectBindingLoop rec x1 x2)"
  by (simp add: recsPreserve_def)

lemma p_rArrayLiteralLoop: "recsPreserve I rec \<Longrightarrow> preserves I (rArrayLiteralLoop rec x1 x2)"
  by (simp add: recsPreserve_def)

lemma p_rObjectLiteralLoop: "recsPreserve I rec \<Longrightarrow> preserves I (rObjectLiteralLoop rec x1)"
  by (simp add: recsPreserve_def)

lemma p_rArgsLoop: "recsPreserve I rec \<Longrightarrow> preserves I (rArgsLoop rec x1)"
  by (simp add: recsPreserve_def)

lemma p_rParenLoop: "recsPreserve I rec \<Longrightarrow> preserves I (rParenLoop rec x1)"
  by (simp add: recsPreserve_def)

lemmas p_recs = p_rNextLoop p_rStmt p_rBinding p_rExpression p_rExpressionSuffix p_rModuleLoop p_rSwitchLoop p_rCaseStmtsLoop p_rBlockLoop p_rImportLoop p_rExportLoop p_rVarDeclLoop p_rFuncParamsLoop p_rClassLoop p_rElisionLoop p_rArrayBindingLoop p_rObjectBindingLoop p_rArrayLiteralLoop p_rObjectLiteralLoop p_rArgsLoop p_rParenLoop

subsection \<open>Steps that touch neither the recorded error nor the flags\<close>

lemma keepsOthersD:
  "keepsOthers I \<Longrightarrow> err q = err p \<Longrightarrow> async q = async p \<Longrightarrow> generator q = generator p \<Longrightarrow> I p \<Longrightarrow> I q"
  unfolding keepsOthers_def by blast

lemma p_frame:
  assumes "keepsOthers I" and "\<And>p. err (f p) = err p \<and> async (f p) = async p \<and> generator (f p) = generator p"
  shows "preserves I (modify f)"
  by (rule p_modify) (rule keepsOthersD [OF assms(1)], simp_all add: assms(2))

lemma fr_lexNext: "keepsOthers I \<Longrightarrow> preserves I (lexNext env)"
  unfolding lexNext_def
proof (rule p_frame)
  fix p :: "'a Parser"
  show "err (case Next env (lx p) of ((t, d), l') \<Rightarrow> p\<lparr>tt := t, data := d, lx := l'\<rparr>) = err p
      \<and> async (case Next env (lx p) of ((t, d), l') \<Rightarrow> p\<lparr>tt := t, data := d, lx := l'\<rparr>) = async p
      \<and> generator (case Next env (lx p) of ((t, d), l') \<Rightarrow> p\<lparr>tt := t, data := d, lx := l'\<rparr>) = generator p"
    by (cases "Next env (lx p)") auto
qed

lemma fr_lexRegExp: "keepsOthers I \<Longrightarrow> preserves I (lexRegExp env)"
  unfolding lexRegExp_def
proof (rule p_frame)
  fix p :: "'a Parser"
  show "err (case RegExp env (lx p) of ((t, d), l') \<Rightarrow> p\<lparr>tt := t, data := d, lx := l'\<rparr>) = err p
      \<and> async (case RegExp env (lx p) of ((t, d), l') \<Rightarrow> p\<lparr>tt := t, data := d, lx := l'\<rparr>) = async p
      \<and> generator (case RegExp env (lx p) of ((t, d), l') \<Rightarrow> p\<lparr>tt := t, data := d, lx := l'\<rparr>) = generator p"
    by (cases "RegExp env (lx p)") auto
qed

lemma fr_setPrevLT: "keepsOthers I \<Longrightarrow> preserves I (setPrevLT b)"
  unfolding setPrevLT_def by (rule p_frame) simp_all

lemma fr_setAst: "keepsOthers I \<Longrightarrow> preserves I (setAst a)"
  unfolding setAst_def by (rule p_frame) simp_all

lemma fr_setScope: "keepsOthers I \<Longrightarrow> preserves I (setScope s)"
  unfolding setScope_def by (rule p_frame) simp_all

lemma fr_astUndeclareScope: "keepsOthers I \<Longrightarrow> preserves I (astUndeclareScope env a)"
  unfolding astUndeclareScope_def by (rule p_frame) simp_all

lemma fr_updVar: "keepsOthers I \<Longrightarrow> preserves I (updVar r f)"
  unfolding updVar_def by (rule p_frame) simp_all

lemma fr_updScope: "keepsOthers I \<Longrightarrow> preserves I (updScope a f)"
  unfolding updScope_def by (rule p_frame) simp_all

lemma fr_setComment: "keepsOthers I \<Longrightarrow> preserves I (setComment d)"
  unfolding setComment_def by (rule p_frame) simp_all

lemma fr_setModule: "keepsOthers I \<Longrightarrow> preserves I (setModule m)"
  unfolding setModule_def by (rule p_frame) simp_all

lemma fr_setAssumeArrowFunc: "keepsOthers I \<Longrightarrow> preserves I (setAssumeArrowFunc b)"
  unfolding setAssumeArrowFunc_def by (rule p_frame) simp_all

lemma fr_setInFor: "keepsOthers I \<Longrightarrow> preserves I (setInFor b)"
  unfolding setInFor_def by (rule p_frame) simp_all

lemmas frames = fr_lexNext fr_lexRegExp fr_setPrevLT fr_setAst fr_setScope fr_astUndeclareScope fr_updVar fr_updScope fr_setComment fr_setModule fr_setAssumeArrowFunc fr_setInFor

section \<open>A recorded error stays\<close>

lemma keepsOthers_errIs: "keepsOthers (errIs e)"
  by (simp add: keepsOthers_def errIs_def)

lemma err_setFlags: "preserves (errIs e) (setFlags a g)"
  unfolding setFlags_def by (rule p_modify) (simp add: errIs_def)

lemma err_failMessage: "preserves (errIs e) (failMessage msg)"
  unfolding failMessage_def by (rule p_get_bind) (simp add: errIs_def p_return)

lemma err_fail: "preserves (errIs e) (fail env inn expected)"
  unfolding fail_def by (rule p_get_bind) (simp add: errIs_def p_return)

lemmas err_prims = frames [OF keepsOthers_errIs] err_setFlags err_failMessage err_fail

lemma err_nextLoop [err_rules]: "recsPreserve (errIs e) rec \<Longrightarrow> preserves (errIs e) (nextLoop env rec)"
  unfolding nextLoop_def by (rule p_struct err_prims err_rules p_recs | assumption)+

lemma err_nextP [err_rules]: "recsPreserve (errIs e) rec \<Longrightarrow> preserves (errIs e) (next' env rec)"
  unfolding next'_def by (rule p_struct err_prims err_rules p_recs | assumption)+

lemma err_consume [err_rules]: "recsPreserve (errIs e) rec \<Longrightarrow> preserves (errIs e) (consume env rec x1 x2)"
  unfolding consume_def by (rule p_struct err_prims err_rules p_recs | assumption)+

lemma err_enterScope [err_rules]: "preserves (errIs e) (enterScope x1)"
  unfolding enterScope_def by (rule p_struct err_prims err_rules p_recs | assumption)+

lemma err_scopeDeclare [err_rules]: "preserves (errIs e) (scopeDeclare env x1 x2)"
  unfolding scopeDeclare_def by (rule p_struct err_prims err_rules p_recs | assumption)+

lemma err_scopeUse [err_rules]: "preserves (errIs e) (scopeUse env x1)"
  unfolding scopeUse_def by (rule p_struct err_prims err_rules p_recs | assumption)+

lemma err_scopeMarkArguments [err_rules]: "preserves (errIs e) (scopeMarkArguments env)"
  unfolding scopeMarkArguments_def by (rule p_struct err_prims err_rules p_recs | assumption)+

lemma err_astAddVar [err_rules]: "preserves (errIs e) (astAddVar env x1 x2)"
  unfolding astAddVar_def by (rule p_struct err_prims err_rules p_recs | assumption)+

lemma err_exitScope [err_rules]: "preserves (errIs e) (exitScope env x1)"
  unfolding exitScope_def by (rule p_struct err_prims err_rules p_recs | assumption)+

lemma err_parsePropertyName [err_rules]: "recsPreserve (errIs e) rec \<Longrightarrow> preserves (errIs e) (parsePropertyName env rec x1)"
  unfolding parsePropertyName_def by (rule p_struct err_prims err_rules p_recs | assumption)+

lemma err_parseTemplateLiteral [err_rules]: "recsPreserve (errIs e) rec \<Longrightarrow> preserves (errIs e) (parseTemplateLiteral env rec)"
  unfolding parseTemplateLiteral_def by (rule p_struct err_prims err_rules p_recs | assumption)+

lemma err_argsLoop [err_rules]: "recsPreserve (errIs e) rec \<Longrightarrow> preserves (errIs e) (argsLoop env rec x1)"
  unfolding argsLoop_def by (rule p_struct err_prims err_rules p_recs | assumption)+

lemma err_parseArgs [err_rules]: "recsPreserve (errIs e) rec \<Longrightarrow> preserves (errIs e) (parseArgs env rec)"
  unfolding parseArgs_def by (rule p_struct err_prims err_rules p_recs | assumption)+

lemma err_parseBindingElement [err_rules]: "recsPreserve (errIs e) rec \<Longrightarrow> preserves (errIs e) (parseBindingElement env rec x1)"
  unfolding parseBindingElement_def by (rule p_struct err_prims err_rules p_recs | assumption)+

lemma err_elisionLoop [err_rules]: "recsPreserve (errIs e) rec \<Longrightarrow> preserves (errIs e) (elisionLoop env rec x1)"
  unfolding elisionLoop_def by (rule p_struct err_prims err_rules p_recs | assumption)+

lemma err_arrayBindingLoop [err_rules]: "recsPreserve (errIs e) rec \<Longrightarrow> preserves (errIs e) (arrayBindingLoop env rec x1 x2)"
  unfolding arrayBindingLoop_def by (rule p_struct err_prims err_rules p_recs | assumption)+

lemma err_objectBindingItem [err_rules]: "recsPreserve (errIs e) rec \<Longrightarrow> preserves (errIs e) (objectBindingItem env rec x1)"
  unfolding objectBindingItem_def by (rule p_struct err_prims err_rules p_recs | assumption)+

lemma err_objectBindingLoop [err_rules]: "recsPreserve (errIs e) rec \<Longrightarrow> preserves (errIs e) (objectBindingLoop env rec x1 x2)"
  unfolding objectBindingLoop_def by (rule p_struct err_prims err_rules p_recs | assumption)+

lemma err_parseBinding [err_rules]: "recsPreserve (errIs e) rec \<Longrightarrow> preserves (errIs e) (parseBinding env rec x1)"
  unfolding parseBinding_def by (rule p_struct err_prims err_rules p_recs | assumption)+

lemma err_varDeclLoop [err_rules]: "recsPreserve (errIs e) rec \<Longrightarrow> preserves (errIs e) (varDeclLoop env rec x1 x2)"
  unfolding varDeclLoop_def by (rule p_struct err_prims err_rules p_recs | assumption)+

lemma err_parseVarDecl [err_rules]: "recsPreserve (errIs e) rec \<Longrightarrow> preserves (errIs e) (parseVarDecl env rec x1)"
  unfolding parseVarDecl_def by (rule p_struct err_prims err_rules p_recs | assumption)+

lemma err_funcParamsLoop [err_rules]: "recsPreserve (errIs e) rec \<Longrightarrow> preserves (errIs e) (funcParamsLoop env rec x1 x2)"
  unfolding funcParamsLoop_def by (rule p_struct err_prims err_rules p_recs | assumption)+

lemma err_parseFuncParams [err_rules]: "recsPreserve (errIs e) rec \<Longrightarrow> preserves (errIs e) (parseFuncParams env rec x1)"
  unfolding parseFuncParams_def by (rule p_struct err_prims err_rules p_recs | assumption)+

lemma err_blockLoop [err_rules]: "recsPreserve (errIs e) rec \<Longrightarrow> preserves (errIs e) (blockLoop env rec x1)"
  unfolding blockLoop_def by (rule p_struct err_prims err_rules p_recs | assumption)+

lemma err_parseBlockStmt [err_rules]: "recsPreserve (errIs e) rec \<Longrightarrow> preserves (errIs e) (parseBlockStmt env rec x1 x2)"
  unfolding parseBlockStmt_def by (rule p_struct err_prims err_rules p_recs | assumption)+

lemma err_parseArrowFuncBody [err_rules]: "recsPreserve (errIs e) rec \<Longrightarrow> preserves (errIs e) (parseArrowFuncBody env rec)"
  unfolding parseArrowFuncBody_def by (rule p_struct err_prims err_rules p_recs | assumption)+

lemma err_parseAnyFuncName [err_rules]: "recsPreserve (errIs e) rec \<Longrightarrow> preserves (errIs e) (parseAnyFuncName env rec x1 x2 x3)"
  unfolding parseAnyFuncName_def by (rule p_struct err_prims err_rules p_recs | assumption)+

lemma err_parseAnyFunc [err_rules]: "recsPreserve (errIs e) rec \<Longrightarrow> preserves (errIs e) (parseAnyFunc env rec x1 x2)"
  unfolding parseAnyFunc_def by (rule p_struct err_prims err_rules p_recs | assumption)+

lemma err_parseFuncDecl [err_rules]: "recsPreserve (errIs e) rec \<Longrightarrow> preserves (errIs e) (parseFuncDecl env rec)"
  unfolding parseFuncDecl_def by (rule p_struct err_prims err_rules p_recs | assumption)+

lemma err_parseAsyncFuncDecl [err_rules]: "recsPreserve (errIs e) rec \<Longrightarrow> preserves (errIs e) (parseAsyncFuncDecl env rec)"
  unfolding parseAsyncFuncDecl_def by (rule p_struct err_prims err_rules p_recs | assumption)+

lemma err_parseFuncExpr [err_rules]: "recsPreserve (errIs e) rec \<Longrightarrow> preserves (errIs e) (parseFuncExpr env rec)"
  unfolding parseFuncExpr_def by (rule p_struct err_prims err_rules p_recs | assumption)+

lemma err_parseAsyncFuncExpr [err_rules]: "recsPreserve (errIs e) rec \<Longrightarrow> preserves (errIs e) (parseAsyncFuncExpr env rec)"
  unfolding parseAsyncFuncExpr_def by (rule p_struct err_prims err_rules p_recs | assumption)+

lemma err_parseMethodModifiers [err_rules]: "recsPreserve (errIs e) rec \<Longrightarrow> preserves (errIs e) (parseMethodModifiers env rec x1)"
  unfolding parseMethodModifiers_def by (rule p_struct err_prims err_rules p_recs | assumption)+

lemma err_parseMethod [err_rules]: "recsPreserve (errIs e) rec \<Longrightarrow> preserves (errIs e) (parseMethod env rec)"
  unfolding parseMethod_def by (rule p_struct err_prims err_rules p_recs | assumption)+

lemma err_classLoop [err_rules]: "recsPreserve (errIs e) rec \<Longrightarrow> preserves (errIs e) (classLoop env rec x1)"
  unfolding classLoop_def by (rule p_struct err_prims err_rules p_recs | assumption)+

lemma err_parseAnyClassName [err_rules]: "recsPreserve (errIs e) rec \<Longrightarrow> preserves (errIs e) (parseAnyClassName env rec x1)"
  unfolding parseAnyClassName_def by (rule p_struct err_prims err_rules p_recs | assumption)+

lemma err_parseAnyClass [err_rules]: "recsPreserve (errIs e) rec \<Longrightarrow> preserves (errIs e) (parseAnyClass env rec x1)"
  unfolding parseAnyClass_def by (rule p_struct err_prims err_rules p_recs | assumption)+

lemma err_parseClassDecl [err_rules]: "recsPreserve (errIs e) rec \<Longrightarrow> preserves (errIs e) (parseClassDecl env rec)"
  unfolding parseClassDecl_def by (rule p_struct err_prims err_rules p_recs | assumption)+

lemma err_parseClassExpr [err_rules]: "recsPreserve (errIs e) rec \<Longrightarrow> preserves (errIs e) (parseClassExpr env rec)"
  unfolding parseClassExpr_def by (rule p_struct err_prims err_rules p_recs | assumption)+

lemma err_parseAsyncArrowFunc [err_rules]: "recsPreserve (errIs e) rec \<Longrightarrow> preserves (errIs e) (parseAsyncArrowFunc env rec)"
  unfolding parseAsyncArrowFunc_def by (rule p_struct err_prims err_rules p_recs | assumption)+

lemma err_detachIdentifier [err_rules]: "preserves (errIs e) (detachIdentifier env x1)"
  unfolding detachIdentifier_def by (rule p_struct err_prims err_rules p_recs | assumption)+

lemma err_parseIdentifierArrowFunc [err_rules]: "recsPreserve (errIs e) rec \<Longrightarrow> preserves (errIs e) (parseIdentifierArrowFunc env rec x1)"
  unfolding parseIdentifierArrowFunc_def by (rule p_struct err_prims err_rules p_recs | assumption)+

lemma err_infixOp [err_rules]: "recsPreserve (errIs e) rec \<Longrightarrow> preserves (errIs e) (infixOp env rec x1 x2 x3 x4 x5 x6 x7)"
  unfolding infixOp_def by (rule p_struct err_prims err_rules p_recs | assumption)+

lemma err_postfixOp [err_rules]: "recsPreserve (errIs e) rec \<Longrightarrow> preserves (errIs e) (postfixOp env rec x1 x2 x3 x4)"
  unfolding postfixOp_def by (rule p_struct err_prims err_rules p_recs | assumption)+

lemma err_optChain [err_rules]: "recsPreserve (errIs e) rec \<Longrightarrow> preserves (errIs e) (optChain env rec x1 x2)"
  unfolding optChain_def by (rule p_struct err_prims err_rules p_recs | assumption)+

lemma err_suffixStep [err_rules]: "recsPreserve (errIs e) rec \<Longrightarrow> preserves (errIs e) (suffixStep env rec x1 x2 x3)"
  unfolding suffixStep_def by (rule p_struct err_prims err_rules p_recs | assumption)+

lemma err_parseExpressionSuffix [err_rules]: "recsPreserve (errIs e) rec \<Longrightarrow> preserves (errIs e) (parseExpressionSuffix env rec x1 x2 x3)"
  unfolding parseExpressionSuffix_def by (rule p_struct err_prims err_rules p_recs | assumption)+

lemma err_parseIdentifierExpression [err_rules]: "recsPreserve (errIs e) rec \<Longrightarrow> preserves (errIs e) (parseIdentifierExpression env rec x1 x2)"
  unfolding parseIdentifierExpression_def by (rule p_struct err_prims err_rules p_recs | assumption)+

lemma err_parseAsyncExpression [err_rules]: "recsPreserve (errIs e) rec \<Longrightarrow> preserves (errIs e) (parseAsyncExpression env rec x1 x2)"
  unfolding parseAsyncExpression_def by (rule p_struct err_prims err_rules p_recs | assumption)+

lemma err_parseAssignmentExpression [err_rules]: "recsPreserve (errIs e) rec \<Longrightarrow> preserves (errIs e) (parseAssignmentExpression env rec)"
  unfolding parseAssignmentExpression_def by (rule p_struct err_prims err_rules p_recs | assumption)+

lemma err_arrayLiteralLoop [err_rules]: "recsPreserve (errIs e) rec \<Longrightarrow> preserves (errIs e) (arrayLiteralLoop env rec x1 x2)"
  unfolding arrayLiteralLoop_def by (rule p_struct err_prims err_rules p_recs | assumption)+

lemma err_parseArrayLiteral [err_rules]: "recsPreserve (errIs e) rec \<Longrightarrow> preserves (errIs e) (parseArrayLiteral env rec)"
  unfolding parseArrayLiteral_def by (rule p_struct err_prims err_rules p_recs | assumption)+

lemma err_objectMethodModifiers [err_rules]: "recsPreserve (errIs e) rec \<Longrightarrow> preserves (errIs e) (objectMethodModifiers env rec)"
  unfolding objectMethodModifiers_def by (rule p_struct err_prims err_rules p_recs | assumption)+

lemma err_objectPropertyName [err_rules]: "recsPreserve (errIs e) rec \<Longrightarrow> preserves (errIs e) (objectPropertyName env rec x1)"
  unfolding objectPropertyName_def by (rule p_struct err_prims err_rules p_recs | assumption)+

lemma err_objectPropertyValue [err_rules]: "recsPreserve (errIs e) rec \<Longrightarrow> preserves (errIs e) (objectPropertyValue env rec x1 x2)"
  unfolding objectPropertyValue_def by (rule p_struct err_prims err_rules p_recs | assumption)+

lemma err_objectProperty [err_rules]: "recsPreserve (errIs e) rec \<Longrightarrow> preserves (errIs e) (objectProperty env rec)"
  unfolding objectProperty_def by (rule p_struct err_prims err_rules p_recs | assumption)+

lemma err_objectLiteralLoop [err_rules]: "recsPreserve (errIs e) rec \<Longrightarrow> preserves (errIs e) (objectLiteralLoop env rec x1)"
  unfolding objectLiteralLoop_def by (rule p_struct err_prims err_rules p_recs | assumption)+

lemma err_parseObjectLiteral [err_rules]: "recsPreserve (errIs e) rec \<Longrightarrow> preserves (errIs e) (parseObjectLiteral env rec)"
  unfolding parseObjectLiteral_def by (rule p_struct err_prims err_rules p_recs | assumption)+

lemma err_parenLoop [err_rules]: "recsPreserve (errIs e) rec \<Longrightarrow> preserves (errIs e) (parenLoop env rec x1)"
  unfolding parenLoop_def by (rule p_struct err_prims err_rules p_recs | assumption)+

lemma err_parenDecide [err_rules]: "recsPreserve (errIs e) rec \<Longrightarrow> preserves (errIs e) (parenDecide env rec x1 x2 x3 x4 x5)"
  unfolding parenDecide_def by (rule p_struct err_prims err_rules p_recs | assumption)+

lemma err_parseParenthesizedExpressionOrArrowFunc [err_rules]: "recsPreserve (errIs e) rec \<Longrightarrow> preserves (errIs e) (parseParenthesizedExpressionOrArrowFunc env rec x1)"
  unfolding parseParenthesizedExpressionOrArrowFunc_def by (rule p_struct err_prims err_rules p_recs | assumption)+

lemma err_prefixOp [err_rules]: "recsPreserve (errIs e) rec \<Longrightarrow> preserves (errIs e) (prefixOp env rec x1 x2 x3)"
  unfolding prefixOp_def by (rule p_struct err_prims err_rules p_recs | assumption)+

lemma err_parseNew [err_rules]: "recsPreserve (errIs e) rec \<Longrightarrow> preserves (errIs e) (parseNew env rec)"
  unfolding parseNew_def by (rule p_struct err_prims err_rules p_recs | assumption)+

lemma err_parseImportExpr [err_rules]: "recsPreserve (errIs e) rec \<Longrightarrow> preserves (errIs e) (parseImportExpr env rec x1)"
  unfolding parseImportExpr_def by (rule p_struct err_prims err_rules p_recs | assumption)+

lemma err_parseSuper [err_rules]: "recsPreserve (errIs e) rec \<Longrightarrow> preserves (errIs e) (parseSuper env rec x1)"
  unfolding parseSuper_def by (rule p_struct err_prims err_rules p_recs | assumption)+

lemma err_parseYield [err_rules]: "recsPreserve (errIs e) rec \<Longrightarrow> preserves (errIs e) (parseYield env rec x1)"
  unfolding parseYield_def by (rule p_struct err_prims err_rules p_recs | assumption)+

lemma err_parseAwait [err_rules]: "recsPreserve (errIs e) rec \<Longrightarrow> preserves (errIs e) (parseAwait env rec x1)"
  unfolding parseAwait_def by (rule p_struct err_prims err_rules p_recs | assumption)+

lemma err_parsePrimary [err_rules]: "recsPreserve (errIs e) rec \<Longrightarrow> preserves (errIs e) (parsePrimary env rec x1)"
  unfolding parsePrimary_def by (rule p_struct err_prims err_rules p_recs | assumption)+

lemma err_relexRegExp [err_rules]: "preserves (errIs e) (relexRegExp env)"
  unfolding relexRegExp_def by (rule p_struct err_prims err_rules p_recs | assumption)+

lemma err_parseOperand [err_rules]: "recsPreserve (errIs e) rec \<Longrightarrow> preserves (errIs e) (parseOperand env rec x1)"
  unfolding parseOperand_def by (rule p_struct err_prims err_rules p_recs | assumption)+

lemma err_parseExpression [err_rules]: "recsPreserve (errIs e) rec \<Longrightarrow> preserves (errIs e) (parseExpression env rec x1)"
  unfolding parseExpression_def by (rule p_struct err_prims err_rules p_recs | assumption)+

lemma err_checkEnd [err_rules]: "preserves (errIs e) (checkEnd env x1 x2)"
  unfolding checkEnd_def by (rule p_struct err_prims err_rules p_recs | assumption)+

lemma err_parseStmtVar [err_rules]: "recsPreserve (errIs e) rec \<Longrightarrow> preserves (errIs e) (parseStmtVar env rec x1)"
  unfolding parseStmtVar_def by (rule p_struct err_prims err_rules p_recs | assumption)+

lemma err_parseStmtLet [err_rules]: "recsPreserve (errIs e) rec \<Longrightarrow> preserves (errIs e) (parseStmtLet env rec x1)"
  unfolding parseStmtLet_def by (rule p_struct err_prims err_rules p_recs | assumption)+

lemma err_parseStmtIf [err_rules]: "recsPreserve (errIs e) rec \<Longrightarrow> preserves (errIs e) (parseStmtIf env rec)"
  unfolding parseStmtIf_def by (rule p_struct err_prims err_rules p_recs | assumption)+

lemma err_parseStmtBranch [err_rules]: "recsPreserve (errIs e) rec \<Longrightarrow> preserves (errIs e) (parseStmtBranch env rec)"
  unfolding parseStmtBranch_def by (rule p_struct err_prims err_rules p_recs | assumption)+

lemma err_parseStmtReturn [err_rules]: "recsPreserve (errIs e) rec \<Longrightarrow> preserves (errIs e) (parseStmtReturn env rec)"
  unfolding parseStmtReturn_def by (rule p_struct err_prims err_rules p_recs | assumption)+

lemma err_parseStmtWith [err_rules]: "recsPreserve (errIs e) rec \<Longrightarrow> preserves (errIs e) (parseStmtWith env rec)"
  unfolding parseStmtWith_def by (rule p_struct err_prims err_rules p_recs | assumption)+

lemma err_parseStmtDo [err_rules]: "recsPreserve (errIs e) rec \<Longrightarrow> preserves (errIs e) (parseStmtDo env rec)"
  unfolding parseStmtDo_def by (rule p_struct err_prims err_rules p_recs | assumption)+

lemma err_parseStmtWhile [err_rules]: "recsPreserve (errIs e) rec \<Longrightarrow> preserves (errIs e) (parseStmtWhile env rec)"
  unfolding parseStmtWhile_def by (rule p_struct err_prims err_rules p_recs | assumption)+

lemma err_parseForInit [err_rules]: "recsPreserve (errIs e) rec \<Longrightarrow> preserves (errIs e) (parseForInit env rec)"
  unfolding parseForInit_def by (rule p_struct err_prims err_rules p_recs | assumption)+

lemma err_parseForRest [err_rules]: "recsPreserve (errIs e) rec \<Longrightarrow> preserves (errIs e) (parseForRest env rec x1 x2)"
  unfolding parseForRest_def by (rule p_struct err_prims err_rules p_recs | assumption)+

lemma err_parseStmtFor [err_rules]: "recsPreserve (errIs e) rec \<Longrightarrow> preserves (errIs e) (parseStmtFor env rec)"
  unfolding parseStmtFor_def by (rule p_struct err_prims err_rules p_recs | assumption)+

lemma err_caseStmtsLoop [err_rules]: "recsPreserve (errIs e) rec \<Longrightarrow> preserves (errIs e) (caseStmtsLoop env rec x1)"
  unfolding caseStmtsLoop_def by (rule p_struct err_prims err_rules p_recs | assumption)+

lemma err_switchLoop [err_rules]: "recsPreserve (errIs e) rec \<Longrightarrow> preserves (errIs e) (switchLoop env rec x1)"
  unfolding switchLoop_def by (rule p_struct err_prims err_rules p_recs | assumption)+

lemma err_parseStmtSwitch [err_rules]: "recsPreserve (errIs e) rec \<Longrightarrow> preserves (errIs e) (parseStmtSwitch env rec)"
  unfolding parseStmtSwitch_def by (rule p_struct err_prims err_rules p_recs | assumption)+

lemma err_parseStmtAsync [err_rules]: "recsPreserve (errIs e) rec \<Longrightarrow> preserves (errIs e) (parseStmtAsync env rec x1)"
  unfolding parseStmtAsync_def by (rule p_struct err_prims err_rules p_recs | assumption)+

lemma err_parseStmtTry [err_rules]: "recsPreserve (errIs e) rec \<Longrightarrow> preserves (errIs e) (parseStmtTry env rec)"
  unfolding parseStmtTry_def by (rule p_struct err_prims err_rules p_recs | assumption)+

lemma err_parseStmtDefault [err_rules]: "recsPreserve (errIs e) rec \<Longrightarrow> preserves (errIs e) (parseStmtDefault env rec)"
  unfolding parseStmtDefault_def by (rule p_struct err_prims err_rules p_recs | assumption)+

lemma err_parseStmt [err_rules]: "recsPreserve (errIs e) rec \<Longrightarrow> preserves (errIs e) (parseStmt env rec x1)"
  unfolding parseStmt_def by (rule p_struct err_prims err_rules p_recs | assumption)+

lemma err_importLoop [err_rules]: "recsPreserve (errIs e) rec \<Longrightarrow> preserves (errIs e) (importLoop env rec x1)"
  unfolding importLoop_def by (rule p_struct err_prims err_rules p_recs | assumption)+

lemma err_parseImportStmt [err_rules]: "recsPreserve (errIs e) rec \<Longrightarrow> preserves (errIs e) (parseImportStmt env rec)"
  unfolding parseImportStmt_def by (rule p_struct err_prims err_rules p_recs | assumption)+

lemma err_exportLoop [err_rules]: "recsPreserve (errIs e) rec \<Longrightarrow> preserves (errIs e) (exportLoop env rec x1)"
  unfolding exportLoop_def by (rule p_struct err_prims err_rules p_recs | assumption)+

lemma err_parseExportList [err_rules]: "recsPreserve (errIs e) rec \<Longrightarrow> preserves (errIs e) (parseExportList env rec)"
  unfolding parseExportList_def by (rule p_struct err_prims err_rules p_recs | assumption)+

lemma err_parseExportDefault [err_rules]: "recsPreserve (errIs e) rec \<Longrightarrow> preserves (errIs e) (parseExportDefault env rec)"
  unfolding parseExportDefault_def by (rule p_struct err_prims err_rules p_recs | assumption)+

lemma err_parseExportStmt [err_rules]: "recsPreserve (errIs e) rec \<Longrightarrow> preserves (errIs e) (parseExportStmt env rec)"
  unfolding parseExportStmt_def by (rule p_struct err_prims err_rules p_recs | assumption)+

lemma err_moduleLoop [err_rules]: "recsPreserve (errIs e) rec \<Longrightarrow> preserves (errIs e) (moduleLoop env rec x1)"
  unfolding moduleLoop_def by (rule p_struct err_prims err_rules p_recs | assumption)+

lemma err_parseModule [err_rules]: "recsPreserve (errIs e) rec \<Longrightarrow> preserves (errIs e) (parseModule env rec)"
  unfolding parseModule_def by (rule p_struct err_prims err_rules p_recs | assumption)+

lemma err_parseBody [err_rules]: "recsPreserve (errIs e) rec \<Longrightarrow> preserves (errIs e) (parseBody env rec)"
  unfolding parseBody_def by (rule p_struct err_prims err_rules p_recs | assumption)+

lemma err_step: "recsPreserve (errIs e) rec \<Longrightarrow> recsPreserve (errIs e) (step env rec)"
  by (subst recsPreserve_def) (simp add: step_def err_nextLoop err_parseStmt err_parseBinding err_parseExpression err_parseExpressionSuffix err_moduleLoop err_switchLoop err_caseStmtsLoop err_blockLoop err_importLoop err_exportLoop err_varDeclLoop err_funcParamsLoop err_classLoop err_elisionLoop err_arrayBindingLoop err_objectBindingLoop err_arrayLiteralLoop err_objectLiteralLoop err_argsLoop err_parenLoop)

lemma err_run: "recsPreserve (errIs e) (run n env)"
proof (induction n)
  case 0
  show ?case by (simp add: recsPreserve_def noRecs_def p_outOfFuel)
next
  case (Suc n)
  then show ?case by (simp add: err_step)
qed

section \<open>The async and generator flags across function boundaries\<close>

lemma keepsOthers_flagsAre: "keepsOthers (flagsAre a g)"
  by (simp add: keepsOthers_def flagsAre_def)

lemma fl_setErr: "preserves (flagsAre a g) (setErr e)"
  unfolding setErr_def by (rule p_modify) (simp add: flagsAre_def)

lemma fl_failMessage: "preserves (flagsAre a g) (failMessage msg)"
  unfolding failMessage_def by (rule p_struct fl_setErr | assumption)+

lemma fl_fail: "preserves (flagsAre a g) (fail env inn expected)"
  unfolding fail_def by (rule p_struct fl_setErr | assumption)+

lemmas fl_prims = frames [OF keepsOthers_flagsAre] fl_failMessage fl_fail

text \<open>
  Between the assignment \<open>p.async, p.generator = ...\<close> of a function boundary and the
  assignment that restores the saved values nothing needs to be known: the restoring
  assignment establishes the flags whatever the body has done.
\<close>

lemma fl_set:
  assumes "establishes (flagsAre a g) (k ())"
  shows "preserves (flagsAre a g) (bind (setFlags x y) k)"
proof (rule preservesI)
  fix p r p'
  assume "bind (setFlags x y) k p = Inr (r, p')"
  from bind_Inr [OF this] obtain u q where "k u q = Inr (r, p')" by blast
  with assms show "flagsAre a g p'" by (auto dest: establishesD)
qed

lemma est_bind:
  assumes "\<And>x. establishes I (k x)"
  shows "establishes I (bind m k)"
proof (rule establishesI)
  fix p r p'
  assume "bind m k p = Inr (r, p')"
  from bind_Inr [OF this] obtain u q where "k u q = Inr (r, p')" by blast
  with assms show "I p'" by (auto dest: establishesD)
qed

lemma est_restore:
  assumes saved: "flagsAre a g saved" and k: "preserves (flagsAre a g) (k ())"
  shows "establishes (flagsAre a g) (bind (setFlags (async saved) (generator saved)) k)"
proof (rule establishesI)
  fix p r p'
  assume "bind (setFlags (async saved) (generator saved)) k p = Inr (r, p')"
  from bind_Inr [OF this] obtain u q
    where s: "setFlags (async saved) (generator saved) p = Inr (u, q)" and kq: "k u q = Inr (r, p')"
    by blast
  from s saved have "flagsAre a g q"
    by (auto simp: setFlags_def modify_def flagsAre_def)
  with k kq show "flagsAre a g p'" by (auto dest: preservesD)
qed

lemma est_panic: "establishes I panic"
  by (rule establishesI) (simp add: panic_def)

lemma est_case_option: "establishes I a \<Longrightarrow> (\<And>b. establishes I (g b)) \<Longrightarrow> establishes I (case_option a g x)"
  by (cases x) simp_all

lemmas brackets = fl_set est_restore est_bind est_panic est_case_option

lemma fl_nextLoop [fl_rules]: "recsPreserve (flagsAre a g) rec \<Longrightarrow> preserves (flagsAre a g) (nextLoop env rec)"
  unfolding nextLoop_def by (rule p_struct fl_prims fl_rules p_recs | assumption)+

lemma fl_nextP [fl_rules]: "recsPreserve (flagsAre a g) rec \<Longrightarrow> preserves (flagsAre a g) (next' env rec)"
  unfolding next'_def by (rule p_struct fl_prims fl_rules p_recs | assumption)+

lemma fl_consume [fl_rules]: "recsPreserve (flagsAre a g) rec \<Longrightarrow> preserves (flagsAre a g) (consume env rec x1 x2)"
  unfolding consume_def by (rule p_struct fl_prims fl_rules p_recs | assumption)+

lemma fl_enterScope [fl_rules]: "preserves (flagsAre a g) (enterScope x1)"
  unfolding enterScope_def by (rule p_struct fl_prims fl_rules p_recs | assumption)+

lemma fl_scopeDeclare [fl_rules]: "preserves (flagsAre a g) (scopeDeclare env x1 x2)"
  unfolding scopeDeclare_def by (rule p_struct fl_prims fl_rules p_recs | assumption)+

lemma fl_scopeUse [fl_rules]: "preserves (flagsAre a g) (scopeUse env x1)"
  unfolding scopeUse_def by (rule p_struct fl_prims fl_rules p_recs | assumption)+

lemma fl_scopeMarkArguments [fl_rules]: "preserves (flagsAre a g) (scopeMarkArguments env)"
  unfolding scopeMarkArguments_def by (rule p_struct fl_prims fl_rules p_recs | assumption)+

lemma fl_astAddVar [fl_rules]: "preserves (flagsAre a g) (astAddVar env x1 x2)"
  unfolding astAddVar_def by (rule p_struct fl_prims fl_rules p_recs | assumption)+

lemma fl_exitScope [fl_rules]: "preserves (flagsAre a g) (exitScope env x1)"
  unfolding exitScope_def by (rule p_struct fl_prims fl_rules p_recs | assumption)+

lemma fl_parsePropertyName [fl_rules]: "recsPreserve (flagsAre a g) rec \<Longrightarrow> preserves (flagsAre a g) (parsePropertyName env rec x1)"
  unfolding parsePropertyName_def by (rule p_struct fl_prims fl_rules p_recs | assumption)+

lemma fl_parseTemplateLiteral [fl_rules]: "recsPreserve (flagsAre a g) rec \<Longrightarrow> preserves (flagsAre a g) (parseTemplateLiteral env rec)"
  unfolding parseTemplateLiteral_def by (rule p_struct fl_prims fl_rules p_recs | assumption)+

lemma fl_argsLoop [fl_rules]: "recsPreserve (flagsAre a g) rec \<Longrightarrow> preserves (flagsAre a g) (argsLoop env rec x1)"
  unfolding argsLoop_def by (rule p_struct fl_prims fl_rules p_recs | assumption)+

lemma fl_parseArgs [fl_rules]: "recsPreserve (flagsAre a g) rec \<Longrightarrow> preserves (flagsAre a g) (parseArgs env rec)"
  unfolding parseArgs_def by (rule p_struct fl_prims fl_rules p_recs | assumption)+

lemma fl_parseBindingElement [fl_rules]: "recsPreserve (flagsAre a g) rec \<Longrightarrow> preserves (flagsAre a g) (parseBindingElement env rec x1)"
  unfolding parseBindingElement_def by (rule p_struct fl_prims fl_rules p_recs | assumption)+

lemma fl_elisionLoop [fl_rules]: "recsPreserve (flagsAre a g) rec \<Longrightarrow> preserves (flagsAre a g) (elisionLoop env rec x1)"
  unfolding elisionLoop_def by (rule p_struct fl_prims fl_rules p_recs | assumption)+

lemma fl_arrayBindingLoop [fl_rules]: "recsPreserve (flagsAre a g) rec \<Longrightarrow> preserves (flagsAre a g) (arrayBindingLoop env rec x1 x2)"
  unfolding arrayBindingLoop_def by (rule p_struct fl_prims fl_rules p_recs | assumption)+

lemma fl_objectBindingItem [fl_rules]: "recsPreserve (flagsAre a g) rec \<Longrightarrow> preserves (flagsAre a g) (objectBindingItem env rec x1)"
  unfolding objectBindingItem_def by (rule p_struct fl_prims fl_rules p_recs | assumption)+

lemma fl_objectBindingLoop [fl_rules]: "recsPreserve (flagsAre a g) rec \<Longrightarrow> preserves (flagsAre a g) (objectBindingLoop env rec x1 x2)"
  unfolding objectBindingLoop_def by (rule p_struct fl_prims fl_rules p_recs | assumption)+

lemma fl_parseBinding [fl_rules]: "recsPreserve (flagsAre a g) rec \<Longrightarrow> preserves (flagsAre a g) (parseBinding env rec x1)"
  unfolding parseBinding_def by (rule p_struct fl_prims fl_rules p_recs | assumption)+

lemma fl_varDeclLoop [fl_rules]: "recsPreserve (flagsAre a g) rec \<Longrightarrow> preserves (flagsAre a g) (varDeclLoop env rec x1 x2)"
  unfolding varDeclLoop_def by (rule p_struct fl_prims fl_rules p_recs | assumption)+

lemma fl_parseVarDecl [fl_rules]: "recsPreserve (flagsAre a g) rec \<Longrightarrow> preserves (flagsAre a g) (parseVarDecl env rec x1)"
  unfolding parseVarDecl_def by (rule p_struct fl_prims fl_rules p_recs | assumption)+

lemma fl_funcParamsLoop [fl_rules]: "recsPreserve (flagsAre a g) rec \<Longrightarrow> preserves (flagsAre a g) (funcParamsLoop env rec x1 x2)"
  unfolding funcParamsLoop_def by (rule p_struct fl_prims fl_rules p_recs | assumption)+

lemma fl_parseFuncParams [fl_rules]: "recsPreserve (flagsAre a g) rec \<Longrightarrow> preserves (flagsAre a g) (parseFuncParams env rec x1)"
  unfolding parseFuncParams_def by (rule p_struct fl_prims fl_rules p_recs | assumption)+

lemma fl_blockLoop [fl_rules]: "recsPreserve (flagsAre a g) rec \<Longrightarrow> preserves (flagsAre a g) (blockLoop env rec x1)"
  unfolding blockLoop_def by (rule p_struct fl_prims fl_rules p_recs | assumption)+

lemma fl_parseBlockStmt [fl_rules]: "recsPreserve (flagsAre a g) rec \<Longrightarrow> preserves (flagsAre a g) (parseBlockStmt env rec x1 x2)"
  unfolding parseBlockStmt_def by (rule p_struct fl_prims fl_rules p_recs | assumption)+

lemma fl_parseArrowFuncBody [fl_rules]: "recsPreserve (flagsAre a g) rec \<Longrightarrow> preserves (flagsAre a g) (parseArrowFuncBody env rec)"
  unfolding parseArrowFuncBody_def by (rule p_struct fl_prims fl_rules p_recs | assumption)+

lemma fl_parseAnyFuncName [fl_rules]: "recsPreserve (flagsAre a g) rec \<Longrightarrow> preserves (flagsAre a g) (parseAnyFuncName env rec x1 x2 x3)"
  unfolding parseAnyFuncName_def by (rule p_struct fl_prims fl_rules p_recs | assumption)+

lemma fl_parseAnyFunc [fl_rules]: "recsPreserve (flagsAre a g) rec \<Longrightarrow> preserves (flagsAre a g) (parseAnyFunc env rec x1 x2)"
  unfolding parseAnyFunc_def by (rule brackets p_struct fl_prims fl_rules p_recs | assumption)+

lemma fl_parseFuncDecl [fl_rules]: "recsPreserve (flagsAre a g) rec \<Longrightarrow> preserves (flagsAre a g) (parseFuncDecl env rec)"
  unfolding parseFuncDecl_def by (rule p_struct fl_prims fl_rules p_recs | assumption)+

lemma fl_parseAsyncFuncDecl [fl_rules]: "recsPreserve (flagsAre a g) rec \<Longrightarrow> preserves (flagsAre a g) (parseAsyncFuncDecl env rec)"
  unfolding parseAsyncFuncDecl_def by (rule p_struct fl_prims fl_rules p_recs | assumption)+

lemma fl_parseFuncExpr [fl_rules]: "recsPreserve (flagsAre a g) rec \<Longrightarrow> preserves (flagsAre a g) (parseFuncExpr env rec)"
  unfolding parseFuncExpr_def by (rule p_struct fl_prims fl_rules p_recs | assumption)+

lemma fl_parseAsyncFuncExpr [fl_rules]: "recsPreserve (flagsAre a g) rec \<Longrightarrow> preserves (flagsAre a g) (parseAsyncFuncExpr env rec)"
  unfolding parseAsyncFuncExpr_def by (rule p_struct fl_prims fl_rules p_recs | assumption)+

lemma fl_parseMethodModifiers [fl_rules]: "recsPreserve (flagsAre a g) rec \<Longrightarrow> preserves (flagsAre a g) (parseMethodModifiers env rec x1)"
  unfolding parseMethodModifiers_def by (rule p_struct fl_prims fl_rules p_recs | assumption)+

lemma fl_parseMethod [fl_rules]: "recsPreserve (flagsAre a g) rec \<Longrightarrow> preserves (flagsAre a g) (parseMethod env rec)"
  unfolding parseMethod_def by (rule brackets p_struct fl_prims fl_rules p_recs | assumption)+

lemma fl_classLoop [fl_rules]: "recsPreserve (flagsAre a g) rec \<Longrightarrow> preserves (flagsAre a g) (classLoop env rec x1)"
  unfolding classLoop_def by (rule p_struct fl_prims fl_rules p_recs | assumption)+

lemma fl_parseAnyClassName [fl_rules]: "recsPreserve (flagsAre a g) rec \<Longrightarrow> preserves (flagsAre a g) (parseAnyClassName env rec x1)"
  unfolding parseAnyClassName_def by (rule p_struct fl_prims fl_rules p_recs | assumption)+

lemma fl_parseAnyClass [fl_rules]: "recsPreserve (flagsAre a g) rec \<Longrightarrow> preserves (flagsAre a g) (parseAnyClass env rec x1)"
  unfolding parseAnyClass_def by (rule p_struct fl_prims fl_rules p_recs | assumption)+

lemma fl_parseClassDecl [fl_rules]: "recsPreserve (flagsAre a g) rec \<Longrightarrow> preserves (flagsAre a g) (parseClassDecl env rec)"
  unfolding parseClassDecl_def by (rule p_struct fl_prims fl_rules p_recs | assumption)+

lemma fl_parseClassExpr [fl_rules]: "recsPreserve (flagsAre a g) rec \<Longrightarrow> preserves (flagsAre a g) (parseClassExpr env rec)"
  unfolding parseClassExpr_def by (rule p_struct fl_prims fl_rules p_recs | assumption)+

lemma fl_parseAsyncArrowFunc [fl_rules]: "recsPreserve (flagsAre a g) rec \<Longrightarrow> preserves (flagsAre a g) (parseAsyncArrowFunc env rec)"
  unfolding parseAsyncArrowFunc_def by (rule brackets p_struct fl_prims fl_rules p_recs | assumption)+

lemma fl_detachIdentifier [fl_rules]: "preserves (flagsAre a g) (detachIdentifier env x1)"
  unfolding detachIdentifier_def by (rule p_struct fl_prims fl_rules p_recs | assumption)+

lemma fl_parseIdentifierArrowFunc [fl_rules]: "recsPreserve (flagsAre a g) rec \<Longrightarrow> preserves (flagsAre a g) (parseIdentifierArrowFunc env rec x1)"
  unfolding parseIdentifierArrowFunc_def by (rule brackets p_struct fl_prims fl_rules p_recs | assumption)+

lemma fl_infixOp [fl_rules]: "recsPreserve (flagsAre a g) rec \<Longrightarrow> preserves (flagsAre a g) (infixOp env rec x1 x2 x3 x4 x5 x6 x7)"
  unfolding infixOp_def by (rule p_struct fl_prims fl_rules p_recs | assumption)+

lemma fl_postfixOp [fl_rules]: "recsPreserve (flagsAre a g) rec \<Longrightarrow> preserves (flagsAre a g) (postfixOp env rec x1 x2 x3 x4)"
  unfolding postfixOp_def by (rule p_struct fl_prims fl_rules p_recs | assumption)+

lemma fl_optChain [fl_rules]: "recsPreserve (flagsAre a g) rec \<Longrightarrow> preserves (flagsAre a g) (optChain env rec x1 x2)"
  unfolding optChain_def by (rule p_struct fl_prims fl_rules p_recs | assumption)+

lemma fl_suffixStep [fl_rules]: "recsPreserve (flagsAre a g) rec \<Longrightarrow> preserves (flagsAre a g) (suffixStep env rec x1 x2 x3)"
  unfolding suffixStep_def by (rule p_struct fl_prims fl_rules p_recs | assumption)+

lemma fl_parseExpressionSuffix [fl_rules]: "recsPreserve (flagsAre a g) rec \<Longrightarrow> preserves (flagsAre a g) (parseExpressionSuffix env rec x1 x2 x3)"
  unfolding parseExpressionSuffix_def by (rule p_struct fl_prims fl_rules p_recs | assumption)+

lemma fl_parseIdentifierExpression [fl_rules]: "recsPreserve (flagsAre a g) rec \<Longrightarrow> preserves (flagsAre a g) (parseIdentifierExpression env rec x1 x2)"
  unfolding parseIdentifierExpression_def by (rule p_struct fl_prims fl_rules p_recs | assumption)+

lemma fl_parseAsyncExpression [fl_rules]: "recsPreserve (flagsAre a g) rec \<Longrightarrow> preserves (flagsAre a g) (parseAsyncExpression env rec x1 x2)"
  unfolding parseAsyncExpression_def by (rule p_struct fl_prims fl_rules p_recs | assumption)+

lemma fl_parseAssignmentExpression [fl_rules]: "recsPreserve (flagsAre a g) rec \<Longrightarrow> preserves (flagsAre a g) (parseAssignmentExpression env rec)"
  unfolding parseAssignmentExpression_def by (rule p_struct fl_prims fl_rules p_recs | assumption)+

lemma fl_arrayLiteralLoop [fl_rules]: "recsPreserve (flagsAre a g) rec \<Longrightarrow> preserves (flagsAre a g) (arrayLiteralLoop env rec x1 x2)"
  unfolding arrayLiteralLoop_def by (rule p_struct fl_prims fl_rules p_recs | assumption)+

lemma fl_parseArrayLiteral [fl_rules]: "recsPreserve (flagsAre a g) rec \<Longrightarrow> preserves (flagsAre a g) (parseArrayLiteral env rec)"
  unfolding parseArrayLiteral_def by (rule p_struct fl_prims fl_rules p_recs | assumption)+

lemma fl_objectMethodModifiers [fl_rules]: "recsPreserve (flagsAre a g) rec \<Longrightarrow> preserves (flagsAre a g) (objectMethodModifiers env rec)"
  unfolding objectMethodModifiers_def by (rule p_struct fl_prims fl_rules p_recs | assumption)+

lemma fl_objectPropertyName [fl_rules]: "recsPreserve (flagsAre a g) rec \<Longrightarrow> preserves (flagsAre a g) (objectPropertyName env rec x1)"
  unfolding objectPropertyName_def by (rule p_struct fl_prims fl_rules p_recs | assumption)+

lemma fl_objectPropertyValue [fl_rules]: "recsPreserve (flagsAre a g) rec \<Longrightarrow> preserves (flagsAre a g) (objectPropertyValue env rec x1 x2)"
  unfolding objectPropertyValue_def by (rule brackets p_struct fl_prims fl_rules p_recs | assumption)+

lemma fl_objectProperty [fl_rules]: "recsPreserve (flagsAre a g) rec \<Longrightarrow> preserves (flagsAre a g) (objectProperty env rec)"
  unfolding objectProperty_def by (rule p_struct fl_prims fl_rules p_recs | assumption)+

lemma fl_objectLiteralLoop [fl_rules]: "recsPreserve (flagsAre a g) rec \<Longrightarrow> preserves (flagsAre a g) (objectLiteralLoop env rec x1)"
  unfolding objectLiteralLoop_def by (rule p_struct fl_prims fl_rules p_recs | assumption)+

lemma fl_parseObjectLiteral [fl_rules]: "recsPreserve (flagsAre a g) rec \<Longrightarrow> preserves (flagsAre a g) (parseObjectLiteral env rec)"
  unfolding parseObjectLiteral_def by (rule p_struct fl_prims fl_rules p_recs | assumption)+

lemma fl_parenLoop [fl_rules]: "recsPreserve (flagsAre a g) rec \<Longrightarrow> preserves (flagsAre a g) (parenLoop env rec x1)"
  unfolding parenLoop_def by (rule p_struct fl_prims fl_rules p_recs | assumption)+

lemma fl_parenDecide [fl_rules]: "recsPreserve (flagsAre a g) rec \<Longrightarrow> preserves (flagsAre a g) (parenDecide env rec x1 x2 x3 x4 x5)"
  unfolding parenDecide_def by (rule brackets p_struct fl_prims fl_rules p_recs | assumption)+

lemma fl_parseParenthesizedExpressionOrArrowFunc [fl_rules]: "recsPreserve (flagsAre a g) rec \<Longrightarrow> preserves (flagsAre a g) (parseParenthesizedExpressionOrArrowFunc env rec x1)"
  unfolding parseParenthesizedExpressionOrArrowFunc_def by (rule p_struct fl_prims fl_rules p_recs | assumption)+

lemma fl_prefixOp [fl_rules]: "recsPreserve (flagsAre a g) rec \<Longrightarrow> preserves (flagsAre a g) (prefixOp env rec x1 x2 x3)"
  unfolding prefixOp_def by (rule p_struct fl_prims fl_rules p_recs | assumption)+

lemma fl_parseNew [fl_rules]: "recsPreserve (flagsAre a g) rec \<Longrightarrow> preserves (flagsAre a g) (parseNew env rec)"
  unfolding parseNew_def by (rule p_struct fl_prims fl_rules p_recs | assumption)+

lemma fl_parseImportExpr [fl_rules]: "recsPreserve (flagsAre a g) rec \<Longrightarrow> preserves (flagsAre a g) (parseImportExpr env rec x1)"
  unfolding parseImportExpr_def by (rule p_struct fl_prims fl_rules p_recs | assumption)+

lemma fl_parseSuper [fl_rules]: "recsPreserve (flagsAre a g) rec \<Longrightarrow> preserves (flagsAre a g) (parseSuper env rec x1)"
  unfolding parseSuper_def by (rule p_struct fl_prims fl_rules p_recs | assumption)+

lemma fl_parseYield [fl_rules]: "recsPreserve (flagsAre a g) rec \<Longrightarrow> preserves (flagsAre a g) (parseYield env rec x1)"
  unfolding parseYield_def by (rule p_struct fl_prims fl_rules p_recs | assumption)+

lemma fl_parseAwait [fl_rules]: "recsPreserve (flagsAre a g) rec \<Longrightarrow> preserves (flagsAre a g) (parseAwait env rec x1)"
  unfolding parseAwait_def by (rule p_struct fl_prims fl_rules p_recs | assumption)+

lemma fl_parsePrimary [fl_rules]: "recsPreserve (flagsAre a g) rec \<Longrightarrow> preserves (flagsAre a g) (parsePrimary env rec x1)"
  unfolding parsePrimary_def by (rule p_struct fl_prims fl_rules p_recs | assumption)+

lemma fl_relexRegExp [fl_rules]: "preserves (flagsAre a g) (relexRegExp env)"
  unfolding relexRegExp_def by (rule p_struct fl_prims fl_rules p_recs | assumption)+

lemma fl_parseOperand [fl_rules]: "recsPreserve (flagsAre a g) rec \<Longrightarrow> preserves (flagsAre a g) (parseOperand env rec x1)"
  unfolding parseOperand_def by (rule p_struct fl_prims fl_rules p_recs | assumption)+

lemma fl_parseExpression [fl_rules]: "recsPreserve (flagsAre a g) rec \<Longrightarrow> preserves (flagsAre a g) (parseExpression env rec x1)"
  unfolding parseExpression_def by (rule p_struct fl_prims fl_rules p_recs | assumption)+

lemma fl_checkEnd [fl_rules]: "preserves (flagsAre a g) (checkEnd env x1 x2)"
  unfolding checkEnd_def by (rule p_struct fl_prims fl_rules p_recs | assumption)+

lemma fl_parseStmtVar [fl_rules]: "recsPreserve (flagsAre a g) rec \<Longrightarrow> preserves (flagsAre a g) (parseStmtVar env rec x1)"
  unfolding parseStmtVar_def by (rule p_struct fl_prims fl_rules p_recs | assumption)+

lemma fl_parseStmtLet [fl_rules]: "recsPreserve (flagsAre a g) rec \<Longrightarrow> preserves (flagsAre a g) (parseStmtLet env rec x1)"
  unfolding parseStmtLet_def by (rule p_struct fl_prims fl_rules p_recs | assumption)+

lemma fl_parseStmtIf [fl_rules]: "recsPreserve (flagsAre a g) rec \<Longrightarrow> preserves (flagsAre a g) (parseStmtIf env rec)"
  unfolding parseStmtIf_def by (rule p_struct fl_prims fl_rules p_recs | assumption)+

lemma fl_parseStmtBranch [fl_rules]: "recsPreserve (flagsAre a g) rec \<Longrightarrow> preserves (flagsAre a g) (parseStmtBranch env rec)"
  unfolding parseStmtBranch_def by (rule p_struct fl_prims fl_rules p_recs | assumption)+

lemma fl_parseStmtReturn [fl_rules]: "recsPreserve (flagsAre a g) rec \<Longrightarrow> preserves (flagsAre a g) (parseStmtReturn env rec)"
  unfolding parseStmtReturn_def by (rule p_struct fl_prims fl_rules p_recs | assumption)+

lemma fl_parseStmtWith [fl_rules]: "recsPreserve (flagsAre a g) rec \<Longrightarrow> preserves (flagsAre a g) (parseStmtWith env rec)"
  unfolding parseStmtWith_def by (rule p_struct fl_prims fl_rules p_recs | assumption)+

lemma fl_parseStmtDo [fl_rules]: "recsPreserve (flagsAre a g) rec \<Longrightarrow> preserves (flagsAre a g) (parseStmtDo env rec)"
  unfolding parseStmtDo_def by (rule p_struct fl_prims fl_rules p_recs | assumption)+

lemma fl_parseStmtWhile [fl_rules]: "recsPreserve (flagsAre a g) rec \<Longrightarrow> preserves (flagsAre a g) (parseStmtWhile env rec)"
  unfolding parseStmtWhile_def by (rule p_struct fl_prims fl_rules p_recs | assumption)+

lemma fl_parseForInit [fl_rules]: "recsPreserve (flagsAre a g) rec \<Longrightarrow> preserves (flagsAre a g) (parseForInit env rec)"
  unfolding parseForInit_def by (rule p_struct fl_prims fl_rules p_recs | assumption)+

lemma fl_parseForRest [fl_rules]: "recsPreserve (flagsAre a g) rec \<Longrightarrow> preserves (flagsAre a g) (parseForRest env rec x1 x2)"
  unfolding parseForRest_def by (rule p_struct fl_prims fl_rules p_recs | assumption)+

lemma fl_parseStmtFor [fl_rules]: "recsPreserve (flagsAre a g) rec \<Longrightarrow> preserves (flagsAre a g) (parseStmtFor env rec)"
  unfolding parseStmtFor_def by (rule p_struct fl_prims fl_rules p_recs | assumption)+

lemma fl_caseStmtsLoop [fl_rules]: "recsPreserve (flagsAre a g) rec \<Longrightarrow> preserves (flagsAre a g) (caseStmtsLoop env rec x1)"
  unfolding caseStmtsLoop_def by (rule p_struct fl_prims fl_rules p_recs | assumption)+

lemma fl_switchLoop [fl_rules]: "recsPreserve (flagsAre a g) rec \<Longrightarrow> preserves (flagsAre a g) (switchLoop env rec x1)"
  unfolding switchLoop_def by (rule p_struct fl_prims fl_rules p_recs | assumption)+

lemma fl_parseStmtSwitch [fl_rules]: "recsPreserve (flagsAre a g) rec \<Longrightarrow> preserves (flagsAre a g) (parseStmtSwitch env rec)"
  unfolding parseStmtSwitch_def by (rule p_struct fl_prims fl_rules p_recs | assumption)+

lemma fl_parseStmtAsync [fl_rules]: "recsPreserve (flagsAre a g) rec \<Longrightarrow> preserves (flagsAre a g) (parseStmtAsync env rec x1)"
  unfolding parseStmtAsync_def by (rule p_struct fl_prims fl_rules p_recs | assumption)+

lemma fl_parseStmtTry [fl_rules]: "recsPreserve (flagsAre a g) rec \<Longrightarrow> preserves (flagsAre a g) (parseStmtTry env rec)"
  unfolding parseStmtTry_def by (rule p_struct fl_prims fl_rules p_recs | assumption)+

lemma fl_parseStmtDefault [fl_rules]: "recsPreserve (flagsAre a g) rec \<Longrightarrow> preserves (flagsAre a g) (parseStmtDefault env rec)"
  unfolding parseStmtDefault_def by (rule p_struct fl_prims fl_rules p_recs | assumption)+

lemma fl_parseStmt [fl_rules]: "recsPreserve (flagsAre a g) rec \<Longrightarrow> preserves (flagsAre a g) (parseStmt env rec x1)"
  unfolding parseStmt_def by (rule p_struct fl_prims fl_rules p_recs | assumption)+

lemma fl_importLoop [fl_rules]: "recsPreserve (flagsAre a g) rec \<Longrightarrow> preserves (flagsAre a g) (importLoop env rec x1)"
  unfolding importLoop_def by (rule p_struct fl_prims fl_rules p_recs | assumption)+

lemma fl_parseImportStmt [fl_rules]: "recsPreserve (flagsAre a g) rec \<Longrightarrow> preserves (flagsAre a g) (parseImportStmt env rec)"
  unfolding parseImportStmt_def by (rule p_struct fl_prims fl_rules p_recs | assumption)+

lemma fl_exportLoop [fl_rules]: "recsPreserve (flagsAre a g) rec \<Longrightarrow> preserves (flagsAre a g) (exportLoop env rec x1)"
  unfolding exportLoop_def by (rule p_struct fl_prims fl_rules p_recs | assumption)+

lemma fl_parseExportList [fl_rules]: "recsPreserve (flagsAre a g) rec \<Longrightarrow> preserves (flagsAre a g) (parseExportList env rec)"
  unfolding parseExportList_def by (rule p_struct fl_prims fl_rules p_recs | assumption)+

lemma fl_parseExportDefault [fl_rules]: "recsPreserve (flagsAre a g) rec \<Longrightarrow> preserves (flagsAre a g) (parseExportDefault env rec)"
  unfolding parseExportDefault_def by (rule p_struct fl_prims fl_rules p_recs | assumption)+

lemma fl_parseExportStmt [fl_rules]: "recsPreserve (flagsAre a g) rec \<Longrightarrow> preserves (flagsAre a g) (parseExportStmt env rec)"
  unfolding parseExportStmt_def by (rule p_struct fl_prims fl_rules p_recs | assumption)+

lemma fl_moduleLoop [fl_rules]: "recsPreserve (flagsAre a g) rec \<Longrightarrow> preserves (flagsAre a g) (moduleLoop env rec x1)"
  unfolding moduleLoop_def by (rule p_struct fl_prims fl_rules p_recs | assumption)+

lemma fl_parseModule [fl_rules]: "recsPreserve (flagsAre a g) rec \<Longrightarrow> preserves (flagsAre a g) (parseModule env rec)"
  unfolding parseModule_def by (rule p_struct fl_prims fl_rules p_recs | assumption)+

lemma fl_parseBody [fl_rules]: "recsPreserve (flagsAre a g) rec \<Longrightarrow> preserves (flagsAre a g) (parseBody env rec)"
  unfolding parseBody_def by (rule p_struct fl_prims fl_rules p_recs | assumption)+

lemma fl_step: "recsPreserve (flagsAre a g) rec \<Longrightarrow> recsPreserve (flagsAre a g) (step env rec)"
  by (subst recsPreserve_def) (simp add: step_def fl_nextLoop fl_parseStmt fl_parseBinding fl_parseExpression fl_parseExpressionSuffix fl_moduleLoop fl_switchLoop fl_caseStmtsLoop fl_blockLoop fl_importLoop fl_exportLoop fl_varDeclLoop fl_funcParamsLoop fl_classLoop fl_elisionLoop fl_arrayBindingLoop fl_objectBindingLoop fl_arrayLiteralLoop fl_objectLiteralLoop fl_argsLoop fl_parenLoop)

lemma fl_run: "recsPreserve (flagsAre a g) (run n env)"
proof (induction n)
  case 0
  show ?case by (simp add: recsPreserve_def noRecs_def p_outOfFuel)
next
  case (Suc n)
  then show ?case by (simp add: fl_step)
qed

lemma flags_after:
  assumes "preserves (flagsAre (async p) (generator p)) m" and "m p = Inr (r, p')"
  shows "async p' = async p \<and> generator p' = generator p"
proof -
  have "flagsAre (async p) (generator p) p" by (simp add: flagsAre_def)
  with assms have "flagsAre (async p) (generator p) p'" by (blast dest: preservesD)
  then show ?thesis by (simp add: flagsAre_def)
qed

section \<open>The bound on the nesting does not change a result\<close>

lemma refinesI: "(\<And>p. m p \<noteq> Inl OutOfFuel \<Longrightarrow> m' p = m p) \<Longrightarrow> refines m m'"
  unfolding refines_def by blast

lemma refinesD: "refines m m' \<Longrightarrow> m p \<noteq> Inl OutOfFuel \<Longrightarrow> m' p = m p"
  unfolding refines_def by blast

lemma r_refl: "refines m m"
  by (rule refinesI) simp

lemma r_outOfFuel: "refines outOfFuel m"
  by (rule refinesI) (simp add: outOfFuel_def)

lemma r_bind:
  assumes m: "refines m m'" and k: "\<And>x. refines (k x) (k' x)"
  shows "refines (bind m k) (bind m' k')"
proof (rule refinesI)
  fix p
  assume b: "bind m k p \<noteq> Inl OutOfFuel"
  show "bind m' k' p = bind m k p"
  proof (cases "m p")
    case (Inl a)
    with b have "m p \<noteq> Inl OutOfFuel" by (auto simp: bind_apply)
    with m have "m' p = m p" by (rule refinesD)
    with Inl show ?thesis by (simp add: bind_apply)
  next
    case (Inr xq)
    obtain x q where xq: "xq = (x, q)" by (cases xq)
    from Inr have "m p \<noteq> Inl OutOfFuel" by simp
    with m have m': "m' p = m p" by (rule refinesD)
    from b Inr xq have "k x q \<noteq> Inl OutOfFuel" by (simp add: bind_apply)
    with k have "k' x q = k x q" by (rule refinesD)
    with m' Inr xq show ?thesis by (simp add: bind_apply)
  qed
qed

lemma r_if: "(c \<Longrightarrow> refines a a') \<Longrightarrow> (\<not> c \<Longrightarrow> refines b b') \<Longrightarrow> refines (if c then a else b) (if c then a' else b')"
  by simp

lemma r_let: "(\<And>x. refines (f x) (f' x)) \<Longrightarrow> refines (Let v f) (Let v f')"
  by simp

lemma r_case_prod: "(\<And>a b. refines (f a b) (f' a b)) \<Longrightarrow> refines (case_prod f x) (case_prod f' x)"
  by (cases x) simp

lemma r_case_sum:
  "(\<And>a. refines (f a) (f' a)) \<Longrightarrow> (\<And>b. refines (g b) (g' b)) \<Longrightarrow> refines (case_sum f g x) (case_sum f' g' x)"
  by (cases x) simp_all

lemma r_case_option:
  "refines a a' \<Longrightarrow> (\<And>b. refines (g b) (g' b)) \<Longrightarrow> refines (case_option a g x) (case_option a' g' x)"
  by (cases x) simp_all

lemma r_whenM: "refines m m' \<Longrightarrow> refines (whenM c m) (whenM c m')"
  by (simp add: whenM_def r_refl)

lemma r_flowBind: "refines m m' \<Longrightarrow> (\<And>x. refines (k x) (k' x)) \<Longrightarrow> refines (flowBind m k) (flowBind m' k')"
  unfolding flowBind_def by (rule r_bind, assumption, rule r_case_sum, rule r_refl, assumption)

lemma r_flowEnd: "refines m m' \<Longrightarrow> (\<And>x. refines (k x) (k' x)) \<Longrightarrow> refines (flowEnd m k) (flowEnd m' k')"
  unfolding flowEnd_def by (rule r_bind, assumption, rule r_case_sum, rule r_refl, assumption)

lemma r_withScope: "(\<And>a. refines (f a) (f' a)) \<Longrightarrow> refines (withScope f) (withScope f')"
  unfolding withScope_def by (rule r_bind, rule r_refl, rule r_case_option, rule r_refl, assumption)

lemmas r_struct = r_refl r_bind r_if r_let r_case_prod r_case_sum r_case_option r_whenM r_flowBind
  r_flowEnd r_withScope

lemma r_rNextLoop: "recsRefine rec rec' \<Longrightarrow> refines (rNextLoop rec) (rNextLoop rec')"
  by (simp add: recsRefine_def)

lemma r_rStmt: "recsRefine rec rec' \<Longrightarrow> refines (rStmt rec x1) (rStmt rec' x1)"
  by (simp add: recsRefine_def)

lemma r_rBinding: "recsRefine rec rec' \<Longrightarrow> refines (rBinding rec x1) (rBinding rec' x1)"
  by (simp add: recsRefine_def)

lemma r_rExpression: "recsRefine rec rec' \<Longrightarrow> refines (rExpression rec x1) (rExpression rec' x1)"
  by (simp add: recsRefine_def)

lemma r_rExpressionSuffix: "recsRefine rec rec' \<Longrightarrow> refines (rExpressionSuffix rec x1 x2 x3) (rExpressionSuffix rec' x1 x2 x3)"
  by (simp add: recsRefine_def)

lemma r_rModuleLoop: "recsRefine rec rec' \<Longrightarrow> refines (rModuleLoop rec x1) (rModuleLoop rec' x1)"
  by (simp add: recsRefine_def)

lemma r_rSwitchLoop: "recsRefine rec rec' \<Longrightarrow> refines (rSwitchLoop rec x1) (rSwitchLoop rec' x1)"
  by (simp add: recsRefine_def)

lemma r_rCaseStmtsLoop: "recsRefine rec rec' \<Longrightarrow> refines (rCaseStmtsLoop rec x1) (rCaseStmtsLoop rec' x1)"
  by (simp add: recsRefine_def)

lemma r_rBlockLoop: "recsRefine rec rec' \<Longrightarrow> refines (rBlockLoop rec x1) (rBlockLoop rec' x1)"
  by (simp add: recsRefine_def)

lemma r_rImportLoop: "recsRefine rec rec' \<Longrightarrow> refines (rImportLoop rec x1) (rImportLoop rec' x1)"
  by (simp add: recsRefine_def)

lemma r_rExportLoop: "recsRefine rec rec' \<Longrightarrow> refines (rExportLoop rec x1) (rExportLoop rec' x1)"
  by (simp add: recsRefine_def)

lemma r_rVarDeclLoop: "recsRefine rec rec' \<Longrightarrow> refines (rVarDeclLoop rec x1 x2) (rVarDeclLoop rec' x1 x2)"
  by (simp add: recsRefine_def)

lemma r_rFuncParamsLoop: "recsRefine rec rec' \<Longrightarrow> refines (rFuncParamsLoop rec x1 x2) (rFuncParamsLoop rec' x1 x2)"
  by (simp add: recsRefine_def)

lemma r_rClassLoop: "recsRefine rec rec' \<Longrightarrow> refines (rClassLoop rec x1) (rClassLoop rec' x1)"
  by (simp add: recsRefine_def)

lemma r_rElisionLoop: "recsRefine rec rec' \<Longrightarrow> refines (rElisionLoop rec x1) (rElisionLoop rec' x1)"
  by (simp add: recsRefine_def)

lemma r_rArrayBindingLoop: "recsRefine rec rec' \<Longrightarrow> refines (rArrayBindingLoop rec x1 x2) (rArrayBindingLoop rec' x1 x2)"
  by (simp add: recsRefine_def)

lemma r_rObjectBindingLoop: "recsRefine rec rec' \<Longrightarrow> refines (rObjectBindingLoop rec x1 x2) (rObjectBindingLoop rec' x1 x2)"
  by (simp add: recsRefine_def)

lemma r_rArrayLiteralLoop: "recsRefine rec rec' \<Longrightarrow> refines (rArrayLiteralLoop rec x1 x2) (rArrayLiteralLoop rec' x1 x2)"
  by (simp add: recsRefine_def)

lemma r_rObjectLiteralLoop: "recsRefine rec rec' \<Longrightarrow> refines (rObjectLiteralLoop rec x1) (rObjectLiteralLoop rec' x1)"
  by (simp add: recsRefine_def)

lemma r_rArgsLoop: "recsRefine rec rec' \<Longrightarrow> refines (rArgsLoop rec x1) (rArgsLoop rec' x1)"
  by (simp add: recsRefine_def)

lemma r_rParenLoop: "recsRefine rec rec' \<Longrightarrow> refines (rParenLoop rec x1) (rParenLoop rec' x1)"
  by (simp add: recsRefine_def)

lemmas r_recs = r_rNextLoop r_rStmt r_rBinding r_rExpression r_rExpressionSuffix r_rModuleLoop r_rSwitchLoop r_rCaseStmtsLoop r_rBlockLoop r_rImportLoop r_rExportLoop r_rVarDeclLoop r_rFuncParamsLoop r_rClassLoop r_rElisionLoop r_rArrayBindingLoop r_rObjectBindingLoop r_rArrayLiteralLoop r_rObjectLiteralLoop r_rArgsLoop r_rParenLoop

lemma ref_nextLoop [ref_rules]: "recsRefine rec rec' \<Longrightarrow> refines (nextLoop env rec) (nextLoop env rec')"
  unfolding nextLoop_def by (rule r_struct ref_rules r_recs | assumption)+

lemma ref_nextP [ref_rules]: "recsRefine rec rec' \<Longrightarrow> refines (next' env rec) (next' env rec')"
  unfolding next'_def by (rule r_struct ref_rules r_recs | assumption)+

lemma ref_consume [ref_rules]: "recsRefine rec rec' \<Longrightarrow> refines (consume env rec x1 x2) (consume env rec' x1 x2)"
  unfolding consume_def by (rule r_struct ref_rules r_recs | assumption)+

lemma ref_parsePropertyName [ref_rules]: "recsRefine rec rec' \<Longrightarrow> refines (parsePropertyName env rec x1) (parsePropertyName env rec' x1)"
  unfolding parsePropertyName_def by (rule r_struct ref_rules r_recs | assumption)+

lemma ref_parseTemplateLiteral [ref_rules]: "recsRefine rec rec' \<Longrightarrow> refines (parseTemplateLiteral env rec) (parseTemplateLiteral env rec')"
  unfolding parseTemplateLiteral_def by (rule r_struct ref_rules r_recs | assumption)+

lemma ref_argsLoop [ref_rules]: "recsRefine rec rec' \<Longrightarrow> refines (argsLoop env rec x1) (argsLoop env rec' x1)"
  unfolding argsLoop_def by (rule r_struct ref_rules r_recs | assumption)+

lemma ref_parseArgs [ref_rules]: "recsRefine rec rec' \<Longrightarrow> refines (parseArgs env rec) (parseArgs env rec')"
  unfolding parseArgs_def by (rule r_struct ref_rules r_recs | assumption)+

lemma ref_parseBindingElement [ref_rules]: "recsRefine rec rec' \<Longrightarrow> refines (parseBindingElement env rec x1) (parseBindingElement env rec' x1)"
  unfolding parseBindingElement_def by (rule r_struct ref_rules r_recs | assumption)+

lemma ref_elisionLoop [ref_rules]: "recsRefine rec rec' \<Longrightarrow> refines (elisionLoop env rec x1) (elisionLoop env rec' x1)"
  unfolding elisionLoop_def by (rule r_struct ref_rules r_recs | assumption)+

lemma ref_arrayBindingLoop [ref_rules]: "recsRefine rec rec' \<Longrightarrow> refines (arrayBindingLoop env rec x1 x2) (arrayBindingLoop env rec' x1 x2)"
  unfolding arrayBindingLoop_def by (rule r_struct ref_rules r_recs | assumption)+

lemma ref_objectBindingItem [ref_rules]: "recsRefine rec rec' \<Longrightarrow> refines (objectBindingItem env rec x1) (objectBindingItem env rec' x1)"
  unfolding objectBindingItem_def by (rule r_struct ref_rules r_recs | assumption)+

lemma ref_objectBindingLoop [ref_rules]: "recsRefine rec rec' \<Longrightarrow> refines (objectBindingLoop env rec x1 x2) (objectBindingLoop env rec' x1 x2)"
  unfolding objectBindingLoop_def by (rule r_struct ref_rules r_recs | assumption)+

lemma ref_parseBinding [ref_rules]: "recsRefine rec rec' \<Longrightarrow> refines (parseBinding env rec x1) (parseBinding env rec' x1)"
  unfolding parseBinding_def by (rule r_struct ref_rules r_recs | assumption)+

lemma ref_varDeclLoop [ref_rules]: "recsRefine rec rec' \<Longrightarrow> refines (varDeclLoop env rec x1 x2) (varDeclLoop env rec' x1 x2)"
  unfolding varDeclLoop_def by (rule r_struct ref_rules r_recs | assumption)+

lemma ref_parseVarDecl [ref_rules]: "recsRefine rec rec' \<Longrightarrow> refines (parseVarDecl env rec x1) (parseVarDecl env rec' x1)"
  unfolding parseVarDecl_def by (rule r_struct ref_rules r_recs | assumption)+

lemma ref_funcParamsLoop [ref_rules]: "recsRefine rec rec' \<Longrightarrow> refines (funcParamsLoop env rec x1 x2) (funcParamsLoop env rec' x1 x2)"
  unfolding funcParamsLoop_def by (rule r_struct ref_rules r_recs | assumption)+

lemma ref_parseFuncParams [ref_rules]: "recsRefine rec rec' \<Longrightarrow> refines (parseFuncParams env rec x1) (parseFuncParams env rec' x1)"
  unfolding parseFuncParams_def by (rule r_struct ref_rules r_recs | assumption)+

lemma ref_blockLoop [ref_rules]: "recsRefine rec rec' \<Longrightarrow> refines (blockLoop env rec x1) (blockLoop env rec' x1)"
  unfolding blockLoop_def by (rule r_struct ref_rules r_recs | assumption)+

lemma ref_parseBlockStmt [ref_rules]: "recsRefine rec rec' \<Longrightarrow> refines (parseBlockStmt env rec x1 x2) (parseBlockStmt env rec' x1 x2)"
  unfolding parseBlockStmt_def by (rule r_struct ref_rules r_recs | assumption)+

lemma ref_parseArrowFuncBody [ref_rules]: "recsRefine rec rec' \<Longrightarrow> refines (parseArrowFuncBody env rec) (parseArrowFuncBody env rec')"
  unfolding parseArrowFuncBody_def by (rule r_struct ref_rules r_recs | assumption)+

lemma ref_parseAnyFuncName [ref_rules]: "recsRefine rec rec' \<Longrightarrow> refines (parseAnyFuncName env rec x1 x2 x3) (parseAnyFuncName env rec' x1 x2 x3)"
  unfolding parseAnyFuncName_def by (rule r_struct ref_rules r_recs | assumption)+

lemma ref_parseAnyFunc [ref_rules]: "recsRefine rec rec' \<Longrightarrow> refines (parseAnyFunc env rec x1 x2) (parseAnyFunc env rec' x1 x2)"
  unfolding parseAnyFunc_def by (rule r_struct ref_rules r_recs | assumption)+

lemma ref_parseFuncDecl [ref_rules]: "recsRefine rec rec' \<Longrightarrow> refines (parseFuncDecl env rec) (parseFuncDecl env rec')"
  unfolding parseFuncDecl_def by (rule r_struct ref_rules r_recs | assumption)+

lemma ref_parseAsyncFuncDecl [ref_rules]: "recsRefine rec rec' \<Longrightarrow> refines (parseAsyncFuncDecl env rec) (parseAsyncFuncDecl env rec')"
  unfolding parseAsyncFuncDecl_def by (rule r_struct ref_rules r_recs | assumption)+

lemma ref_parseFuncExpr [ref_rules]: "recsRefine rec rec' \<Longrightarrow> refines (parseFuncExpr env rec) (parseFuncExpr env rec')"
  unfolding parseFuncExpr_def by (rule r_struct ref_rules r_recs | assumption)+

lemma ref_parseAsyncFuncExpr [ref_rules]: "recsRefine rec rec' \<Longrightarrow> refines (parseAsyncFuncExpr env rec) (parseAsyncFuncExpr env rec')"
  unfolding parseAsyncFuncExpr_def by (rule r_struct ref_rules r_recs | assumption)+

lemma ref_parseMethodModifiers [ref_rules]: "recsRefine rec rec' \<Longrightarrow> refines (parseMethodModifiers env rec x1) (parseMethodModifiers env rec' x1)"
  unfolding parseMethodModifiers_def by (rule r_struct ref_rules r_recs | assumption)+

lemma ref_parseMethod [ref_rules]: "recsRefine rec rec' \<Longrightarrow> refines (parseMethod env rec) (parseMethod env rec')"
  unfolding parseMethod_def by (rule r_struct ref_rules r_recs | assumption)+

lemma ref_classLoop [ref_rules]: "recsRefine rec rec' \<Longrightarrow> refines (classLoop env rec x1) (classLoop env rec' x1)"
  unfolding classLoop_def by (rule r_struct ref_rules r_recs | assumption)+

lemma ref_parseAnyClassName [ref_rules]: "recsRefine rec rec' \<Longrightarrow> refines (parseAnyClassName env rec x1) (parseAnyClassName env rec' x1)"
  unfolding parseAnyClassName_def by (rule r_struct ref_rules r_recs | assumption)+

lemma ref_parseAnyClass [ref_rules]: "recsRefine rec rec' \<Longrightarrow> refines (parseAnyClass env rec x1) (parseAnyClass env rec' x1)"
  unfolding parseAnyClass_def by (rule r_struct ref_rules r_recs | assumption)+

lemma ref_parseClassDecl [ref_rules]: "recsRefine rec rec' \<Longrightarrow> refines (parseClassDecl env rec) (parseClassDecl env rec')"
  unfolding parseClassDecl_def by (rule r_struct ref_rules r_recs | assumption)+

lemma ref_parseClassExpr [ref_rules]: "recsRefine rec rec' \<Longrightarrow> refines (parseClassExpr env rec) (parseClassExpr env rec')"
  unfolding parseClassExpr_def by (rule r_struct ref_rules r_recs | assumption)+

lemma ref_parseAsyncArrowFunc [ref_rules]: "recsRefine rec rec' \<Longrightarrow> refines (parseAsyncArrowFunc env rec) (parseAsyncArrowFunc env rec')"
  unfolding parseAsyncArrowFunc_def by (rule r_struct ref_rules r_recs | assumption)+

lemma ref_parseIdentifierArrowFunc [ref_rules]: "recsRefine rec rec' \<Longrightarrow> refines (parseIdentifierArrowFunc env rec x1) (parseIdentifierArrowFunc env rec' x1)"
  unfolding parseIdentifierArrowFunc_def by (rule r_struct ref_rules r_recs | assumption)+

lemma ref_infixOp [ref_rules]: "recsRefine rec rec' \<Longrightarrow> refines (infixOp env rec x1 x2 x3 x4 x5 x6 x7) (infixOp env rec' x1 x2 x3 x4 x5 x6 x7)"
  unfolding infixOp_def by (rule r_struct ref_rules r_recs | assumption)+

lemma ref_postfixOp [ref_rules]: "recsRefine rec rec' \<Longrightarrow> refines (postfixOp env rec x1 x2 x3 x4) (postfixOp env rec' x1 x2 x3 x4)"
  unfolding postfixOp_def by (rule r_struct ref_rules r_recs | assumption)+

lemma ref_optChain [ref_rules]: "recsRefine rec rec' \<Longrightarrow> refines (optChain env rec x1 x2) (optChain env rec' x1 x2)"
  unfolding optChain_def by (rule r_struct ref_rules r_recs | assumption)+

lemma ref_suffixStep [ref_rules]: "recsRefine rec rec' \<Longrightarrow> refines (suffixStep env rec x1 x2 x3) (suffixStep env rec' x1 x2 x3)"
  unfolding suffixStep_def by (rule r_struct ref_rules r_recs | assumption)+

lemma ref_parseExpressionSuffix [ref_rules]: "recsRefine rec rec' \<Longrightarrow> refines (parseExpressionSuffix env rec x1 x2 x3) (parseExpressionSuffix env rec' x1 x2 x3)"
  unfolding parseExpressionSuffix_def by (rule r_struct ref_rules r_recs | assumption)+

lemma ref_parseIdentifierExpression [ref_rules]: "recsRefine rec rec' \<Longrightarrow> refines (parseIdentifierExpression env rec x1 x2) (parseIdentifierExpression env rec' x1 x2)"
  unfolding parseIdentifierExpression_def by (rule r_struct ref_rules r_recs | assumption)+

lemma ref_parseAsyncExpression [ref_rules]: "recsRefine rec rec' \<Longrightarrow> refines (parseAsyncExpression env rec x1 x2) (parseAsyncExpression env rec' x1 x2)"
  unfolding parseAsyncExpression_def by (rule r_struct ref_rules r_recs | assumption)+

lemma ref_parseAssignmentExpression [ref_rules]: "recsRefine rec rec' \<Longrightarrow> refines (parseAssignmentExpression env rec) (parseAssignmentExpression env rec')"
  unfolding parseAssignmentExpression_def by (rule r_struct ref_rules r_recs | assumption)+

lemma ref_arrayLiteralLoop [ref_rules]: "recsRefine rec rec' \<Longrightarrow> refines (arrayLiteralLoop env rec x1 x2) (arrayLiteralLoop env rec' x1 x2)"
  unfolding arrayLiteralLoop_def by (rule r_struct ref_rules r_recs | assumption)+

lemma ref_parseArrayLiteral [ref_rules]: "recsRefine rec rec' \<Longrightarrow> refines (parseArrayLiteral env rec) (parseArrayLiteral env rec')"
  unfolding parseArrayLiteral_def by (rule r_struct ref_rules r_recs | assumption)+

lemma ref_objectMethodModifiers [ref_rules]: "recsRefine rec rec' \<Longrightarrow> refines (objectMethodModifiers env rec) (objectMethodModifiers env rec')"
  unfolding objectMethodModifiers_def by (rule r_struct ref_rules r_recs | assumption)+

lemma ref_objectPropertyName [ref_rules]: "recsRefine rec rec' \<Longrightarrow> refines (objectPropertyName env rec x1) (objectPropertyName env rec' x1)"
  unfolding objectPropertyName_def by (rule r_struct ref_rules r_recs | assumption)+

lemma ref_objectPropertyValue [ref_rules]: "recsRefine rec rec' \<Longrightarrow> refines (objectPropertyValue env rec x1 x2) (objectPropertyValue env rec' x1 x2)"
  unfolding objectPropertyValue_def by (rule r_struct ref_rules r_recs | assumption)+

lemma ref_objectProperty [ref_rules]: "recsRefine rec rec' \<Longrightarrow> refines (objectProperty env rec) (objectProperty env rec')"
  unfolding objectProperty_def by (rule r_struct ref_rules r_recs | assumption)+

lemma ref_objectLiteralLoop [ref_rules]: "recsRefine rec rec' \<Longrightarrow> refines (objectLiteralLoop env rec x1) (objectLiteralLoop env rec' x1)"
  unfolding objectLiteralLoop_def by (rule r_struct ref_rules r_recs | assumption)+

lemma ref_parseObjectLiteral [ref_rules]: "recsRefine rec rec' \<Longrightarrow> refines (parseObjectLiteral env rec) (parseObjectLiteral env rec')"
  unfolding parseObjectLiteral_def by (rule r_struct ref_rules r_recs | assumption)+

lemma ref_parenLoop [ref_rules]: "recsRefine rec rec' \<Longrightarrow> refines (parenLoop env rec x1) (parenLoop env rec' x1)"
  unfolding parenLoop_def by (rule r_struct ref_rules r_recs | assumption)+

lemma ref_parenDecide [ref_rules]: "recsRefine rec rec' \<Longrightarrow> refines (parenDecide env rec x1 x2 x3 x4 x5) (parenDecide env rec' x1 x2 x3 x4 x5)"
  unfolding parenDecide_def by (rule r_struct ref_rules r_recs | assumption)+

lemma ref_parseParenthesizedExpressionOrArrowFunc [ref_rules]: "recsRefine rec rec' \<Longrightarrow> refines (parseParenthesizedExpressionOrArrowFunc env rec x1) (parseParenthesizedExpressionOrArrowFunc env rec' x1)"
  unfolding parseParenthesizedExpressionOrArrowFunc_def by (rule r_struct ref_rules r_recs | assumption)+

lemma ref_prefixOp [ref_rules]: "recsRefine rec rec' \<Longrightarrow> refines (prefixOp env rec x1 x2 x3) (prefixOp env rec' x1 x2 x3)"
  unfolding prefixOp_def by (rule r_struct ref_rules r_recs | assumption)+

lemma ref_parseNew [ref_rules]: "recsRefine rec rec' \<Longrightarrow> refines (parseNew env rec) (parseNew env rec')"
  unfolding parseNew_def by (rule r_struct ref_rules r_recs | assumption)+

lemma ref_parseImportExpr [ref_rules]: "recsRefine rec rec' \<Longrightarrow> refines (parseImportExpr env rec x1) (parseImportExpr env rec' x1)"
  unfolding parseImportExpr_def by (rule r_struct ref_rules r_recs | assumption)+

lemma ref_parseSuper [ref_rules]: "recsRefine rec rec' \<Longrightarrow> refines (parseSuper env rec x1) (parseSuper env rec' x1)"
  unfolding parseSuper_def by (rule r_struct ref_rules r_recs | assumption)+

lemma ref_parseYield [ref_rules]: "recsRefine rec rec' \<Longrightarrow> refines (parseYield env rec x1) (parseYield env rec' x1)"
  unfolding parseYield_def by (rule r_struct ref_rules r_recs | assumption)+

lemma ref_parseAwait [ref_rules]: "recsRefine rec rec' \<Longrightarrow> refines (parseAwait env rec x1) (parseAwait env rec' x1)"
  unfolding parseAwait_def by (rule r_struct ref_rules r_recs | assumption)+

lemma ref_parsePrimary [ref_rules]: "recsRefine rec rec' \<Longrightarrow> refines (parsePrimary env rec x1) (parsePrimary env rec' x1)"
  unfolding parsePrimary_def by (rule r_struct ref_rules r_recs | assumption)+

lemma ref_parseOperand [ref_rules]: "recsRefine rec rec' \<Longrightarrow> refines (parseOperand env rec x1) (parseOperand env rec' x1)"
  unfolding parseOperand_def by (rule r_struct ref_rules r_recs | assumption)+

lemma ref_parseExpression [ref_rules]: "recsRefine rec rec' \<Longrightarrow> refines (parseExpression env rec x1) (parseExpression env rec' x1)"
  unfolding parseExpression_def by (rule r_struct ref_rules r_recs | assumption)+

lemma ref_parseStmtVar [ref_rules]: "recsRefine rec rec' \<Longrightarrow> refines (parseStmtVar env rec x1) (parseStmtVar env rec' x1)"
  unfolding parseStmtVar_def by (rule r_struct ref_rules r_recs | assumption)+

lemma ref_parseStmtLet [ref_rules]: "recsRefine rec rec' \<Longrightarrow> refines (parseStmtLet env rec x1) (parseStmtLet env rec' x1)"
  unfolding parseStmtLet_def by (rule r_struct ref_rules r_recs | assumption)+

lemma ref_parseStmtIf [ref_rules]: "recsRefine rec rec' \<Longrightarrow> refines (parseStmtIf env rec) (parseStmtIf env rec')"
  unfolding parseStmtIf_def by (rule r_struct ref_rules r_recs | assumption)+

lemma ref_parseStmtBranch [ref_rules]: "recsRefine rec rec' \<Longrightarrow> refines (parseStmtBranch env rec) (parseStmtBranch env rec')"
  unfolding parseStmtBranch_def by (rule r_struct ref_rules r_recs | assumption)+

lemma ref_parseStmtReturn [ref_rules]: "recsRefine rec rec' \<Longrightarrow> refines (parseStmtReturn env rec) (parseStmtReturn env rec')"
  unfolding parseStmtReturn_def by (rule r_struct ref_rules r_recs | assumption)+

lemma ref_parseStmtWith [ref_rules]: "recsRefine rec rec' \<Longrightarrow> refines (parseStmtWith env rec) (parseStmtWith env rec')"
  unfolding parseStmtWith_def by (rule r_struct ref_rules r_recs | assumption)+

lemma ref_parseStmtDo [ref_rules]: "recsRefine rec rec' \<Longrightarrow> refines (parseStmtDo env rec) (parseStmtDo env rec')"
  unfolding parseStmtDo_def by (rule r_struct ref_rules r_recs | assumption)+

lemma ref_parseStmtWhile [ref_rules]: "recsRefine rec rec' \<Longrightarrow> refines (parseStmtWhile env rec) (parseStmtWhile env rec')"
  unfolding parseStmtWhile_def by (rule r_struct ref_rules r_recs | assumption)+

lemma ref_parseForInit [ref_rules]: "recsRefine rec rec' \<Longrightarrow> refines (parseForInit env rec) (parseForInit env rec')"
  unfolding parseForInit_def by (rule r_struct ref_rules r_recs | assumption)+

lemma ref_parseForRest [ref_rules]: "recsRefine rec rec' \<Longrightarrow> refines (parseForRest env rec x1 x2) (parseForRest env rec' x1 x2)"
  unfolding parseForRest_def by (rule r_struct ref_rules r_recs | assumption)+

lemma ref_parseStmtFor [ref_rules]: "recsRefine rec rec' \<Longrightarrow> refines (parseStmtFor env rec) (parseStmtFor env rec')"
  unfolding parseStmtFor_def by (rule r_struct ref_rules r_recs | assumption)+

lemma ref_caseStmtsLoop [ref_rules]: "recsRefine rec rec' \<Longrightarrow> refines (caseStmtsLoop env rec x1) (caseStmtsLoop env rec' x1)"
  unfolding caseStmtsLoop_def by (rule r_struct ref_rules r_recs | assumption)+

lemma ref_switchLoop [ref_rules]: "recsRefine rec rec' \<Longrightarrow> refines (switchLoop env rec x1) (switchLoop env rec' x1)"
  unfolding switchLoop_def by (rule r_struct ref_rules r_recs | assumption)+

lemma ref_parseStmtSwitch [ref_rules]: "recsRefine rec rec' \<Longrightarrow> refines (parseStmtSwitch env rec) (parseStmtSwitch env rec')"
  unfolding parseStmtSwitch_def by (rule r_struct ref_rules r_recs | assumption)+

lemma ref_parseStmtAsync [ref_rules]: "recsRefine rec rec' \<Longrightarrow> refines (parseStmtAsync env rec x1) (parseStmtAsync env rec' x1)"
  unfolding parseStmtAsync_def by (rule r_struct ref_rules r_recs | assumption)+

lemma ref_parseStmtTry [ref_rules]: "recsRefine rec rec' \<Longrightarrow> refines (parseStmtTry env rec) (parseStmtTry env rec')"
  unfolding parseStmtTry_def by (rule r_struct ref_rules r_recs | assumption)+

lemma ref_parseStmtDefault [ref_rules]: "recsRefine rec rec' \<Longrightarrow> refines (parseStmtDefault env rec) (parseStmtDefault env rec')"
  unfolding parseStmtDefault_def by (rule r_struct ref_rules r_recs | assumption)+

lemma ref_parseStmt [ref_rules]: "recsRefine rec rec' \<Longrightarrow> refines (parseStmt env rec x1) (parseStmt env rec' x1)"
  unfolding parseStmt_def by (rule r_struct ref_rules r_recs | assumption)+

lemma ref_importLoop [ref_rules]: "recsRefine rec rec' \<Longrightarrow> refines (importLoop env rec x1) (importLoop env rec' x1)"
  unfolding importLoop_def by (rule r_struct ref_rules r_recs | assumption)+

lemma ref_parseImportStmt [ref_rules]: "recsRefine rec rec' \<Longrightarrow> refines (parseImportStmt env rec) (parseImportStmt env rec')"
  unfolding parseImportStmt_def by (rule r_struct ref_rules r_recs | assumption)+

lemma ref_exportLoop [ref_rules]: "recsRefine rec rec' \<Longrightarrow> refines (exportLoop env rec x1) (exportLoop env rec' x1)"
  unfolding exportLoop_def by (rule r_struct ref_rules r_recs | assumption)+

lemma ref_parseExportList [ref_rules]: "recsRefine rec rec' \<Longrightarrow> refines (parseExportList env rec) (parseExportList env rec')"
  unfolding parseExportList_def by (rule r_struct ref_rules r_recs | assumption)+

lemma ref_parseExportDefault [ref_rules]: "recsRefine rec rec' \<Longrightarrow> refines (parseExportDefault env rec) (parseExportDefault env rec')"
  unfolding parseExportDefault_def by (rule r_struct ref_rules r_recs | assumption)+

lemma ref_parseExportStmt [ref_rules]: "recsRefine rec rec' \<Longrightarrow> refines (parseExportStmt env rec) (parseExportStmt env rec')"
  unfolding parseExportStmt_def by (rule r_struct ref_rules r_recs | assumption)+

lemma ref_moduleLoop [ref_rules]: "recsRefine rec rec' \<Longrightarrow> refines (moduleLoop env rec x1) (moduleLoop env rec' x1)"
  unfolding moduleLoop_def by (rule r_struct ref_rules r_recs | assumption)+

lemma ref_parseModule [ref_rules]: "recsRefine rec rec' \<Longrightarrow> refines (parseModule env rec) (parseModule env rec')"
  unfolding parseModule_def by (rule r_struct ref_rules r_recs | assumption)+

lemma ref_parseBody [ref_rules]: "recsRefine rec rec' \<Longrightarrow> refines (parseBody env rec) (parseBody env rec')"
  unfolding parseBody_def by (rule r_struct ref_rules r_recs | assumption)+

lemma ref_step: "recsRefine rec rec' \<Longrightarrow> recsRefine (step env rec) (step env rec')"
  by (subst recsRefine_def) (simp add: step_def ref_nextLoop ref_parseStmt ref_parseBinding ref_parseExpression ref_parseExpressionSuffix ref_moduleLoop ref_switchLoop ref_caseStmtsLoop ref_blockLoop ref_importLoop ref_exportLoop ref_varDeclLoop ref_funcParamsLoop ref_classLoop ref_elisionLoop ref_arrayBindingLoop ref_objectBindingLoop ref_arrayLiteralLoop ref_objectLiteralLoop ref_argsLoop ref_parenLoop)

lemma ref_noRecs: "recsRefine noRecs rec"
  by (simp add: recsRefine_def noRecs_def r_outOfFuel)

lemma ref_run: "n \<le> m \<Longrightarrow> recsRefine (run n env) (run m env)"
proof (induction n arbitrary: m)
  case 0
  show ?case by (simp add: ref_noRecs)
next
  case (Suc n)
  then obtain m' where m: "m = Suc m'" and "n \<le> m'" by (cases m) auto
  then have "recsRefine (run n env) (run m' env)" using Suc.IH by blast
  then show ?case unfolding m by (simp add: ref_step)
qed

lemma ParseState_mono:
  assumes nm: "n \<le> m" and ok: "ParseState env n l \<noteq> Inl OutOfFuel"
  shows "ParseState env m l = ParseState env n l"
proof -
  have r: "refines (parseBody env (run n env)) (parseBody env (run m env))"
    by (rule ref_parseBody) (rule ref_run [OF nm])
  from ok have "parseBody env (run n env) (newParser l) \<noteq> Inl OutOfFuel"
    by (auto simp: ParseState_def split: sum.splits)
  with r have "parseBody env (run m env) (newParser l) = parseBody env (run n env) (newParser l)"
    by (rule refinesD)
  then show ?thesis by (simp add: ParseState_def)
qed

lemma Parse_mono:
  assumes nm: "n \<le> m" and ok: "Parse env n l \<noteq> Inl OutOfFuel"
  shows "Parse env m l = Parse env n l"
proof -
  from ok have "ParseState env n l \<noteq> Inl OutOfFuel"
    by (auto simp: Parse_def split: sum.splits)
  with nm have "ParseState env m l = ParseState env n l" by (rule ParseState_mono)
  then show ?thesis by (simp add: Parse_def)
qed

section \<open>Running the parser on a token stream\<close>

text \<open>
  The equations below unfold a computation only where it is applied to a state, and the
  congruence rules keep the continuation of a \<open>bind\<close> closed until its first part has a value.
\<close>

lemma return_apply: "return x p = Inr (x, p)"
  by (simp add: return_def)

lemma get_apply: "get p = Inr (p, p)"
  by (simp add: get_def)

lemma modify_apply: "modify f p = Inr ((), f p)"
  by (simp add: modify_def)

lemma panic_apply: "panic p = Inl Panic"
  by (simp add: panic_def)

lemma outOfFuel_apply: "outOfFuel p = Inl OutOfFuel"
  by (simp add: outOfFuel_def)

lemma whenM_apply: "whenM c m p = (if c then m p else Inr ((), p))"
  by (simp add: whenM_def return_def)

lemma returnNow_apply: "returnNow x p = Inr (Inl x, p)"
  by (simp add: returnNow_def return_def)

lemma fallThrough_apply: "fallThrough x p = Inr (Inr x, p)"
  by (simp add: fallThrough_def return_def)

lemma flowBind_apply:
  "flowBind m k p = (case m p of Inl a \<Rightarrow> Inl a | Inr (Inl r, p') \<Rightarrow> Inr (Inl r, p') | Inr (Inr x, p') \<Rightarrow> k x p')"
  by (simp add: flowBind_def bind_def return_def split: sum.splits)

lemma flowEnd_apply:
  "flowEnd m k p = (case m p of Inl a \<Rightarrow> Inl a | Inr (Inl r, p') \<Rightarrow> Inr (r, p') | Inr (Inr x, p') \<Rightarrow> k x p')"
  by (simp add: flowEnd_def bind_def return_def split: sum.splits)

lemma bind_cong_app: "p = p' \<Longrightarrow> bind m k p = bind m k p'"
  by simp

lemma flowBind_cong_app: "p = p' \<Longrightarrow> flowBind m k p = flowBind m k p'"
  by simp

lemma flowEnd_cong_app: "p = p' \<Longrightarrow> flowEnd m k p = flowEnd m k p'"
  by simp

lemma whenM_cong_app: "p = p' \<Longrightarrow> whenM c m p = whenM c m p'"
  by simp

lemmas monad_apply = return_apply get_apply modify_apply panic_apply outOfFuel_apply bind_apply
  whenM_apply returnNow_apply fallThrough_apply flowBind_apply flowEnd_apply

lemmas monad_cong = bind_cong_app flowBind_cong_app flowEnd_cong_app whenM_cong_app

lemma run_numeral: "run (numeral k) env = step env (run (pred_numeral k) env)"
  by (simp add: numeral_eq_Suc)

lemma rNextLoop_step: "rNextLoop (step env rec) = nextLoop env rec"
  by (simp add: step_def)

lemma rStmt_step: "rStmt (step env rec) = parseStmt env rec"
  by (simp add: step_def)

lemma rBinding_step: "rBinding (step env rec) = parseBinding env rec"
  by (simp add: step_def)

lemma rExpression_step: "rExpression (step env rec) = parseExpression env rec"
  by (simp add: step_def)

lemma rExpressionSuffix_step: "rExpressionSuffix (step env rec) = parseExpressionSuffix env rec"
  by (simp add: step_def)

lemma rModuleLoop_step: "rModuleLoop (step env rec) = moduleLoop env rec"
  by (simp add: step_def)

lemma rSwitchLoop_step: "rSwitchLoop (step env rec) = switchLoop env rec"
  by (simp add: step_def)

lemma rCaseStmtsLoop_step: "rCaseStmtsLoop (step env rec) = caseStmtsLoop env rec"
  by (simp add: step_def)

lemma rBlockLoop_step: "rBlockLoop (step env rec) = blockLoop env rec"
  by (simp add: step_def)

lemma rImportLoop_step: "rImportLoop (step env rec) = importLoop env rec"
  by (simp add: step_def)

lemma rExportLoop_step: "rExportLoop (step env rec) = exportLoop env rec"
  by (simp add: step_def)

lemma rVarDeclLoop_step: "rVarDeclLoop (step env rec) = varDeclLoop env rec"
  by (simp add: step_def)

lemma rFuncParamsLoop_step: "rFuncParamsLoop (step env rec) = funcParamsLoop env rec"
  by (simp add: step_def)

lemma rClassLoop_step: "rClassLoop (step env rec) = classLoop env rec"
  by (simp add: step_def)

lemma rElisionLoop_step: "rElisionLoop (step env rec) = elisionLoop env rec"
  by (simp add: step_def)

lemma rArrayBindingLoop_step: "rArrayBindingLoop (step env rec) = arrayBindingLoop env rec"
  by (simp add: step_def)

lemma rObjectBindingLoop_step: "rObjectBindingLoop (step env rec) = objectBindingLoop env rec"
  by (simp add: step_def)

lemma rArrayLiteralLoop_step: "rArrayLiteralLoop (step env rec) = arrayLiteralLoop env rec"
  by (simp add: step_def)

lemma rObjectLiteralLoop_step: "rObjectLiteralLoop (step env rec) = objectLiteralLoop env rec"
  by (simp add: step_def)

lemma rArgsLoop_step: "rArgsLoop (step env rec) = argsLoop env rec"
  by (simp add: step_def)

lemma rParenLoop_step: "rParenLoop (step env rec) = parenLoop env rec"
  by (simp add: step_def)

lemmas run_simps = run_numeral rNextLoop_step rStmt_step rBinding_step rExpression_step rExpressionSuffix_step rModuleLoop_step rSwitchLoop_step rCaseStmtsLoop_step rBlockLoop_step rImportLoop_step rExportLoop_step rVarDeclLoop_step rFuncParamsLoop_step rClassLoop_step rElisionLoop_step rArrayBindingLoop_step rObjectBindingLoop_step rArrayLiteralLoop_step rObjectLiteralLoop_step rArgsLoop_step rParenLoop_step

lemma exEnv_Next: "Next exEnv = exNext"
  by (simp add: exEnv_def)

lemma exEnv_RegExp: "RegExp exEnv = exRegExp"
  by (simp add: exEnv_def)

lemma exEnv_Err: "Err exEnv = exErr"
  by (simp add: exEnv_def)

lemma exEnv_Offset: "Offset exEnv = off"
  by (simp add: exEnv_def)

lemma exEnv_IsIdentifier: "IsIdentifier exEnv = exIsIdentifier"
  by (simp add: exEnv_def)

lemma exEnv_IsNumeric: "IsNumeric exEnv = exIsNumeric"
  by (simp add: exEnv_def)

lemma exEnv_IsIdentifierName: "IsIdentifierName exEnv = exIsIdentifierName"
  by (simp add: exEnv_def)

lemma exEnv_TokenString: "TokenString exEnv = exTokenString"
  by (simp add: exEnv_def)

lemma exEnv_Sprintf: "Sprintf exEnv = exSprintf"
  by (simp add: exEnv_def)

lemma exEnv_Declare: "Declare exEnv = exDeclare"
  by (simp add: exEnv_def)

lemma exEnv_Use: "Use exEnv = exUse"
  by (simp add: exEnv_def)

lemma exEnv_HoistUndeclared: "HoistUndeclared exEnv = exHoistUndeclared"
  by (simp add: exEnv_def)

lemma exEnv_UndeclareScope: "UndeclareScope exEnv = exUndeclareScope"
  by (simp add: exEnv_def)

lemma exEnv_MarkArguments: "MarkArguments exEnv = exMarkArguments"
  by (simp add: exEnv_def)

lemma exEnv_AddVar: "AddVar exEnv = exAddVar"
  by (simp add: exEnv_def)

lemma exEnv_IsSet: "IsSet exEnv = exIsSet"
  by (simp add: exEnv_def)

lemma exEnv_IsComputed: "IsComputed exEnv = exIsComputed"
  by (simp add: exEnv_def)

lemma exEnv_ParseIdentifierName: "ParseIdentifierName exEnv b = False"
  by (simp add: exEnv_def)

lemma exEnv_ParseNumericLiteral: "ParseNumericLiteral exEnv b = (ErrorToken, False)"
  by (simp add: exEnv_def)

lemmas exEnv_simps = exEnv_Next exEnv_RegExp exEnv_Err exEnv_Offset exEnv_IsIdentifier exEnv_IsNumeric exEnv_IsIdentifierName exEnv_TokenString exEnv_Sprintf exEnv_Declare exEnv_Use exEnv_HoistUndeclared exEnv_UndeclareScope exEnv_MarkArguments exEnv_AddVar exEnv_IsSet exEnv_IsComputed exEnv_ParseIdentifierName exEnv_ParseNumericLiteral

lemmas parser_apply =
  lexNext_def [THEN fun_cong] lexRegExp_def [THEN fun_cong] setPrevLT_def [THEN fun_cong]
  nextLoop_def [THEN fun_cong] next'_def [THEN fun_cong] setErr_def [THEN fun_cong]
  failMessage_def [THEN fun_cong] fail_def [THEN fun_cong] consume_def [THEN fun_cong]
  setAst_def [THEN fun_cong] setScope_def [THEN fun_cong] enterScope_def [THEN fun_cong]
  withScope_def [THEN fun_cong] scopeDeclare_def [THEN fun_cong] scopeUse_def [THEN fun_cong]
  scopeMarkArguments_def [THEN fun_cong] astAddVar_def [THEN fun_cong]
  astUndeclareScope_def [THEN fun_cong] exitScope_def [THEN fun_cong] updVar_def [THEN fun_cong]
  updScope_def [THEN fun_cong] setComment_def [THEN fun_cong] setModule_def [THEN fun_cong]
  setFlags_def [THEN fun_cong] setAssumeArrowFunc_def [THEN fun_cong] setInFor_def [THEN fun_cong]
  parsePropertyName_def [THEN fun_cong] parseTemplateLiteral_def [THEN fun_cong]
  argsLoop_def [THEN fun_cong] parseArgs_def [THEN fun_cong] parseBindingElement_def [THEN fun_cong]
  elisionLoop_def [THEN fun_cong] arrayBindingLoop_def [THEN fun_cong]
  objectBindingItem_def [THEN fun_cong] objectBindingLoop_def [THEN fun_cong]
  parseBinding_def [THEN fun_cong] varDeclLoop_def [THEN fun_cong] parseVarDecl_def [THEN fun_cong]
  funcParamsLoop_def [THEN fun_cong] parseFuncParams_def [THEN fun_cong]
  blockLoop_def [THEN fun_cong] parseBlockStmt_def [THEN fun_cong]
  parseArrowFuncBody_def [THEN fun_cong] parseAnyFuncName_def [THEN fun_cong]
  parseAnyFunc_def [THEN fun_cong] parseFuncDecl_def [THEN fun_cong]
  parseAsyncFuncDecl_def [THEN fun_cong] parseFuncExpr_def [THEN fun_cong]
  parseAsyncFuncExpr_def [THEN fun_cong] parseMethodModifiers_def [THEN fun_cong]
  parseMethod_def [THEN fun_cong] classLoop_def [THEN fun_cong]
  parseAnyClassName_def [THEN fun_cong] parseAnyClass_def [THEN fun_cong]
  parseClassDecl_def [THEN fun_cong] parseClassExpr_def [THEN fun_cong]
  parseAsyncArrowFunc_def [THEN fun_cong] detachIdentifier_def [THEN fun_cong]
  parseIdentifierArrowFunc_def [THEN fun_cong] infixOp_def [THEN fun_cong]
  postfixOp_def [THEN fun_cong] optChain_def [THEN fun_cong] suffixStep_def [THEN fun_cong]
  parseExpressionSuffix_def [THEN fun_cong] parseIdentifierExpression_def [THEN fun_cong]
  parseAsyncExpression_def [THEN fun_cong] parseAssignmentExpression_def [THEN fun_cong]
  arrayLiteralLoop_def [THEN fun_cong] parseArrayLiteral_def [THEN fun_cong]
  objectMethodModifiers_def [THEN fun_cong] objectPropertyName_def [THEN fun_cong]
  objectPropertyValue_def [THEN fun_cong] objectProperty_def [THEN fun_cong]
  objectLiteralLoop_def [THEN fun_cong] parseObjectLiteral_def [THEN fun_cong]
  parenLoop_def [THEN fun_cong] parenDecide_def [THEN fun_cong]
  parseParenthesizedExpressionOrArrowFunc_def [THEN fun_cong] prefixOp_def [THEN fun_cong]
  parseNew_def [THEN fun_cong] parseImportExpr_def [THEN fun_cong] parseSuper_def [THEN fun_cong]
  parseYield_def [THEN fun_cong] parseAwait_def [THEN fun_cong] parsePrimary_def [THEN fun_cong]
  relexRegExp_def [THEN fun_cong] parseOperand_def [THEN fun_cong]
  parseExpression_def [THEN fun_cong] checkEnd_def [THEN fun_cong] parseStmtVar_def [THEN fun_cong]
  parseStmtLet_def [THEN fun_cong] parseStmtIf_def [THEN fun_cong]
  parseStmtBranch_def [THEN fun_cong] parseStmtReturn_def [THEN fun_cong]
  parseStmtWith_def [THEN fun_cong] parseStmtDo_def [THEN fun_cong]
  parseStmtWhile_def [THEN fun_cong] parseForInit_def [THEN fun_cong]
  parseForRest_def [THEN fun_cong] parseStmtFor_def [THEN fun_cong]
  caseStmtsLoop_def [THEN fun_cong] switchLoop_def [THEN fun_cong]
  parseStmtSwitch_def [THEN fun_cong] parseStmtAsync_def [THEN fun_cong]
  parseStmtTry_def [THEN fun_cong] parseStmtDefault_def [THEN fun_cong]
  parseStmt_def [THEN fun_cong] importLoop_def [THEN fun_cong] parseImportStmt_def [THEN fun_cong]
  exportLoop_def [THEN fun_cong] parseExportList_def [THEN fun_cong]
  parseExportDefault_def [THEN fun_cong] parseExportStmt_def [THEN fun_cong]
  moduleLoop_def [THEN fun_cong] parseModule_def [THEN fun_cong] parseBody_def [THEN fun_cong]

lemma lookupDeclared_numeral:
  "lookupDeclared (numeral k) a s name =
     (case findVar (Vars a) (Declared (Scopes a s)) name of
        Some r \<Rightarrow> Some r
      | None \<Rightarrow> (case Parent (Scopes a s) of None \<Rightarrow> None
                 | Some parent \<Rightarrow> lookupDeclared (pred_numeral k) a parent name))"
  by (simp add: numeral_eq_Suc)

lemma fmtFrom_numeral: "fmtFrom (numeral k) (c # cs) = fmtFrom (pred_numeral k) cs"
  by (simp add: numeral_eq_Suc)

lemmas fmt_defs = exSprintf_def fmtFrom_numeral directive_def argNumber_def parseArgNumber_def decodeRune_def
  utf8Len_def cont_def isFlag_def isDigit_def byte_def

lemmas ex_defs = lookupDeclared_numeral fmt_defs exNext_def exRegExp_def exErr_def lexer_def exIsIdentifier_def exIsNumeric_def
  exIsIdentifierName_def exTokenString_def findVar_def mapVar_def mapScope_def exAddVar_def
  exDeclare_def exUse_def exHoistUndeclared_def exUndeclareScope_def exMarkArguments_def
  exIsComputed_def exIsSet_def

lemmas pure_defs = isIdentifierReference_def endOfStatement_def isBindingIdentifier_def asVarRef_def
  commaList_def failMsg_def alreadyDeclared_def quote_def newParser_def newAST_def Scope0_def
  BlockStmt0_def Params0_def PropertyName0_def BindingElement0_def Arguments0_def parseError_def
  ParseState_def Parse_def Let_def

lemmas run_parser = monad_apply run_simps exEnv_simps parser_apply ex_defs pure_defs

section \<open>Line terminators in front of a token\<close>

lemma lineTerminatorAmong_Nil: "\<not> lineTerminatorAmong []"
  by (simp add: lineTerminatorAmong_def)

lemma lineTerminatorAmong_Cons:
  "lineTerminatorAmong (t # ts) \<longleftrightarrow>
     t = LineTerminatorToken \<or> t = CommentLineTerminatorToken \<or> lineTerminatorAmong ts"
  by (auto simp: lineTerminatorAmong_def)

lemma skippedTokens_mono:
  "skippedTokens env k x = Some r \<Longrightarrow> k \<le> k' \<Longrightarrow> skippedTokens env k' x = Some r"
proof (induction k arbitrary: k' x r)
  case 0
  then show ?case by simp
next
  case (Suc k)
  from Suc.prems(2) obtain j where k': "k' = Suc j" and kj: "k \<le> j" by (cases k') auto
  show ?case
  proof (cases "skippedToken (fst (fst x))")
    case False
    with Suc.prems(1) show ?thesis by (simp add: k')
  next
    case True
    with Suc.prems(1) obtain ts r' where rec: "skippedTokens env k (Next env (snd x)) = Some (ts, r')"
      and r: "r = (fst (fst x) # ts, r')"
      by (auto split: option.splits)
    from Suc.IH [OF rec kj] True r show ?thesis by (simp add: k')
  qed
qed

lemma nextLoop_skipped:
  assumes "skippedToken (tt p)" and "Next env (lx p) = ((t1, d1), l1)"
  shows "nextLoop env rec p
           = rNextLoop rec (p\<lparr>prevLT := prevLT p \<or> tt p = LineTerminatorToken \<or> tt p = CommentLineTerminatorToken,
                              tt := t1, data := d1, lx := l1\<rparr>)"
  using assms
  by (auto simp add: nextLoop_def skippedToken_def bind_apply get_apply whenM_apply setPrevLT_def
        lexNext_def modify_apply)

lemma nextLoop_other: "\<not> skippedToken (tt p) \<Longrightarrow> nextLoop env rec p = Inr ((), p)"
  by (simp add: nextLoop_def skippedToken_def bind_apply get_apply return_apply)

lemma rNextLoop_run_0: "rNextLoop (run 0 env) p = Inl OutOfFuel"
  by (simp add: noRecs_def outOfFuel_apply)

lemma rNextLoop_run_Suc: "rNextLoop (run (Suc n) env) = nextLoop env (run n env)"
  by (simp add: step_def)

text \<open>The loop of \<open>next\<close>, from the state in which it is entered.\<close>

lemma nextLoop_skips:
  "nextLoop env (run n env) p = Inr ((), q) \<Longrightarrow>
     \<exists>ts t d l. skippedTokens env (Suc n) ((tt p, data p), lx p) = Some (ts, (t, d), l)
        \<and> q = p\<lparr>prevLT := prevLT p \<or> lineTerminatorAmong ts, tt := t, data := d, lx := l\<rparr>"
proof (induction n arbitrary: p q)
  case 0
  show ?case
  proof (cases "skippedToken (tt p)")
    case True
    obtain t1 d1 l1 where "Next env (lx p) = ((t1, d1), l1)"
      by (cases "Next env (lx p)") auto
    from nextLoop_skipped [OF True this] have "nextLoop env (run 0 env) p = Inl OutOfFuel"
      by (simp only: rNextLoop_run_0)
    with 0 show ?thesis by simp
  next
    case False
    with 0 have "q = p"
      by (simp add: nextLoop_other)
    with False show ?thesis by (simp add: lineTerminatorAmong_Nil)
  qed
next
  case (Suc n)
  show ?case
  proof (cases "skippedToken (tt p)")
    case False
    with Suc.prems have "q = p"
      by (simp add: nextLoop_other)
    with False show ?thesis by (simp add: lineTerminatorAmong_Nil)
  next
    case True
    obtain t1 d1 l1 where nx: "Next env (lx p) = ((t1, d1), l1)"
      by (cases "Next env (lx p)") auto
    define p1 where "p1 = p\<lparr>prevLT := prevLT p \<or> tt p = LineTerminatorToken \<or> tt p = CommentLineTerminatorToken,
                           tt := t1, data := d1, lx := l1\<rparr>"
    from nextLoop_skipped [OF True nx] Suc.prems have "nextLoop env (run n env) p1 = Inr ((), q)"
      by (simp only: rNextLoop_run_Suc p1_def)
    from Suc.IH [OF this] obtain ts t d l
      where sk: "skippedTokens env (Suc n) ((tt p1, data p1), lx p1) = Some (ts, (t, d), l)"
        and q: "q = p1\<lparr>prevLT := prevLT p1 \<or> lineTerminatorAmong ts, tt := t, data := d, lx := l\<rparr>"
      by blast
    from sk have "skippedTokens env (Suc n) (Next env (lx p)) = Some (ts, (t, d), l)"
      by (simp add: p1_def nx)
    with True have "skippedTokens env (Suc (Suc n)) ((tt p, data p), lx p) = Some (tt p # ts, (t, d), l)"
      by simp
    moreover from q have "q = p\<lparr>prevLT := prevLT p \<or> lineTerminatorAmong (tt p # ts), tt := t, data := d, lx := l\<rparr>"
      by (auto simp add: p1_def lineTerminatorAmong_Cons)
    ultimately show ?thesis by blast
  qed
qed

lemma skips_nextLoop:
  "skippedTokens env (Suc n) ((tt p, data p), lx p) = Some (ts, (t, d), l) \<Longrightarrow>
     nextLoop env (run n env) p
       = Inr ((), p\<lparr>prevLT := prevLT p \<or> lineTerminatorAmong ts, tt := t, data := d, lx := l\<rparr>)"
proof (induction n arbitrary: p ts)
  case 0
  then have f: "\<not> skippedToken (tt p)" and r: "ts = [] \<and> t = tt p \<and> d = data p \<and> l = lx p"
    by (auto split: if_splits)
  from f have "nextLoop env (run 0 env) p = Inr ((), p)"
    by (rule nextLoop_other)
  with r show ?case by (simp add: lineTerminatorAmong_Nil)
next
  case (Suc n)
  show ?case
  proof (cases "skippedToken (tt p)")
    case False
    with Suc.prems have r: "ts = [] \<and> t = tt p \<and> d = data p \<and> l = lx p" by simp
    from False have "nextLoop env (run (Suc n) env) p = Inr ((), p)"
      by (rule nextLoop_other)
    with r show ?thesis by (simp add: lineTerminatorAmong_Nil)
  next
    case True
    obtain t1 d1 l1 where nx: "Next env (lx p) = ((t1, d1), l1)"
      by (cases "Next env (lx p)") auto
    define p1 where "p1 = p\<lparr>prevLT := prevLT p \<or> tt p = LineTerminatorToken \<or> tt p = CommentLineTerminatorToken,
                           tt := t1, data := d1, lx := l1\<rparr>"
    from True Suc.prems obtain ts' where sk: "skippedTokens env (Suc n) (Next env (lx p)) = Some (ts', (t, d), l)"
      and ts: "ts = tt p # ts'"
      by (auto split: option.splits)
    from sk have "skippedTokens env (Suc n) ((tt p1, data p1), lx p1) = Some (ts', (t, d), l)"
      by (simp add: p1_def nx)
    from Suc.IH [OF this]
    have "nextLoop env (run n env) p1
            = Inr ((), p1\<lparr>prevLT := prevLT p1 \<or> lineTerminatorAmong ts', tt := t, data := d, lx := l\<rparr>)" .
    moreover from nextLoop_skipped [OF True nx]
    have "nextLoop env (run (Suc n) env) p = nextLoop env (run n env) p1"
      by (simp only: rNextLoop_run_Suc p1_def)
    ultimately show ?thesis
      by (auto simp add: p1_def ts lineTerminatorAmong_Cons)
  qed
qed

lemma next_skips:
  assumes "next' env (run n env) p = Inr ((), q)"
  shows "\<exists>k ts t d l. skippedTokens env k (Next env (lx p)) = Some (ts, (t, d), l)
           \<and> q = p\<lparr>prevLT := lineTerminatorAmong ts, tt := t, data := d, lx := l\<rparr>"
proof -
  obtain t1 d1 l1 where nx: "Next env (lx p) = ((t1, d1), l1)"
    by (cases "Next env (lx p)") auto
  define p1 where "p1 = p\<lparr>prevLT := False, tt := t1, data := d1, lx := l1\<rparr>"
  from assms have "nextLoop env (run n env) p1 = Inr ((), q)"
    by (simp add: next'_def setPrevLT_def lexNext_def bind_apply modify_apply nx p1_def)
  from nextLoop_skips [OF this] obtain ts t d l
    where sk: "skippedTokens env (Suc n) ((tt p1, data p1), lx p1) = Some (ts, (t, d), l)"
      and q: "q = p1\<lparr>prevLT := prevLT p1 \<or> lineTerminatorAmong ts, tt := t, data := d, lx := l\<rparr>"
    by blast
  from sk have "skippedTokens env (Suc n) (Next env (lx p)) = Some (ts, (t, d), l)"
    by (simp add: p1_def nx)
  moreover from q have "q = p\<lparr>prevLT := lineTerminatorAmong ts, tt := t, data := d, lx := l\<rparr>"
    by (simp add: p1_def)
  ultimately show ?thesis by blast
qed

lemma skips_next:
  assumes "skippedTokens env k (Next env (lx p)) = Some (ts, (t, d), l)"
  shows "next' env (run k env) p = Inr ((), p\<lparr>prevLT := lineTerminatorAmong ts, tt := t, data := d, lx := l\<rparr>)"
proof -
  obtain t1 d1 l1 where nx: "Next env (lx p) = ((t1, d1), l1)"
    by (cases "Next env (lx p)") auto
  define p1 where "p1 = p\<lparr>prevLT := False, tt := t1, data := d1, lx := l1\<rparr>"
  from assms have "skippedTokens env (Suc k) (Next env (lx p)) = Some (ts, (t, d), l)"
    by (rule skippedTokens_mono) simp
  then have "skippedTokens env (Suc k) ((tt p1, data p1), lx p1) = Some (ts, (t, d), l)"
    by (simp add: p1_def nx)
  from skips_nextLoop [OF this]
  have "nextLoop env (run k env) p1
          = Inr ((), p1\<lparr>prevLT := prevLT p1 \<or> lineTerminatorAmong ts, tt := t, data := d, lx := l\<rparr>)" .
  moreover have "next' env (run k env) p = nextLoop env (run k env) p1"
    by (simp add: next'_def setPrevLT_def lexNext_def bind_apply modify_apply nx p1_def)
  ultimately show ?thesis by (simp add: p1_def)
qed

lemma skippedTokens_numeral:
  "skippedTokens env (numeral k) x =
     (if skippedToken (fst (fst x)) then
        (case skippedTokens env (pred_numeral k) (Next env (snd x)) of
           None \<Rightarrow> None
         | Some (ts, r) \<Rightarrow> Some (fst (fst x) # ts, r))
      else Some ([], x))"
  by (simp add: numeral_eq_Suc)

section \<open>From expressions to parameters\<close>









subsection \<open>A variable with a single use\<close>

lemma findVar_Some:
  assumes "findVar vars refs name = Some r"
  shows "r < length vars"
  using assms by (auto simp: findVar_def find_Some_iff)

lemma lookupDeclared_Some:
  assumes "lookupDeclared n a s name = Some r"
  shows "r < length (Vars a)"
  using assms
proof (induction n arbitrary: s)
  case 0
  then show ?case by simp
next
  case (Suc n)
  then show ?case
    by (auto split: option.splits dest: findVar_Some)
qed

lemma exUse_single:
  assumes "\<forall>v \<in> set (Vars a). 1 \<le> Uses v" and "exUse s name a = (r, a1)" and "Uses (Vars a1 ! r) = 1"
  shows "r < length (Vars a1) \<and> Undeclared (Scopes a1 s) = Undeclared (Scopes a s) @ [r]"
proof (cases "lookupDeclared (NumScopes a) a s name")
  case (Some r')
  then have "r' < length (Vars a)"
    by (rule lookupDeclared_Some)
  moreover from this assms(1) have "1 \<le> Uses (Vars a ! r')"
    by simp
  ultimately have False
    using assms(2,3) Some by (auto simp: exUse_def mapVar_def)
  then show ?thesis ..
next
  case None
  show ?thesis
  proof (cases "findVar (Vars a) (Undeclared (Scopes a s)) name")
    case (Some r')
    then have "r' < length (Vars a)"
      by (rule findVar_Some)
    moreover from this assms(1) have "1 \<le> Uses (Vars a ! r')"
      by simp
    ultimately have False
      using assms(2,3) None Some by (auto simp: exUse_def mapVar_def)
    then show ?thesis ..
  next
    case n: None
    with None assms(2) show ?thesis
      by (auto simp: exUse_def exAddVar_def mapVar_def mapScope_def)
  qed
qed

section \<open>The bound on the nesting of calls\<close>

text \<open>
  The program has no bound on the nesting of its calls; the bound of \<open>run\<close> does not
  influence a result: two runs on the same input that both come to an end return the same
  tree, the same variables and scopes, and the same error.
\<close>

lemma Parse_bound_independent:
  assumes "Parse env n l \<noteq> Inl OutOfFuel" and "Parse env m l \<noteq> Inl OutOfFuel"
  shows "Parse env m l = Parse env n l"
proof (cases "n \<le> m")
  case True
  then show ?thesis using assms(1) by (rule Parse_mono)
next
  case False
  then have "m \<le> n" by simp
  then have "Parse env n l = Parse env m l" using assms(2) by (rule Parse_mono)
  then show ?thesis by simp
qed

section \<open>The message of an error is a format\<close>

text \<open>
  \<open>fail\<close> hands the message to \<open>fmt.Errorf\<close> as the format.  For the input \<open>%\<close> the message
  put together is \<open>unexpected '%' in expression\<close>; the \<open>%\<close> in it starts a verb, the quote,
  for which there is no operand.
\<close>

lemma fail_formats_message:
  "(case Parse exEnv 10 (lexer exPercent) of Inl a \<Rightarrow> False
    | Inr (a, e) \<Rightarrow>
        e = Some (ParseError 0 (''unexpected '' @ [quote] @ ''%!'' @ [quote] @ ''(MISSING) in expression'')))"
  by (simp add: exPercent_def run_parser cong: monad_cong)

section \<open>The byte-level helper \<open>AsDecimalLiteral\<close>\<close>

text \<open>
  Claim C10.  For the one-byte input consisting solely of \<open>'.'\<close>, \<open>AsDecimalLiteral\<close> returns
  true although the input holds no digit: the first-byte check admits the dot, no digit loop
  advances, and the index equals the length at the end.  For the empty input it returns
  false.
\<close>

theorem AsDecimalLiteral_dot_and_empty:
  "AsDecimalLiteral ''.'' = True \<and> AsDecimalLiteral [] = False"
  by (simp add: AsDecimalLiteral_def isDigitAt_def)

section \<open>A parenthesized list: parameters of an arrow function, or an expression\<close>




section \<open>The single identifier in front of \<open>=>\<close>\<close>

text \<open>
  Claim C2.  \<open>parseIdentifierArrowFunc\<close> enters the scope of the arrow function, whose
  parent is the scope of the identifier, clears \<open>async\<close> and \<open>generator\<close>, and in that state
  treats the variable of the identifier as follows; the parameter of the arrow function is
  the reference that comes out.

  With more than one use, the use count is decremented and the parameter is what \<open>Declare\<close>
  gives for an argument of that name in the new scope.

  Otherwise the last entry of the \<open>Undeclared\<close> list of the parent scope is removed, the
  variable becomes an argument declaration and is appended to the \<open>Declared\<close> list of the
  new scope, and nothing else changes; when that last entry is the variable, the variable
  is no longer in the list at that place.  The code reads \<open>Vars[ref]\<close>, \<open>p.scope\<close>, its
  \<open>Parent\<close> and the slice of \<open>Undeclared\<close> without a check: an index out of range, a nil
  scope, no parent and an empty list are the panics of the Go runtime.

  That the variable with one use is the last entry depends on \<open>Use\<close>, and that the
  parameter is a new variable on \<open>Declare\<close>.  In the example environment a variable that
  has one use when \<open>Use\<close> returns it was appended by that call to the \<open>Undeclared\<close> list of
  the scope, provided every variable of the table is counted at least once; and \<open>Declare\<close>
  for an argument, in a scope that has declared nothing yet, appends a variable to the
  table and leaves the entries of the table as they are.
\<close>

theorem detach_single_identifier:
  "(enterScope True p = Inr ((parent, sc), p1) \<longrightarrow>
      parent = scope p \<and> scope p1 = Some sc \<and> Parent (Scopes (ast p1) sc) = scope p
      \<and> Declared (Scopes (ast p1) sc) = [] \<and> Vars (ast p1) = Vars (ast p)
      \<and> (\<forall>s. s \<noteq> sc \<longrightarrow> Scopes (ast p1) s = Scopes (ast p) s)
      \<and> parseIdentifierArrowFunc env rec ref p =
          (case detachIdentifier env ref (p1\<lparr>async := False, generator := False\<rparr>) of
             Inl a \<Rightarrow> Inl a
           | Inr (ref', p2) \<Rightarrow>
               (case parseArrowFuncBody env rec p2 of
                  Inl a \<Rightarrow> Inl a
                | Inr (body, p3) \<Rightarrow>
                    (case exitScope env parent (p3\<lparr>async := async p1, generator := generator p1\<rparr>) of
                       Inl a \<Rightarrow> Inl a
                     | Inr (u, p4) \<Rightarrow>
                         Inr (ArrowFunc False (Params [BindingElement (VarRefB ref') NilExpr] NilBinding) body
                                (Some sc), p4)))))
   \<and> (\<not> ref < length (Vars (ast q)) \<or> scope q = None \<longrightarrow> detachIdentifier env ref q = Inl Panic)
   \<and> (ref < length (Vars (ast q)) \<and> 1 < Uses (Vars (ast q) ! ref) \<and> scope q = Some s \<longrightarrow>
        detachIdentifier env ref q =
          (case Declare env s ArgumentDecl (Name (Vars (ast q) ! ref))
                  ((ast q)\<lparr>Vars := (Vars (ast q))[ref := (Vars (ast q) ! ref)\<lparr>Uses := Uses (Vars (ast q) ! ref) - 1\<rparr>]\<rparr>) of
             ((ref', ok), a') \<Rightarrow> Inr (ref', q\<lparr>ast := a'\<rparr>)))
   \<and> (ref < length (Vars (ast q)) \<and> Uses (Vars (ast q) ! ref) \<le> 1 \<and> scope q = Some s \<longrightarrow>
        (case Parent (Scopes (ast q) s) of
           None \<Rightarrow> detachIdentifier env ref q = Inl Panic
         | Some pa \<Rightarrow>
             if Undeclared (Scopes (ast q) pa) = [] then detachIdentifier env ref q = Inl Panic
             else (\<exists>a'. detachIdentifier env ref q = Inr (ref, q\<lparr>ast := a'\<rparr>)
                    \<and> Vars a' = (Vars (ast q))[ref := (Vars (ast q) ! ref)\<lparr>Decl := ArgumentDecl\<rparr>]
                    \<and> Undeclared (Scopes a' pa) = butlast (Undeclared (Scopes (ast q) pa))
                    \<and> (last (Undeclared (Scopes (ast q) pa)) = ref \<longrightarrow>
                         Undeclared (Scopes (ast q) pa) = Undeclared (Scopes a' pa) @ [ref])
                    \<and> Declared (Scopes a' s) = Declared (Scopes (ast q) s) @ [ref]
                    \<and> (\<forall>s'. s' \<noteq> s \<and> s' \<noteq> pa \<longrightarrow> Scopes a' s' = Scopes (ast q) s')
                    \<and> NumScopes a' = NumScopes (ast q))))
   \<and> ((\<forall>v \<in> set (Vars a). 1 \<le> Uses v) \<and> exUse s name a = (r, a1) \<and> Uses (Vars a1 ! r) = 1 \<longrightarrow>
        r < length (Vars a1) \<and> Undeclared (Scopes a1 s) = Undeclared (Scopes a s) @ [r])
   \<and> (Declared (Scopes a s) = [] \<longrightarrow>
        exDeclare s ArgumentDecl name a =
          ((length (Vars a), True),
           a\<lparr>Vars := Vars a @ [\<lparr>Uses = 1, Decl = ArgumentDecl, Name = name\<rparr>],
             Scopes := (Scopes a)(s := (Scopes a s)\<lparr>Declared := [length (Vars a)]\<rparr>)\<rparr>))"
proof (intro conjI impI)
  assume "enterScope True p = Inr ((parent, sc), p1)"
  then have e: "parent = scope p \<and> sc = NumScopes (ast p)
      \<and> p1 = p\<lparr>ast := (ast p)\<lparr>Scopes := (Scopes (ast p))
                  (NumScopes (ast p) := \<lparr>Parent = scope p, Func = Some (NumScopes (ast p)), Declared = [],
                                          Undeclared = [], NumArguments = 0\<rparr>),
                NumScopes := NumScopes (ast p) + 1\<rparr>, scope := Some (NumScopes (ast p))\<rparr>"
    by (auto simp: enterScope_def setAst_def setScope_def bind_apply get_apply modify_apply return_apply Let_def)
  then show "parent = scope p" and "scope p1 = Some sc" and "Parent (Scopes (ast p1) sc) = scope p"
    and "Declared (Scopes (ast p1) sc) = []" and "Vars (ast p1) = Vars (ast p)"
    and "\<forall>s. s \<noteq> sc \<longrightarrow> Scopes (ast p1) s = Scopes (ast p) s"
    by simp_all
  from \<open>enterScope True p = Inr ((parent, sc), p1)\<close>
  show "parseIdentifierArrowFunc env rec ref p =
          (case detachIdentifier env ref (p1\<lparr>async := False, generator := False\<rparr>) of
             Inl a \<Rightarrow> Inl a
           | Inr (ref', p2) \<Rightarrow>
               (case parseArrowFuncBody env rec p2 of
                  Inl a \<Rightarrow> Inl a
                | Inr (body, p3) \<Rightarrow>
                    (case exitScope env parent (p3\<lparr>async := async p1, generator := generator p1\<rparr>) of
                       Inl a \<Rightarrow> Inl a
                     | Inr (u, p4) \<Rightarrow>
                         Inr (ArrowFunc False (Params [BindingElement (VarRefB ref') NilExpr] NilBinding) body
                                (Some sc), p4))))"
    by (simp add: parseIdentifierArrowFunc_def setFlags_def bind_apply get_apply modify_apply return_apply
          split: sum.splits prod.splits)
next
  assume "\<not> ref < length (Vars (ast q)) \<or> scope q = None"
  then show "detachIdentifier env ref q = Inl Panic"
    by (auto simp: detachIdentifier_def withScope_def scopeDeclare_def updVar_def bind_apply get_apply
          modify_apply panic_apply Let_def)
next
  assume "ref < length (Vars (ast q)) \<and> 1 < Uses (Vars (ast q) ! ref) \<and> scope q = Some s"
  then show "detachIdentifier env ref q =
          (case Declare env s ArgumentDecl (Name (Vars (ast q) ! ref))
                  ((ast q)\<lparr>Vars := (Vars (ast q))[ref := (Vars (ast q) ! ref)\<lparr>Uses := Uses (Vars (ast q) ! ref) - 1\<rparr>]\<rparr>) of
             ((ref', ok), a') \<Rightarrow> Inr (ref', q\<lparr>ast := a'\<rparr>))"
    by (simp add: detachIdentifier_def withScope_def scopeDeclare_def updVar_def setAst_def bind_apply
          get_apply modify_apply return_apply split: prod.splits)
next
  assume a: "ref < length (Vars (ast q)) \<and> Uses (Vars (ast q) ! ref) \<le> 1 \<and> scope q = Some s"
  show "case Parent (Scopes (ast q) s) of
           None \<Rightarrow> detachIdentifier env ref q = Inl Panic
         | Some pa \<Rightarrow>
             if Undeclared (Scopes (ast q) pa) = [] then detachIdentifier env ref q = Inl Panic
             else (\<exists>a'. detachIdentifier env ref q = Inr (ref, q\<lparr>ast := a'\<rparr>)
                    \<and> Vars a' = (Vars (ast q))[ref := (Vars (ast q) ! ref)\<lparr>Decl := ArgumentDecl\<rparr>]
                    \<and> Undeclared (Scopes a' pa) = butlast (Undeclared (Scopes (ast q) pa))
                    \<and> (last (Undeclared (Scopes (ast q) pa)) = ref \<longrightarrow>
                         Undeclared (Scopes (ast q) pa) = Undeclared (Scopes a' pa) @ [ref])
                    \<and> Declared (Scopes a' s) = Declared (Scopes (ast q) s) @ [ref]
                    \<and> (\<forall>s'. s' \<noteq> s \<and> s' \<noteq> pa \<longrightarrow> Scopes a' s' = Scopes (ast q) s')
                    \<and> NumScopes a' = NumScopes (ast q))"
  proof (cases "Parent (Scopes (ast q) s)")
    case None
    with a show ?thesis
      by (simp add: detachIdentifier_def withScope_def bind_apply get_apply panic_apply Let_def)
  next
    case (Some pa)
    show ?thesis
    proof (cases "Undeclared (Scopes (ast q) pa) = []")
      case True
      with a Some show ?thesis
        by (simp add: detachIdentifier_def withScope_def bind_apply get_apply panic_apply Let_def)
    next
      case False
      define a1 where "a1 = (ast q)\<lparr>Scopes := (Scopes (ast q))
          (pa := (Scopes (ast q) pa)\<lparr>Undeclared := butlast (Undeclared (Scopes (ast q) pa))\<rparr>)\<rparr>"
      define a2 where "a2 = a1\<lparr>Vars := (Vars a1)[ref := (Vars a1 ! ref)\<lparr>Decl := ArgumentDecl\<rparr>]\<rparr>"
      define a3 where "a3 = a2\<lparr>Scopes := (Scopes a2)(s := (Scopes a2 s)\<lparr>Declared := Declared (Scopes a2 s) @ [ref]\<rparr>)\<rparr>"
      from a Some False have "detachIdentifier env ref q = Inr (ref, q\<lparr>ast := a3\<rparr>)"
        by (simp add: detachIdentifier_def withScope_def updScope_def updVar_def bind_apply get_apply
              modify_apply return_apply a1_def a2_def a3_def)
      moreover have "Vars a3 = (Vars (ast q))[ref := (Vars (ast q) ! ref)\<lparr>Decl := ArgumentDecl\<rparr>]"
        by (simp add: a1_def a2_def a3_def)
      moreover have u: "Undeclared (Scopes a3 pa) = butlast (Undeclared (Scopes (ast q) pa))"
        by (simp add: a1_def a2_def a3_def)
      moreover have "last (Undeclared (Scopes (ast q) pa)) = ref \<longrightarrow>
                         Undeclared (Scopes (ast q) pa) = Undeclared (Scopes a3 pa) @ [ref]"
        using False unfolding u by (auto simp: append_butlast_last_id)
      moreover have "Declared (Scopes a3 s) = Declared (Scopes (ast q) s) @ [ref]"
        by (simp add: a1_def a2_def a3_def)
      moreover have "\<forall>s'. s' \<noteq> s \<and> s' \<noteq> pa \<longrightarrow> Scopes a3 s' = Scopes (ast q) s'"
        by (simp add: a1_def a2_def a3_def)
      moreover have "NumScopes a3 = NumScopes (ast q)"
        by (simp add: a1_def a2_def a3_def)
      ultimately have "\<exists>a'. detachIdentifier env ref q = Inr (ref, q\<lparr>ast := a'\<rparr>)
                    \<and> Vars a' = (Vars (ast q))[ref := (Vars (ast q) ! ref)\<lparr>Decl := ArgumentDecl\<rparr>]
                    \<and> Undeclared (Scopes a' pa) = butlast (Undeclared (Scopes (ast q) pa))
                    \<and> (last (Undeclared (Scopes (ast q) pa)) = ref \<longrightarrow>
                         Undeclared (Scopes (ast q) pa) = Undeclared (Scopes a' pa) @ [ref])
                    \<and> Declared (Scopes a' s) = Declared (Scopes (ast q) s) @ [ref]
                    \<and> (\<forall>s'. s' \<noteq> s \<and> s' \<noteq> pa \<longrightarrow> Scopes a' s' = Scopes (ast q) s')
                    \<and> NumScopes a' = NumScopes (ast q)"
        by blast
      with Some False show ?thesis
        by simp
    qed
  qed
next
  assume a: "(\<forall>v \<in> set (Vars a). 1 \<le> Uses v) \<and> exUse s name a = (r, a1) \<and> Uses (Vars a1 ! r) = 1"
  then have "r < length (Vars a1) \<and> Undeclared (Scopes a1 s) = Undeclared (Scopes a s) @ [r]"
    by (intro exUse_single [where name = name]) simp_all
  then show "r < length (Vars a1)" and "Undeclared (Scopes a1 s) = Undeclared (Scopes a s) @ [r]"
    by simp_all
next
  assume "Declared (Scopes a s) = []"
  then show "exDeclare s ArgumentDecl name a =
          ((length (Vars a), True),
           a\<lparr>Vars := Vars a @ [\<lparr>Uses = 1, Decl = ArgumentDecl, Name = name\<rparr>],
             Scopes := (Scopes a)(s := (Scopes a s)\<lparr>Declared := [length (Vars a)]\<rparr>)\<rparr>)"
    by (simp add: exDeclare_def findVar_def exAddVar_def mapVar_def mapScope_def)
qed

theorem detach_single_identifier_witness:
  "(case parseIdentifierArrowFunc exEnv (run 5 exEnv) 0 exBeforeArrow of
      Inl a \<Rightarrow> False
    | Inr (r, q) \<Rightarrow>
        r = ArrowFunc False (Params [BindingElement (VarRefB 0) NilExpr] NilBinding)
              (BlockStmt [ReturnStmt (VarRefE 0)] None) (Some 1)
        \<and> Vars (ast q) = [\<lparr>Uses = 2, Decl = ArgumentDecl, Name = ''x''\<rparr>]
        \<and> Undeclared (Scopes (ast q) 0) = [] \<and> Declared (Scopes (ast q) 1) = [0])
   \<and> detachIdentifier exEnv 5 exAtArrow = Inl Panic
   \<and> (case detachIdentifier exEnv 0 exAtArrowShared of Inl a \<Rightarrow> False
    | Inr (r, q) \<Rightarrow> r = 1
        \<and> Vars (ast q) = [\<lparr>Uses = 1, Decl = NoDecl, Name = ''x''\<rparr>, \<lparr>Uses = 1, Decl = ArgumentDecl, Name = ''x''\<rparr>]
        \<and> Undeclared (Scopes (ast q) 0) = [0] \<and> Declared (Scopes (ast q) 1) = [1])
   \<and> (case detachIdentifier exEnv 0 exAtArrow of Inl a \<Rightarrow> False
    | Inr (r, q) \<Rightarrow> r = 0 \<and> Vars (ast q) = [\<lparr>Uses = 1, Decl = ArgumentDecl, Name = ''x''\<rparr>]
        \<and> Undeclared (Scopes (ast q) 0) = []
        \<and> Undeclared (Scopes (ast exAtArrow) 0) = Undeclared (Scopes (ast q) 0) @ [0]
        \<and> Declared (Scopes (ast q) 1) = [0])
   \<and> fst (exUse 1 ''y'' (ast exAtArrow)) = 1
   \<and> Undeclared (Scopes (snd (exUse 1 ''y'' (ast exAtArrow))) 1) = [1]
   \<and> fst (exDeclare 1 ArgumentDecl ''x'' (ast exAtArrow)) = (1, True)
   \<and> Vars (snd (exDeclare 1 ArgumentDecl ''x'' (ast exAtArrow)))
       = [\<lparr>Uses = 1, Decl = NoDecl, Name = ''x''\<rparr>, \<lparr>Uses = 1, Decl = ArgumentDecl, Name = ''x''\<rparr>]
   \<and> (case Parse exEnv 10 (lexer exDetach) of Inl a \<Rightarrow> False
       | Inr (a, e) \<Rightarrow>
           BlockList (Module a) =
             [VarDeclS (VarDecl LetToken [BindingElement (VarRefB 0)
                (ArrowFuncE (ArrowFunc False (Params [BindingElement (VarRefB 1) NilExpr] NilBinding)
                   (BlockStmt [ReturnStmt (BinaryExpr AddToken (VarRefE 1) (VarRefE 2))] None) (Some 1)))]),
              VarDeclS (VarDecl LetToken [BindingElement (VarRefB 3) (VarRefE 4)])]
           \<and> Vars a = [\<lparr>Uses = 1, Decl = LexicalDecl, Name = ''f''\<rparr>, \<lparr>Uses = 2, Decl = ArgumentDecl, Name = ''x''\<rparr>,
                \<lparr>Uses = 1, Decl = NoDecl, Name = ''y''\<rparr>, \<lparr>Uses = 1, Decl = LexicalDecl, Name = ''g''\<rparr>,
                \<lparr>Uses = 1, Decl = NoDecl, Name = ''x''\<rparr>]
           \<and> Declared (Scopes a 1) = [1] \<and> Undeclared (Scopes a 0) = [2, 4] \<and> e = None)
   \<and> (case Parse exEnv 10 (lexer exShared) of Inl a \<Rightarrow> False
       | Inr (a, e) \<Rightarrow>
           Vars a = [\<lparr>Uses = 1, Decl = NoDecl, Name = ''x''\<rparr>, \<lparr>Uses = 2, Decl = ArgumentDecl, Name = ''x''\<rparr>]
           \<and> Declared (Scopes a 1) = [1] \<and> Undeclared (Scopes a 0) = [0] \<and> e = None)
   \<and> (case Parse exEnv 10 (lexer exVarThenArrow) of Inl a \<Rightarrow> False
       | Inr (a, e) \<Rightarrow>
           Vars a = [\<lparr>Uses = 1, Decl = VariableDecl, Name = ''x''\<rparr>, \<lparr>Uses = 1, Decl = ArgumentDecl, Name = ''x''\<rparr>]
           \<and> Declared (Scopes a 0) = [0] \<and> Declared (Scopes a 1) = [1] \<and> Undeclared (Scopes a 0) = []
           \<and> e = None)"
proof -
  define p1 where "p1 = snd (projr (enterScope True exBeforeArrow :: abort + (addr option \<times> addr) \<times> exLexer Parser))"
  define qf where "qf = snd (projr (parseIdentifierArrowFunc exEnv (run 5 exEnv) 0 exBeforeArrow))"
  have enter: "enterScope True exBeforeArrow = Inr ((Some 0, 1), p1)"
    by (simp add: p1_def exBeforeArrow_def exInside_def run_parser cong: monad_cong)
  from detach_single_identifier [where p = exBeforeArrow and parent = "Some 0" and sc = 1 and ?p1.0 = p1
      and env = exEnv and rec = "run 5 exEnv" and ref = 0] enter
  have "parseIdentifierArrowFunc exEnv (run 5 exEnv) 0 exBeforeArrow =
          (case detachIdentifier exEnv 0 (p1\<lparr>async := False, generator := False\<rparr>) of
             Inl a \<Rightarrow> Inl a
           | Inr (ref', p2) \<Rightarrow>
               (case parseArrowFuncBody exEnv (run 5 exEnv) p2 of
                  Inl a \<Rightarrow> Inl a
                | Inr (body, p3) \<Rightarrow>
                    (case exitScope exEnv (Some 0) (p3\<lparr>async := async p1, generator := generator p1\<rparr>) of
                       Inl a \<Rightarrow> Inl a
                     | Inr (u, p4) \<Rightarrow>
                         Inr (ArrowFunc False (Params [BindingElement (VarRefB ref') NilExpr] NilBinding) body
                                (Some 1), p4))))"
    by blast
  also have "\<dots> = Inr (ArrowFunc False (Params [BindingElement (VarRefB 0) NilExpr] NilBinding)
              (BlockStmt [ReturnStmt (VarRefE 0)] None) (Some 1), qf)"
    by (simp add: qf_def p1_def exBeforeArrow_def exInside_def run_parser cong: monad_cong)
  finally have eq: "parseIdentifierArrowFunc exEnv (run 5 exEnv) 0 exBeforeArrow =
      Inr (ArrowFunc False (Params [BindingElement (VarRefB 0) NilExpr] NilBinding)
              (BlockStmt [ReturnStmt (VarRefE 0)] None) (Some 1), qf)" .
  have st: "Vars (ast qf) = [\<lparr>Uses = 2, Decl = ArgumentDecl, Name = ''x''\<rparr>]
      \<and> Undeclared (Scopes (ast qf) 0) = [] \<and> Declared (Scopes (ast qf) 1) = [0]"
    by (simp add: qf_def exBeforeArrow_def exInside_def run_parser cong: monad_cong)
  have 1: "case parseIdentifierArrowFunc exEnv (run 5 exEnv) 0 exBeforeArrow of
      Inl a \<Rightarrow> False
    | Inr (r, q) \<Rightarrow>
        r = ArrowFunc False (Params [BindingElement (VarRefB 0) NilExpr] NilBinding)
              (BlockStmt [ReturnStmt (VarRefE 0)] None) (Some 1)
        \<and> Vars (ast q) = [\<lparr>Uses = 2, Decl = ArgumentDecl, Name = ''x''\<rparr>]
        \<and> Undeclared (Scopes (ast q) 0) = [] \<and> Declared (Scopes (ast q) 1) = [0]"
    unfolding eq using st by simp
  have "\<not> 5 < length (Vars (ast exAtArrow)) \<or> scope exAtArrow = None"
    by (simp add: exAtArrow_def newAST_def)
  with detach_single_identifier [where ref = 5 and q = exAtArrow and env = exEnv]
  have 2: "detachIdentifier exEnv 5 exAtArrow = Inl Panic"
    by blast
  have 3: "(case detachIdentifier exEnv 0 exAtArrowShared of Inl a \<Rightarrow> False
    | Inr (r, q) \<Rightarrow> r = 1
        \<and> Vars (ast q) = [\<lparr>Uses = 1, Decl = NoDecl, Name = ''x''\<rparr>, \<lparr>Uses = 1, Decl = ArgumentDecl, Name = ''x''\<rparr>]
        \<and> Undeclared (Scopes (ast q) 0) = [0] \<and> Declared (Scopes (ast q) 1) = [1])"
  proof -
    have "0 < length (Vars (ast exAtArrowShared)) \<and> 1 < Uses (Vars (ast exAtArrowShared) ! 0)
        \<and> scope exAtArrowShared = Some 1"
      by (simp add: exAtArrowShared_def newAST_def)
    with detach_single_identifier [where ref = 0 and q = exAtArrowShared and s = 1 and env = exEnv]
    have "detachIdentifier exEnv 0 exAtArrowShared =
          (case Declare exEnv 1 ArgumentDecl (Name (Vars (ast exAtArrowShared) ! 0))
                  ((ast exAtArrowShared)\<lparr>Vars := (Vars (ast exAtArrowShared))
                     [0 := (Vars (ast exAtArrowShared) ! 0)\<lparr>Uses := Uses (Vars (ast exAtArrowShared) ! 0) - 1\<rparr>]\<rparr>) of
             ((ref', ok), a') \<Rightarrow> Inr (ref', exAtArrowShared\<lparr>ast := a'\<rparr>))"
      by blast
    then show ?thesis
      by (simp add: exAtArrowShared_def newAST_def Scope0_def exEnv_simps ex_defs Let_def)
  qed
  have 4: "(case detachIdentifier exEnv 0 exAtArrow of Inl a \<Rightarrow> False
    | Inr (r, q) \<Rightarrow> r = 0 \<and> Vars (ast q) = [\<lparr>Uses = 1, Decl = ArgumentDecl, Name = ''x''\<rparr>]
        \<and> Undeclared (Scopes (ast q) 0) = []
        \<and> Undeclared (Scopes (ast exAtArrow) 0) = Undeclared (Scopes (ast q) 0) @ [0]
        \<and> Declared (Scopes (ast q) 1) = [0])"
  proof -
    have "0 < length (Vars (ast exAtArrow)) \<and> Uses (Vars (ast exAtArrow) ! 0) \<le> 1 \<and> scope exAtArrow = Some 1"
      by (simp add: exAtArrow_def newAST_def Scope0_def)
    with detach_single_identifier [where ref = 0 and q = exAtArrow and s = 1 and env = exEnv]
    have "case Parent (Scopes (ast exAtArrow) 1) of
           None \<Rightarrow> detachIdentifier exEnv 0 exAtArrow = Inl Panic
         | Some pa \<Rightarrow>
             if Undeclared (Scopes (ast exAtArrow) pa) = [] then detachIdentifier exEnv 0 exAtArrow = Inl Panic
             else (\<exists>a'. detachIdentifier exEnv 0 exAtArrow = Inr (0, exAtArrow\<lparr>ast := a'\<rparr>)
                    \<and> Vars a' = (Vars (ast exAtArrow))[0 := (Vars (ast exAtArrow) ! 0)\<lparr>Decl := ArgumentDecl\<rparr>]
                    \<and> Undeclared (Scopes a' pa) = butlast (Undeclared (Scopes (ast exAtArrow) pa))
                    \<and> (last (Undeclared (Scopes (ast exAtArrow) pa)) = 0 \<longrightarrow>
                         Undeclared (Scopes (ast exAtArrow) pa) = Undeclared (Scopes a' pa) @ [0])
                    \<and> Declared (Scopes a' 1) = Declared (Scopes (ast exAtArrow) 1) @ [0]
                    \<and> (\<forall>s'. s' \<noteq> 1 \<and> s' \<noteq> pa \<longrightarrow> Scopes a' s' = Scopes (ast exAtArrow) s')
                    \<and> NumScopes a' = NumScopes (ast exAtArrow))"
      by blast
    moreover have "Parent (Scopes (ast exAtArrow) 1) = Some 0"
      and "Undeclared (Scopes (ast exAtArrow) 0) = [0]"
      by (simp_all add: exAtArrow_def newAST_def Scope0_def)
    ultimately obtain a' where "detachIdentifier exEnv 0 exAtArrow = Inr (0, exAtArrow\<lparr>ast := a'\<rparr>)"
      and "Vars a' = (Vars (ast exAtArrow))[0 := (Vars (ast exAtArrow) ! 0)\<lparr>Decl := ArgumentDecl\<rparr>]"
      and "Undeclared (Scopes a' 0) = butlast (Undeclared (Scopes (ast exAtArrow) 0))"
      and "Undeclared (Scopes (ast exAtArrow) 0) = Undeclared (Scopes a' 0) @ [0]"
      and "Declared (Scopes a' 1) = Declared (Scopes (ast exAtArrow) 1) @ [0]"
      by auto
    then show ?thesis
      by (simp add: exAtArrow_def newAST_def Scope0_def)
  qed
  have 5: "fst (exUse 1 ''y'' (ast exAtArrow)) = 1
           \<and> Undeclared (Scopes (snd (exUse 1 ''y'' (ast exAtArrow))) 1) = [1]"
  proof -
    have r: "fst (exUse 1 ''y'' (ast exAtArrow)) = 1"
      by (simp add: exAtArrow_def newAST_def Scope0_def ex_defs pure_defs)
    have "(\<forall>v \<in> set (Vars (ast exAtArrow)). 1 \<le> Uses v)
        \<and> exUse 1 ''y'' (ast exAtArrow) = (1, snd (exUse 1 ''y'' (ast exAtArrow)))
        \<and> Uses (Vars (snd (exUse 1 ''y'' (ast exAtArrow))) ! 1) = 1"
      by (simp add: exAtArrow_def newAST_def Scope0_def ex_defs pure_defs)
    with detach_single_identifier [where a = "ast exAtArrow" and s = 1 and name = "''y''" and r = 1
        and ?a1.0 = "snd (exUse 1 ''y'' (ast exAtArrow))"]
    have "Undeclared (Scopes (snd (exUse 1 ''y'' (ast exAtArrow))) 1)
            = Undeclared (Scopes (ast exAtArrow) 1) @ [1]"
      by blast
    moreover have "Undeclared (Scopes (ast exAtArrow) 1) = []"
      by (simp add: exAtArrow_def newAST_def Scope0_def)
    ultimately show ?thesis
      using r by simp
  qed
  have 9: "fst (exDeclare 1 ArgumentDecl ''x'' (ast exAtArrow)) = (1, True)
      \<and> Vars (snd (exDeclare 1 ArgumentDecl ''x'' (ast exAtArrow)))
          = [\<lparr>Uses = 1, Decl = NoDecl, Name = ''x''\<rparr>, \<lparr>Uses = 1, Decl = ArgumentDecl, Name = ''x''\<rparr>]"
  proof -
    have "Declared (Scopes (ast exAtArrow) 1) = []"
      by (simp add: exAtArrow_def newAST_def Scope0_def)
    with detach_single_identifier [where a = "ast exAtArrow" and s = 1 and name = "''x''"]
    have "exDeclare 1 ArgumentDecl ''x'' (ast exAtArrow) =
          ((length (Vars (ast exAtArrow)), True),
           (ast exAtArrow)\<lparr>Vars := Vars (ast exAtArrow) @ [\<lparr>Uses = 1, Decl = ArgumentDecl, Name = ''x''\<rparr>],
             Scopes := (Scopes (ast exAtArrow))
               (1 := (Scopes (ast exAtArrow) 1)\<lparr>Declared := [length (Vars (ast exAtArrow))]\<rparr>)\<rparr>)"
      by blast
    then show ?thesis
      by (simp add: exAtArrow_def newAST_def)
  qed
  have 6: "(case Parse exEnv 10 (lexer exDetach) of Inl a \<Rightarrow> False
       | Inr (a, e) \<Rightarrow>
           BlockList (Module a) =
             [VarDeclS (VarDecl LetToken [BindingElement (VarRefB 0)
                (ArrowFuncE (ArrowFunc False (Params [BindingElement (VarRefB 1) NilExpr] NilBinding)
                   (BlockStmt [ReturnStmt (BinaryExpr AddToken (VarRefE 1) (VarRefE 2))] None) (Some 1)))]),
              VarDeclS (VarDecl LetToken [BindingElement (VarRefB 3) (VarRefE 4)])]
           \<and> Vars a = [\<lparr>Uses = 1, Decl = LexicalDecl, Name = ''f''\<rparr>, \<lparr>Uses = 2, Decl = ArgumentDecl, Name = ''x''\<rparr>,
                \<lparr>Uses = 1, Decl = NoDecl, Name = ''y''\<rparr>, \<lparr>Uses = 1, Decl = LexicalDecl, Name = ''g''\<rparr>,
                \<lparr>Uses = 1, Decl = NoDecl, Name = ''x''\<rparr>]
           \<and> Declared (Scopes a 1) = [1] \<and> Undeclared (Scopes a 0) = [2, 4] \<and> e = None)"
    by (simp add: exDetach_def run_parser cong: monad_cong)
  have 7: "(case Parse exEnv 10 (lexer exShared) of Inl a \<Rightarrow> False
       | Inr (a, e) \<Rightarrow>
           Vars a = [\<lparr>Uses = 1, Decl = NoDecl, Name = ''x''\<rparr>, \<lparr>Uses = 2, Decl = ArgumentDecl, Name = ''x''\<rparr>]
           \<and> Declared (Scopes a 1) = [1] \<and> Undeclared (Scopes a 0) = [0] \<and> e = None)"
    by (simp add: exShared_def run_parser cong: monad_cong)
  have 8: "(case Parse exEnv 10 (lexer exVarThenArrow) of Inl a \<Rightarrow> False
       | Inr (a, e) \<Rightarrow>
           Vars a = [\<lparr>Uses = 1, Decl = VariableDecl, Name = ''x''\<rparr>, \<lparr>Uses = 1, Decl = ArgumentDecl, Name = ''x''\<rparr>]
           \<and> Declared (Scopes a 0) = [0] \<and> Declared (Scopes a 1) = [1] \<and> Undeclared (Scopes a 0) = []
           \<and> e = None)"
    by (simp add: exVarThenArrow_def run_parser cong: monad_cong)
  from 1 2 3 4 5 9 6 7 8 show ?thesis by blast
qed

section \<open>First error wins\<close>

text \<open>
  Claim C3.  Once an error is recorded in the parser state, \<open>fail\<close> and \<open>failMessage\<close> leave
  the state as it is; every recursive call and loop of the parser, with any bound on the
  nesting, and so the whole body of \<open>Parse\<close>, ends with the same recorded error if it
  returns; and \<open>Parse\<close> reports that error, at the offset of the current token.  So the error
  that \<open>Parse\<close> returns is the first one recorded.
\<close>

theorem first_error_wins:
  "(err p = Some e \<longrightarrow> fail env inn expected p = Inr ((), p) \<and> failMessage msg p = Inr ((), p))
   \<and> recsPreserve (errIs e) (run n env)
   \<and> preserves (errIs e) (parseBody env (run n env))
   \<and> (err p = Some e \<longrightarrow>
        parseError env p = Some (ParseError (int (Offset env (lx p)) - int (length (data p))) (Error e)))"
proof (intro conjI impI)
  assume e: "err p = Some e"
  show "fail env inn expected p = Inr ((), p)"
    by (simp add: fail_def bind_get e return_def)
  show "failMessage msg p = Inr ((), p)"
    by (simp add: failMessage_def bind_get e return_def)
  show "parseError env p = Some (ParseError (int (Offset env (lx p)) - int (length (data p))) (Error e))"
    by (simp add: parseError_def e)
next
  show "recsPreserve (errIs e) (run n env)"
    by (rule err_run)
  then show "preserves (errIs e) (parseBody env (run n env))"
    by (rule err_parseBody)
qed

theorem first_error_wins_witness:
  "fail exEnv ''arguments'' [CloseParenToken] exFailed = Inr ((), exFailed)
   \<and> failMessage ''later'' exFailed = Inr ((), exFailed)
   \<and> parseError exEnv exFailed = Some (ParseError 0 ''first'')
   \<and> (case parseBody exEnv (run 3 exEnv) exFailed of Inl a \<Rightarrow> False | Inr (u, p') \<Rightarrow> err p' = Some (Errorf ''first''))
   \<and> (case Parse exEnv 10 (lexer exTwoErrors) of Inl a \<Rightarrow> False
       | Inr (a, e) \<Rightarrow> e = Some (ParseError 2 (''unexpected '' @ [quote] @ '';'' @ [quote] @ '' in expression'')))"
proof -
  have e: "err exFailed = Some (Errorf ''first'')"
    by (simp add: exFailed_def)
  note w = first_error_wins [of exFailed "Errorf ''first''" exEnv _ _ _ 3]
  have "fail exEnv ''arguments'' [CloseParenToken] exFailed = Inr ((), exFailed)"
    using w e by blast
  moreover have "failMessage ''later'' exFailed = Inr ((), exFailed)"
    using w e by blast
  moreover have "parseError exEnv exFailed = Some (ParseError 0 ''first'')"
    using w e by (simp add: exFailed_def exEnv_simps pure_defs ex_defs)
  moreover have "case parseBody exEnv (run 3 exEnv) exFailed of Inl a \<Rightarrow> False
                 | Inr (u, p') \<Rightarrow> err p' = Some (Errorf ''first'')"
  proof -
    have "\<exists>u p'. parseBody exEnv (run 3 exEnv) exFailed = Inr (u, p')"
      by (simp add: exFailed_def run_parser cong: monad_cong)
    then obtain u p' where run: "parseBody exEnv (run 3 exEnv) exFailed = Inr (u, p')"
      by blast
    from w have "preserves (errIs (Errorf ''first'')) (parseBody exEnv (run 3 exEnv))"
      by blast
    moreover from e have "errIs (Errorf ''first'') exFailed"
      by (simp add: errIs_def)
    ultimately have "errIs (Errorf ''first'') p'"
      using run by (rule preservesD)
    with run show ?thesis by (simp add: errIs_def)
  qed
  moreover have "case Parse exEnv 10 (lexer exTwoErrors) of Inl a \<Rightarrow> False
       | Inr (a, e) \<Rightarrow> e = Some (ParseError 2 (''unexpected '' @ [quote] @ '';'' @ [quote] @ '' in expression''))"
    by (simp add: exTwoErrors_def run_parser cong: monad_cong)
  ultimately show ?thesis by blast
qed

section \<open>A \<open>/\<close> at the start of an expression is a regular expression\<close>

text \<open>
  Claim C4.  When \<open>parseExpression\<close> is entered at \<open>/\<close> or \<open>/=\<close>, the token is read again as
  a regular expression; if that gives the error token the parse fails (an error is recorded,
  unless one was already, and nil is returned), otherwise the expression is parsed from the
  new token.  At any other token nothing is read again.  A \<open>/\<close> after a left operand, where
  a multiplicative operator is admitted, is consumed by \<open>next\<close> and gives a \<open>BinaryExpr\<close>
  with the operand to its right.
\<close>

theorem regexp_at_expression_start:
  "(tt p = DivToken \<or> tt p = DivEqToken \<longrightarrow>
      parseExpression env rec prec p =
        (let q = (case RegExp env (lx p) of ((t, d), l') \<Rightarrow> p\<lparr>tt := t, data := d, lx := l'\<rparr>)
         in if tt q = ErrorToken then
              Inr (NilExpr, if err q = None
                            then q\<lparr>err := Some (Errorf (Sprintf env (failMsg env ''regular expression'' [] q))), tt := ErrorToken\<rparr>
                            else q)
            else parseOperand env rec prec q))
   \<and> (tt p \<noteq> DivToken \<and> tt p \<noteq> DivEqToken \<longrightarrow> parseExpression env rec prec p = parseOperand env rec prec p)
   \<and> (tt p = DivToken \<and> prec \<le> OpMul \<and> OpMul \<le> precLeft \<longrightarrow>
        suffixStep env rec left prec precLeft p =
          (case next' env rec p of
             Inl a \<Rightarrow> Inl a
           | Inr (u, q) \<Rightarrow>
               (case rExpression rec OpExp q of
                  Inl a \<Rightarrow> Inl a
                | Inr (y, q') \<Rightarrow> Inr (Inr (BinaryExpr DivToken left y, OpMul), q'))))"
proof (intro conjI impI)
  assume "tt p = DivToken \<or> tt p = DivEqToken"
  then show "parseExpression env rec prec p =
        (let q = (case RegExp env (lx p) of ((t, d), l') \<Rightarrow> p\<lparr>tt := t, data := d, lx := l'\<rparr>)
         in if tt q = ErrorToken then
              Inr (NilExpr, if err q = None
                            then q\<lparr>err := Some (Errorf (Sprintf env (failMsg env ''regular expression'' [] q))), tt := ErrorToken\<rparr>
                            else q)
            else parseOperand env rec prec q)"
    by (cases "RegExp env (lx p)")
       (auto simp add: parseExpression_def relexRegExp_def lexRegExp_def fail_def setErr_def flowEnd_apply
          bind_apply get_apply modify_apply return_apply returnNow_apply fallThrough_apply Let_def)
next
  assume "tt p \<noteq> DivToken \<and> tt p \<noteq> DivEqToken"
  then show "parseExpression env rec prec p = parseOperand env rec prec p"
    by (simp add: parseExpression_def relexRegExp_def flowEnd_apply bind_apply get_apply fallThrough_apply)
next
  assume "tt p = DivToken \<and> prec \<le> OpMul \<and> OpMul \<le> precLeft"
  then show "suffixStep env rec left prec precLeft p =
          (case next' env rec p of
             Inl a \<Rightarrow> Inl a
           | Inr (u, q) \<Rightarrow>
               (case rExpression rec OpExp q of
                  Inl a \<Rightarrow> Inl a
                | Inr (y, q') \<Rightarrow> Inr (Inr (BinaryExpr DivToken left y, OpMul), q')))"
    by (simp add: suffixStep_def infixOp_def bind_apply get_apply fallThrough_apply
          split: sum.splits prod.splits)
qed

theorem regexp_at_expression_start_witness:
  "(case parseExpression exEnv (run 3 exEnv) OpExpr exAtSlash of Inl a \<Rightarrow> False
    | Inr (e, q) \<Rightarrow> e = LiteralExpr RegExpToken ''/ab+c/'' \<and> tt q = SemicolonToken)
   \<and> parseExpression exEnv (run 3 exEnv) OpExpr exAtIn = parseOperand exEnv (run 3 exEnv) OpExpr exAtIn
   \<and> (case suffixStep exEnv (run 3 exEnv) (VarRefE 0) OpExpr OpPrimary exAtSlash of Inl a \<Rightarrow> False
       | Inr (r, q) \<Rightarrow> r = Inr (BinaryExpr DivToken (VarRefE 0) (VarRefE 0), OpMul) \<and> tt q = AddToken)
   \<and> (case Parse exEnv 10 (lexer exRegExpLiteral) of Inl a \<Rightarrow> False
       | Inr (a, e) \<Rightarrow> BlockList (Module a) = [ExprStmt (LiteralExpr RegExpToken ''/ab+c/'')] \<and> e = None)
   \<and> (case Parse exEnv 10 (lexer exDivide) of Inl a \<Rightarrow> False
       | Inr (a, e) \<Rightarrow> BlockList (Module a)
           = [ExprStmt (BinaryExpr DivToken (BinaryExpr DivToken (VarRefE 0) (VarRefE 1)) (VarRefE 2))] \<and> e = None)
   \<and> (case Parse exEnv 10 (lexer [T DivToken ''/'']) of Inl a \<Rightarrow> False
       | Inr (a, e) \<Rightarrow> BlockList (Module a) = [ExprStmt NilExpr] \<and> e \<noteq> None)"
proof -
  have 1: "(case parseExpression exEnv (run 3 exEnv) OpExpr exAtSlash of Inl a \<Rightarrow> False
    | Inr (e, q) \<Rightarrow> e = LiteralExpr RegExpToken ''/ab+c/'' \<and> tt q = SemicolonToken)"
  proof -
    have "tt exAtSlash = DivToken \<or> tt exAtSlash = DivEqToken"
      by (simp add: exAtSlash_def)
    with regexp_at_expression_start [of exAtSlash exEnv "run 3 exEnv" OpExpr]
    have "parseExpression exEnv (run 3 exEnv) OpExpr exAtSlash =
          (let q = (case RegExp exEnv (lx exAtSlash) of ((t, d), l') \<Rightarrow> exAtSlash\<lparr>tt := t, data := d, lx := l'\<rparr>)
           in if tt q = ErrorToken then
                Inr (NilExpr, if err q = None
                              then q\<lparr>err := Some (Errorf (Sprintf exEnv (failMsg exEnv ''regular expression'' [] q))), tt := ErrorToken\<rparr>
                              else q)
              else parseOperand exEnv (run 3 exEnv) OpExpr q)"
      by blast
    then show ?thesis
      by (simp add: exAtSlash_def exRegExpLiteral_def run_parser cong: monad_cong)
  qed
  have 5: "parseExpression exEnv (run 3 exEnv) OpExpr exAtIn = parseOperand exEnv (run 3 exEnv) OpExpr exAtIn"
  proof -
    have "tt exAtIn \<noteq> DivToken \<and> tt exAtIn \<noteq> DivEqToken"
      by (simp add: exAtIn_def)
    with regexp_at_expression_start [of exAtIn exEnv "run 3 exEnv" OpExpr]
    show ?thesis by blast
  qed
  have 6: "(case suffixStep exEnv (run 3 exEnv) (VarRefE 0) OpExpr OpPrimary exAtSlash of Inl a \<Rightarrow> False
       | Inr (r, q) \<Rightarrow> r = Inr (BinaryExpr DivToken (VarRefE 0) (VarRefE 0), OpMul) \<and> tt q = AddToken)"
  proof -
    have "tt exAtSlash = DivToken \<and> OpExpr \<le> OpMul \<and> OpMul \<le> OpPrimary"
      by (simp add: exAtSlash_def)
    with regexp_at_expression_start [of exAtSlash exEnv "run 3 exEnv" OpExpr OpPrimary "VarRefE 0"]
    have "suffixStep exEnv (run 3 exEnv) (VarRefE 0) OpExpr OpPrimary exAtSlash =
          (case next' exEnv (run 3 exEnv) exAtSlash of
             Inl a \<Rightarrow> Inl a
           | Inr (u, q) \<Rightarrow>
               (case rExpression (run 3 exEnv) OpExp q of
                  Inl a \<Rightarrow> Inl a
                | Inr (y, q') \<Rightarrow> Inr (Inr (BinaryExpr DivToken (VarRefE 0) y, OpMul), q')))"
      by blast
    then show ?thesis
      by (simp add: exAtSlash_def exRegExpLiteral_def run_parser cong: monad_cong)
  qed
  have 2: "(case Parse exEnv 10 (lexer exRegExpLiteral) of Inl a \<Rightarrow> False
       | Inr (a, e) \<Rightarrow> BlockList (Module a) = [ExprStmt (LiteralExpr RegExpToken ''/ab+c/'')] \<and> e = None)"
    by (simp add: exRegExpLiteral_def run_parser cong: monad_cong)
  have 3: "(case Parse exEnv 10 (lexer exDivide) of Inl a \<Rightarrow> False
       | Inr (a, e) \<Rightarrow> BlockList (Module a)
           = [ExprStmt (BinaryExpr DivToken (BinaryExpr DivToken (VarRefE 0) (VarRefE 1)) (VarRefE 2))] \<and> e = None)"
    by (simp add: exDivide_def run_parser cong: monad_cong)
  have 4: "(case Parse exEnv 10 (lexer [T DivToken ''/'']) of Inl a \<Rightarrow> False
       | Inr (a, e) \<Rightarrow> BlockList (Module a) = [ExprStmt NilExpr] \<and> e \<noteq> None)"
    by (simp add: run_parser cong: monad_cong)
  from 1 5 6 2 3 4 show ?thesis by blast
qed

section \<open>No value for \<open>return\<close> after a line terminator\<close>

text \<open>
  Claim C5.  After the token \<open>return\<close> the parser reads on (\<open>next\<close>); in the state \<open>q\<close> it
  reaches, a value is parsed exactly when \<open>prevLT\<close> is not set and the token is none of \<open>;\<close>,
  \<open>}\<close> and the error token.  Otherwise the statement is a \<open>return\<close> without a value and the
  parser stays at that token.  \<open>prevLT\<close> says whether a line terminator was observed since
  the token \<open>return\<close>: whenever \<open>next\<close> returns, with any bound on its loop, it has passed
  over the white space, line terminators and comments that the token source delivered, it
  is at the first token of another kind, and \<open>prevLT\<close> is set exactly when a line terminator
  or a comment with a line terminator was among the tokens passed over.  With a bound that
  is not smaller than the number of these tokens, \<open>next\<close> does return.
\<close>

theorem return_value_on_same_line:
  "(next' env rec p = Inr ((), q) \<longrightarrow>
      parseStmtReturn env rec p =
        (if \<not> prevLT q \<and> tt q \<noteq> SemicolonToken \<and> tt q \<noteq> CloseBraceToken \<and> tt q \<noteq> ErrorToken
         then (case rExpression rec OpExpr q of
                 Inl a \<Rightarrow> Inl a
               | Inr (v, q') \<Rightarrow> Inr (Inr (ReturnStmt v), q'))
         else Inr (Inr (ReturnStmt NilExpr), q)))
   \<and> (next' env (run n env) p = Inr ((), q) \<longrightarrow>
        (\<exists>k ts t d l. skippedTokens env k (Next env (lx p)) = Some (ts, (t, d), l)
           \<and> q = p\<lparr>prevLT := lineTerminatorAmong ts, tt := t, data := d, lx := l\<rparr>))
   \<and> (skippedTokens env k (Next env (lx p)) = Some (ts, (t, d), l) \<longrightarrow>
        next' env (run k env) p = Inr ((), p\<lparr>prevLT := lineTerminatorAmong ts, tt := t, data := d, lx := l\<rparr>))"
proof (intro conjI impI)
  assume "next' env rec p = Inr ((), q)"
  then show "parseStmtReturn env rec p =
        (if \<not> prevLT q \<and> tt q \<noteq> SemicolonToken \<and> tt q \<noteq> CloseBraceToken \<and> tt q \<noteq> ErrorToken
         then (case rExpression rec OpExpr q of
                 Inl a \<Rightarrow> Inl a
               | Inr (v, q') \<Rightarrow> Inr (Inr (ReturnStmt v), q'))
         else Inr (Inr (ReturnStmt NilExpr), q))"
    by (simp add: parseStmtReturn_def bind_apply get_apply fallThrough_apply split: sum.splits prod.splits)
next
  assume "next' env (run n env) p = Inr ((), q)"
  then show "\<exists>k ts t d l. skippedTokens env k (Next env (lx p)) = Some (ts, (t, d), l)
           \<and> q = p\<lparr>prevLT := lineTerminatorAmong ts, tt := t, data := d, lx := l\<rparr>"
    by (rule next_skips)
next
  assume "skippedTokens env k (Next env (lx p)) = Some (ts, (t, d), l)"
  then show "next' env (run k env) p = Inr ((), p\<lparr>prevLT := lineTerminatorAmong ts, tt := t, data := d, lx := l\<rparr>)"
    by (rule skips_next)
qed

theorem return_value_on_same_line_witness:
  "(case parseStmtReturn exEnv (run 3 exEnv) (exInside ReturnToken ''return'' (tl exReturnSpaceLine)) of
      Inl a \<Rightarrow> False
    | Inr (r, q) \<Rightarrow> r = Inr (ReturnStmt NilExpr) \<and> prevLT q \<and> tt q = DecimalToken)
   \<and> (\<exists>k ts t d l.
         skippedTokens exEnv k (Next exEnv (lx (exInside ReturnToken ''return'' (tl exReturnSpaceLine))))
           = Some (ts, (t, d), l)
         \<and> lineTerminatorAmong ts \<and> t = DecimalToken)
   \<and> (case Parse exEnv 10 (lexer exReturnLine) of Inl a \<Rightarrow> False
       | Inr (a, e) \<Rightarrow> BlockList (Module a) = [ReturnStmt NilExpr, ExprStmt (LiteralExpr DecimalToken ''1'')] \<and> e = None)
   \<and> (case Parse exEnv 10 (lexer exReturnSpaceLine) of Inl a \<Rightarrow> False
       | Inr (a, e) \<Rightarrow> BlockList (Module a) = [ReturnStmt NilExpr, ExprStmt (LiteralExpr DecimalToken ''1'')] \<and> e = None)
   \<and> (case Parse exEnv 10 (lexer exReturnValue) of Inl a \<Rightarrow> False
       | Inr (a, e) \<Rightarrow> BlockList (Module a) = [ReturnStmt (LiteralExpr DecimalToken ''1'')] \<and> e = None)"
proof -
  define s where "s = exInside ReturnToken ''return'' (tl exReturnSpaceLine)"
  define q where "q = s\<lparr>prevLT := lineTerminatorAmong [WhitespaceToken, LineTerminatorToken], tt := DecimalToken,
                       data := ''1'', lx := \<lparr>toks = [], off = 3, relex = None, broken = False\<rparr>\<rparr>"
  note inst = return_value_on_same_line [of exEnv "run 3 exEnv" s q 3 3 "[WhitespaceToken, LineTerminatorToken]"
      DecimalToken "''1''" "\<lparr>toks = [], off = 3, relex = None, broken = False\<rparr>"]
  have sk: "skippedTokens exEnv 3 (Next exEnv (lx s))
              = Some ([WhitespaceToken, LineTerminatorToken], (DecimalToken, ''1''),
                      \<lparr>toks = [], off = 3, relex = None, broken = False\<rparr>)"
    by (simp add: s_def exInside_def exReturnSpaceLine_def skippedTokens_numeral skippedToken_def
          exEnv_simps ex_defs pure_defs)
  with inst have nx: "next' exEnv (run 3 exEnv) s = Inr ((), q)"
    unfolding q_def by blast
  with inst have "\<exists>k ts t d l. skippedTokens exEnv k (Next exEnv (lx s)) = Some (ts, (t, d), l)
           \<and> q = s\<lparr>prevLT := lineTerminatorAmong ts, tt := t, data := d, lx := l\<rparr>"
    by blast
  then obtain k ts t d l where sk': "skippedTokens exEnv k (Next exEnv (lx s)) = Some (ts, (t, d), l)"
    and q': "q = s\<lparr>prevLT := lineTerminatorAmong ts, tt := t, data := d, lx := l\<rparr>"
    by blast
  have q: "prevLT q \<and> tt q = DecimalToken"
    by (simp add: q_def lineTerminatorAmong_def)
  from q' have "lineTerminatorAmong ts = prevLT q" and "t = tt q"
    by simp_all
  with q have "lineTerminatorAmong ts" and "t = DecimalToken"
    by simp_all
  with sk' have 2: "\<exists>k ts t d l. skippedTokens exEnv k (Next exEnv (lx s)) = Some (ts, (t, d), l)
         \<and> lineTerminatorAmong ts \<and> t = DecimalToken"
    by (intro exI conjI)
  from inst nx have "parseStmtReturn exEnv (run 3 exEnv) s =
        (if \<not> prevLT q \<and> tt q \<noteq> SemicolonToken \<and> tt q \<noteq> CloseBraceToken \<and> tt q \<noteq> ErrorToken
         then (case rExpression (run 3 exEnv) OpExpr q of
                 Inl a \<Rightarrow> Inl a
               | Inr (v, q') \<Rightarrow> Inr (Inr (ReturnStmt v), q'))
         else Inr (Inr (ReturnStmt NilExpr), q))"
    by blast
  with q have 1: "case parseStmtReturn exEnv (run 3 exEnv) s of
      Inl a \<Rightarrow> False
    | Inr (r, q) \<Rightarrow> r = Inr (ReturnStmt NilExpr) \<and> prevLT q \<and> tt q = DecimalToken"
    by simp
  have 3: "case Parse exEnv 10 (lexer exReturnLine) of Inl a \<Rightarrow> False
       | Inr (a, e) \<Rightarrow> BlockList (Module a) = [ReturnStmt NilExpr, ExprStmt (LiteralExpr DecimalToken ''1'')] \<and> e = None"
    by (simp add: exReturnLine_def run_parser cong: monad_cong)
  have 4: "case Parse exEnv 10 (lexer exReturnSpaceLine) of Inl a \<Rightarrow> False
       | Inr (a, e) \<Rightarrow> BlockList (Module a) = [ReturnStmt NilExpr, ExprStmt (LiteralExpr DecimalToken ''1'')] \<and> e = None"
    by (simp add: exReturnSpaceLine_def run_parser cong: monad_cong)
  have 5: "case Parse exEnv 10 (lexer exReturnValue) of Inl a \<Rightarrow> False
       | Inr (a, e) \<Rightarrow> BlockList (Module a) = [ReturnStmt (LiteralExpr DecimalToken ''1'')] \<and> e = None"
    by (simp add: exReturnValue_def run_parser cong: monad_cong)
  from 1 2 3 4 5 show ?thesis unfolding s_def by blast
qed

section \<open>An input on which \<open>Parse\<close> does not return\<close>

text \<open>
  Claim C6.  On the input \<open>({...a=1})=>1\<close> the conversion of the parenthesized list to
  parameters reaches \<open>item.Value.(VarRef)\<close> in \<open>exprToBinding\<close> with a \<open>BinaryExpr\<close>; the type
  assertion panics, and \<open>Parse\<close> returns neither a tree nor an error.  This is so for every
  bound on the nesting from ten on.
\<close>

theorem Parse_panics:
  "Parse exEnv (10 + n) (lexer exSpreadDefault) = Inl Panic"
proof -
  have "Parse exEnv 10 (lexer exSpreadDefault) = Inl Panic"
    by (simp add: exSpreadDefault_def run_parser cong: monad_cong)
  moreover from this have "Parse exEnv (10 + n) (lexer exSpreadDefault) = Parse exEnv 10 (lexer exSpreadDefault)"
    by (intro Parse_mono) simp_all
  ultimately show ?thesis by simp
qed

section \<open>No relational \<open>in\<close> in the initializer of a \<open>for\<close> head\<close>

text \<open>
  Claim C7.  When \<open>parseStmtFor\<close> has read \<open>for\<close>, an \<open>await\<close> in an async function and the
  opening parenthesis, it sets \<open>inFor\<close> and parses the initializer in the state so made,
  whichever form the initializer has: a declaration with \<open>var\<close>, \<open>let\<close> or \<open>const\<close>, an
  expression, or nothing before the \<open>;\<close>.  In the state the initializer leaves, the flag is
  cleared, and the rest of the head and the body are parsed from there.  At \<open>in\<close> with the
  flag set, \<open>parseExpressionSuffix\<close> returns its left operand and leaves the state, and so
  the token \<open>in\<close>, as it is.
\<close>

theorem in_suppressed_in_for_init:
  "(next' env rec p = Inr ((), p1)
      \<and> whenM (async p1 \<and> tt p1 = AwaitToken) (next' env rec) p1 = Inr ((), p2)
      \<and> consume env rec ''for statement'' OpenParenToken p2 = Inr (True, p3) \<longrightarrow>
      parseStmtFor env rec p =
        (case (if tt p3 = VarToken \<or> tt p3 = LetToken \<or> tt p3 = ConstToken then
                 (case next' env rec (p3\<lparr>inFor := True\<rparr>) of
                    Inl a \<Rightarrow> Inl a
                  | Inr (u, q) \<Rightarrow>
                      (case parseVarDecl env rec (tt p3) q of
                         Inl a \<Rightarrow> Inl a
                       | Inr (varDecl, q') \<Rightarrow> Inr (VarDeclE varDecl, q')))
               else if tt p3 \<noteq> SemicolonToken then rExpression rec OpExpr (p3\<lparr>inFor := True\<rparr>)
               else Inr (NilExpr, p3\<lparr>inFor := True\<rparr>)) of
           Inl a \<Rightarrow> Inl a
         | Inr (init, q) \<Rightarrow>
             parseForRest env rec (async p1 \<and> tt p1 = AwaitToken) init (q\<lparr>inFor := False\<rparr>)))
   \<and> (inFor p \<and> tt p = InToken \<longrightarrow> parseExpressionSuffix env rec left prec precLeft p = Inr (left, p))"
proof (intro conjI impI)
  assume a: "next' env rec p = Inr ((), p1)
      \<and> whenM (async p1 \<and> tt p1 = AwaitToken) (next' env rec) p1 = Inr ((), p2)
      \<and> consume env rec ''for statement'' OpenParenToken p2 = Inr (True, p3)"
  then have 1: "next' env rec p = Inr ((), p1)"
    and 2: "whenM (async p1 \<and> tt p1 = AwaitToken) (next' env rec) p1 = Inr ((), p2)"
    and 3: "consume env rec ''for statement'' OpenParenToken p2 = Inr (True, p3)"
    by simp_all
  have init: "parseForInit env rec p3 =
        (case (if tt p3 = VarToken \<or> tt p3 = LetToken \<or> tt p3 = ConstToken then
                 (case next' env rec (p3\<lparr>inFor := True\<rparr>) of
                    Inl a \<Rightarrow> Inl a
                  | Inr (u, q) \<Rightarrow>
                      (case parseVarDecl env rec (tt p3) q of
                         Inl a \<Rightarrow> Inl a
                       | Inr (varDecl, q') \<Rightarrow> Inr (VarDeclE varDecl, q')))
               else if tt p3 \<noteq> SemicolonToken then rExpression rec OpExpr (p3\<lparr>inFor := True\<rparr>)
               else Inr (NilExpr, p3\<lparr>inFor := True\<rparr>)) of
           Inl a \<Rightarrow> Inl a
         | Inr (init, q) \<Rightarrow> Inr (init, q\<lparr>inFor := False\<rparr>))"
    by (simp add: parseForInit_def setInFor_def bind_apply get_apply modify_apply return_apply
          cong: if_cong sum.case_cong)
  have "parseStmtFor env rec p =
          (case parseForInit env rec p3 of
             Inl a \<Rightarrow> Inl a
           | Inr (init, q) \<Rightarrow> parseForRest env rec (async p1 \<and> tt p1 = AwaitToken) init q)"
    using 1 2 3
    by (simp add: parseStmtFor_def bind_apply get_apply Let_def split: sum.splits prod.splits)
  then show "parseStmtFor env rec p =
        (case (if tt p3 = VarToken \<or> tt p3 = LetToken \<or> tt p3 = ConstToken then
                 (case next' env rec (p3\<lparr>inFor := True\<rparr>) of
                    Inl a \<Rightarrow> Inl a
                  | Inr (u, q) \<Rightarrow>
                      (case parseVarDecl env rec (tt p3) q of
                         Inl a \<Rightarrow> Inl a
                       | Inr (varDecl, q') \<Rightarrow> Inr (VarDeclE varDecl, q')))
               else if tt p3 \<noteq> SemicolonToken then rExpression rec OpExpr (p3\<lparr>inFor := True\<rparr>)
               else Inr (NilExpr, p3\<lparr>inFor := True\<rparr>)) of
           Inl a \<Rightarrow> Inl a
         | Inr (init, q) \<Rightarrow>
             parseForRest env rec (async p1 \<and> tt p1 = AwaitToken) init (q\<lparr>inFor := False\<rparr>))"
    unfolding init by (simp split: sum.splits prod.splits)
next
  assume "inFor p \<and> tt p = InToken"
  then show "parseExpressionSuffix env rec left prec precLeft p = Inr (left, p)"
    by (simp add: parseExpressionSuffix_def suffixStep_def flowEnd_apply bind_get returnNow_apply)
qed

theorem in_suppressed_in_for_init_witness:
  "(case parseStmtFor exEnv (run 9 exEnv) (exInside ForToken ''for'' (tl exForVarIn)) of
      Inl a \<Rightarrow> False
    | Inr (r, q) \<Rightarrow>
        r = Inr (ForInStmt (VarDeclE (VarDecl VarToken [BindingElement (VarRefB 0) (VarRefE 1)]))
                   (VarRefE 2) EmptyStmt)
        \<and> \<not> inFor q \<and> err q = None)
   \<and> parseExpressionSuffix exEnv (run 3 exEnv) (VarRefE 0) OpExpr OpPrimary exAtIn = Inr (VarRefE 0, exAtIn)
   \<and> (case Parse exEnv 10 (lexer exForIn) of Inl a \<Rightarrow> False
       | Inr (a, e) \<Rightarrow> BlockList (Module a) = [ForInStmt (VarRefE 0) (VarRefE 1) EmptyStmt] \<and> e = None)
   \<and> (case Parse exEnv 10 (lexer exForVarIn) of Inl a \<Rightarrow> False
       | Inr (a, e) \<Rightarrow> BlockList (Module a)
            = [ForInStmt (VarDeclE (VarDecl VarToken [BindingElement (VarRefB 0) (VarRefE 1)]))
                 (VarRefE 2) EmptyStmt] \<and> e = None)
   \<and> (case Parse exEnv 10 (lexer exForInit) of Inl a \<Rightarrow> False
       | Inr (a, e) \<Rightarrow> BlockList (Module a)
            = [ForStmt (VarRefE 0) (BinaryExpr InToken (VarRefE 1) (VarRefE 2)) NilExpr EmptyStmt] \<and> e = None)"
proof -
  define s where "s = exInside ForToken ''for'' (tl exForVarIn)"
  define p1 where "p1 = snd (projr (next' exEnv (run 9 exEnv) s))"
  define p2 where "p2 = snd (projr (whenM (async p1 \<and> tt p1 = AwaitToken) (next' exEnv (run 9 exEnv)) p1))"
  define p3 where "p3 = snd (projr (consume exEnv (run 9 exEnv) ''for statement'' OpenParenToken p2))"
  define qf where "qf = snd (projr (parseStmtFor exEnv (run 9 exEnv) s))"
  note inst = in_suppressed_in_for_init [of exEnv "run 9 exEnv" s p1 p2 p3]
  have 1: "next' exEnv (run 9 exEnv) s = Inr ((), p1)"
    by (simp add: p1_def s_def exInside_def exForVarIn_def run_parser cong: monad_cong)
  have 2: "whenM (async p1 \<and> tt p1 = AwaitToken) (next' exEnv (run 9 exEnv)) p1 = Inr ((), p2)"
    by (simp add: p2_def p1_def s_def exInside_def exForVarIn_def run_parser cong: monad_cong)
  have 3: "consume exEnv (run 9 exEnv) ''for statement'' OpenParenToken p2 = Inr (True, p3)"
    by (simp add: p3_def p2_def p1_def s_def exInside_def exForVarIn_def run_parser cong: monad_cong)
  from inst 1 2 3 have "parseStmtFor exEnv (run 9 exEnv) s =
        (case (if tt p3 = VarToken \<or> tt p3 = LetToken \<or> tt p3 = ConstToken then
                 (case next' exEnv (run 9 exEnv) (p3\<lparr>inFor := True\<rparr>) of
                    Inl a \<Rightarrow> Inl a
                  | Inr (u, q) \<Rightarrow>
                      (case parseVarDecl exEnv (run 9 exEnv) (tt p3) q of
                         Inl a \<Rightarrow> Inl a
                       | Inr (varDecl, q') \<Rightarrow> Inr (VarDeclE varDecl, q')))
               else if tt p3 \<noteq> SemicolonToken then rExpression (run 9 exEnv) OpExpr (p3\<lparr>inFor := True\<rparr>)
               else Inr (NilExpr, p3\<lparr>inFor := True\<rparr>)) of
           Inl a \<Rightarrow> Inl a
         | Inr (init, q) \<Rightarrow>
             parseForRest exEnv (run 9 exEnv) (async p1 \<and> tt p1 = AwaitToken) init (q\<lparr>inFor := False\<rparr>))"
    by blast
  also have "\<dots> = Inr (Inr (ForInStmt (VarDeclE (VarDecl VarToken [BindingElement (VarRefB 0) (VarRefE 1)]))
                   (VarRefE 2) EmptyStmt),
                 qf)"
    by (simp add: qf_def p3_def p2_def p1_def s_def exInside_def exForVarIn_def run_parser cong: monad_cong)
  finally have eq: "parseStmtFor exEnv (run 9 exEnv) s =
      Inr (Inr (ForInStmt (VarDeclE (VarDecl VarToken [BindingElement (VarRefB 0) (VarRefE 1)]))
                   (VarRefE 2) EmptyStmt),
           qf)" .
  have st: "\<not> inFor qf \<and> err qf = None"
    by (simp add: qf_def s_def exInside_def exForVarIn_def run_parser cong: monad_cong)
  have a: "case parseStmtFor exEnv (run 9 exEnv) s of
      Inl a \<Rightarrow> False
    | Inr (r, q) \<Rightarrow>
        r = Inr (ForInStmt (VarDeclE (VarDecl VarToken [BindingElement (VarRefB 0) (VarRefE 1)]))
                   (VarRefE 2) EmptyStmt)
        \<and> \<not> inFor q \<and> err q = None"
    unfolding eq using st by simp
  have "inFor exAtIn \<and> tt exAtIn = InToken"
    by (simp add: exAtIn_def)
  with in_suppressed_in_for_init [of exEnv "run 3 exEnv" exAtIn _ _ _ "VarRefE 0" OpExpr OpPrimary]
  have b: "parseExpressionSuffix exEnv (run 3 exEnv) (VarRefE 0) OpExpr OpPrimary exAtIn = Inr (VarRefE 0, exAtIn)"
    by blast
  have c: "case Parse exEnv 10 (lexer exForIn) of Inl a \<Rightarrow> False
       | Inr (a, e) \<Rightarrow> BlockList (Module a) = [ForInStmt (VarRefE 0) (VarRefE 1) EmptyStmt] \<and> e = None"
    by (simp add: exForIn_def run_parser cong: monad_cong)
  have d: "case Parse exEnv 10 (lexer exForVarIn) of Inl a \<Rightarrow> False
       | Inr (a, e) \<Rightarrow> BlockList (Module a)
            = [ForInStmt (VarDeclE (VarDecl VarToken [BindingElement (VarRefB 0) (VarRefE 1)]))
                 (VarRefE 2) EmptyStmt] \<and> e = None"
    by (simp add: exForVarIn_def run_parser cong: monad_cong)
  have e: "case Parse exEnv 10 (lexer exForInit) of Inl a \<Rightarrow> False
       | Inr (a, e) \<Rightarrow> BlockList (Module a)
            = [ForStmt (VarRefE 0) (BinaryExpr InToken (VarRefE 1) (VarRefE 2)) NilExpr EmptyStmt] \<and> e = None"
    by (simp add: exForInit_def run_parser cong: monad_cong)
  from a b c d e show ?thesis unfolding s_def by blast
qed

section \<open>The async and generator flags are restored\<close>

text \<open>
  Claim C8.  Whenever a function declaration or expression, a method definition (of a class
  or of an object literal), an arrow function (async, single identifier, or parenthesized
  list) or a parenthesized expression has been parsed and the parser returns from it, the
  flags \<open>async\<close> and \<open>generator\<close> have the values they had before; the same holds for a block
  statement.  This is for every bound on the nesting of the recursive calls.
\<close>

theorem flags_restored:
  "(parseAnyFunc env (run n env) isAsync inExpr p = Inr (ra, p') \<longrightarrow> async p' = async p \<and> generator p' = generator p)
   \<and> (parseMethod env (run n env) p = Inr (rb, p') \<longrightarrow> async p' = async p \<and> generator p' = generator p)
   \<and> (objectPropertyValue env (run n env) gen name p = Inr (rc, p') \<longrightarrow> async p' = async p \<and> generator p' = generator p)
   \<and> (parseAsyncArrowFunc env (run n env) p = Inr (rd, p') \<longrightarrow> async p' = async p \<and> generator p' = generator p)
   \<and> (parseIdentifierArrowFunc env (run n env) ref p = Inr (re, p') \<longrightarrow> async p' = async p \<and> generator p' = generator p)
   \<and> (parseParenthesizedExpressionOrArrowFunc env (run n env) prec p = Inr (rf, p')
        \<longrightarrow> async p' = async p \<and> generator p' = generator p)
   \<and> (parseBlockStmt env (run n env) inn enterContext p = Inr (rg, p') \<longrightarrow> async p' = async p \<and> generator p' = generator p)"
  by (intro conjI; rule impI; erule flags_after [rotated];
      rule fl_parseAnyFunc fl_parseMethod fl_objectPropertyValue fl_parseAsyncArrowFunc
        fl_parseIdentifierArrowFunc fl_parseParenthesizedExpressionOrArrowFunc fl_parseBlockStmt;
      rule fl_run)

theorem flags_restored_witness:
  "(case parseAnyFunc exEnv (run 8 exEnv) False False
           (exInside FunctionToken ''function'' (ws # ident ''f'' # emptyBody)) of
      Inl a \<Rightarrow> False
    | Inr (r, p') \<Rightarrow> async p' \<and> generator p')
   \<and> (case parseMethod exEnv (run 8 exEnv)
           (exInside IdentifierToken ''m'' emptyBody) of
      Inl a \<Rightarrow> False
    | Inr (r, p') \<Rightarrow> async p' \<and> generator p')
   \<and> (case objectPropertyValue exEnv (run 8 exEnv) False (False, False, False, PropertyName IdentifierToken ''m'' NilExpr)
           (exInside OpenParenToken ''('' (tl emptyBody)) of
      Inl a \<Rightarrow> False
    | Inr (r, p') \<Rightarrow> async p' \<and> generator p')
   \<and> (case parseAsyncArrowFunc exEnv (run 8 exEnv)
           (exInside IdentifierToken ''x'' [ws, T ArrowToken ''=>'', ws, ident ''x'']) of
      Inl a \<Rightarrow> False
    | Inr (r, p') \<Rightarrow> async p' \<and> generator p')
   \<and> (case parseIdentifierArrowFunc exEnv (run 8 exEnv) 0
           (exBeforeArrow) of
      Inl a \<Rightarrow> False
    | Inr (r, p') \<Rightarrow> async p' \<and> generator p')
   \<and> (case parseParenthesizedExpressionOrArrowFunc exEnv (run 8 exEnv) OpExpr
           (exInside OpenParenToken ''('' [ident ''a'', T CloseParenToken '')'', ws, T ArrowToken ''=>'', ws, ident ''a'']) of
      Inl a \<Rightarrow> False
    | Inr (r, p') \<Rightarrow> async p' \<and> generator p')
   \<and> (case parseBlockStmt exEnv (run 8 exEnv) ''block statement'' True
           (exInside OpenBraceToken ''{'' [ident ''a'', T CloseBraceToken ''}'']) of
      Inl a \<Rightarrow> False
    | Inr (r, p') \<Rightarrow> async p' \<and> generator p')"
proof -
  have w1: "(case parseAnyFunc exEnv (run 8 exEnv) False False
               (exInside FunctionToken ''function'' (ws # ident ''f'' # emptyBody)) of
          Inl a \<Rightarrow> False
        | Inr (r, p') \<Rightarrow> async p' \<and> generator p')"
  proof -
    have "\<exists>r q. parseAnyFunc exEnv (run 8 exEnv) False False
           (exInside FunctionToken ''function'' (ws # ident ''f'' # emptyBody)) = Inr (r, q)"
      by (simp add: exInside_def run_parser cong: monad_cong)
    then obtain r q where run: "parseAnyFunc exEnv (run 8 exEnv) False False
           (exInside FunctionToken ''function'' (ws # ident ''f'' # emptyBody)) = Inr (r, q)"
      by blast
    with flags_restored [where env = exEnv and n = 8 and p = "exInside FunctionToken ''function'' (ws # ident ''f'' # emptyBody)" and p' = q and ra = r and isAsync = False and inExpr = False]
    have "async q = async (exInside FunctionToken ''function'' (ws # ident ''f'' # emptyBody)) \<and> generator q = generator (exInside FunctionToken ''function'' (ws # ident ''f'' # emptyBody))"
      by blast
    then have "async q \<and> generator q" by (simp add: exInside_def)
    with run show ?thesis by simp
  qed
  have w2: "(case parseMethod exEnv (run 8 exEnv)
               (exInside IdentifierToken ''m'' emptyBody) of
          Inl a \<Rightarrow> False
        | Inr (r, p') \<Rightarrow> async p' \<and> generator p')"
  proof -
    have "\<exists>r q. parseMethod exEnv (run 8 exEnv)
           (exInside IdentifierToken ''m'' emptyBody) = Inr (r, q)"
      by (simp add: exInside_def run_parser cong: monad_cong)
    then obtain r q where run: "parseMethod exEnv (run 8 exEnv)
           (exInside IdentifierToken ''m'' emptyBody) = Inr (r, q)"
      by blast
    with flags_restored [where env = exEnv and n = 8 and p = "exInside IdentifierToken ''m'' emptyBody" and p' = q and rb = r]
    have "async q = async (exInside IdentifierToken ''m'' emptyBody) \<and> generator q = generator (exInside IdentifierToken ''m'' emptyBody)"
      by blast
    then have "async q \<and> generator q" by (simp add: exInside_def)
    with run show ?thesis by simp
  qed
  have w3: "(case objectPropertyValue exEnv (run 8 exEnv) False (False, False, False, PropertyName IdentifierToken ''m'' NilExpr)
               (exInside OpenParenToken ''('' (tl emptyBody)) of
          Inl a \<Rightarrow> False
        | Inr (r, p') \<Rightarrow> async p' \<and> generator p')"
  proof -
    have "\<exists>r q. objectPropertyValue exEnv (run 8 exEnv) False (False, False, False, PropertyName IdentifierToken ''m'' NilExpr)
           (exInside OpenParenToken ''('' (tl emptyBody)) = Inr (r, q)"
      by (simp add: exInside_def run_parser cong: monad_cong)
    then obtain r q where run: "objectPropertyValue exEnv (run 8 exEnv) False (False, False, False, PropertyName IdentifierToken ''m'' NilExpr)
           (exInside OpenParenToken ''('' (tl emptyBody)) = Inr (r, q)"
      by blast
    with flags_restored [where env = exEnv and n = 8 and p = "exInside OpenParenToken ''('' (tl emptyBody)" and p' = q and rc = r and gen = False and name = "(False, False, False, PropertyName IdentifierToken ''m'' NilExpr)"]
    have "async q = async (exInside OpenParenToken ''('' (tl emptyBody)) \<and> generator q = generator (exInside OpenParenToken ''('' (tl emptyBody))"
      by blast
    then have "async q \<and> generator q" by (simp add: exInside_def)
    with run show ?thesis by simp
  qed
  have w4: "(case parseAsyncArrowFunc exEnv (run 8 exEnv)
               (exInside IdentifierToken ''x'' [ws, T ArrowToken ''=>'', ws, ident ''x'']) of
          Inl a \<Rightarrow> False
        | Inr (r, p') \<Rightarrow> async p' \<and> generator p')"
  proof -
    have "\<exists>r q. parseAsyncArrowFunc exEnv (run 8 exEnv)
           (exInside IdentifierToken ''x'' [ws, T ArrowToken ''=>'', ws, ident ''x'']) = Inr (r, q)"
      by (simp add: exInside_def run_parser cong: monad_cong)
    then obtain r q where run: "parseAsyncArrowFunc exEnv (run 8 exEnv)
           (exInside IdentifierToken ''x'' [ws, T ArrowToken ''=>'', ws, ident ''x'']) = Inr (r, q)"
      by blast
    with flags_restored [where env = exEnv and n = 8 and p = "exInside IdentifierToken ''x'' [ws, T ArrowToken ''=>'', ws, ident ''x'']" and p' = q and rd = r]
    have "async q = async (exInside IdentifierToken ''x'' [ws, T ArrowToken ''=>'', ws, ident ''x'']) \<and> generator q = generator (exInside IdentifierToken ''x'' [ws, T ArrowToken ''=>'', ws, ident ''x''])"
      by blast
    then have "async q \<and> generator q" by (simp add: exInside_def)
    with run show ?thesis by simp
  qed
  have w5: "(case parseIdentifierArrowFunc exEnv (run 8 exEnv) 0
               (exBeforeArrow) of
          Inl a \<Rightarrow> False
        | Inr (r, p') \<Rightarrow> async p' \<and> generator p')"
  proof -
    have "\<exists>r q. parseIdentifierArrowFunc exEnv (run 8 exEnv) 0
           (exBeforeArrow) = Inr (r, q)"
      by (simp add: exBeforeArrow_def exInside_def run_parser cong: monad_cong)
    then obtain r q where run: "parseIdentifierArrowFunc exEnv (run 8 exEnv) 0
           (exBeforeArrow) = Inr (r, q)"
      by blast
    with flags_restored [where env = exEnv and n = 8 and p = "exBeforeArrow" and p' = q and re = r and ref = 0]
    have "async q = async (exBeforeArrow) \<and> generator q = generator (exBeforeArrow)"
      by blast
    then have "async q \<and> generator q" by (simp add: exBeforeArrow_def exInside_def)
    with run show ?thesis by simp
  qed
  have w6: "(case parseParenthesizedExpressionOrArrowFunc exEnv (run 8 exEnv) OpExpr
               (exInside OpenParenToken ''('' [ident ''a'', T CloseParenToken '')'', ws, T ArrowToken ''=>'', ws, ident ''a'']) of
          Inl a \<Rightarrow> False
        | Inr (r, p') \<Rightarrow> async p' \<and> generator p')"
  proof -
    have "\<exists>r q. parseParenthesizedExpressionOrArrowFunc exEnv (run 8 exEnv) OpExpr
           (exInside OpenParenToken ''('' [ident ''a'', T CloseParenToken '')'', ws, T ArrowToken ''=>'', ws, ident ''a'']) = Inr (r, q)"
      by (simp add: exInside_def run_parser cong: monad_cong)
    then obtain r q where run: "parseParenthesizedExpressionOrArrowFunc exEnv (run 8 exEnv) OpExpr
           (exInside OpenParenToken ''('' [ident ''a'', T CloseParenToken '')'', ws, T ArrowToken ''=>'', ws, ident ''a'']) = Inr (r, q)"
      by blast
    with flags_restored [where env = exEnv and n = 8 and p = "exInside OpenParenToken ''('' [ident ''a'', T CloseParenToken '')'', ws, T ArrowToken ''=>'', ws, ident ''a'']" and p' = q and rf = r and prec = OpExpr]
    have "async q = async (exInside OpenParenToken ''('' [ident ''a'', T CloseParenToken '')'', ws, T ArrowToken ''=>'', ws, ident ''a'']) \<and> generator q = generator (exInside OpenParenToken ''('' [ident ''a'', T CloseParenToken '')'', ws, T ArrowToken ''=>'', ws, ident ''a''])"
      by blast
    then have "async q \<and> generator q" by (simp add: exInside_def)
    with run show ?thesis by simp
  qed
  have w7: "(case parseBlockStmt exEnv (run 8 exEnv) ''block statement'' True
               (exInside OpenBraceToken ''{'' [ident ''a'', T CloseBraceToken ''}'']) of
          Inl a \<Rightarrow> False
        | Inr (r, p') \<Rightarrow> async p' \<and> generator p')"
  proof -
    have "\<exists>r q. parseBlockStmt exEnv (run 8 exEnv) ''block statement'' True
           (exInside OpenBraceToken ''{'' [ident ''a'', T CloseBraceToken ''}'']) = Inr (r, q)"
      by (simp add: exInside_def run_parser cong: monad_cong)
    then obtain r q where run: "parseBlockStmt exEnv (run 8 exEnv) ''block statement'' True
           (exInside OpenBraceToken ''{'' [ident ''a'', T CloseBraceToken ''}'']) = Inr (r, q)"
      by blast
    with flags_restored [where env = exEnv and n = 8 and p = "exInside OpenBraceToken ''{'' [ident ''a'', T CloseBraceToken ''}'']" and p' = q and rg = r and inn = "''block statement''" and enterContext = True]
    have "async q = async (exInside OpenBraceToken ''{'' [ident ''a'', T CloseBraceToken ''}'']) \<and> generator q = generator (exInside OpenBraceToken ''{'' [ident ''a'', T CloseBraceToken ''}''])"
      by blast
    then have "async q \<and> generator q" by (simp add: exInside_def)
    with run show ?thesis by simp
  qed
  from w1 w2 w3 w4 w5 w6 w7 show ?thesis by blast
qed

end
